(* ===== verification/Prelude.thy ===== *)
theory Prelude
  imports Main "HOL-Library.Word" "HOL-Library.State_Monad"
begin

text \<open>
  Shared vocabulary of the development: machine integers, Go maps and pointers, error values,
  the string routines of Go's standard library that the operator uses, and the effect monad.

  \<^item> Go's \<open>int32\<close> and \<open>int64\<close> are words; a decimal rendering goes through \<open>sint\<close>.
  \<^item> A Go map from strings to strings is an optional association list: \<open>None\<close> is the nil map,
    the order of the entries is one iteration order of the map. Lookups go through \<open>map_of\<close>.
  \<^item> A nil-able pointer is an option; where the code compares pointers (and not what they
    point to) the address is part of the value (\<open>ptr\<close>).
  \<^item> A Go \<open>error\<close> is a value of \<open>error\<close>. \<open>fmt.Errorf\<close> keeps its format and its arguments
    apart (\<open>Errorf\<close>, and \<open>Wrapf\<close> for a format that ends in an error: \<open>%w\<close> or \<open>%v\<close>).
  \<^item> A computation that talks to the API server is a value of \<open>('w, 'a) state\<close>: the world
    \<open>'w\<close> is whatever is behind the API client and is never inspected by the model.
\<close>

section \<open>Collections\<close>

named_theorems keeps_intro \<open>rules that push an invariant through an effectful computation\<close>
named_theorems const_defs \<open>definitions of the string constants of the source\<close>

section \<open>Machine integers, maps, pointers\<close>

type_synonym int32 = "32 word"
type_synonym int64 = "64 word"

type_synonym strmap = "(string \<times> string) list option"

text \<open>A moment in time: nanoseconds since Go's zero time, so that 0 is the zero value.\<close>

type_synonym Time = int

datatype 'a ptr = Ptr (addr: nat) (deref: 'a)

definition map_entries :: "strmap \<Rightarrow> (string \<times> string) list" where
  "map_entries m = (case m of None \<Rightarrow> [] | Some kvs \<Rightarrow> kvs)"

definition map_lookup :: "strmap \<Rightarrow> string \<Rightarrow> string option" where
  "map_lookup m k = map_of (map_entries m) k"

text \<open>\<open>m[k] = v\<close>: the entry is replaced in place or added.\<close>

fun set_entry :: "string \<Rightarrow> string \<Rightarrow> (string \<times> string) list \<Rightarrow> (string \<times> string) list" where
  "set_entry k v [] = [(k, v)]"
| "set_entry k v ((k', v') # kvs) =
     (if k' = k then (k, v) # kvs else (k', v') # set_entry k v kvs)"

lemma map_of_set_entry [simp]: "map_of (set_entry k v kvs) = (map_of kvs)(k \<mapsto> v)"
  by (induction kvs) auto

lemma map_lookup_nil [simp]: "map_lookup None k = None"
  by (simp add: map_lookup_def map_entries_def)

lemma map_lookup_some [simp]: "map_lookup (Some kvs) k = map_of kvs k"
  by (simp add: map_lookup_def map_entries_def)

lemma map_entries_simps [simp]: "map_entries None = []" "map_entries (Some kvs) = kvs"
  by (simp_all add: map_entries_def)

section \<open>Errors\<close>

text \<open>An error of the API machinery: the status reason and the text of \<open>Error()\<close>.\<close>

record api_error =
  Reason :: string
  Message :: string

datatype error =
    ApiErr api_error
  | Errorf string "string list"
  | Wrapf string "string list" error
  | Aggregate "error list"
  | RetryableErr error int

text \<open>
  The outcome of a function with results \<open>('a, error)\<close>: a value with a nil error, an error
  (with the zero value), or a run-time panic. A function whose only result is an error returns
  \<open>unit res\<close>.
\<close>

datatype 'a res = Ok 'a | Err error | Panic

fun is_panic :: "'a res \<Rightarrow> bool" where
  "is_panic Panic = True"
| "is_panic (Ok _) = False"
| "is_panic (Err _) = False"

fun is_ok :: "'a res \<Rightarrow> bool" where
  "is_ok (Ok _) = True"
| "is_ok (Err _) = False"
| "is_ok Panic = False"

text \<open>\<open>if err := f(); err != nil { return wrap(err) }; return nil\<close>, where \<open>f\<close> may panic.\<close>

fun map_err :: "(error \<Rightarrow> error) \<Rightarrow> 'a res \<Rightarrow> 'a res" where
  "map_err f (Ok x) = Ok x"
| "map_err f (Err e) = Err (f e)"
| "map_err f Panic = Panic"

lemma map_err_iffs [simp]:
  "map_err f r = Ok x \<longleftrightarrow> r = Ok x"
  "map_err f r = Panic \<longleftrightarrow> r = Panic"
  "map_err f r = Err e \<longleftrightarrow> (\<exists>e'. r = Err e' \<and> e = f e')"
  by (cases r; auto)+

text \<open>The nil-or-error result of an API call as a result.\<close>

fun api_res :: "api_error option \<Rightarrow> unit res" where
  "api_res None = Ok ()"
| "api_res (Some e) = Err (ApiErr e)"

section \<open>Strings\<close>

text \<open>\<open>%d\<close>: the decimal rendering of a signed integer.\<close>

fun nat_digits :: "nat \<Rightarrow> string" where
  "nat_digits n = (if n < 10 then [char_of (48 + n)]
     else nat_digits (n div 10) @ [char_of (48 + n mod 10)])"

declare nat_digits.simps [simp del]

definition int_str :: "int \<Rightarrow> string" where
  "int_str i = (if i < 0 then CHR ''-'' # nat_digits (nat (- i)) else nat_digits (nat i))"

definition int32_str :: "int32 \<Rightarrow> string" where
  "int32_str w = int_str (sint w)"

text \<open>\<open>strings.Split(s, sep)\<close> for a one-byte separator; \<open>strings.Contains\<close>; \<open>strings.HasPrefix\<close>.\<close>

fun split_on :: "char \<Rightarrow> string \<Rightarrow> string list" where
  "split_on c [] = [[]]"
| "split_on c (x # xs) =
     (if x = c then [] # split_on c xs
      else (case split_on c xs of [] \<Rightarrow> [[x]] | y # ys \<Rightarrow> (x # y) # ys))"

fun has_prefix :: "string \<Rightarrow> string \<Rightarrow> bool" where
  "has_prefix s [] = True"
| "has_prefix [] (p # ps) = False"
| "has_prefix (x # xs) (p # ps) = (x = p \<and> has_prefix xs ps)"

fun contains_str :: "string \<Rightarrow> string \<Rightarrow> bool" where
  "contains_str [] p = (p = [])"
| "contains_str (x # xs) p = (has_prefix (x # xs) p \<or> contains_str xs p)"

text \<open>\<open>strings.Join\<close>.\<close>

fun join_with :: "string \<Rightarrow> string list \<Rightarrow> string" where
  "join_with sep [] = []"
| "join_with sep [x] = x"
| "join_with sep (x # y # ys) = x @ sep @ join_with sep (y # ys)"

text \<open>\<open>strings.ToLower\<close> on ASCII text.\<close>

definition lower_char :: "char \<Rightarrow> char" where
  "lower_char c = (if 65 \<le> (of_char c :: nat) \<and> (of_char c :: nat) \<le> 90
     then char_of ((of_char c :: nat) + 32) else c)"

definition to_lower :: "string \<Rightarrow> string" where
  "to_lower s = map lower_char s"

lemma split_on_nonempty [simp]: "split_on c s \<noteq> []"
  by (induction s) (auto split: list.splits)

lemma split_on_absent: "c \<notin> set s \<Longrightarrow> split_on c s = [s]"
  by (induction s) auto

lemma split_on_free: "list_all (\<lambda>l. c \<notin> set l) (split_on c s)"
  by (induction s) (auto split: list.split)

lemma split_on_append:
  "c \<notin> set a \<Longrightarrow> split_on c (a @ c # b) = a # split_on c b"
  by (induction a) auto

lemma join_split: "join_with [c] (split_on c s) = s"
proof (induction s)
  case (Cons x xs)
  then show ?case
    by (cases "split_on c xs"; cases "tl (split_on c xs)") (auto split: list.splits)
qed simp

lemma has_prefix_append [simp]: "has_prefix (p @ s) p"
  by (induction p) auto

lemma has_prefix_iff: "has_prefix s p \<longleftrightarrow> (\<exists>t. s = p @ t)"
  by (induction s p rule: has_prefix.induct) auto

lemma contains_str_iff: "contains_str s p \<longleftrightarrow> (\<exists>a b. s = a @ p @ b)"
proof (induction s p rule: contains_str.induct)
  case (2 x xs p)
  have "(\<exists>a b. x # xs = a @ p @ b) \<longleftrightarrow>
        (\<exists>b. x # xs = p @ b) \<or> (\<exists>a b. xs = a @ p @ b)"
    by (metis append_Cons append_Nil list.exhaust list.inject)
  with 2 show ?case by (simp add: has_prefix_iff)
qed simp

lemma contains_char_iff: "contains_str s [c] \<longleftrightarrow> c \<in> set s"
  by (auto simp: contains_str_iff in_set_conv_decomp)

section \<open>Invariants of effectful computations\<close>

text \<open>
  \<open>keeps I m\<close>: whatever \<open>m\<close> returns, running it from a world satisfying \<open>I\<close> ends in a world
  satisfying \<open>I\<close>. The rules follow the syntax of the computation, so that the invariant of a
  handler is reduced to the invariants of the API calls it can make.
\<close>

abbreviation ret :: "'a \<Rightarrow> ('w, 'a) state" where
  "ret \<equiv> State_Monad.return"

definition keeps :: "('w \<Rightarrow> bool) \<Rightarrow> ('w, 'a) state \<Rightarrow> bool" where
  "keeps I m \<longleftrightarrow> (\<forall>w. I w \<longrightarrow> I (snd (run_state m w)))"

lemma keepsI: "(\<And>w. I w \<Longrightarrow> I (snd (run_state m w))) \<Longrightarrow> keeps I m"
  by (simp add: keeps_def)

lemma keepsD: "keeps I m \<Longrightarrow> I w \<Longrightarrow> I (snd (run_state m w))"
  by (simp add: keeps_def)

lemma keeps_return [keeps_intro]: "keeps I (ret x)"
  by (simp add: keeps_def)

lemma keeps_bind [keeps_intro]:
  "keeps I m \<Longrightarrow> (\<And>x. keeps I (f x)) \<Longrightarrow> keeps I (State_Monad.bind m f)"
  by (simp add: keeps_def split: prod.splits) (metis snd_conv)

lemma keeps_if [keeps_intro]:
  "(b \<Longrightarrow> keeps I m) \<Longrightarrow> (\<not> b \<Longrightarrow> keeps I n) \<Longrightarrow> keeps I (if b then m else n)"
  by simp

lemma keeps_case_option [keeps_intro]:
  "(x = None \<Longrightarrow> keeps I m) \<Longrightarrow> (\<And>y. x = Some y \<Longrightarrow> keeps I (f y)) \<Longrightarrow>
   keeps I (case x of None \<Rightarrow> m | Some y \<Rightarrow> f y)"
  by (cases x) auto

lemma keeps_case_sum [keeps_intro]:
  "(\<And>a. x = Inl a \<Longrightarrow> keeps I (f a)) \<Longrightarrow> (\<And>b. x = Inr b \<Longrightarrow> keeps I (g b)) \<Longrightarrow>
   keeps I (case x of Inl a \<Rightarrow> f a | Inr b \<Rightarrow> g b)"
  by (cases x) auto

lemma keeps_case_res [keeps_intro]:
  "(\<And>a. x = Ok a \<Longrightarrow> keeps I (f a)) \<Longrightarrow> (\<And>e. x = Err e \<Longrightarrow> keeps I (g e)) \<Longrightarrow>
   (x = Panic \<Longrightarrow> keeps I h) \<Longrightarrow>
   keeps I (case x of Ok a \<Rightarrow> f a | Err e \<Rightarrow> g e | Panic \<Rightarrow> h)"
  by (cases x) auto

lemma keeps_case_prod [keeps_intro]:
  "(\<And>a b. x = (a, b) \<Longrightarrow> keeps I (f a b)) \<Longrightarrow> keeps I (case x of (a, b) \<Rightarrow> f a b)"
  by (cases x) auto

lemma keeps_case_bool [keeps_intro]:
  "(b \<Longrightarrow> keeps I m) \<Longrightarrow> (\<not> b \<Longrightarrow> keeps I n) \<Longrightarrow> keeps I (case b of True \<Rightarrow> m | False \<Rightarrow> n)"
  by (cases b) auto

lemma keeps_let [keeps_intro]: "(\<And>x. x = a \<Longrightarrow> keeps I (f x)) \<Longrightarrow> keeps I (let x = a in f x)"
  by simp

text \<open>\<open>x, err := m(); if err != nil { return err }; f(x)\<close>, where \<open>m\<close> may panic.\<close>

definition and_then :: "('w, 'a res) state \<Rightarrow> ('a \<Rightarrow> ('w, 'b res) state) \<Rightarrow> ('w, 'b res) state" where
  "and_then m f = do {
     r \<leftarrow> m;
     case r of Ok x \<Rightarrow> f x | Err e \<Rightarrow> ret (Err e) | Panic \<Rightarrow> ret Panic
   }"

lemma keeps_and_then [keeps_intro]:
  "keeps I m \<Longrightarrow> (\<And>x. keeps I (f x)) \<Longrightarrow> keeps I (and_then m f)"
  unfolding and_then_def by (intro keeps_intro)

lemma run_and_then:
  "run_state (and_then m f) w = (case run_state m w of (r, w') \<Rightarrow>
     (case r of Ok x \<Rightarrow> run_state (f x) w' | Err e \<Rightarrow> (Err e, w') | Panic \<Rightarrow> (Panic, w')))"
  by (simp add: and_then_def split: prod.split res.split)

text \<open>\<open>gives I m Q\<close>: from a world satisfying \<open>I\<close> the result of \<open>m\<close> satisfies \<open>Q\<close>. It strengthens the
  rule for sequencing where a later call depends on what an earlier one returned.\<close>

definition gives :: "('w \<Rightarrow> bool) \<Rightarrow> ('w, 'a) state \<Rightarrow> ('a \<Rightarrow> bool) \<Rightarrow> bool" where
  "gives I m Q \<longleftrightarrow> (\<forall>w. I w \<longrightarrow> Q (fst (run_state m w)))"

lemma keeps_bind_gives:
  "keeps I m \<Longrightarrow> gives I m Q \<Longrightarrow> (\<And>x. Q x \<Longrightarrow> keeps I (f x)) \<Longrightarrow> keeps I (State_Monad.bind m f)"
  by (simp add: keeps_def gives_def split: prod.splits) (metis fst_conv snd_conv)

lemma keeps_and_then_gives:
  "keeps I m \<Longrightarrow> gives I m (\<lambda>r. \<forall>x. r = Ok x \<longrightarrow> Q x) \<Longrightarrow> (\<And>x. Q x \<Longrightarrow> keeps I (f x)) \<Longrightarrow>
   keeps I (and_then m f)"
  unfolding and_then_def by (erule keeps_bind_gives, assumption) (auto intro!: keeps_intro)

lemma gives_ret: "Q x \<Longrightarrow> gives I (ret x) Q"
  by (simp add: gives_def)

lemma gives_and_then:
  assumes "keeps I m" and "gives I m (\<lambda>r. \<forall>x. r = Ok x \<longrightarrow> P x)"
    and "\<And>x. P x \<Longrightarrow> gives I (f x) (\<lambda>r. \<forall>y. r = Ok y \<longrightarrow> Q y)"
  shows "gives I (and_then m f) (\<lambda>r. \<forall>y. r = Ok y \<longrightarrow> Q y)"
  using assms unfolding gives_def keeps_def
  by (fastforce simp: run_and_then split: prod.splits res.splits)

text \<open>Two computations are equal when their runs are.\<close>

lemma state_eqI: "(\<And>w. run_state m w = run_state n w) \<Longrightarrow> m = n"
  by (cases m; cases n) (auto simp: fun_eq_iff)

end
