(* ===== verification/Kube_Types.thy ===== *)
theory Kube_Types
  imports Prelude
begin

text \<open>
  The Kubernetes API objects the operator reads and writes (packages \<open>k8s.io/api\<close> and
  \<open>k8s.io/apimachinery\<close>): plain data, with the fields the operator sets or reads. Where the
  operator compares a whole structure, the fields it leaves at their zero value are kept together
  in an \<open>Unset\<close> field, so that a value the API server filled in is visible to the comparison.
  A record field is prefixed by an abbreviation of its Go type; the fields of \<open>ObjectMeta\<close> are not.
\<close>

text \<open>Fields the operator never writes, as name and serialised value.\<close>

type_synonym unset_fields = "(string \<times> string) list"

section \<open>Metadata\<close>

record NamespacedName =
  nn_Namespace :: string
  nn_Name :: string

record ObjectMeta =
  Name :: string
  Namespace :: string
  Labels :: strmap
  Annotations :: strmap
  Finalizers :: "string list"
  DeletionTimestamp :: "Time option"
  ResourceVersion :: string

definition zero_ObjectMeta :: ObjectMeta where
  "zero_ObjectMeta = \<lparr>Name = [], Namespace = [], Labels = None, Annotations = None,
     Finalizers = [], DeletionTimestamp = None, ResourceVersion = []\<rparr>"

record LabelSelector =
  MatchLabels :: strmap

record Condition =
  cond_Type :: string
  cond_Status :: string
  cond_Reason :: string
  cond_Message :: string
  cond_LastTransitionTime :: Time

section \<open>Pods\<close>

datatype IntOrString = IntVal int32 | StrVal string

record EnvVar =
  env_Name :: string
  env_APIVersion :: string
  env_FieldPath :: string

record K8sContainerPort =
  cp_Name :: string
  cp_ContainerPort :: int32
  cp_Protocol :: string

record HTTPGetAction =
  http_Scheme :: string
  http_Path :: string
  http_Port :: IntOrString

record Handler =
  h_HTTPGet :: "HTTPGetAction option"
  h_TCPSocket :: "IntOrString option"
  h_Exec :: "string list option"

definition zero_Handler :: Handler where
  "zero_Handler = \<lparr>h_HTTPGet = None, h_TCPSocket = None, h_Exec = None\<rparr>"

record Probe =
  pr_Handler :: Handler
  pr_InitialDelaySeconds :: int32
  pr_TimeoutSeconds :: int32
  pr_PeriodSeconds :: int32
  pr_SuccessThreshold :: int32
  pr_FailureThreshold :: int32

record VolumeMount =
  vm_Name :: string
  vm_MountPath :: string
  vm_ReadOnly :: bool

record Container =
  c_Name :: string
  c_Image :: string
  c_ImagePullPolicy :: string
  c_Command :: "string list"
  c_Args :: "string list"
  c_Env :: "EnvVar list"
  c_Ports :: "K8sContainerPort list"
  c_LivenessProbe :: "Probe option"
  c_ReadinessProbe :: "Probe option"
  c_PreStop :: "Handler option"
  c_TerminationMessagePath :: string
  c_TerminationMessagePolicy :: string
  c_VolumeMounts :: "VolumeMount list"
  c_Unset :: unset_fields

definition zero_Container :: Container where
  "zero_Container = \<lparr>c_Name = [], c_Image = [], c_ImagePullPolicy = [], c_Command = [],
     c_Args = [], c_Env = [], c_Ports = [], c_LivenessProbe = None, c_ReadinessProbe = None,
     c_PreStop = None, c_TerminationMessagePath = [], c_TerminationMessagePolicy = [],
     c_VolumeMounts = [], c_Unset = []\<rparr>"

datatype VolumeSource =
    SecretSource (vs_SecretName: string) (vs_DefaultMode: "int32 option")
  | ConfigMapSource (vs_ConfigMapName: string) (vs_Items: "(string \<times> string) list")
      (vs_ConfigMapMode: "int32 option")
  | EmptyDirSource
  | OtherSource unset_fields

record Volume =
  v_Name :: string
  v_Source :: VolumeSource

record PodSecurityContext =
  RunAsUser :: "int64 option"
  RunAsGroup :: "int64 option"
  RunAsNonRoot :: "bool option"

record PodAffinityTerm =
  pa_Weight :: int32
  pa_TopologyKey :: string
  pa_LabelSelector :: "LabelSelector option"

record Toleration =
  tol_Key :: string
  tol_Operator :: string
  tol_Value :: string
  tol_Effect :: string
  tol_Seconds :: "int64 option"

record PodSpec =
  ps_PodAntiAffinity :: "PodAffinityTerm list"
  ps_Containers :: "Container list"
  ps_InitContainers :: "Container list"
  ps_Volumes :: "Volume list"
  ps_DNSPolicy :: string
  ps_DeprecatedServiceAccount :: string
  ps_ServiceAccountName :: string
  ps_AutomountServiceAccountToken :: "bool option"
  ps_RestartPolicy :: string
  ps_SchedulerName :: string
  ps_SecurityContext :: "PodSecurityContext option"
  ps_TerminationGracePeriodSeconds :: "int64 option"
  ps_NodeSelector :: strmap
  ps_Tolerations :: "Toleration list"
  ps_Unset :: unset_fields

definition zero_PodSpec :: PodSpec where
  "zero_PodSpec = \<lparr>ps_PodAntiAffinity = [], ps_Containers = [], ps_InitContainers = [],
     ps_Volumes = [], ps_DNSPolicy = [], ps_DeprecatedServiceAccount = [],
     ps_ServiceAccountName = [], ps_AutomountServiceAccountToken = None, ps_RestartPolicy = [],
     ps_SchedulerName = [], ps_SecurityContext = None, ps_TerminationGracePeriodSeconds = None,
     ps_NodeSelector = None, ps_Tolerations = [], ps_Unset = []\<rparr>"

record PodTemplateSpec =
  pt_Annotations :: strmap
  pt_Labels :: strmap
  pt_Spec :: PodSpec

section \<open>Workloads\<close>

record DeploymentSpec =
  ds_Replicas :: "int32 option"
  ds_Selector :: "LabelSelector option"
  ds_Template :: PodTemplateSpec
  ds_StrategyType :: string
  ds_MaxSurge :: "IntOrString option"
  ds_MaxUnavailable :: "IntOrString option"
  ds_RevisionHistoryLimit :: "int32 option"
  ds_ProgressDeadlineSeconds :: "int32 option"
  ds_Unset :: unset_fields

record DeploymentCondition =
  dc_Type :: string
  dc_Status :: string
  dc_Message :: string

record Deployment =
  dep_Meta :: ObjectMeta
  dep_Spec :: DeploymentSpec
  dep_AvailableReplicas :: int32
  dep_Conditions :: "DeploymentCondition list"

record DaemonSetSpec =
  dss_Selector :: "LabelSelector option"
  dss_Template :: PodTemplateSpec
  dss_UpdateStrategyType :: string
  dss_MaxUnavailable :: "IntOrString option"
  dss_RevisionHistoryLimit :: "int32 option"
  dss_Unset :: unset_fields

record DaemonSet =
  dms_Meta :: ObjectMeta
  dms_Spec :: DaemonSetSpec
  dms_NumberAvailable :: int32

record JobSpec =
  js_Parallelism :: "int32 option"
  js_Completions :: "int32 option"
  js_BackoffLimit :: "int32 option"
  js_TTLSecondsAfterFinished :: "int32 option"
  js_Template :: PodTemplateSpec
  js_Unset :: unset_fields

record Job =
  job_Meta :: ObjectMeta
  job_Spec :: JobSpec

section \<open>Services, namespaces, config maps\<close>

record ServicePort =
  sp_Name :: string
  sp_Protocol :: string
  sp_AppProtocol :: "string option"
  sp_Port :: int32
  sp_TargetPort :: IntOrString
  sp_NodePort :: int32

record ServiceSpec =
  svs_Ports :: "ServicePort list"
  svs_Selector :: strmap
  svs_ClusterIP :: string
  svs_Type :: string
  svs_SessionAffinity :: string
  svs_LoadBalancerIP :: string
  svs_ExternalTrafficPolicy :: string
  svs_HealthCheckNodePort :: int32
  svs_Unset :: unset_fields

definition zero_ServiceSpec :: ServiceSpec where
  "zero_ServiceSpec = \<lparr>svs_Ports = [], svs_Selector = None, svs_ClusterIP = [], svs_Type = [],
     svs_SessionAffinity = [], svs_LoadBalancerIP = [], svs_ExternalTrafficPolicy = [],
     svs_HealthCheckNodePort = 0, svs_Unset = []\<rparr>"

record Service =
  svc_Meta :: ObjectMeta
  svc_Spec :: ServiceSpec

record KNamespace =
  ns_Meta :: ObjectMeta

record ConfigMap =
  cm_Meta :: ObjectMeta
  cm_Data :: strmap

section \<open>RBAC\<close>

record ServiceAccount =
  sa_Kind :: string
  sa_Meta :: ObjectMeta

record PolicyRule =
  rule_Verbs :: "string list"
  rule_APIGroups :: "string list"
  rule_Resources :: "string list"

record ClusterRole =
  cr_Kind :: string
  cr_Meta :: ObjectMeta
  cr_Rules :: "PolicyRule list"

record Role =
  role_Kind :: string
  role_Meta :: ObjectMeta
  role_Rules :: "PolicyRule list"

record Subject =
  sub_Kind :: string
  sub_APIGroup :: string
  sub_Name :: string
  sub_Namespace :: string

record RoleRef =
  ref_APIGroup :: string
  ref_Kind :: string
  ref_Name :: string

record ClusterRoleBinding =
  crb_Kind :: string
  crb_Meta :: ObjectMeta
  crb_Subjects :: "Subject list"
  crb_RoleRef :: RoleRef

record RoleBinding =
  rb_Kind :: string
  rb_Meta :: ObjectMeta
  rb_Subjects :: "Subject list"
  rb_RoleRef :: RoleRef

end
