(* ===== verification/Sesame_Types.thy ===== *)
theory Sesame_Types
  imports Kube_Types
begin

text \<open>
  The Sesame custom resource: \<open>api/v1alpha1/sesame_types.go\<close> (types and constants) and
  \<open>api/v1alpha1/helpers.go\<close> (the methods of \<open>Sesame\<close>). The Go string types
  (\<open>NetworkPublishingType\<close>, \<open>LoadBalancerScope\<close>, \<open>LoadBalancerProviderType\<close>,
  \<open>AWSLoadBalancerType\<close>) stay strings, because the code has branches for values outside the
  named constants. \<open>crd_valid\<close> is the validation the kubebuilder markers ask the API server for.
\<close>

section \<open>Constants\<close>

definition OwningSesameNameLabel :: string where
  [const_defs]: "OwningSesameNameLabel = ''sesame.operator.projectsesame.io/owning-sesame-name''"

definition OwningSesameNsLabel :: string where
  [const_defs]: "OwningSesameNsLabel = ''sesame.operator.projectsesame.io/owning-sesame-namespace''"

definition SesameFinalizer :: string where
  [const_defs]: "SesameFinalizer = ''sesame.operator.projectsesame.io/finalizer''"

type_synonym NetworkPublishingType = string

definition LoadBalancerServicePublishingType :: NetworkPublishingType where
  [const_defs]: "LoadBalancerServicePublishingType = ''LoadBalancerService''"

definition NodePortServicePublishingType :: NetworkPublishingType where
  [const_defs]: "NodePortServicePublishingType = ''NodePortService''"

definition ClusterIPServicePublishingType :: NetworkPublishingType where
  [const_defs]: "ClusterIPServicePublishingType = ''ClusterIPService''"

type_synonym LoadBalancerScope = string

definition InternalLoadBalancer :: LoadBalancerScope where
  [const_defs]: "InternalLoadBalancer = ''Internal''"

definition ExternalLoadBalancer :: LoadBalancerScope where
  [const_defs]: "ExternalLoadBalancer = ''External''"

type_synonym LoadBalancerProviderType = string

definition AWSLoadBalancerProvider :: LoadBalancerProviderType where
  [const_defs]: "AWSLoadBalancerProvider = ''AWS''"

definition AzureLoadBalancerProvider :: LoadBalancerProviderType where
  [const_defs]: "AzureLoadBalancerProvider = ''Azure''"

definition GCPLoadBalancerProvider :: LoadBalancerProviderType where
  [const_defs]: "GCPLoadBalancerProvider = ''GCP''"

type_synonym AWSLoadBalancerType = string

definition AWSClassicLoadBalancer :: AWSLoadBalancerType where
  [const_defs]: "AWSClassicLoadBalancer = ''Classic''"

definition AWSNetworkLoadBalancer :: AWSLoadBalancerType where
  [const_defs]: "AWSNetworkLoadBalancer = ''NLB''"

definition SesameAvailableConditionType :: string where
  [const_defs]: "SesameAvailableConditionType = ''Available''"

lemma owning_labels_distinct [simp]:
  "OwningSesameNameLabel \<noteq> OwningSesameNsLabel" "OwningSesameNsLabel \<noteq> OwningSesameNameLabel"
  by (simp_all add: const_defs)

lemma publishing_types_distinct [simp]:
  "LoadBalancerServicePublishingType \<noteq> NodePortServicePublishingType"
  "LoadBalancerServicePublishingType \<noteq> ClusterIPServicePublishingType"
  "NodePortServicePublishingType \<noteq> LoadBalancerServicePublishingType"
  "NodePortServicePublishingType \<noteq> ClusterIPServicePublishingType"
  "ClusterIPServicePublishingType \<noteq> LoadBalancerServicePublishingType"
  "ClusterIPServicePublishingType \<noteq> NodePortServicePublishingType"
  by (simp_all add: const_defs)

lemma providers_distinct [simp]:
  "AWSLoadBalancerProvider \<noteq> AzureLoadBalancerProvider"
  "AWSLoadBalancerProvider \<noteq> GCPLoadBalancerProvider"
  "AzureLoadBalancerProvider \<noteq> AWSLoadBalancerProvider"
  "AzureLoadBalancerProvider \<noteq> GCPLoadBalancerProvider"
  "GCPLoadBalancerProvider \<noteq> AWSLoadBalancerProvider"
  "GCPLoadBalancerProvider \<noteq> AzureLoadBalancerProvider"
  by (simp_all add: const_defs)

lemma aws_types_distinct [simp]:
  "AWSClassicLoadBalancer \<noteq> AWSNetworkLoadBalancer" "AWSNetworkLoadBalancer \<noteq> AWSClassicLoadBalancer"
  by (simp_all add: const_defs)

lemma scopes_distinct [simp]:
  "InternalLoadBalancer \<noteq> ExternalLoadBalancer" "ExternalLoadBalancer \<noteq> InternalLoadBalancer"
  by (simp_all add: const_defs)

section \<open>The spec\<close>

record AWSLoadBalancerParameters =
  aws_Type :: AWSLoadBalancerType
  AllocationIDs :: "string list option"

record AzureLoadBalancerParameters =
  az_Address :: "string option"
  az_ResourceGroup :: "string option"
  az_Subnet :: "string option"

record GCPLoadBalancerParameters =
  gcp_Address :: "string option"
  gcp_Subnet :: "string option"

record ProviderLoadBalancerParameters =
  prov_Type :: LoadBalancerProviderType
  prov_AWS :: "AWSLoadBalancerParameters option"
  prov_Azure :: "AzureLoadBalancerParameters option"
  prov_GCP :: "GCPLoadBalancerParameters option"

record LoadBalancerStrategy =
  Scope :: LoadBalancerScope
  ProviderParameters :: ProviderLoadBalancerParameters

record NodePort =
  np_Name :: string
  np_PortNumber :: "int32 ptr option"

record ContainerPort =
  ecp_Name :: string
  ecp_PortNumber :: int32

record EnvoyNetworkPublishing =
  pub_Type :: NetworkPublishingType
  LoadBalancer :: LoadBalancerStrategy
  NodePorts :: "NodePort list option"
  ContainerPorts :: "ContainerPort list"

record NetworkPublishing =
  Envoy :: EnvoyNetworkPublishing

record NamespaceSpec =
  nsp_Name :: string
  RemoveOnDeletion :: bool

record SesameNodePlacement =
  snp_NodeSelector :: strmap
  snp_Tolerations :: "Toleration list"

record EnvoyNodePlacement =
  enp_NodeSelector :: strmap
  enp_Tolerations :: "Toleration list"

record NodePlacement =
  npl_Sesame :: "SesameNodePlacement option"
  npl_Envoy :: "EnvoyNodePlacement option"

record SesameSpec =
  Replicas :: int32
  SpecNamespace :: NamespaceSpec
  SpecNetworkPublishing :: NetworkPublishing
  GatewayClassRef :: "string option"
  GatewayControllerName :: "string option"
  IngressClassName :: "string option"
  SpecNodePlacement :: "NodePlacement option"
  EnableExternalNameService :: "bool option"

record SesameStatus =
  AvailableSesames :: int32
  AvailableEnvoys :: int32
  Conditions :: "Condition list"

record Sesame =
  Meta :: ObjectMeta
  Spec :: SesameSpec
  Status :: SesameStatus

section \<open>Abbreviations for the field paths of the source\<close>

abbreviation sesame_name :: "Sesame \<Rightarrow> string" where
  "sesame_name s \<equiv> Name (Meta s)"

abbreviation sesame_namespace :: "Sesame \<Rightarrow> string" where
  "sesame_namespace s \<equiv> Namespace (Meta s)"

abbreviation spec_ns :: "Sesame \<Rightarrow> string" where
  "spec_ns s \<equiv> nsp_Name (SpecNamespace (Spec s))"

abbreviation envoy_pub :: "Sesame \<Rightarrow> EnvoyNetworkPublishing" where
  "envoy_pub s \<equiv> Envoy (SpecNetworkPublishing (Spec s))"

abbreviation spec_pub :: "SesameSpec \<Rightarrow> EnvoyNetworkPublishing" where
  "spec_pub sp \<equiv> Envoy (SpecNetworkPublishing sp)"

abbreviation lb_params :: "Sesame \<Rightarrow> ProviderLoadBalancerParameters" where
  "lb_params s \<equiv> ProviderParameters (LoadBalancer (envoy_pub s))"

abbreviation spec_params :: "SesameSpec \<Rightarrow> ProviderLoadBalancerParameters" where
  "spec_params sp \<equiv> ProviderParameters (LoadBalancer (spec_pub sp))"

section \<open>Methods\<close>

text \<open>\<open>for _, f := range c.Finalizers\<close> with an early return.\<close>

fun finalizer_in :: "string list \<Rightarrow> bool" where
  "finalizer_in [] = False"
| "finalizer_in (f # fs) = (if f = SesameFinalizer then True else finalizer_in fs)"

definition IsFinalized :: "Sesame \<Rightarrow> bool" where
  "IsFinalized c = finalizer_in (Finalizers (Meta c))"

definition GatewayClassSet :: "Sesame \<Rightarrow> bool" where
  "GatewayClassSet c \<longleftrightarrow> GatewayClassRef (Spec c) \<noteq> None"

definition SesameNodeSelectorExists :: "Sesame \<Rightarrow> bool" where
  "SesameNodeSelectorExists c = (case SpecNodePlacement (Spec c) of None \<Rightarrow> False
     | Some np \<Rightarrow> (case npl_Sesame np of None \<Rightarrow> False
       | Some p \<Rightarrow> snp_NodeSelector p \<noteq> None))"

definition SesameTolerationsExist :: "Sesame \<Rightarrow> bool" where
  "SesameTolerationsExist c = (case SpecNodePlacement (Spec c) of None \<Rightarrow> False
     | Some np \<Rightarrow> (case npl_Sesame np of None \<Rightarrow> False
       | Some p \<Rightarrow> length (snp_Tolerations p) > 0))"

definition EnvoyNodeSelectorExists :: "Sesame \<Rightarrow> bool" where
  "EnvoyNodeSelectorExists c = (case SpecNodePlacement (Spec c) of None \<Rightarrow> False
     | Some np \<Rightarrow> (case npl_Envoy np of None \<Rightarrow> False
       | Some p \<Rightarrow> enp_NodeSelector p \<noteq> None))"

definition EnvoyTolerationsExist :: "Sesame \<Rightarrow> bool" where
  "EnvoyTolerationsExist c = (case SpecNodePlacement (Spec c) of None \<Rightarrow> False
     | Some np \<Rightarrow> (case npl_Envoy np of None \<Rightarrow> False
       | Some p \<Rightarrow> length (enp_Tolerations p) > 0))"

lemma finalizer_in_iff: "finalizer_in fs \<longleftrightarrow> SesameFinalizer \<in> set fs"
  by (induction fs) auto

lemma IsFinalized_iff: "IsFinalized c \<longleftrightarrow> SesameFinalizer \<in> set (Finalizers (Meta c))"
  by (simp add: IsFinalized_def finalizer_in_iff)

section \<open>What the API server admits\<close>

text \<open>
  The kubebuilder validation markers of \<open>sesame_types.go\<close>: enumerations, item counts, lengths of
  strings and ranges of numbers.
\<close>

definition port_in_range :: "int32 \<Rightarrow> bool" where
  "port_in_range p \<longleftrightarrow> 1 \<le> sint p \<and> sint p \<le> 65535"

definition name_length_ok :: "string \<Rightarrow> bool" where
  "name_length_ok n \<longleftrightarrow> 1 \<le> length n \<and> length n \<le> 253"

definition node_ports_admitted :: "NodePort list option \<Rightarrow> bool" where
  "node_ports_admitted ps = (case ps of None \<Rightarrow> True
     | Some l \<Rightarrow> length l = 2 \<and>
        list_all (\<lambda>p. name_length_ok (np_Name p) \<and>
          (case np_PortNumber p of None \<Rightarrow> True | Some q \<Rightarrow> port_in_range (deref q))) l)"

definition container_ports_admitted :: "ContainerPort list \<Rightarrow> bool" where
  "container_ports_admitted l \<longleftrightarrow> length l = 2 \<and>
     list_all (\<lambda>p. name_length_ok (ecp_Name p) \<and> port_in_range (ecp_PortNumber p)) l"

text \<open>\<open>MinLength\<close> and \<open>MaxLength\<close> of an optional string.\<close>

definition length_within :: "nat \<Rightarrow> nat \<Rightarrow> string option \<Rightarrow> bool" where
  "length_within lo hi x \<longleftrightarrow> pred_option (\<lambda>t. lo \<le> length t \<and> length t \<le> hi) x"

definition provider_admitted :: "ProviderLoadBalancerParameters \<Rightarrow> bool" where
  "provider_admitted p \<longleftrightarrow>
     prov_Type p \<in> {AWSLoadBalancerProvider, AzureLoadBalancerProvider, GCPLoadBalancerProvider} \<and>
     pred_option (\<lambda>q. aws_Type q \<in> {AWSClassicLoadBalancer, AWSNetworkLoadBalancer}) (prov_AWS p) \<and>
     pred_option (\<lambda>q. length_within 1 253 (az_Address q) \<and> length_within 1 90 (az_ResourceGroup q) \<and>
       length_within 1 80 (az_Subnet q)) (prov_Azure p) \<and>
     pred_option (\<lambda>q. length_within 1 253 (gcp_Address q) \<and> length_within 1 63 (gcp_Subnet q)) (prov_GCP p)"

definition crd_valid :: "Sesame \<Rightarrow> bool" where
  "crd_valid s \<longleftrightarrow>
     0 \<le> sint (Replicas (Spec s)) \<and>
     length_within 0 253 (GatewayClassRef (Spec s)) \<and> length_within 0 253 (GatewayControllerName (Spec s)) \<and>
     length_within 1 253 (IngressClassName (Spec s)) \<and>
     pub_Type (envoy_pub s) \<in> {LoadBalancerServicePublishingType,
       NodePortServicePublishingType, ClusterIPServicePublishingType} \<and>
     Scope (LoadBalancer (envoy_pub s)) \<in> {InternalLoadBalancer, ExternalLoadBalancer} \<and>
     provider_admitted (lb_params s) \<and>
     node_ports_admitted (NodePorts (envoy_pub s)) \<and>
     container_ports_admitted (ContainerPorts (envoy_pub s))"

section \<open>The API group\<close>

text \<open>\<open>groupversion_info.go\<close> and the registration in \<open>init\<close>: the types of the group that \<open>AddToScheme\<close>
  adds. The builder of controller-runtime is a parameter.\<close>

record group_version =
  gv_Group :: string
  gv_Version :: string

definition GroupVersion :: group_version where
  "GroupVersion = \<lparr>gv_Group = ''operator.projectsesame.io'', gv_Version = ''v1alpha1''\<rparr>"

datatype registered = RegisteredSesame | RegisteredSesameList

definition SchemeBuilder_init :: "(group_version \<Rightarrow> 'b) \<Rightarrow> ('b \<Rightarrow> registered list \<Rightarrow> 'b) \<Rightarrow> 'b" where
  "SchemeBuilder_init builder register = register (builder GroupVersion) [RegisteredSesame, RegisteredSesameList]"

end
