(* ===== verification/Client.thy ===== *)
theory Client
  imports Sesame_Types
begin

text \<open>
  The third-party code the operator calls, as parameters of the model.

  \<open>'w client\<close> is controller-runtime's \<open>client.Client\<close>: one \<open>kind_client\<close> per Go type that is
  passed to \<open>Get\<close>, \<open>Create\<close>, \<open>Update\<close> and \<open>Delete\<close> (the client dispatches on that type), the
  list call and the status writer. \<open>Create\<close> and \<open>Update\<close> return the object as the call left it,
  since the client decodes the server's answer into its argument. The world \<open>'w\<close> is everything
  behind the client: the API server, its other users, faults, the cache.

  \<open>'w lib\<close> holds the library functions of k8s.io/apimachinery and docker/distribution the code
  relies on, and the clock. \<open>DeepEqual\<close> takes Go interfaces: \<open>iface\<close> has one constructor
  for each dynamic type the operator compares.
\<close>

section \<open>The client\<close>

record ('w, 'o) kind_client =
  Get :: "NamespacedName \<Rightarrow> ('w, api_error + 'o) state"
  Create :: "'o \<Rightarrow> ('w, api_error + 'o) state"
  Update :: "'o \<Rightarrow> ('w, api_error + 'o) state"
  Delete :: "'o \<Rightarrow> ('w, api_error option) state"

record 'w client =
  sesames :: "('w, Sesame) kind_client"
  list_sesames :: "('w, api_error + Sesame list) state"
  status_update :: "Sesame \<Rightarrow> ('w, api_error option) state"
  namespaces :: "('w, KNamespace) kind_client"
  serviceaccounts :: "('w, ServiceAccount) kind_client"
  clusterroles :: "('w, ClusterRole) kind_client"
  clusterrolebindings :: "('w, ClusterRoleBinding) kind_client"
  roles :: "('w, Role) kind_client"
  rolebindings :: "('w, RoleBinding) kind_client"
  configmaps :: "('w, ConfigMap) kind_client"
  jobs :: "('w, Job) kind_client"
  deployments :: "('w, Deployment) kind_client"
  daemonsets :: "('w, DaemonSet) kind_client"
  services :: "('w, Service) kind_client"

section \<open>Library functions\<close>

datatype iface =
    IStr string
  | IInt32 int32
  | IInt32Ptr "int32 option"
  | IMap strmap
  | IIntOrString IntOrString
  | ILabelSelector "LabelSelector option"
  | IDaemonSetSpec DaemonSetSpec
  | IDeploymentSpec DeploymentSpec
  | IPodSpec PodSpec
  | IServicePort ServicePort
  | IServicePorts "ServicePort list"
  | IConditions "Condition list"
  | IPolicyRules "PolicyRule list"
  | ISubjects "Subject list"
  | IRoleRef RoleRef

record 'w lib =
  DeepEqual :: "iface \<Rightarrow> iface \<Rightarrow> bool"
  IsNotFound :: "api_error \<Rightarrow> bool"
  NewAggregate :: "error option list \<Rightarrow> error list option"
  PollImmediate :: "nat \<Rightarrow> nat \<Rightarrow> ('w, bool \<times> error option) state \<Rightarrow> ('w, error option) state"
  Now :: "('w, Time) state"

section \<open>The contract of the semantic equality\<close>

text \<open>
  \<open>equality.Semantic.DeepEqual\<close> of apimachinery: an equivalence, exact on scalars, and on maps
  equality of the entries (a nil map equals an empty one); it descends into the fields of structs, of
  which the selectors of Deployments and DaemonSets are needed.
\<close>

locale deep_equal =
  fixes deq :: "iface \<Rightarrow> iface \<Rightarrow> bool"
  assumes deq_refl: "deq a a"
    and deq_sym: "deq a b \<Longrightarrow> deq b a"
    and deq_trans: "deq a b \<Longrightarrow> deq b c \<Longrightarrow> deq a c"
    and deq_str: "deq (IStr s) (IStr t) \<longleftrightarrow> s = t"
    and deq_int32: "deq (IInt32 i) (IInt32 j) \<longleftrightarrow> i = j"
    and deq_map: "deq (IMap m) (IMap n) \<longleftrightarrow> map_lookup m = map_lookup n"
    and deq_deployment_selector: "deq (IDeploymentSpec a1) (IDeploymentSpec b1) \<Longrightarrow>
      deq (ILabelSelector (ds_Selector a1)) (ILabelSelector (ds_Selector b1))"
    and deq_daemonset_selector: "deq (IDaemonSetSpec a2) (IDaemonSetSpec b2) \<Longrightarrow>
      deq (ILabelSelector (dss_Selector a2)) (ILabelSelector (dss_Selector b2))"
begin

lemmas deq_simps = deq_refl deq_str deq_int32

end

text \<open>One equality that meets the contract: equality of the entries on maps, structural
  equality elsewhere. It shows the contract can hold and evaluates in the witnesses.\<close>

fun maps_agree :: "(string \<times> string) list \<Rightarrow> (string \<times> string) list \<Rightarrow> bool" where
  "maps_agree a b = list_all (\<lambda>k. map_of a k = map_of b k) (map fst a @ map fst b)"

fun semDeepEqual :: "iface \<Rightarrow> iface \<Rightarrow> bool" where
  "semDeepEqual (IMap m) (IMap n) = maps_agree (map_entries m) (map_entries n)"
| "semDeepEqual a b = (a = b)"

lemma maps_agree_iff: "maps_agree a b \<longleftrightarrow> map_of a = map_of b"
proof
  assume agree: "maps_agree a b"
  show "map_of a = map_of b"
  proof
    fix k
    show "map_of a k = map_of b k"
    proof (cases "k \<in> fst ` set a \<union> fst ` set b")
      case True
      with agree show ?thesis by (auto simp: list_all_iff)
    next
      case False
      then show ?thesis by (simp add: map_of_eq_None_iff [THEN iffD2])
    qed
  qed
qed (simp add: list_all_iff)

lemma semDeepEqual_map [simp]:
  "semDeepEqual (IMap m) (IMap n) \<longleftrightarrow> map_lookup m = map_lookup n"
  by (auto simp: maps_agree_iff map_lookup_def fun_eq_iff simp del: maps_agree.simps)

lemma semDeepEqual_iff:
  "semDeepEqual a b \<longleftrightarrow> a = b \<or> (\<exists>m n. a = IMap m \<and> b = IMap n \<and> map_lookup m = map_lookup n)"
  by (cases "(a, b)" rule: semDeepEqual.cases) (auto simp del: semDeepEqual.simps(1))

interpretation sem: deep_equal semDeepEqual
  by unfold_locales (auto simp: semDeepEqual_iff)

section \<open>The contract of the poller\<close>

text \<open>
  \<open>wait.PollImmediate(interval, timeout, condition)\<close> only runs its condition, at first at once, and
  ends when it holds; it reports an error when the condition never held, and no error only when the
  last run of the condition held. \<open>poll_n\<close> is such a poller: it tries at once and then once per
  interval until the timeout.
\<close>

locale polling =
  fixes poll :: "nat \<Rightarrow> nat \<Rightarrow> ('w, bool \<times> error option) state \<Rightarrow> ('w, error option) state"
  assumes poll_keeps: "keeps I c \<Longrightarrow> keeps I (poll i t c)"
    and poll_timeout: "(\<And>w. fst (run_state c w) = (False, None)) \<Longrightarrow>
      fst (run_state (poll i t c) w) \<noteq> None"
    and poll_success: "fst (run_state (poll i t c) w) = None \<Longrightarrow>
      \<exists>v. run_state c v = ((True, None), snd (run_state (poll i t c) w))"
    and poll_first: "run_state c w = ((True, None), w') \<Longrightarrow> run_state (poll i t c) w = (None, w')"

definition ErrWaitTimeout :: error where
  "ErrWaitTimeout = Errorf ''timed out waiting for the condition'' []"

fun poll_loop :: "nat \<Rightarrow> ('w, bool \<times> error option) state \<Rightarrow> ('w, error option) state" where
  "poll_loop 0 c = ret (Some ErrWaitTimeout)"
| "poll_loop (Suc n) c = do {
     (done, err) \<leftarrow> c;
     if err \<noteq> None then ret err
     else if done then ret None
     else poll_loop n c
   }"

definition poll_n :: "nat \<Rightarrow> nat \<Rightarrow> ('w, bool \<times> error option) state \<Rightarrow> ('w, error option) state" where
  "poll_n interval timeout c = poll_loop (Suc (timeout div interval)) c"

lemma keeps_poll_loop: "keeps I c \<Longrightarrow> keeps I (poll_loop n c)"
  by (induction n) (auto intro!: keeps_intro)

lemma poll_loop_timeout:
  "(\<And>w. fst (run_state c w) = (False, None)) \<Longrightarrow> fst (run_state (poll_loop n c) w) \<noteq> None"
proof (induction n arbitrary: w)
  case (Suc n)
  obtain x w' where run: "run_state c w = (x, w')" by fastforce
  with Suc.prems [of w] have "x = (False, None)" by simp
  with run Suc show ?case by simp
qed simp

lemma poll_loop_success:
  "fst (run_state (poll_loop n c) w) = None \<Longrightarrow>
   \<exists>v. run_state c v = ((True, None), snd (run_state (poll_loop n c) w))"
proof (induction n arbitrary: w)
  case (Suc n)
  obtain fin err w' where run: "run_state c w = ((fin, err), w')" by (metis prod.collapse)
  show ?case
  proof (cases "err = None \<and> \<not> fin")
    case True
    with run Suc.prems have "fst (run_state (poll_loop n c) w') = None" by simp
    from Suc.IH [OF this] show ?thesis using True run by simp
  next
    case False
    with run Suc.prems have "fin" "err = None" by (auto split: if_splits)
    with run show ?thesis by auto
  qed
qed simp

lemma poll_loop_first: "run_state c w = ((True, None), w') \<Longrightarrow> run_state (poll_loop (Suc n) c) w = (None, w')"
  by simp

lemmas poll_loop_laws = keeps_poll_loop poll_loop_timeout poll_loop_success poll_loop_first

interpretation poller: polling poll_n
  by unfold_locales (simp_all add: poll_n_def poll_loop_laws del: poll_loop.simps)

end
