(* ===== verification/Retryable.thy ===== *)
theory Retryable
  imports Client
begin

text \<open>
  Package \<open>internal/retryableerror\<close>: an error with a delay, and the aggregate of several errors
  that is retryable when all of them are. \<open>retryable_After\<close> is the type switch on
  \<open>retryable.Error\<close>: only a \<open>RetryableErr\<close> itself has the method \<open>After\<close>, not an error wrapping one.
\<close>

definition NewRetryable :: "error \<Rightarrow> int \<Rightarrow> error" where
  "NewRetryable err after = RetryableErr err after"

fun retryable_After :: "error \<Rightarrow> int option" where
  "retryable_After (RetryableErr e after) = Some after"
| "retryable_After (ApiErr e) = None"
| "retryable_After (Errorf f args) = None"
| "retryable_After (Wrapf f args e) = None"
| "retryable_After (Aggregate es) = None"

text \<open>The loop over \<open>aggregate.Errors()\<close>; \<open>None\<close> is the early return of the aggregate.\<close>

fun after_loop :: "error list \<Rightarrow> bool \<Rightarrow> int \<Rightarrow> int option" where
  "after_loop [] afterHasInitialValue after = Some after"
| "after_loop (e # es) afterHasInitialValue after = (case retryable_After e of
       Some d \<Rightarrow> after_loop es True (if \<not> afterHasInitialValue \<or> d < after then d else after)
     | None \<Rightarrow> None)"

text \<open>A nil error is \<open>None\<close>.\<close>

definition NewMaybeRetryableAggregate ::
    "(error option list \<Rightarrow> error list option) \<Rightarrow> error option list \<Rightarrow> error option" where
  "NewMaybeRetryableAggregate newAggregate errs = (case newAggregate errs of
       None \<Rightarrow> None
     | Some es \<Rightarrow> (case after_loop es False 0 of
         None \<Rightarrow> Some (Aggregate es)
       | Some after \<Rightarrow> Some (NewRetryable (Aggregate es) after)))"

section \<open>The contract of the aggregate\<close>

text \<open>\<open>utilerrors.NewAggregate\<close>: nil when no error is left after removing the nil ones.\<close>

locale aggregator =
  fixes newAggregate :: "error option list \<Rightarrow> error list option"
  assumes aggregate_filter: "newAggregate errs =
    (let es = map the (filter (\<lambda>e. e \<noteq> None) errs) in if es = [] then None else Some es)"
begin

lemma aggregate_nil: "newAggregate [] = None"
  by (simp add: aggregate_filter)

lemma aggregate_errors: "newAggregate (map Some es) = (if es = [] then None else Some es)"
  by (simp add: aggregate_filter Let_def filter_map comp_def)

end

fun aggregate_std :: "error option list \<Rightarrow> error list option" where
  "aggregate_std errs = (case map the (filter (\<lambda>e. e \<noteq> None) errs) of [] \<Rightarrow> None | e # es \<Rightarrow> Some (e # es))"

interpretation agg: aggregator aggregate_std
  by unfold_locales (simp add: Let_def split: list.split)

section \<open>The minimum of the delays\<close>

lemma after_loop_None: "after_loop es b a = None \<longleftrightarrow> (\<exists>e \<in> set es. retryable_After e = None)"
  by (induction es b a rule: after_loop.induct) (auto split: option.splits)

lemma after_loop_min:
  "after_loop es True a = Some d \<Longrightarrow>
     d = Min (insert a (the ` retryable_After ` set es)) "
proof (induction es arbitrary: a)
  case (Cons e es)
  from Cons.prems obtain x where x: "retryable_After e = Some x"
    and d: "after_loop es True (if x < a then x else a) = Some d"
    by (auto split: option.splits)
  from Cons.IH [OF d] have "d = Min (insert (min a x) (the ` retryable_After ` set es))"
    by (simp add: min_def split: if_splits)
  then show ?case using x by (cases "es = []") (simp_all add: ac_simps)
qed simp

lemma after_loop_first:
  "after_loop (e # es) False a = Some d \<Longrightarrow> d = Min (the ` retryable_After ` set (e # es))"
  by (auto split: option.splits dest: after_loop_min)

end
