(* ===== verification/Pkg.thy ===== *)
theory Pkg
  imports Client
begin

text \<open>
  The helper packages \<open>pkg/slice\<close> and \<open>pkg/labels\<close>: the list searches and the ownership test
  every handler runs before it changes or deletes an object.
\<close>

section \<open>pkg/slice\<close>

text \<open>The loop of \<open>RemoveString\<close>. A nil slice and an empty one are the same list here.\<close>

fun remove_loop :: "string list \<Rightarrow> string \<Rightarrow> string list \<Rightarrow> string list" where
  "remove_loop newSlice s [] = newSlice"
| "remove_loop newSlice s (item # items) =
     (if item = s then remove_loop newSlice s items
      else remove_loop (newSlice @ [item]) s items)"

definition RemoveString :: "string list \<Rightarrow> string \<Rightarrow> string list" where
  "RemoveString items s = remove_loop [] s items"

fun ContainsString :: "string list \<Rightarrow> string \<Rightarrow> bool" where
  "ContainsString [] s = False"
| "ContainsString (item # items) s = (if item = s then True else ContainsString items s)"

fun ContainsInt32 :: "int32 list \<Rightarrow> int32 \<Rightarrow> bool" where
  "ContainsInt32 [] i = False"
| "ContainsInt32 (item # items) i = (if item = i then True else ContainsInt32 items i)"

lemma remove_loop_filter: "remove_loop acc s xs = acc @ filter (\<lambda>x. x \<noteq> s) xs"
  by (induction xs arbitrary: acc) auto

lemma RemoveString_filter: "RemoveString xs s = filter (\<lambda>x. x \<noteq> s) xs"
  by (simp add: RemoveString_def remove_loop_filter)

lemma ContainsString_iff [simp]: "ContainsString xs s \<longleftrightarrow> s \<in> set xs"
  by (induction xs) auto

lemma ContainsInt32_iff [simp]: "ContainsInt32 xs i \<longleftrightarrow> i \<in> set xs"
  by (induction xs) auto

section \<open>pkg/labels\<close>

text \<open>\<open>for key, val := range m\<close>, leaving with false at the first entry that is not found.\<close>

fun exist_loop :: "strmap \<Rightarrow> (string \<times> string) list \<Rightarrow> bool" where
  "exist_loop labels [] = True"
| "exist_loop labels ((key, val) # m) =
     (case map_lookup labels key of
        None \<Rightarrow> False
      | Some found \<Rightarrow> if found \<noteq> val then False else exist_loop labels m)"

definition Exist :: "ObjectMeta \<Rightarrow> strmap \<Rightarrow> bool" where
  "Exist obj m =
     (if Labels obj = None then False else exist_loop (Labels obj) (map_entries m))"

lemma exist_loop_iff:
  "exist_loop labels m \<longleftrightarrow> (\<forall>(k, v) \<in> set m. map_lookup labels k = Some v)"
  by (induction labels m rule: exist_loop.induct) (auto split: option.splits)

lemma Exist_iff:
  "Exist obj m \<longleftrightarrow> Labels obj \<noteq> None \<and>
     (\<forall>(k, v) \<in> set (map_entries m). map_lookup (Labels obj) k = Some v)"
  by (simp add: Exist_def exist_loop_iff)

text \<open>The order in which Go happens to iterate over the map does not matter.\<close>

lemma Exist_order:
  "set kvs = set kvs' \<Longrightarrow> Exist obj (Some kvs) = Exist obj (Some kvs')"
  by (simp add: Exist_iff)

end
