(* ===== verification/Equality.thy ===== *)
theory Equality
  imports Pkg
begin

text \<open>
  Package \<open>internal/equality\<close>: for each kind, the comparison of the object in the cluster with
  the desired one. A function returns \<open>None\<close> for Go's \<open>(nil, false)\<close> and \<open>Some updated\<close> for
  \<open>(updated, true)\<close>. \<open>DeepCopy\<close> is the identity on values. The \<open>deq\<close> argument is
  \<open>apiequality.Semantic.DeepEqual\<close>.
\<close>

section \<open>The running pair (changed, updated)\<close>

text \<open>\<open>if differ { changed = true; updated = upd(updated) }\<close>.\<close>

definition set_if :: "bool \<Rightarrow> ('o \<Rightarrow> 'o) \<Rightarrow> bool \<times> 'o \<Rightarrow> bool \<times> 'o" where
  "set_if differ upd st = (if differ then (True, upd (snd st)) else st)"

text \<open>\<open>if !changed { return nil, false }; return updated, true\<close>.\<close>

definition updated_if :: "bool \<times> 'o \<Rightarrow> 'o option" where
  "updated_if st = (if \<not> fst st then None else Some (snd st))"

lemma set_if_simps [simp]:
  "set_if True upd st = (True, upd (snd st))" "set_if False upd st = st"
  by (simp_all add: set_if_def)

lemma updated_if_simps [simp]: "updated_if (True, u) = Some u" "updated_if (False, u) = None"
  by (simp_all add: updated_if_def)

section \<open>Workloads\<close>

definition DaemonsetConfigChanged ::
    "(iface \<Rightarrow> iface \<Rightarrow> bool) \<Rightarrow> DaemonSet \<Rightarrow> DaemonSet \<Rightarrow> DaemonSet option" where
  "DaemonsetConfigChanged deq current expected =
     (let st0 = (False, current);
          st1 = set_if (\<not> deq (IMap (Labels (dms_Meta current))) (IMap (Labels (dms_Meta expected))))
            (\<lambda>u. u\<lparr>dms_Meta := (dms_Meta u)\<lparr>Labels := Labels (dms_Meta expected)\<rparr>\<rparr>) st0;
          st2 = set_if (\<not> deq (IDaemonSetSpec (dms_Spec current)) (IDaemonSetSpec (dms_Spec expected)))
            (\<lambda>u. u\<lparr>dms_Spec := dms_Spec expected\<rparr>) st1
      in updated_if st2)"

definition DaemonSetSelectorsDiffer ::
    "(iface \<Rightarrow> iface \<Rightarrow> bool) \<Rightarrow> DaemonSet \<Rightarrow> DaemonSet \<Rightarrow> bool" where
  "DaemonSetSelectorsDiffer deq current expected \<longleftrightarrow>
     \<not> deq (ILabelSelector (dss_Selector (dms_Spec current)))
           (ILabelSelector (dss_Selector (dms_Spec expected)))"

definition owner_labels_missing :: "strmap \<Rightarrow> bool" where
  "owner_labels_missing l = (if l \<noteq> None
     then map_lookup l OwningSesameNameLabel = None \<or> map_lookup l OwningSesameNsLabel = None
     else False)"

definition JobConfigChanged ::
    "(iface \<Rightarrow> iface \<Rightarrow> bool) \<Rightarrow> Job \<Rightarrow> Job \<Rightarrow> Job option" where
  "JobConfigChanged deq current expected =
     (let st0 = (False, current);
          st1 = set_if (\<not> deq (IMap (Labels (job_Meta current))) (IMap (Labels (job_Meta expected))))
            (\<lambda>_. expected) st0;
          st2 = set_if (\<not> deq (IInt32Ptr (js_Parallelism (job_Spec current)))
                              (IInt32Ptr (js_Parallelism (job_Spec expected)))) (\<lambda>_. expected) st1;
          st3 = set_if (\<not> deq (IInt32Ptr (js_BackoffLimit (job_Spec current)))
                              (IInt32Ptr (js_BackoffLimit (job_Spec expected)))) (\<lambda>_. expected) st2;
          st4 = set_if (owner_labels_missing (pt_Labels (js_Template (job_Spec current))))
            (\<lambda>_. expected) st3;
          st5 = set_if (\<not> deq (IPodSpec (pt_Spec (js_Template (job_Spec current))))
                              (IPodSpec (pt_Spec (js_Template (job_Spec expected))))) (\<lambda>_. expected) st4
      in updated_if st5)"

definition DeploymentConfigChanged ::
    "(iface \<Rightarrow> iface \<Rightarrow> bool) \<Rightarrow> Deployment \<Rightarrow> Deployment \<Rightarrow> Deployment option" where
  "DeploymentConfigChanged deq current expected =
     (let st0 = (False, current);
          st1 = set_if (\<not> deq (IMap (Labels (dep_Meta current))) (IMap (Labels (dep_Meta expected))))
            (\<lambda>_. expected) st0;
          st2 = set_if (\<not> deq (IDeploymentSpec (dep_Spec current)) (IDeploymentSpec (dep_Spec expected)))
            (\<lambda>_. expected) st1
      in updated_if st2)"

definition DeploymentSelectorsDiffer ::
    "(iface \<Rightarrow> iface \<Rightarrow> bool) \<Rightarrow> Deployment \<Rightarrow> Deployment \<Rightarrow> bool" where
  "DeploymentSelectorsDiffer deq current expected \<longleftrightarrow>
     \<not> deq (ILabelSelector (ds_Selector (dep_Spec current)))
           (ILabelSelector (ds_Selector (dep_Spec expected)))"

section \<open>Services\<close>

abbreviation upd_spec :: "(ServiceSpec \<Rightarrow> ServiceSpec) \<Rightarrow> Service \<Rightarrow> Service" where
  "upd_spec f u \<equiv> u\<lparr>svc_Spec := f (svc_Spec u)\<rparr>"

definition ClusterIPServiceChanged ::
    "(iface \<Rightarrow> iface \<Rightarrow> bool) \<Rightarrow> Service \<Rightarrow> Service \<Rightarrow> Service option" where
  "ClusterIPServiceChanged deq current expected =
     (let c = svc_Spec current; e = svc_Spec expected;
          st0 = (False, current);
          st1 = (if length (svs_Ports c) \<noteq> length (svs_Ports e)
                 then set_if True (upd_spec (\<lambda>s. s\<lparr>svs_Ports := svs_Ports e\<rparr>)) st0
                 else set_if (\<not> deq (IServicePorts (svs_Ports c)) (IServicePorts (svs_Ports e)))
                        (upd_spec (\<lambda>s. s\<lparr>svs_Ports := svs_Ports e\<rparr>)) st0);
          st2 = set_if (\<not> deq (IMap (svs_Selector c)) (IMap (svs_Selector e)))
                  (upd_spec (\<lambda>s. s\<lparr>svs_Selector := svs_Selector e\<rparr>)) st1;
          st3 = set_if (\<not> deq (IStr (svs_SessionAffinity c)) (IStr (svs_SessionAffinity e)))
                  (upd_spec (\<lambda>s. s\<lparr>svs_SessionAffinity := svs_SessionAffinity e\<rparr>)) st2;
          st4 = set_if (\<not> deq (IStr (svs_Type c)) (IStr (svs_Type e)))
                  (upd_spec (\<lambda>s. s\<lparr>svs_Type := svs_Type e\<rparr>)) st3
      in updated_if st4)"

text \<open>The four per-port comparisons; the port's \<open>nodePort\<close> is not compared.\<close>

definition lb_port :: "(iface \<Rightarrow> iface \<Rightarrow> bool) \<Rightarrow> ServicePort \<Rightarrow> ServicePort \<Rightarrow> bool \<times> ServicePort" where
  "lb_port deq p e =
     (let st1 = set_if (\<not> deq (IStr (sp_Name p)) (IStr (sp_Name e)))
                  (\<lambda>u. u\<lparr>sp_Name := sp_Name e\<rparr>) (False, p);
          st2 = set_if (\<not> deq (IStr (sp_Protocol p)) (IStr (sp_Protocol e)))
                  (\<lambda>u. u\<lparr>sp_Protocol := sp_Protocol e\<rparr>) st1;
          st3 = set_if (\<not> deq (IInt32 (sp_Port p)) (IInt32 (sp_Port e)))
                  (\<lambda>u. u\<lparr>sp_Port := sp_Port e\<rparr>) st2
      in set_if (\<not> deq (IIntOrString (sp_TargetPort p)) (IIntOrString (sp_TargetPort e)))
                  (\<lambda>u. u\<lparr>sp_TargetPort := sp_TargetPort e\<rparr>) st3)"

text \<open>\<open>for i, p := range current.Spec.Ports\<close> over port lists of the same length.\<close>

fun lb_ports :: "(iface \<Rightarrow> iface \<Rightarrow> bool) \<Rightarrow> ServicePort list \<Rightarrow> ServicePort list \<Rightarrow> bool \<times> ServicePort list" where
  "lb_ports deq (p # ps) (e # es) =
     (let r = lb_port deq p e; rs = lb_ports deq ps es in (fst r \<or> fst rs, snd r # snd rs))"
| "lb_ports deq ps es = (False, ps)"

definition LoadBalancerServiceChanged ::
    "(iface \<Rightarrow> iface \<Rightarrow> bool) \<Rightarrow> Service \<Rightarrow> Service \<Rightarrow> Service option" where
  "LoadBalancerServiceChanged deq current expected =
     (let c = svc_Spec current; e = svc_Spec expected;
          st0 = (False, current);
          st1 = (if length (svs_Ports c) \<noteq> length (svs_Ports e)
                 then set_if True (upd_spec (\<lambda>s. s\<lparr>svs_Ports := svs_Ports e\<rparr>)) st0
                 else (let (ch, ps) = lb_ports deq (svs_Ports c) (svs_Ports e)
                       in set_if ch (upd_spec (\<lambda>s. s\<lparr>svs_Ports := ps\<rparr>)) st0));
          st2 = set_if (\<not> deq (IMap (svs_Selector c)) (IMap (svs_Selector e)))
                  (upd_spec (\<lambda>s. s\<lparr>svs_Selector := svs_Selector e\<rparr>)) st1;
          st3 = set_if (\<not> deq (IStr (svs_ExternalTrafficPolicy c)) (IStr (svs_ExternalTrafficPolicy e)))
                  (upd_spec (\<lambda>s. s\<lparr>svs_ExternalTrafficPolicy := svs_ExternalTrafficPolicy e\<rparr>)) st2;
          st4 = set_if (\<not> deq (IStr (svs_SessionAffinity c)) (IStr (svs_SessionAffinity e)))
                  (upd_spec (\<lambda>s. s\<lparr>svs_SessionAffinity := svs_SessionAffinity e\<rparr>)) st3;
          st5 = set_if (\<not> deq (IStr (svs_Type c)) (IStr (svs_Type e)))
                  (upd_spec (\<lambda>s. s\<lparr>svs_Type := svs_Type e\<rparr>)) st4;
          st6 = set_if (\<not> deq (IMap (Annotations (svc_Meta current))) (IMap (Annotations (svc_Meta expected))))
                  (\<lambda>u. u\<lparr>svc_Meta := (svc_Meta u)\<lparr>Annotations := Annotations (svc_Meta expected)\<rparr>\<rparr>) st5;
          st7 = set_if (\<not> deq (IStr (svs_LoadBalancerIP c)) (IStr (svs_LoadBalancerIP e)))
                  (upd_spec (\<lambda>s. s\<lparr>svs_LoadBalancerIP := svs_LoadBalancerIP e\<rparr>)) st6
      in updated_if st7)"

text \<open>
  The port loop of \<open>NodePortServiceChanged\<close> runs over the current ports whatever the length
  comparison before it said, and indexes the expected ports: past their end Go panics.
\<close>

fun np_ports :: "(iface \<Rightarrow> iface \<Rightarrow> bool) \<Rightarrow> Service \<Rightarrow> ServicePort list \<Rightarrow> ServicePort list
    \<Rightarrow> bool \<times> Service \<Rightarrow> (bool \<times> Service) res" where
  "np_ports deq expected [] es st = Ok st"
| "np_ports deq expected (p # ps) [] st = Panic"
| "np_ports deq expected (p # ps) (e # es) st = np_ports deq expected ps es
     (set_if (\<not> deq (IServicePort p) (IServicePort e))
        (upd_spec (\<lambda>s. s\<lparr>svs_Ports := svs_Ports (svc_Spec expected)\<rparr>)) st)"

definition NodePortServiceChanged ::
    "(iface \<Rightarrow> iface \<Rightarrow> bool) \<Rightarrow> Service \<Rightarrow> Service \<Rightarrow> Service option res" where
  "NodePortServiceChanged deq current expected =
     (let c = svc_Spec current; e = svc_Spec expected;
          st0 = (False, current);
          st1 = set_if (length (svs_Ports c) \<noteq> length (svs_Ports e))
                  (upd_spec (\<lambda>s. s\<lparr>svs_Ports := svs_Ports e\<rparr>)) st0
      in case np_ports deq expected (svs_Ports c) (svs_Ports e) st1 of
           Panic \<Rightarrow> Panic
         | Err er \<Rightarrow> Err er
         | Ok st1' \<Rightarrow>
        (let st2 = set_if (\<not> deq (IMap (svs_Selector c)) (IMap (svs_Selector e)))
                  (upd_spec (\<lambda>s. s\<lparr>svs_Selector := svs_Selector e\<rparr>)) st1';
          st3 = set_if (\<not> deq (IStr (svs_ExternalTrafficPolicy c)) (IStr (svs_ExternalTrafficPolicy e)))
                  (upd_spec (\<lambda>s. s\<lparr>svs_ExternalTrafficPolicy := svs_ExternalTrafficPolicy e\<rparr>)) st2;
          st4 = set_if (\<not> deq (IStr (svs_SessionAffinity c)) (IStr (svs_SessionAffinity e)))
                  (upd_spec (\<lambda>s. s\<lparr>svs_SessionAffinity := svs_SessionAffinity e\<rparr>)) st3;
          st5 = set_if (\<not> deq (IStr (svs_Type c)) (IStr (svs_Type e)))
                  (upd_spec (\<lambda>s. s\<lparr>svs_Type := svs_Type e\<rparr>)) st4;
          st6 = set_if (\<not> deq (IMap (Annotations (svc_Meta current))) (IMap (Annotations (svc_Meta expected))))
                  (\<lambda>u. u\<lparr>svc_Meta := (svc_Meta u)\<lparr>Annotations := Annotations (svc_Meta expected)\<rparr>\<rparr>) st5
         in Ok (updated_if st6)))"

section \<open>Sesame status, namespaces, service accounts, RBAC\<close>

definition SesameStatusChanged ::
    "(iface \<Rightarrow> iface \<Rightarrow> bool) \<Rightarrow> SesameStatus \<Rightarrow> SesameStatus \<Rightarrow> bool" where
  "SesameStatusChanged deq current expected =
     (if AvailableSesames current \<noteq> AvailableSesames expected then True
      else if AvailableEnvoys current \<noteq> AvailableEnvoys expected then True
      else if \<not> deq (IConditions (Conditions current)) (IConditions (Conditions expected)) then True
      else False)"

definition NamespaceConfigChanged ::
    "(iface \<Rightarrow> iface \<Rightarrow> bool) \<Rightarrow> KNamespace \<Rightarrow> KNamespace \<Rightarrow> KNamespace option" where
  "NamespaceConfigChanged deq current expected =
     updated_if (set_if (\<not> deq (IMap (Labels (ns_Meta current))) (IMap (Labels (ns_Meta expected))))
       (\<lambda>_. expected) (False, current))"

definition ServiceAccountConfigChanged ::
    "(iface \<Rightarrow> iface \<Rightarrow> bool) \<Rightarrow> ServiceAccount \<Rightarrow> ServiceAccount \<Rightarrow> ServiceAccount option" where
  "ServiceAccountConfigChanged deq current expected =
     updated_if (set_if (\<not> deq (IMap (Labels (sa_Meta current))) (IMap (Labels (sa_Meta expected))))
       (\<lambda>_. expected) (False, current))"

definition ClusterRoleConfigChanged ::
    "(iface \<Rightarrow> iface \<Rightarrow> bool) \<Rightarrow> ClusterRole \<Rightarrow> ClusterRole \<Rightarrow> ClusterRole option" where
  "ClusterRoleConfigChanged deq current expected =
     (let st1 = set_if (\<not> deq (IMap (Labels (cr_Meta current))) (IMap (Labels (cr_Meta expected))))
            (\<lambda>u. u\<lparr>cr_Meta := (cr_Meta u)\<lparr>Labels := Labels (cr_Meta expected)\<rparr>\<rparr>) (False, current);
          st2 = set_if (\<not> deq (IPolicyRules (cr_Rules current)) (IPolicyRules (cr_Rules expected)))
            (\<lambda>u. u\<lparr>cr_Rules := cr_Rules expected\<rparr>) st1
      in updated_if st2)"

definition ClusterRoleBindingConfigChanged ::
    "(iface \<Rightarrow> iface \<Rightarrow> bool) \<Rightarrow> ClusterRoleBinding \<Rightarrow> ClusterRoleBinding \<Rightarrow> ClusterRoleBinding option" where
  "ClusterRoleBindingConfigChanged deq current expected =
     (let st1 = set_if (\<not> deq (IMap (Labels (crb_Meta current))) (IMap (Labels (crb_Meta expected))))
            (\<lambda>u. u\<lparr>crb_Meta := (crb_Meta u)\<lparr>Labels := Labels (crb_Meta expected)\<rparr>\<rparr>) (False, current);
          st2 = set_if (\<not> deq (ISubjects (crb_Subjects current)) (ISubjects (crb_Subjects expected)))
            (\<lambda>u. u\<lparr>crb_Subjects := crb_Subjects expected\<rparr>) st1;
          st3 = set_if (\<not> deq (IRoleRef (crb_RoleRef current)) (IRoleRef (crb_RoleRef expected)))
            (\<lambda>u. u\<lparr>crb_RoleRef := crb_RoleRef expected\<rparr>) st2
      in updated_if st3)"

definition RoleConfigChanged ::
    "(iface \<Rightarrow> iface \<Rightarrow> bool) \<Rightarrow> Role \<Rightarrow> Role \<Rightarrow> Role option" where
  "RoleConfigChanged deq current expected =
     (let st1 = set_if (\<not> deq (IMap (Labels (role_Meta current))) (IMap (Labels (role_Meta expected))))
            (\<lambda>u. u\<lparr>role_Meta := (role_Meta u)\<lparr>Labels := Labels (role_Meta expected)\<rparr>\<rparr>) (False, current);
          st2 = set_if (\<not> deq (IPolicyRules (role_Rules current)) (IPolicyRules (role_Rules expected)))
            (\<lambda>u. u\<lparr>role_Rules := role_Rules expected\<rparr>) st1
      in updated_if st2)"

definition RoleBindingConfigChanged ::
    "(iface \<Rightarrow> iface \<Rightarrow> bool) \<Rightarrow> RoleBinding \<Rightarrow> RoleBinding \<Rightarrow> RoleBinding option" where
  "RoleBindingConfigChanged deq current expected =
     (let st1 = set_if (\<not> deq (IMap (Labels (rb_Meta current))) (IMap (Labels (rb_Meta expected))))
            (\<lambda>u. u\<lparr>rb_Meta := (rb_Meta u)\<lparr>Labels := Labels (rb_Meta expected)\<rparr>\<rparr>) (False, current);
          st2 = set_if (\<not> deq (ISubjects (rb_Subjects current)) (ISubjects (rb_Subjects expected)))
            (\<lambda>u. u\<lparr>rb_Subjects := rb_Subjects expected\<rparr>) st1;
          st3 = set_if (\<not> deq (IRoleRef (rb_RoleRef current)) (IRoleRef (rb_RoleRef expected)))
            (\<lambda>u. u\<lparr>rb_RoleRef := rb_RoleRef expected\<rparr>) st2
      in updated_if st3)"

end
