(* ===== verification/Drift.thy ===== *)
theory Drift
  imports Equality
begin

text \<open>
  The contract of the comparisons of \<open>internal/equality\<close>, as the handlers use them. The locale
  \<open>drift_check\<close> asks for: no update exactly when the object agrees with the desired one, and an
  update that agrees with it, under the same key and still owned. Every comparison is shown to meet
  it for any \<open>deq\<close> of the \<open>deep_equal\<close> contract, and \<open>deep_equal\<close> gets the facts by
  \<open>sublocale\<close>.
\<close>

section \<open>The contract of a comparison\<close>

definition nsname :: "ObjectMeta \<Rightarrow> NamespacedName" where
  "nsname m = \<lparr>nn_Namespace = Namespace m, nn_Name = Name m\<rparr>"

lemma nsname_meta_updates [simp]:
  "nsname (m\<lparr>Labels := l\<rparr>) = nsname m" "nsname (m\<lparr>Annotations := a\<rparr>) = nsname m"
  by (simp_all add: nsname_def)

lemma Exist_meta_updates [simp]:
  "Exist (m\<lparr>Annotations := a\<rparr>) ls = Exist m ls"
  "Exist (m\<lparr>Labels := Labels n\<rparr>) ls = Exist n ls"
  by (simp_all add: Exist_def)

locale drift_check =
  fixes changed :: "'o \<Rightarrow> 'o \<Rightarrow> 'o option"
    and agrees :: "'o \<Rightarrow> 'o \<Rightarrow> bool"
    and meta :: "'o \<Rightarrow> ObjectMeta"
  assumes changed_None: "changed c d = None \<longleftrightarrow> agrees c d"
    and changed_agrees: "changed c d = Some u \<Longrightarrow> agrees d d \<Longrightarrow> agrees u d"
    and changed_key: "changed c d = Some u \<Longrightarrow> nsname (meta c) = nsname (meta d) \<Longrightarrow>
          nsname (meta u) = nsname (meta d)"
    and changed_owned: "changed c d = Some u \<Longrightarrow> Exist (meta c) m \<Longrightarrow> Exist (meta d) m \<Longrightarrow>
          Exist (meta u) m"
begin

text \<open>Comparing the update again finds nothing to do.\<close>

lemma fixed_point: "changed c d = Some u \<Longrightarrow> agrees d d \<Longrightarrow> changed u d = None"
  using changed_agrees changed_None by blast

lemma settles:
  assumes "agrees d d"
  shows "changed (case changed c d of None \<Rightarrow> c | Some u \<Rightarrow> u) d = None"
  using assms fixed_point by (cases "changed c d") auto

end

section \<open>What each comparison compares\<close>

definition daemonset_agrees :: "(iface \<Rightarrow> iface \<Rightarrow> bool) \<Rightarrow> DaemonSet \<Rightarrow> DaemonSet \<Rightarrow> bool" where
  "daemonset_agrees deq c d \<longleftrightarrow>
     deq (IMap (Labels (dms_Meta c))) (IMap (Labels (dms_Meta d))) \<and>
     deq (IDaemonSetSpec (dms_Spec c)) (IDaemonSetSpec (dms_Spec d))"

definition deployment_agrees :: "(iface \<Rightarrow> iface \<Rightarrow> bool) \<Rightarrow> Deployment \<Rightarrow> Deployment \<Rightarrow> bool" where
  "deployment_agrees deq c d \<longleftrightarrow>
     deq (IMap (Labels (dep_Meta c))) (IMap (Labels (dep_Meta d))) \<and>
     deq (IDeploymentSpec (dep_Spec c)) (IDeploymentSpec (dep_Spec d))"

definition job_agrees :: "(iface \<Rightarrow> iface \<Rightarrow> bool) \<Rightarrow> Job \<Rightarrow> Job \<Rightarrow> bool" where
  "job_agrees deq c d \<longleftrightarrow>
     deq (IMap (Labels (job_Meta c))) (IMap (Labels (job_Meta d))) \<and>
     deq (IInt32Ptr (js_Parallelism (job_Spec c))) (IInt32Ptr (js_Parallelism (job_Spec d))) \<and>
     deq (IInt32Ptr (js_BackoffLimit (job_Spec c))) (IInt32Ptr (js_BackoffLimit (job_Spec d))) \<and>
     \<not> owner_labels_missing (pt_Labels (js_Template (job_Spec c))) \<and>
     deq (IPodSpec (pt_Spec (js_Template (job_Spec c)))) (IPodSpec (pt_Spec (js_Template (job_Spec d))))"

definition namespace_agrees :: "(iface \<Rightarrow> iface \<Rightarrow> bool) \<Rightarrow> KNamespace \<Rightarrow> KNamespace \<Rightarrow> bool" where
  "namespace_agrees deq c d \<longleftrightarrow> deq (IMap (Labels (ns_Meta c))) (IMap (Labels (ns_Meta d)))"

definition serviceaccount_agrees ::
    "(iface \<Rightarrow> iface \<Rightarrow> bool) \<Rightarrow> ServiceAccount \<Rightarrow> ServiceAccount \<Rightarrow> bool" where
  "serviceaccount_agrees deq c d \<longleftrightarrow> deq (IMap (Labels (sa_Meta c))) (IMap (Labels (sa_Meta d)))"

definition clusterrole_agrees :: "(iface \<Rightarrow> iface \<Rightarrow> bool) \<Rightarrow> ClusterRole \<Rightarrow> ClusterRole \<Rightarrow> bool" where
  "clusterrole_agrees deq c d \<longleftrightarrow>
     deq (IMap (Labels (cr_Meta c))) (IMap (Labels (cr_Meta d))) \<and>
     deq (IPolicyRules (cr_Rules c)) (IPolicyRules (cr_Rules d))"

definition role_agrees :: "(iface \<Rightarrow> iface \<Rightarrow> bool) \<Rightarrow> Role \<Rightarrow> Role \<Rightarrow> bool" where
  "role_agrees deq c d \<longleftrightarrow>
     deq (IMap (Labels (role_Meta c))) (IMap (Labels (role_Meta d))) \<and>
     deq (IPolicyRules (role_Rules c)) (IPolicyRules (role_Rules d))"

definition clusterrolebinding_agrees ::
    "(iface \<Rightarrow> iface \<Rightarrow> bool) \<Rightarrow> ClusterRoleBinding \<Rightarrow> ClusterRoleBinding \<Rightarrow> bool" where
  "clusterrolebinding_agrees deq c d \<longleftrightarrow>
     deq (IMap (Labels (crb_Meta c))) (IMap (Labels (crb_Meta d))) \<and>
     deq (ISubjects (crb_Subjects c)) (ISubjects (crb_Subjects d)) \<and>
     deq (IRoleRef (crb_RoleRef c)) (IRoleRef (crb_RoleRef d))"

definition rolebinding_agrees :: "(iface \<Rightarrow> iface \<Rightarrow> bool) \<Rightarrow> RoleBinding \<Rightarrow> RoleBinding \<Rightarrow> bool" where
  "rolebinding_agrees deq c d \<longleftrightarrow>
     deq (IMap (Labels (rb_Meta c))) (IMap (Labels (rb_Meta d))) \<and>
     deq (ISubjects (rb_Subjects c)) (ISubjects (rb_Subjects d)) \<and>
     deq (IRoleRef (rb_RoleRef c)) (IRoleRef (rb_RoleRef d))"

definition clusterip_agrees :: "(iface \<Rightarrow> iface \<Rightarrow> bool) \<Rightarrow> Service \<Rightarrow> Service \<Rightarrow> bool" where
  "clusterip_agrees deq c d \<longleftrightarrow>
     length (svs_Ports (svc_Spec c)) = length (svs_Ports (svc_Spec d)) \<and>
     deq (IServicePorts (svs_Ports (svc_Spec c))) (IServicePorts (svs_Ports (svc_Spec d))) \<and>
     deq (IMap (svs_Selector (svc_Spec c))) (IMap (svs_Selector (svc_Spec d))) \<and>
     deq (IStr (svs_SessionAffinity (svc_Spec c))) (IStr (svs_SessionAffinity (svc_Spec d))) \<and>
     deq (IStr (svs_Type (svc_Spec c))) (IStr (svs_Type (svc_Spec d)))"

definition port_agrees :: "(iface \<Rightarrow> iface \<Rightarrow> bool) \<Rightarrow> ServicePort \<Rightarrow> ServicePort \<Rightarrow> bool" where
  "port_agrees deq p e \<longleftrightarrow> deq (IStr (sp_Name p)) (IStr (sp_Name e)) \<and>
     deq (IStr (sp_Protocol p)) (IStr (sp_Protocol e)) \<and>
     deq (IInt32 (sp_Port p)) (IInt32 (sp_Port e)) \<and>
     deq (IIntOrString (sp_TargetPort p)) (IIntOrString (sp_TargetPort e))"

definition exposed_agrees :: "(iface \<Rightarrow> iface \<Rightarrow> bool) \<Rightarrow> Service \<Rightarrow> Service \<Rightarrow> bool" where
  "exposed_agrees deq c d \<longleftrightarrow>
     deq (IMap (svs_Selector (svc_Spec c))) (IMap (svs_Selector (svc_Spec d))) \<and>
     deq (IStr (svs_ExternalTrafficPolicy (svc_Spec c))) (IStr (svs_ExternalTrafficPolicy (svc_Spec d))) \<and>
     deq (IStr (svs_SessionAffinity (svc_Spec c))) (IStr (svs_SessionAffinity (svc_Spec d))) \<and>
     deq (IStr (svs_Type (svc_Spec c))) (IStr (svs_Type (svc_Spec d))) \<and>
     deq (IMap (Annotations (svc_Meta c))) (IMap (Annotations (svc_Meta d)))"

definition loadbalancer_agrees :: "(iface \<Rightarrow> iface \<Rightarrow> bool) \<Rightarrow> Service \<Rightarrow> Service \<Rightarrow> bool" where
  "loadbalancer_agrees deq c d \<longleftrightarrow>
     list_all2 (port_agrees deq) (svs_Ports (svc_Spec c)) (svs_Ports (svc_Spec d)) \<and>
     exposed_agrees deq c d \<and>
     deq (IStr (svs_LoadBalancerIP (svc_Spec c))) (IStr (svs_LoadBalancerIP (svc_Spec d)))"

definition nodeport_agrees :: "(iface \<Rightarrow> iface \<Rightarrow> bool) \<Rightarrow> Service \<Rightarrow> Service \<Rightarrow> bool" where
  "nodeport_agrees deq c d \<longleftrightarrow>
     list_all2 (\<lambda>p e. deq (IServicePort p) (IServicePort e))
       (svs_Ports (svc_Spec c)) (svs_Ports (svc_Spec d)) \<and>
     exposed_agrees deq c d"

lemmas agrees_defs = daemonset_agrees_def deployment_agrees_def job_agrees_def namespace_agrees_def
  serviceaccount_agrees_def clusterrole_agrees_def role_agrees_def clusterrolebinding_agrees_def
  rolebinding_agrees_def clusterip_agrees_def

lemmas changed_defs = DaemonsetConfigChanged_def DeploymentConfigChanged_def JobConfigChanged_def
  NamespaceConfigChanged_def ServiceAccountConfigChanged_def ClusterRoleConfigChanged_def
  RoleConfigChanged_def ClusterRoleBindingConfigChanged_def RoleBindingConfigChanged_def
  ClusterIPServiceChanged_def

section \<open>The port loops\<close>

lemmas pair_defs = set_if_def updated_if_def Let_def

lemma lb_port_unchanged: "\<not> fst (lb_port deq p e) \<longleftrightarrow> port_agrees deq p e"
  by (simp add: lb_port_def port_agrees_def set_if_def Let_def)

lemma lb_port_same: "port_agrees deq p e \<Longrightarrow> lb_port deq p e = (False, p)"
  by (simp add: lb_port_def port_agrees_def set_if_def Let_def)

text \<open>The node port of the cluster's port survives.\<close>

lemma lb_port_NodePort [simp]: "sp_NodePort (snd (lb_port deq p e)) = sp_NodePort p"
  by (simp add: lb_port_def set_if_def Let_def)

lemma lb_ports_length [simp]: "length (snd (lb_ports deq ps es)) = length ps"
  by (induction deq ps es rule: lb_ports.induct) (auto simp: Let_def)

lemma lb_ports_NodePort: "map sp_NodePort (snd (lb_ports deq ps es)) = map sp_NodePort ps"
  by (induction deq ps es rule: lb_ports.induct) (auto simp: Let_def)

lemma lb_ports_unchanged:
  "length ps = length es \<Longrightarrow> \<not> fst (lb_ports deq ps es) \<longleftrightarrow> list_all2 (port_agrees deq) ps es"
  by (induction deq ps es rule: lb_ports.induct)
    (auto simp: lb_port_unchanged [symmetric] Let_def)

lemma np_ports_eq:
  "np_ports deq expected ps es st =
     (if length es < length ps then Panic
      else Ok (set_if (list_ex (\<lambda>(p, e). \<not> deq (IServicePort p) (IServicePort e)) (zip ps es))
        (upd_spec (\<lambda>s. s\<lparr>svs_Ports := svs_Ports (svc_Spec expected)\<rparr>)) st))"
  by (induction deq expected ps es st rule: np_ports.induct) (auto simp: set_if_def)

section \<open>The services in closed form\<close>

text \<open>The fields \<open>exposed_agrees\<close> compares, taken from the desired service where they differ.\<close>

definition pick :: "bool \<Rightarrow> 'a \<Rightarrow> 'a \<Rightarrow> 'a" where
  "pick same x y = (if same then x else y)"

definition expose :: "(iface \<Rightarrow> iface \<Rightarrow> bool) \<Rightarrow> ServicePort list \<Rightarrow> Service \<Rightarrow> Service \<Rightarrow> Service" where
  "expose deq ports c d = c\<lparr>
     svc_Spec := (svc_Spec c)\<lparr>
       svs_Ports := ports,
       svs_Selector := pick (deq (IMap (svs_Selector (svc_Spec c))) (IMap (svs_Selector (svc_Spec d))))
         (svs_Selector (svc_Spec c)) (svs_Selector (svc_Spec d)),
       svs_ExternalTrafficPolicy := pick (deq (IStr (svs_ExternalTrafficPolicy (svc_Spec c)))
           (IStr (svs_ExternalTrafficPolicy (svc_Spec d))))
         (svs_ExternalTrafficPolicy (svc_Spec c)) (svs_ExternalTrafficPolicy (svc_Spec d)),
       svs_SessionAffinity := pick (deq (IStr (svs_SessionAffinity (svc_Spec c)))
           (IStr (svs_SessionAffinity (svc_Spec d))))
         (svs_SessionAffinity (svc_Spec c)) (svs_SessionAffinity (svc_Spec d)),
       svs_Type := pick (deq (IStr (svs_Type (svc_Spec c))) (IStr (svs_Type (svc_Spec d))))
         (svs_Type (svc_Spec c)) (svs_Type (svc_Spec d))\<rparr>,
     svc_Meta := (svc_Meta c)\<lparr>Annotations :=
       pick (deq (IMap (Annotations (svc_Meta c))) (IMap (Annotations (svc_Meta d))))
         (Annotations (svc_Meta c)) (Annotations (svc_Meta d))\<rparr>\<rparr>"

lemma expose_LoadBalancerIP:
  "svs_LoadBalancerIP (svc_Spec (expose deq ports c d)) = svs_LoadBalancerIP (svc_Spec c)"
  by (simp add: expose_def)

text \<open>A conditional assignment to a field as an unconditional one of a conditional value.\<close>

lemma set_if_service:
  "set_if (\<not> b) (upd_spec (\<lambda>s. s\<lparr>svs_Selector := x2\<rparr>)) (ch, u) =
     (\<not> b \<or> ch, upd_spec (\<lambda>s. s\<lparr>svs_Selector := pick b (svs_Selector (svc_Spec u)) x2\<rparr>) u)"
  "set_if (\<not> b) (upd_spec (\<lambda>s. s\<lparr>svs_SessionAffinity := x3\<rparr>)) (ch, u) =
     (\<not> b \<or> ch, upd_spec (\<lambda>s. s\<lparr>svs_SessionAffinity := pick b (svs_SessionAffinity (svc_Spec u)) x3\<rparr>) u)"
  "set_if (\<not> b) (upd_spec (\<lambda>s. s\<lparr>svs_Type := x3\<rparr>)) (ch, u) =
     (\<not> b \<or> ch, upd_spec (\<lambda>s. s\<lparr>svs_Type := pick b (svs_Type (svc_Spec u)) x3\<rparr>) u)"
  "set_if (\<not> b) (upd_spec (\<lambda>s. s\<lparr>svs_ExternalTrafficPolicy := x3\<rparr>)) (ch, u) =
     (\<not> b \<or> ch, upd_spec (\<lambda>s. s\<lparr>svs_ExternalTrafficPolicy :=
        pick b (svs_ExternalTrafficPolicy (svc_Spec u)) x3\<rparr>) u)"
  "set_if (\<not> b) (upd_spec (\<lambda>s. s\<lparr>svs_LoadBalancerIP := x3\<rparr>)) (ch, u) =
     (\<not> b \<or> ch, upd_spec (\<lambda>s. s\<lparr>svs_LoadBalancerIP := pick b (svs_LoadBalancerIP (svc_Spec u)) x3\<rparr>) u)"
  "set_if (\<not> b) (\<lambda>u. u\<lparr>svc_Meta := (svc_Meta u)\<lparr>Annotations := x2\<rparr>\<rparr>) (ch, u) =
     (\<not> b \<or> ch, u\<lparr>svc_Meta := (svc_Meta u)\<lparr>Annotations := pick b (Annotations (svc_Meta u)) x2\<rparr>\<rparr>)"
  by (cases b; simp add: pick_def)+

lemma upd_spec_ports_same: "upd_spec (\<lambda>s. s\<lparr>svs_Ports := svs_Ports (svc_Spec u)\<rparr>) u = u"
  by simp

lemma list_ex_zip_differ:
  "length ps = length es \<Longrightarrow>
   list_ex (\<lambda>(p, e). \<not> P p e) (zip ps es) \<longleftrightarrow> \<not> list_all2 P ps es"
  by (auto simp: list_ex_iff list_all2_iff)

text \<open>The tail both exposed services share, after the ports are settled.\<close>

lemma expose_tail:
  fixes ports :: "ServicePort list"
  defines "u0 c \<equiv> upd_spec (\<lambda>s. s\<lparr>svs_Ports := ports\<rparr>) c"
  shows "set_if (\<not> deq (IMap (Annotations (svc_Meta c))) (IMap (Annotations (svc_Meta d))))
      (\<lambda>u. u\<lparr>svc_Meta := (svc_Meta u)\<lparr>Annotations := Annotations (svc_Meta d)\<rparr>\<rparr>)
    (set_if (\<not> deq (IStr (svs_Type (svc_Spec c))) (IStr (svs_Type (svc_Spec d))))
      (upd_spec (\<lambda>s. s\<lparr>svs_Type := svs_Type (svc_Spec d)\<rparr>))
    (set_if (\<not> deq (IStr (svs_SessionAffinity (svc_Spec c))) (IStr (svs_SessionAffinity (svc_Spec d))))
      (upd_spec (\<lambda>s. s\<lparr>svs_SessionAffinity := svs_SessionAffinity (svc_Spec d)\<rparr>))
    (set_if (\<not> deq (IStr (svs_ExternalTrafficPolicy (svc_Spec c)))
        (IStr (svs_ExternalTrafficPolicy (svc_Spec d))))
      (upd_spec (\<lambda>s. s\<lparr>svs_ExternalTrafficPolicy := svs_ExternalTrafficPolicy (svc_Spec d)\<rparr>))
    (set_if (\<not> deq (IMap (svs_Selector (svc_Spec c))) (IMap (svs_Selector (svc_Spec d))))
      (upd_spec (\<lambda>s. s\<lparr>svs_Selector := svs_Selector (svc_Spec d)\<rparr>)) (ch, u0 c))))) =
    (ch \<or> \<not> exposed_agrees deq c d, expose deq ports c d)"
  by (auto simp add: set_if_service u0_def expose_def exposed_agrees_def)

definition nodeport_ports :: "(iface \<Rightarrow> iface \<Rightarrow> bool) \<Rightarrow> Service \<Rightarrow> Service \<Rightarrow> ServicePort list" where
  "nodeport_ports deq c d =
     pick (list_all2 (\<lambda>p e. deq (IServicePort p) (IServicePort e))
         (svs_Ports (svc_Spec c)) (svs_Ports (svc_Spec d)))
       (svs_Ports (svc_Spec c)) (svs_Ports (svc_Spec d))"

lemma nodeport_loop:
  assumes "length (svs_Ports (svc_Spec c)) \<le> length (svs_Ports (svc_Spec d))"
  shows "np_ports deq d (svs_Ports (svc_Spec c)) (svs_Ports (svc_Spec d))
      (set_if (length (svs_Ports (svc_Spec c)) \<noteq> length (svs_Ports (svc_Spec d)))
        (upd_spec (\<lambda>s. s\<lparr>svs_Ports := svs_Ports (svc_Spec d)\<rparr>)) (False, c)) =
    Ok (\<not> list_all2 (\<lambda>p e. deq (IServicePort p) (IServicePort e))
          (svs_Ports (svc_Spec c)) (svs_Ports (svc_Spec d)),
        upd_spec (\<lambda>s. s\<lparr>svs_Ports := nodeport_ports deq c d\<rparr>) c)"
  using assms
  by (cases "length (svs_Ports (svc_Spec c)) = length (svs_Ports (svc_Spec d))")
    (auto simp: np_ports_eq list_ex_zip_differ set_if_def nodeport_ports_def pick_def
      dest: list_all2_lengthD)

lemma nodeport_closed:
  assumes "length (svs_Ports (svc_Spec c)) \<le> length (svs_Ports (svc_Spec d))"
  shows "NodePortServiceChanged deq c d =
    Ok (updated_if (\<not> nodeport_agrees deq c d, expose deq (nodeport_ports deq c d) c d))"
  unfolding NodePortServiceChanged_def Let_def nodeport_loop [OF assms]
  by (simp add: expose_tail nodeport_agrees_def)

lemma nodeport_panic_iff:
  "NodePortServiceChanged deq c d = Panic \<longleftrightarrow>
     length (svs_Ports (svc_Spec d)) < length (svs_Ports (svc_Spec c))"
  by (cases "length (svs_Ports (svc_Spec d)) < length (svs_Ports (svc_Spec c))")
    (simp_all add: nodeport_closed NodePortServiceChanged_def np_ports_eq Let_def)

definition loadbalancer_ports :: "(iface \<Rightarrow> iface \<Rightarrow> bool) \<Rightarrow> Service \<Rightarrow> Service \<Rightarrow> ServicePort list" where
  "loadbalancer_ports deq c d =
     pick (length (svs_Ports (svc_Spec c)) = length (svs_Ports (svc_Spec d)))
       (snd (lb_ports deq (svs_Ports (svc_Spec c)) (svs_Ports (svc_Spec d))))
       (svs_Ports (svc_Spec d))"

lemma lb_ports_same: "\<not> fst (lb_ports deq ps es) \<Longrightarrow> snd (lb_ports deq ps es) = ps"
  by (induction deq ps es rule: lb_ports.induct)
    (auto simp: Let_def lb_port_unchanged lb_port_same)

lemma loadbalancer_closed:
  "LoadBalancerServiceChanged deq c d =
    updated_if (\<not> loadbalancer_agrees deq c d,
      upd_spec (\<lambda>s. s\<lparr>svs_LoadBalancerIP :=
          pick (deq (IStr (svs_LoadBalancerIP (svc_Spec c))) (IStr (svs_LoadBalancerIP (svc_Spec d))))
            (svs_LoadBalancerIP (svc_Spec c)) (svs_LoadBalancerIP (svc_Spec d))\<rparr>)
        (expose deq (loadbalancer_ports deq c d) c d))"
proof -
  let ?ps = "svs_Ports (svc_Spec c)" and ?es = "svs_Ports (svc_Spec d)"
  have start: "(if length ?ps \<noteq> length ?es
        then set_if True (upd_spec (\<lambda>s. s\<lparr>svs_Ports := ?es\<rparr>)) (False, c)
        else (case lb_ports deq ?ps ?es of (ch, ps) \<Rightarrow>
          set_if ch (upd_spec (\<lambda>s. s\<lparr>svs_Ports := ps\<rparr>)) (False, c))) =
      (\<not> list_all2 (port_agrees deq) ?ps ?es,
       upd_spec (\<lambda>s. s\<lparr>svs_Ports := loadbalancer_ports deq c d\<rparr>) c)"
    using lb_ports_unchanged [of ?ps ?es deq] lb_ports_same [of deq ?ps ?es]
    by (auto simp: loadbalancer_ports_def pick_def case_prod_beta set_if_def dest: list_all2_lengthD)
  show ?thesis
    unfolding LoadBalancerServiceChanged_def Let_def start
    unfolding expose_tail
    unfolding set_if_service
    by (rule arg_cong [where f = updated_if])
      (auto simp: loadbalancer_agrees_def expose_LoadBalancerIP)
qed

section \<open>Every comparison meets the contract\<close>

context deep_equal
begin

lemmas drift_simps = changed_defs agrees_defs pair_defs deq_refl

lemma lb_port_agrees: "port_agrees deq (snd (lb_port deq p e)) e"
  by (auto simp: lb_port_def port_agrees_def set_if_def Let_def deq_refl)

lemma lb_ports_agree:
  "length ps = length es \<Longrightarrow> list_all2 (port_agrees deq) (snd (lb_ports deq ps es)) es"
  by (induction rule: list_induct2) (auto simp: Let_def lb_port_agrees)

lemma port_agrees_refl: "port_agrees deq p p"
  by (simp add: port_agrees_def deq_refl)

lemma daemonset_drift: "drift_check (DaemonsetConfigChanged deq) (daemonset_agrees deq) dms_Meta"
  by unfold_locales (auto simp: drift_simps split: if_splits)

lemma deployment_drift: "drift_check (DeploymentConfigChanged deq) (deployment_agrees deq) dep_Meta"
  by unfold_locales (auto simp: drift_simps split: if_splits)

lemma job_drift: "drift_check (JobConfigChanged deq) (job_agrees deq) job_Meta"
  by unfold_locales (auto simp: drift_simps split: if_splits)

lemma namespace_drift: "drift_check (NamespaceConfigChanged deq) (namespace_agrees deq) ns_Meta"
  by unfold_locales (auto simp: drift_simps split: if_splits)

lemma serviceaccount_drift:
  "drift_check (ServiceAccountConfigChanged deq) (serviceaccount_agrees deq) sa_Meta"
  by unfold_locales (auto simp: drift_simps split: if_splits)

lemma clusterrole_drift: "drift_check (ClusterRoleConfigChanged deq) (clusterrole_agrees deq) cr_Meta"
  by unfold_locales (auto simp: drift_simps split: if_splits)

lemma role_drift: "drift_check (RoleConfigChanged deq) (role_agrees deq) role_Meta"
  by unfold_locales (auto simp: drift_simps split: if_splits)

lemma clusterrolebinding_drift:
  "drift_check (ClusterRoleBindingConfigChanged deq) (clusterrolebinding_agrees deq) crb_Meta"
  by unfold_locales (auto simp: drift_simps split: if_splits)

lemma rolebinding_drift: "drift_check (RoleBindingConfigChanged deq) (rolebinding_agrees deq) rb_Meta"
  by unfold_locales (auto simp: drift_simps split: if_splits)

lemma clusterip_drift: "drift_check (ClusterIPServiceChanged deq) (clusterip_agrees deq) svc_Meta"
  by unfold_locales (auto simp: drift_simps split: if_splits)

text \<open>The exposed fields of \<open>expose\<close> agree with the desired service.\<close>

lemma expose_agrees: "exposed_agrees deq (expose deq ports c d) d"
  by (simp add: exposed_agrees_def expose_def pick_def deq_refl)

lemma loadbalancer_drift:
  "drift_check (LoadBalancerServiceChanged deq) (loadbalancer_agrees deq) svc_Meta"
proof
  fix c d u :: Service
  show "LoadBalancerServiceChanged deq c d = None \<longleftrightarrow> loadbalancer_agrees deq c d"
    by (simp add: loadbalancer_closed updated_if_def)
  assume upd: "LoadBalancerServiceChanged deq c d = Some u"
  have "list_all2 (port_agrees deq) (loadbalancer_ports deq c d) (svs_Ports (svc_Spec d))"
    by (simp add: loadbalancer_ports_def pick_def lb_ports_agree list_all2_refl port_agrees_refl)
  with upd expose_agrees [of "loadbalancer_ports deq c d" c d]
  show "loadbalancer_agrees deq u d"
    by (auto simp: loadbalancer_closed updated_if_def loadbalancer_agrees_def exposed_agrees_def
        expose_def pick_def deq_refl split: if_splits)
  show "nsname (svc_Meta c) = nsname (svc_Meta d) \<Longrightarrow> nsname (svc_Meta u) = nsname (svc_Meta d)"
    and "Exist (svc_Meta c) m \<Longrightarrow> Exist (svc_Meta d) m \<Longrightarrow> Exist (svc_Meta u) m" for m
    using upd by (auto simp: loadbalancer_closed updated_if_def expose_def split: if_splits)
qed

lemma nodeport_settles:
  assumes "NodePortServiceChanged deq c d = Ok (Some u)"
  shows "NodePortServiceChanged deq u d = Ok None"
proof -
  from assms have len: "length (svs_Ports (svc_Spec c)) \<le> length (svs_Ports (svc_Spec d))"
    using nodeport_panic_iff [of deq c d] by force
  have u: "u = expose deq (nodeport_ports deq c d) c d"
    using assms by (simp add: nodeport_closed [OF len] updated_if_def split: if_splits)
  have ports: "svs_Ports (svc_Spec u) = nodeport_ports deq c d"
    by (simp add: u expose_def)
  have "list_all2 (\<lambda>p e. deq (IServicePort p) (IServicePort e))
      (nodeport_ports deq c d) (svs_Ports (svc_Spec d))"
    by (simp add: nodeport_ports_def pick_def list_all2_refl deq_refl)
  with expose_agrees ports have agrees: "nodeport_agrees deq u d"
    by (simp add: nodeport_agrees_def u)
  then have "length (svs_Ports (svc_Spec u)) \<le> length (svs_Ports (svc_Spec d))"
    by (auto simp: nodeport_agrees_def dest: list_all2_lengthD)
  with agrees show ?thesis by (simp add: nodeport_closed)
qed

end

section \<open>The contract, for every kind\<close>

sublocale deep_equal \<subseteq> ds: drift_check "DaemonsetConfigChanged deq" "daemonset_agrees deq" dms_Meta
  by (rule daemonset_drift)

sublocale deep_equal \<subseteq> dep: drift_check "DeploymentConfigChanged deq" "deployment_agrees deq" dep_Meta
  by (rule deployment_drift)

sublocale deep_equal \<subseteq> job: drift_check "JobConfigChanged deq" "job_agrees deq" job_Meta
  by (rule job_drift)

sublocale deep_equal \<subseteq> ns: drift_check "NamespaceConfigChanged deq" "namespace_agrees deq" ns_Meta
  by (rule namespace_drift)

sublocale deep_equal \<subseteq> sa: drift_check "ServiceAccountConfigChanged deq" "serviceaccount_agrees deq" sa_Meta
  by (rule serviceaccount_drift)

sublocale deep_equal \<subseteq> cr: drift_check "ClusterRoleConfigChanged deq" "clusterrole_agrees deq" cr_Meta
  by (rule clusterrole_drift)

sublocale deep_equal \<subseteq> ro: drift_check "RoleConfigChanged deq" "role_agrees deq" role_Meta
  by (rule role_drift)

sublocale deep_equal \<subseteq> crb: drift_check
    "ClusterRoleBindingConfigChanged deq" "clusterrolebinding_agrees deq" crb_Meta
  by (rule clusterrolebinding_drift)

sublocale deep_equal \<subseteq> rb: drift_check "RoleBindingConfigChanged deq" "rolebinding_agrees deq" rb_Meta
  by (rule rolebinding_drift)

sublocale deep_equal \<subseteq> cip: drift_check "ClusterIPServiceChanged deq" "clusterip_agrees deq" svc_Meta
  by (rule clusterip_drift)

sublocale deep_equal \<subseteq> lb: drift_check
    "LoadBalancerServiceChanged deq" "loadbalancer_agrees deq" svc_Meta
  by (rule loadbalancer_drift)

end
