(* ===== verification/Contracts.thy ===== *)
theory Contracts
  imports Retryable Drift
begin

text \<open>
  The contracts of the code outside the repository, and one model of each.

  \<^item> \<open>library\<close>: the library functions. \<open>std_lib\<close> meets it.
  \<^item> \<open>api_kind\<close>: the API server as seen through one \<open>kind_client\<close>: a view of the stored objects;
    a read returns what is stored and changes nothing; a write touches only the key of its
    object; a successful write stores what was sent up to admission; a failed write may or may
    not have happened. \<open>mem_client\<close> is a server in memory, with a script of faults, that meets it
    for every kind.
\<close>

section \<open>The library functions\<close>

locale library = deq: deep_equal "DeepEqual L" + poll: polling "PollImmediate L" +
    agg: aggregator "NewAggregate L" for L :: "'w lib" +
  assumes now_reads: "snd (run_state (Now L) w) = w"
    and not_found: "IsNotFound L e \<longleftrightarrow> Reason e = ''NotFound''"
begin

lemma keeps_now: "keeps I (Now L)"
  by (simp add: keeps_def now_reads)

end

definition std_lib :: "'w lib" where
  "std_lib = \<lparr>DeepEqual = semDeepEqual, IsNotFound = (\<lambda>e. Reason e = ''NotFound''),
     NewAggregate = aggregate_std, PollImmediate = poll_n, Now = ret 1700000000\<rparr>"

lemma std_lib_simps [simp]:
  "DeepEqual std_lib = semDeepEqual" "IsNotFound std_lib e \<longleftrightarrow> Reason e = ''NotFound''"
  "NewAggregate std_lib = aggregate_std" "PollImmediate std_lib = poll_n"
  "Now std_lib = ret 1700000000"
  by (simp_all add: std_lib_def)

interpretation std: library std_lib
  by unfold_locales
    (auto simp: semDeepEqual_iff poll_n_def poll_loop_laws Let_def
      simp del: poll_loop.simps split: list.split)

section \<open>One kind of object\<close>

locale api_kind =
  fixes kc :: "('w, 'o) kind_client"
    and meta :: "'o \<Rightarrow> ObjectMeta"
    and view :: "'w \<Rightarrow> NamespacedName \<Rightarrow> 'o option"
    and nf :: "api_error \<Rightarrow> bool"
    and adm :: "'o \<Rightarrow> 'o \<Rightarrow> bool"
  assumes get_reads: "view (snd (run_state (Get kc k) w)) = view w"
    and get_found: "fst (run_state (Get kc k) w) = Inr x \<Longrightarrow> view w k = Some x"
    and get_missing: "fst (run_state (Get kc k) w) = Inl e \<Longrightarrow> nf e \<Longrightarrow> view w k = None"
    and view_key: "view w k = Some x \<Longrightarrow> nsname (meta x) = k"
    and create_frame: "k \<noteq> nsname (meta x) \<Longrightarrow> view (snd (run_state (Create kc x) w)) k = view w k"
    and update_frame: "k \<noteq> nsname (meta x) \<Longrightarrow> view (snd (run_state (Update kc x) w)) k = view w k"
    and delete_frame: "k \<noteq> nsname (meta x) \<Longrightarrow> view (snd (run_state (Delete kc x) w)) k = view w k"
    and create_stores: "fst (run_state (Create kc x) w) = Inr y \<Longrightarrow>
      view (snd (run_state (Create kc x) w)) (nsname (meta x)) = Some y \<and> adm x y"
    and update_stores: "fst (run_state (Update kc x) w) = Inr y \<Longrightarrow>
      view (snd (run_state (Update kc x) w)) (nsname (meta x)) = Some y \<and> adm x y"
    and delete_removes: "fst (run_state (Delete kc x) w) = None \<or>
        (\<exists>e. fst (run_state (Delete kc x) w) = Some e \<and> nf e) \<Longrightarrow>
      (\<forall>y. view (snd (run_state (Delete kc x) w)) (nsname (meta x)) = Some y \<longrightarrow>
        DeletionTimestamp (meta y) \<noteq> None)"
    and adm_labels: "adm x y \<Longrightarrow> Labels (meta y) = Labels (meta x)"

section \<open>A server in memory\<close>

text \<open>A table is the list of the stored objects of a kind, each under the key in its metadata.\<close>

type_synonym 'o table = "'o list"

record mem =
  m_faults :: "string option list"
  m_sesames :: "Sesame table"
  m_namespaces :: "KNamespace table"
  m_serviceaccounts :: "ServiceAccount table"
  m_clusterroles :: "ClusterRole table"
  m_clusterrolebindings :: "ClusterRoleBinding table"
  m_roles :: "Role table"
  m_rolebindings :: "RoleBinding table"
  m_configmaps :: "ConfigMap table"
  m_jobs :: "Job table"
  m_deployments :: "Deployment table"
  m_daemonsets :: "DaemonSet table"
  m_services :: "Service table"

definition empty_mem :: mem where
  "empty_mem = \<lparr>m_faults = [], m_sesames = [], m_namespaces = [], m_serviceaccounts = [],
     m_clusterroles = [], m_clusterrolebindings = [], m_roles = [], m_rolebindings = [],
     m_configmaps = [], m_jobs = [], m_deployments = [], m_daemonsets = [], m_services = []\<rparr>"

definition lookup_obj :: "('o \<Rightarrow> ObjectMeta) \<Rightarrow> 'o table \<Rightarrow> NamespacedName \<Rightarrow> 'o option" where
  "lookup_obj meta t k = find (\<lambda>x. nsname (meta x) = k) t"

definition del_obj :: "('o \<Rightarrow> ObjectMeta) \<Rightarrow> NamespacedName \<Rightarrow> 'o table \<Rightarrow> 'o table" where
  "del_obj meta k t = filter (\<lambda>x. nsname (meta x) \<noteq> k) t"

definition put_obj :: "('o \<Rightarrow> ObjectMeta) \<Rightarrow> 'o \<Rightarrow> 'o table \<Rightarrow> 'o table" where
  "put_obj meta x t = x # del_obj meta (nsname (meta x)) t"

definition api_fail :: "string \<Rightarrow> string \<Rightarrow> api_error" where
  "api_fail reason msg = \<lparr>Reason = reason, Message = msg\<rparr>"

text \<open>The next fault of the script, if any, fails the call before it has an effect.\<close>

definition with_fault :: "(api_error \<Rightarrow> 'a) \<Rightarrow> (mem, 'a) state \<Rightarrow> (mem, 'a) state" where
  "with_fault fail m = State (\<lambda>w. case m_faults w of
       [] \<Rightarrow> run_state m w
     | None # fs \<Rightarrow> run_state m (w\<lparr>m_faults := fs\<rparr>)
     | Some msg # fs \<Rightarrow> (fail (api_fail ''InternalError'' msg), w\<lparr>m_faults := fs\<rparr>))"

text \<open>The calls on one table, given by its selector and its update.\<close>

definition mem_kind :: "(mem \<Rightarrow> 'o table) \<Rightarrow> (('o table \<Rightarrow> 'o table) \<Rightarrow> mem \<Rightarrow> mem) \<Rightarrow>
    ('o \<Rightarrow> ObjectMeta) \<Rightarrow> (mem, 'o) kind_client" where
  "mem_kind sel upd meta = \<lparr>
     Get = (\<lambda>k. with_fault Inl (State (\<lambda>w. (case lookup_obj meta (sel w) k of
         None \<Rightarrow> Inl (api_fail ''NotFound'' ''not found'') | Some x \<Rightarrow> Inr x, w)))),
     Create = (\<lambda>x. with_fault Inl (State (\<lambda>w. case lookup_obj meta (sel w) (nsname (meta x)) of
         None \<Rightarrow> (Inr x, upd (put_obj meta x) w)
       | Some _ \<Rightarrow> (Inl (api_fail ''AlreadyExists'' ''already exists''), w)))),
     Update = (\<lambda>x. with_fault Inl (State (\<lambda>w. case lookup_obj meta (sel w) (nsname (meta x)) of
         None \<Rightarrow> (Inl (api_fail ''NotFound'' ''not found''), w)
       | Some _ \<Rightarrow> (Inr x, upd (put_obj meta x) w)))),
     Delete = (\<lambda>x. with_fault Some (State (\<lambda>w. case lookup_obj meta (sel w) (nsname (meta x)) of
         None \<Rightarrow> (Some (api_fail ''NotFound'' ''not found''), w)
       | Some _ \<Rightarrow> (None, upd (del_obj meta (nsname (meta x))) w))))\<rparr>"

definition mem_client :: "mem client" where
  "mem_client = \<lparr>
     sesames = mem_kind m_sesames m_sesames_update Meta,
     list_sesames = with_fault Inl (State (\<lambda>w. (Inr (m_sesames w), w))),
     status_update = (\<lambda>s. with_fault Some (State (\<lambda>w. case lookup_obj Meta (m_sesames w) (nsname (Meta s)) of
         None \<Rightarrow> (Some (api_fail ''NotFound'' ''not found''), w)
       | Some t \<Rightarrow> (None, w\<lparr>m_sesames := put_obj Meta (t\<lparr>Status := Status s\<rparr>) (m_sesames w)\<rparr>)))),
     namespaces = mem_kind m_namespaces m_namespaces_update ns_Meta,
     serviceaccounts = mem_kind m_serviceaccounts m_serviceaccounts_update sa_Meta,
     clusterroles = mem_kind m_clusterroles m_clusterroles_update cr_Meta,
     clusterrolebindings = mem_kind m_clusterrolebindings m_clusterrolebindings_update crb_Meta,
     roles = mem_kind m_roles m_roles_update role_Meta,
     rolebindings = mem_kind m_rolebindings m_rolebindings_update rb_Meta,
     configmaps = mem_kind m_configmaps m_configmaps_update cm_Meta,
     jobs = mem_kind m_jobs m_jobs_update job_Meta,
     deployments = mem_kind m_deployments m_deployments_update dep_Meta,
     daemonsets = mem_kind m_daemonsets m_daemonsets_update dms_Meta,
     services = mem_kind m_services m_services_update svc_Meta\<rparr>"

lemma lookup_put [simp]:
  "lookup_obj meta (put_obj meta x t) k = (if nsname (meta x) = k then Some x else lookup_obj meta t k)"
  by (induction t) (auto simp: lookup_obj_def put_obj_def del_obj_def)

lemma lookup_del [simp]:
  "lookup_obj meta (del_obj meta j t) k = (if j = k then None else lookup_obj meta t k)"
  by (induction t) (auto simp: lookup_obj_def del_obj_def)

lemma lookup_key: "lookup_obj meta t k = Some x \<Longrightarrow> nsname (meta x) = k"
  by (auto simp: lookup_obj_def find_Some_iff)

text \<open>A selector and its update belong together, and the table is not the fault script.\<close>

definition table_lens :: "(mem \<Rightarrow> 'o table) \<Rightarrow> (('o table \<Rightarrow> 'o table) \<Rightarrow> mem \<Rightarrow> mem) \<Rightarrow> bool" where
  "table_lens sel upd \<longleftrightarrow> (\<forall>f w. sel (upd f w) = f (sel w)) \<and> (\<forall>g w. sel (m_faults_update g w) = sel w)"

lemma mem_kind_api:
  assumes "table_lens sel upd"
  shows "api_kind (mem_kind sel upd meta) meta (\<lambda>w. lookup_obj meta (sel w))
    (\<lambda>e. Reason e = ''NotFound'') (=)"
  using assms unfolding table_lens_def
  by unfold_locales
    (auto simp: mem_kind_def with_fault_def api_fail_def lookup_key
      split: list.splits option.splits)

lemma mem_kind_library:
  assumes "library L" and "table_lens sel upd"
  shows "api_kind (mem_kind sel upd meta) meta (\<lambda>w. lookup_obj meta (sel w)) (IsNotFound L) (=)"
proof -
  have "IsNotFound L = (\<lambda>e. Reason e = ''NotFound'')" using library.not_found [OF assms(1)] by (simp add: fun_eq_iff)
  then show ?thesis using mem_kind_api [OF assms(2)] by simp
qed

lemma table_lenses [simp]:
  "table_lens m_sesames m_sesames_update" "table_lens m_namespaces m_namespaces_update"
  "table_lens m_serviceaccounts m_serviceaccounts_update"
  "table_lens m_clusterroles m_clusterroles_update"
  "table_lens m_clusterrolebindings m_clusterrolebindings_update"
  "table_lens m_roles m_roles_update" "table_lens m_rolebindings m_rolebindings_update"
  "table_lens m_configmaps m_configmaps_update" "table_lens m_jobs m_jobs_update"
  "table_lens m_deployments m_deployments_update" "table_lens m_daemonsets m_daemonsets_update"
  "table_lens m_services m_services_update"
  by (simp_all add: table_lens_def)

lemma mem_client_kinds [simp]:
  "sesames mem_client = mem_kind m_sesames m_sesames_update Meta"
  "namespaces mem_client = mem_kind m_namespaces m_namespaces_update ns_Meta"
  "serviceaccounts mem_client = mem_kind m_serviceaccounts m_serviceaccounts_update sa_Meta"
  "clusterroles mem_client = mem_kind m_clusterroles m_clusterroles_update cr_Meta"
  "clusterrolebindings mem_client =
     mem_kind m_clusterrolebindings m_clusterrolebindings_update crb_Meta"
  "roles mem_client = mem_kind m_roles m_roles_update role_Meta"
  "rolebindings mem_client = mem_kind m_rolebindings m_rolebindings_update rb_Meta"
  "configmaps mem_client = mem_kind m_configmaps m_configmaps_update cm_Meta"
  "jobs mem_client = mem_kind m_jobs m_jobs_update job_Meta"
  "deployments mem_client = mem_kind m_deployments m_deployments_update dep_Meta"
  "daemonsets mem_client = mem_kind m_daemonsets m_daemonsets_update dms_Meta"
  "services mem_client = mem_kind m_services m_services_update svc_Meta"
  by (simp_all add: mem_client_def)

end
