(* ===== verification/Sesame_Obj.thy ===== *)
theory Sesame_Obj
  imports Drift
begin

text \<open>
  Package \<open>internal/objects/sesame\<close>: the custom resource itself. \<open>finalizer.go\<close> adds and removes
  the operator's finalizer; \<open>sesame.go\<close> builds a \<open>Sesame\<close> from a configuration, reads it, asks
  whether other Sesames exist, and names the owner labels every managed object carries.
\<close>

section \<open>Results of API calls\<close>

text \<open>\<open>if err := cli.Create(ctx, o); err != nil { return wrap(err) }; return nil\<close>, and the variant
  that returns the object.\<close>

fun call_res :: "(error \<Rightarrow> error) \<Rightarrow> api_error + 'o \<Rightarrow> unit res" where
  "call_res wrap (Inl e) = Err (wrap (ApiErr e))"
| "call_res wrap (Inr _) = Ok ()"

fun obj_res :: "(error \<Rightarrow> error) \<Rightarrow> api_error + 'o \<Rightarrow> 'o res" where
  "obj_res wrap (Inl e) = Err (wrap (ApiErr e))"
| "obj_res wrap (Inr x) = Ok x"

text \<open>\<open>if err := cli.Delete(ctx, o); err != nil { if IsNotFound(err) { return nil }; return wrap(err) }\<close>.\<close>

fun delete_res :: "(api_error \<Rightarrow> bool) \<Rightarrow> (error \<Rightarrow> error) \<Rightarrow> api_error option \<Rightarrow> unit res" where
  "delete_res nf wrap None = Ok ()"
| "delete_res nf wrap (Some e) = (if nf e then Ok () else Err (wrap (ApiErr e)))"

section \<open>finalizer.go\<close>

definition EnsureFinalizer :: "'w client \<Rightarrow> Sesame \<Rightarrow> ('w, unit res) state" where
  "EnsureFinalizer cli s =
     (if \<not> ContainsString (Finalizers (Meta s)) SesameFinalizer then do {
        let updated = s\<lparr>Meta := (Meta s)\<lparr>Finalizers := Finalizers (Meta s) @ [SesameFinalizer]\<rparr>\<rparr>;
        r \<leftarrow> Update (sesames cli) updated;
        ret (call_res (Wrapf ''failed to add finalizer %s to sesame %s/%s: %w''
               [SesameFinalizer, sesame_namespace s, sesame_name s]) r)
      } else ret (Ok ()))"

definition EnsureFinalizerRemoved :: "'w client \<Rightarrow> Sesame \<Rightarrow> ('w, unit res) state" where
  "EnsureFinalizerRemoved cli s =
     (if ContainsString (Finalizers (Meta s)) SesameFinalizer then do {
        let updated = s\<lparr>Meta := (Meta s)\<lparr>Finalizers :=
              RemoveString (Finalizers (Meta s)) SesameFinalizer\<rparr>\<rparr>;
        r \<leftarrow> Update (sesames cli) updated;
        ret (call_res (Wrapf ''failed to remove finalizer %s from sesame %s/%s: %w''
               [SesameFinalizer, sesame_namespace s, sesame_name s]) r)
      } else ret (Ok ()))"

section \<open>sesame.go\<close>

record Config =
  cfg_Name :: string
  cfg_Namespace :: string
  cfg_SpecNs :: string
  cfg_RemoveNs :: bool
  cfg_Replicas :: int32
  cfg_NetworkType :: NetworkPublishingType
  cfg_NodePorts :: "NodePort list option"
  cfg_GatewayControllerName :: "string option"
  cfg_EnableExternalNameService :: "bool option"

definition zero_ProviderLoadBalancerParameters :: ProviderLoadBalancerParameters where
  "zero_ProviderLoadBalancerParameters =
     \<lparr>prov_Type = [], prov_AWS = None, prov_Azure = None, prov_GCP = None\<rparr>"

definition New :: "Config \<Rightarrow> Sesame" where
  "New cfg =
     (let pub = \<lparr>pub_Type = cfg_NetworkType cfg,
            LoadBalancer = \<lparr>Scope = [], ProviderParameters = zero_ProviderLoadBalancerParameters\<rparr>,
            NodePorts = None,
            ContainerPorts =
              [\<lparr>ecp_Name = ''http'', ecp_PortNumber = 8080\<rparr>,
               \<lparr>ecp_Name = ''https'', ecp_PortNumber = 8443\<rparr>]\<rparr>;
          pub1 = (if cfg_NetworkType cfg = NodePortServicePublishingType \<and>
                     (case cfg_NodePorts cfg of None \<Rightarrow> 0 | Some ps \<Rightarrow> length ps) > 0
                  then pub\<lparr>NodePorts := cfg_NodePorts cfg\<rparr> else pub)
      in \<lparr>Meta = zero_ObjectMeta\<lparr>Namespace := cfg_Namespace cfg, Name := cfg_Name cfg\<rparr>,
          Spec = \<lparr>Replicas = cfg_Replicas cfg,
            SpecNamespace = \<lparr>nsp_Name = cfg_SpecNs cfg, RemoveOnDeletion = cfg_RemoveNs cfg\<rparr>,
            SpecNetworkPublishing = \<lparr>Envoy = pub1\<rparr>,
            GatewayClassRef = None,
            GatewayControllerName =
              (if cfg_GatewayControllerName cfg \<noteq> None then cfg_GatewayControllerName cfg else None),
            IngressClassName = None,
            SpecNodePlacement = None,
            EnableExternalNameService =
              (if cfg_EnableExternalNameService cfg \<noteq> None
               then cfg_EnableExternalNameService cfg else None)\<rparr>,
          Status = \<lparr>AvailableSesames = 0, AvailableEnvoys = 0, Conditions = []\<rparr>\<rparr>)"

definition CurrentSesame :: "'w client \<Rightarrow> string \<Rightarrow> string \<Rightarrow> ('w, Sesame res) state" where
  "CurrentSesame cli ns name = do {
     r \<leftarrow> Get (sesames cli) \<lparr>nn_Namespace = ns, nn_Name = name\<rparr>;
     ret (case r of Inl e \<Rightarrow> Err (ApiErr e) | Inr c \<Rightarrow> Ok c)
   }"

text \<open>The result is the flag and the list, which is nil when the flag is false.\<close>

definition OtherSesamesExist ::
    "'w client \<Rightarrow> Sesame \<Rightarrow> ('w, (bool \<times> Sesame list) res) state" where
  "OtherSesamesExist cli s = do {
     r \<leftarrow> list_sesames cli;
     ret (case r of
         Inl e \<Rightarrow> Err (Wrapf ''failed to list Sesames: %w'' [] (ApiErr e))
       | Inr items \<Rightarrow>
           (if length items = 0 \<or> length items = 1 \<and> sesame_name (items ! 0) = sesame_name s
            then Ok (False, [])
            else Ok (True, items)))
   }"

fun other_in_spec_ns :: "Sesame \<Rightarrow> Sesame list \<Rightarrow> bool" where
  "other_in_spec_ns s [] = False"
| "other_in_spec_ns s (c # cs) =
     (if sesame_name c = sesame_name s \<and> sesame_namespace c = sesame_namespace s
      then other_in_spec_ns s cs
      else if spec_ns c = spec_ns s then True
      else other_in_spec_ns s cs)"

definition OtherSesamesExistInSpecNs :: "'w client \<Rightarrow> Sesame \<Rightarrow> ('w, bool res) state" where
  "OtherSesamesExistInSpecNs cli s = do {
     r \<leftarrow> OtherSesamesExist cli s;
     ret (case r of
         Err e \<Rightarrow> Err e
       | Panic \<Rightarrow> Panic
       | Ok (exist, items) \<Rightarrow> (if exist then Ok (other_in_spec_ns s items) else Ok False))
   }"

definition OwningSelector :: "Sesame \<Rightarrow> LabelSelector" where
  "OwningSelector s = \<lparr>MatchLabels = Some
     [(OwningSesameNameLabel, sesame_name s), (OwningSesameNsLabel, sesame_namespace s)]\<rparr>"

definition OwnerLabels :: "Sesame \<Rightarrow> strmap" where
  "OwnerLabels s = Some
     [(OwningSesameNameLabel, sesame_name s), (OwningSesameNsLabel, sesame_namespace s)]"

text \<open>
  One node port per entry, in the order Go iterates; \<open>next\<close> is the address of the next allocation,
  and \<open>int32(v)\<close> keeps the low 32 bits.
\<close>

fun MakeNodePorts :: "nat \<Rightarrow> (string \<times> int64) list \<Rightarrow> NodePort list" where
  "MakeNodePorts next [] = []"
| "MakeNodePorts next ((k, v) # ports) =
     \<lparr>np_Name = k, np_PortNumber = Some (Ptr next (ucast v))\<rparr> # MakeNodePorts (Suc next) ports"

section \<open>Ownership\<close>

text \<open>The test the handlers make before they update or delete.\<close>

abbreviation owned_by :: "Sesame \<Rightarrow> ObjectMeta \<Rightarrow> bool" where
  "owned_by s m \<equiv> Exist m (OwnerLabels s)"

lemma owned_by_iff:
  "owned_by s m \<longleftrightarrow>
     map_lookup (Labels m) OwningSesameNameLabel = Some (sesame_name s) \<and>
     map_lookup (Labels m) OwningSesameNsLabel = Some (sesame_namespace s)"
  by (cases "Labels m") (auto simp: Exist_iff OwnerLabels_def)

lemma owned_by_OwnerLabels [simp]: "Labels m = OwnerLabels s \<Longrightarrow> owned_by s m"
  by (simp add: owned_by_iff) (simp add: OwnerLabels_def)

text \<open>An object has one owner.\<close>

lemma owned_by_unique:
  "owned_by s m \<Longrightarrow> owned_by t m \<Longrightarrow>
     sesame_name s = sesame_name t \<and> sesame_namespace s = sesame_namespace t"
  by (simp add: owned_by_iff)

section \<open>Facts about the operations\<close>

lemma other_in_spec_ns_iff:
  "other_in_spec_ns s cs \<longleftrightarrow>
     (\<exists>c \<in> set cs. (sesame_name c, sesame_namespace c) \<noteq> (sesame_name s, sesame_namespace s) \<and>
        spec_ns c = spec_ns s)"
  by (induction cs) auto

lemma run_list_based:
  "snd (run_state (OtherSesamesExist cli s) w) = snd (run_state (list_sesames cli) w)"
  "snd (run_state (OtherSesamesExistInSpecNs cli s) w) = snd (run_state (list_sesames cli) w)"
  by (auto simp: OtherSesamesExist_def OtherSesamesExistInSpecNs_def split: prod.splits)

lemma OtherSesamesExistInSpecNs_result:
  "fst (run_state (OtherSesamesExistInSpecNs cli s) w) =
     (case fst (run_state (list_sesames cli) w) of
        Inl e \<Rightarrow> Err (Wrapf ''failed to list Sesames: %w'' [] (ApiErr e))
      | Inr items \<Rightarrow> Ok (\<not> (length items = 1 \<and> sesame_name (items ! 0) = sesame_name s) \<and>
          other_in_spec_ns s items))"
  by (auto simp: OtherSesamesExist_def OtherSesamesExistInSpecNs_def split: prod.splits sum.splits)

lemma OtherSesamesExist_result:
  "fst (run_state (OtherSesamesExist cli s) w) =
     (case fst (run_state (list_sesames cli) w) of
        Inl e \<Rightarrow> Err (Wrapf ''failed to list Sesames: %w'' [] (ApiErr e))
      | Inr items \<Rightarrow> (if items = [] \<or> length items = 1 \<and> sesame_name (items ! 0) = sesame_name s
          then Ok (False, []) else Ok (True, items)))"
  by (auto simp: OtherSesamesExist_def split: prod.splits sum.splits)

text \<open>While the Sesame itself is listed, the short cut for a single item is exact.\<close>

lemma single_item_exact:
  assumes "c \<in> set items" and "sesame_name c = sesame_name s"
    and "sesame_namespace c = sesame_namespace s"
  shows "(\<not> (length items = 1 \<and> sesame_name (items ! 0) = sesame_name s) \<and> other_in_spec_ns s items)
     = other_in_spec_ns s items"
proof (cases "length items = 1")
  case True
  then obtain x where "items = [x]" by (auto simp: length_Suc_conv)
  with assms show ?thesis by simp
qed simp

end
