(* ===== verification/Net_IP.thy ===== *)
theory Net_IP
  imports Prelude
begin

text \<open>
  \<open>net.ParseIP\<close> of Go's standard library, which the validation of the load balancer address
  calls: a dotted quad without leading zeros, or an IPv6 address with at most one ellipsis and
  an optional dotted quad at the end. The result is the list of the bytes, four or sixteen.
\<close>

definition code :: "char \<Rightarrow> nat" where
  "code c = of_char c"

definition big :: nat where
  "big = 0xFFFFFF"

text \<open>\<open>dtoi\<close> and \<open>xtoi\<close>: the number read, the characters consumed, and success; \<open>n\<close> and \<open>i\<close> are
  the loop's variables.\<close>

fun dtoi :: "string \<Rightarrow> nat \<Rightarrow> nat \<Rightarrow> nat \<times> nat \<times> bool" where
  "dtoi [] n i = (if i = 0 then (0, 0, False) else (n, i, True))"
| "dtoi (c # s) n i =
     (if 48 \<le> code c \<and> code c \<le> 57
      then (let n' = n * 10 + (code c - 48)
            in if n' \<ge> big then (big, i, False) else dtoi s n' (Suc i))
      else if i = 0 then (0, 0, False) else (n, i, True))"

definition hex_digit :: "char \<Rightarrow> nat option" where
  "hex_digit c =
     (if 48 \<le> code c \<and> code c \<le> 57 then Some (code c - 48)
      else if 97 \<le> code c \<and> code c \<le> 102 then Some (code c - 97 + 10)
      else if 65 \<le> code c \<and> code c \<le> 70 then Some (code c - 65 + 10) else None)"

fun xtoi :: "string \<Rightarrow> nat \<Rightarrow> nat \<Rightarrow> nat \<times> nat \<times> bool" where
  "xtoi [] n i = (if i = 0 then (0, i, False) else (n, i, True))"
| "xtoi (c # s) n i = (case hex_digit c of
       None \<Rightarrow> (if i = 0 then (0, i, False) else (n, i, True))
     | Some d \<Rightarrow> (let n' = n * 16 + d
         in if n' \<ge> big then (0, i, False) else xtoi s n' (Suc i)))"

text \<open>One octet, and the loop over the four octets; \<open>first\<close> is the round \<open>i = 0\<close>.\<close>

fun octets :: "nat \<Rightarrow> bool \<Rightarrow> string \<Rightarrow> nat list option" where
  "octets 0 first s = (if s = [] then Some [] else None)"
| "octets (Suc k) first s =
     (if s = [] then None
      else if \<not> first \<and> hd s \<noteq> CHR ''.'' then None
      else (let t = (if first then s else tl s);
                (n, c, ok) = dtoi t 0 0
            in if \<not> ok \<or> n > 255 then None
               else if c > 1 \<and> hd t = CHR ''0'' then None
               else map_option (\<lambda>bs. n # bs) (octets k False (drop c t))))"

definition parseIPv4 :: "string \<Rightarrow> nat list option" where
  "parseIPv4 s = octets 4 True s"

text \<open>
  The loop of \<open>parseIPv6\<close>: \<open>bs\<close> are the bytes read so far (\<open>i\<close> is their number) and \<open>ell\<close> the
  position of the ellipsis. Its result is the bytes, the ellipsis and the rest of the input.
\<close>

fun groups :: "nat \<Rightarrow> nat list \<Rightarrow> nat option \<Rightarrow> string \<Rightarrow> (nat list \<times> nat option \<times> string) option" where
  "groups 0 bs ell s = Some (bs, ell, s)"
| "groups (Suc k) bs ell s =
     (if length bs \<ge> 16 then Some (bs, ell, s)
      else (let (n, c, ok) = xtoi s 0 0
            in if \<not> ok \<or> n > 0xFFFF then None
               else if c < length s \<and> s ! c = CHR ''.'' then
                 (if ell = None \<and> length bs \<noteq> 12 then None
                  else if length bs + 4 > 16 then None
                  else (case parseIPv4 s of None \<Rightarrow> None | Some q \<Rightarrow> Some (bs @ q, ell, [])))
               else (let bs' = bs @ [n div 256, n mod 256]; t = drop c s
                     in if t = [] then Some (bs', ell, [])
                        else if hd t \<noteq> CHR '':'' \<or> length t = 1 then None
                        else (let u = tl t
                              in if hd u = CHR '':'' then
                                   (if ell \<noteq> None then None
                                    else if tl u = [] then Some (bs', Some (length bs'), [])
                                    else groups k bs' (Some (length bs')) (tl u))
                                 else groups k bs' ell u))))"

definition parseIPv6 :: "string \<Rightarrow> nat list option" where
  "parseIPv6 s0 =
     (let lead = has_prefix s0 ''::'';
          s = (if lead then drop 2 s0 else s0)
      in if lead \<and> s = [] then Some (replicate 16 0)
         else (case groups 9 [] (if lead then Some 0 else None) s of
             None \<Rightarrow> None
           | Some (bs, ell, rest) \<Rightarrow>
               (if rest \<noteq> [] then None
                else if length bs < 16 then
                  (case ell of None \<Rightarrow> None
                   | Some e \<Rightarrow> Some (take e bs @ replicate (16 - length bs) 0 @ drop e bs))
                else if ell \<noteq> None then None
                else Some bs)))"

fun ParseIP_from :: "string \<Rightarrow> string \<Rightarrow> nat list option" where
  "ParseIP_from s [] = None"
| "ParseIP_from s (c # cs) =
     (if c = CHR ''.'' then parseIPv4 s
      else if c = CHR '':'' then parseIPv6 s
      else ParseIP_from s cs)"

definition ParseIP :: "string \<Rightarrow> nat list option" where
  "ParseIP s = ParseIP_from s s"

section \<open>Printed addresses are accepted\<close>

lemma code_digit [simp]:
  "d < 10 \<Longrightarrow> code (char_of (48 + d)) = 48 + d"
  by (simp add: code_def)

text \<open>Reading back the decimal digits of a number.\<close>

definition dec_value :: "nat \<Rightarrow> string \<Rightarrow> nat" where
  "dec_value n s = fold (\<lambda>c a. a * 10 + (code c - 48)) s n"

definition all_digits :: "string \<Rightarrow> bool" where
  "all_digits s \<longleftrightarrow> list_all (\<lambda>c. 48 \<le> code c \<and> code c \<le> 57) s"

lemma nat_digits_all: "all_digits (nat_digits n)"
  by (induction n rule: nat_digits.induct)
    (subst nat_digits.simps, auto simp: all_digits_def)

lemma nat_digits_value: "dec_value 0 (nat_digits n) = n"
proof (induction n rule: nat_digits.induct)
  case (1 n)
  show ?case
  proof (cases "n < 10")
    case True
    then show ?thesis by (subst nat_digits.simps) (simp add: dec_value_def)
  next
    case False
    then have "dec_value 0 (nat_digits n) =
        dec_value 0 (nat_digits (n div 10)) * 10 + n mod 10"
      by (subst nat_digits.simps) (simp add: dec_value_def)
    with 1 False show ?thesis by simp
  qed
qed

lemma dec_value_ge: "n \<le> dec_value n s"
  unfolding dec_value_def
proof (induction s arbitrary: n)
  case (Cons c s)
  have "n \<le> n * 10 + (code c - 48)" by simp
  also have "\<dots> \<le> fold (\<lambda>c a. a * 10 + (code c - 48)) s (n * 10 + (code c - 48))"
    by (rule Cons.IH)
  finally show ?case by simp
qed simp

lemma dtoi_digits:
  assumes "all_digits ds" and "dec_value n ds < big" and "i + length ds > 0"
    and "t = [] \<or> \<not> (48 \<le> code (hd t) \<and> code (hd t) \<le> 57)"
  shows "dtoi (ds @ t) n i = (dec_value n ds, i + length ds, True)"
  using assms
proof (induction ds arbitrary: n i)
  case Nil
  then show ?case by (cases t) (auto simp: dec_value_def)
next
  case (Cons c ds)
  let ?n = "n * 10 + (code c - 48)"
  have "dec_value ?n ds < big" using Cons.prems(2) by (simp add: dec_value_def)
  moreover from this have "?n < big" using dec_value_ge [of ?n ds] by simp
  ultimately show ?case using Cons by (simp add: all_digits_def dec_value_def Let_def)
qed

lemma nat_digits_nonempty [simp]: "nat_digits n \<noteq> []"
  by (subst nat_digits.simps) simp

lemma nat_digits_leading: "hd (nat_digits n) = CHR ''0'' \<Longrightarrow> n = 0"
proof (induction n rule: nat_digits.induct)
  case (1 n)
  show ?case
  proof (cases "n < 10")
    case True
    with 1(2) have "code (char_of (48 + n)) = code (CHR ''0'')"
      by (subst (asm) nat_digits.simps) simp
    with True show ?thesis by (simp only: code_digit) (simp add: code_def)
  next
    case False
    with 1(2) have "hd (nat_digits (n div 10)) = CHR ''0''"
      by (subst (asm) nat_digits.simps) (simp add: hd_append)
    with 1(1) False show ?thesis by simp
  qed
qed

lemma octets_step:
  assumes "n \<le> 255" and "t = [] \<or> \<not> (48 \<le> code (hd t) \<and> code (hd t) \<le> 57)"
  shows "octets (Suc k) True (nat_digits n @ t) = map_option (\<lambda>bs. n # bs) (octets k False t)"
    and "octets (Suc k) False (CHR ''.'' # nat_digits n @ t) =
      map_option (\<lambda>bs. n # bs) (octets k False t)"
proof -
  have "dtoi (nat_digits n @ t) 0 0 = (dec_value 0 (nat_digits n), 0 + length (nat_digits n), True)"
    using assms by (intro dtoi_digits) (auto simp: nat_digits_all nat_digits_value big_def)
  then have read: "dtoi (nat_digits n @ t) 0 0 = (n, length (nat_digits n), True)"
    by (simp add: nat_digits_value)
  have zero: "length (nat_digits n) > 1 \<Longrightarrow> hd (nat_digits n) \<noteq> CHR ''0''"
    using nat_digits_leading [of n] by (auto simp: nat_digits.simps [of 0])
  show "octets (Suc k) True (nat_digits n @ t) = map_option (\<lambda>bs. n # bs) (octets k False t)"
    "octets (Suc k) False (CHR ''.'' # nat_digits n @ t) =
      map_option (\<lambda>bs. n # bs) (octets k False t)"
    using read zero assms(1) by (auto simp: Let_def hd_append)
qed

lemma ParseIP_from_digits:
  "all_digits ds \<Longrightarrow> ParseIP_from s (ds @ CHR ''.'' # t) = parseIPv4 s"
  by (induction ds) (auto simp: all_digits_def code_def)

definition dotted :: "nat \<Rightarrow> nat \<Rightarrow> nat \<Rightarrow> nat \<Rightarrow> string" where
  "dotted a b c d = nat_digits a @ CHR ''.'' # nat_digits b @ CHR ''.'' # nat_digits c @
     CHR ''.'' # nat_digits d"

lemma ParseIP_dotted:
  assumes "a \<le> 255" "b \<le> 255" "c \<le> 255" "d \<le> 255"
  shows "ParseIP (dotted a b c d) = Some [a, b, c, d]"
proof -
  have "octets 4 True (dotted a b c d) = Some [a, b, c, d]"
    using assms octets_step(2) [of d "[]" 0]
    by (simp add: dotted_def eval_nat_numeral(2,3) octets_step code_def del: octets.simps(2))
  then show ?thesis
    by (simp add: ParseIP_def dotted_def ParseIP_from_digits nat_digits_all parseIPv4_def)
qed

lemma ParseIP_plain: "CHR ''.'' \<notin> set s \<Longrightarrow> CHR '':'' \<notin> set s \<Longrightarrow> ParseIP s = None"
proof -
  have "CHR ''.'' \<notin> set t \<Longrightarrow> CHR '':'' \<notin> set t \<Longrightarrow> ParseIP_from s t = None" for t
    by (induction t) auto
  then show "CHR ''.'' \<notin> set s \<Longrightarrow> CHR '':'' \<notin> set s \<Longrightarrow> ParseIP s = None"
    by (simp add: ParseIP_def)
qed

end
