(* ===== verification/Validation.thy ===== *)
theory Validation
  imports Sesame_Obj Net_IP
begin

text \<open>
  Package \<open>pkg/validation\<close>: the checks a Sesame must pass before the operator acts on it. A nil
  error is \<open>Ok ()\<close>; indexing past the end of the node ports is a panic.
\<close>

text \<open>\<open>numsFound\<close>, \<open>namesFound\<close>, \<open>httpFound\<close> and \<open>httpsFound\<close> are the variables of the loop.\<close>

fun container_ports_loop ::
    "ContainerPort list \<Rightarrow> int32 list \<Rightarrow> string list \<Rightarrow> bool \<Rightarrow> bool \<Rightarrow> unit res" where
  "container_ports_loop [] numsFound namesFound httpFound httpsFound =
     (if httpFound \<and> httpsFound then Ok ()
      else Err (Errorf ''http and https container ports are unspecified'' []))"
| "container_ports_loop (port # ports) numsFound namesFound httpFound httpsFound =
     (if length numsFound > 0 \<and> ContainsInt32 numsFound (ecp_PortNumber port)
      then Err (Errorf ''duplicate container port number %d'' [int32_str (ecp_PortNumber port)])
      else if length namesFound > 0 \<and> ContainsString namesFound (ecp_Name port)
      then Err (Errorf ''duplicate container port name %q'' [ecp_Name port])
      else container_ports_loop ports (numsFound @ [ecp_PortNumber port])
             (namesFound @ [ecp_Name port])
             (if ecp_Name port = ''http'' then True else httpFound)
             (if ecp_Name port = ''http'' then httpsFound
              else if ecp_Name port = ''https'' then True else httpsFound))"

definition validate_ContainerPorts :: "Sesame \<Rightarrow> unit res" where
  "validate_ContainerPorts s =
     container_ports_loop (ContainerPorts (envoy_pub s)) [] [] False False"

fun node_port_names :: "NodePort list \<Rightarrow> unit res" where
  "node_port_names [] = Ok ()"
| "node_port_names (p # ps) =
     (if np_Name p \<noteq> ''http'' \<and> np_Name p \<noteq> ''https''
      then Err (Errorf ''invalid port name %q; only \"http\" and \"https\" are supported'' [np_Name p])
      else node_port_names ps)"

text \<open>The numbers are compared as pointers.\<close>

fun same_pointer :: "'a ptr option \<Rightarrow> 'a ptr option \<Rightarrow> bool" where
  "same_pointer (Some p) (Some q) = (addr p = addr q)"
| "same_pointer None None = True"
| "same_pointer _ _ = False"

definition validate_NodePorts :: "Sesame \<Rightarrow> unit res" where
  "validate_NodePorts s = (case NodePorts (envoy_pub s) of
       None \<Rightarrow> Ok ()
     | Some ports \<Rightarrow> (case node_port_names ports of
           Err e \<Rightarrow> Err e
         | Panic \<Rightarrow> Panic
         | Ok _ \<Rightarrow>
             (if length ports < 2 then Panic
              else if np_Name (ports ! 0) = np_Name (ports ! 1)
              then Err (Errorf ''duplicate nodeport names detected'' [])
              else if np_PortNumber (ports ! 0) \<noteq> None \<and> np_PortNumber (ports ! 1) \<noteq> None
              then (if same_pointer (np_PortNumber (ports ! 0)) (np_PortNumber (ports ! 1))
                    then Err (Errorf ''duplicate nodeport port numbers detected'' [])
                    else Ok ())
              else Ok ())))"

definition wrong_address :: error where
  "wrong_address =
     Errorf ''wrong LoadBalancer address format, should be string with IPv4 or IPv6 format'' []"

definition azure_address :: "Sesame \<Rightarrow> string option" where
  "azure_address s = (case prov_Azure (lb_params s) of None \<Rightarrow> None | Some p \<Rightarrow> az_Address p)"

definition gcp_address :: "Sesame \<Rightarrow> string option" where
  "gcp_address s = (case prov_GCP (lb_params s) of None \<Rightarrow> None | Some p \<Rightarrow> gcp_Address p)"

definition validate_LoadBalancerAddress :: "Sesame \<Rightarrow> unit res" where
  "validate_LoadBalancerAddress s =
     (if prov_Type (lb_params s) = AzureLoadBalancerProvider \<and> azure_address s \<noteq> None
      then (case azure_address s of None \<Rightarrow> Ok ()
            | Some a \<Rightarrow> (if ParseIP a = None then Err wrong_address else Ok ()))
      else if prov_Type (lb_params s) = GCPLoadBalancerProvider \<and> gcp_address s \<noteq> None
      then (case gcp_address s of None \<Rightarrow> Ok ()
            | Some a \<Rightarrow> (if ParseIP a = None then Err wrong_address else Ok ()))
      else Ok ())"

definition validate_LoadBalancerProvider :: "Sesame \<Rightarrow> unit res" where
  "validate_LoadBalancerProvider s = (let p = lb_params s in
     if prov_Type p = AWSLoadBalancerProvider then
       (if prov_Azure p \<noteq> None \<or> prov_GCP p \<noteq> None
        then Err (Errorf ''aws provider chosen, other providers parameters should not be specified'' [])
        else Ok ())
     else if prov_Type p = AzureLoadBalancerProvider then
       (if prov_AWS p \<noteq> None \<or> prov_GCP p \<noteq> None
        then Err (Errorf ''azure provider chosen, other providers parameters should not be specified'' [])
        else Ok ())
     else if prov_Type p = GCPLoadBalancerProvider then
       (if prov_AWS p \<noteq> None \<or> prov_Azure p \<noteq> None
        then Err (Errorf ''gcp provider chosen, other providers parameters should not be specified'' [])
        else Ok ())
     else Ok ())"

text \<open>The checks after the one for other Sesames, in order.\<close>

fun seq_res :: "unit res \<Rightarrow> unit res \<Rightarrow> unit res" where
  "seq_res (Ok _) r = r"
| "seq_res (Err e) r = Err e"
| "seq_res Panic r = Panic"

definition validate_spec :: "Sesame \<Rightarrow> unit res" where
  "validate_spec s =
     seq_res (validate_ContainerPorts s)
       (seq_res (if pub_Type (envoy_pub s) = NodePortServicePublishingType
                 then validate_NodePorts s else Ok ())
         (if pub_Type (envoy_pub s) = LoadBalancerServicePublishingType
          then seq_res (validate_LoadBalancerAddress s) (validate_LoadBalancerProvider s)
          else Ok ()))"

definition validate_Sesame :: "'w client \<Rightarrow> Sesame \<Rightarrow> ('w, unit res) state" where
  "validate_Sesame cli s = do {
     r \<leftarrow> OtherSesamesExistInSpecNs cli s;
     ret (case r of
         Err e \<Rightarrow> Err (Wrapf ''failed to verify if other Sesames exist in namespace %s: %w'' [spec_ns s] e)
       | Panic \<Rightarrow> Panic
       | Ok exist \<Rightarrow>
           (if exist then Err (Errorf ''other Sesames exist in namespace %s'' [spec_ns s])
            else validate_spec s))
   }"

section \<open>What the checks decide\<close>

lemma seq_res_ok [simp]: "seq_res a b = Ok () \<longleftrightarrow> a = Ok () \<and> b = Ok ()"
  by (cases a) auto

lemma seq_res_panic [simp]: "seq_res a b = Panic \<longleftrightarrow> a = Panic \<or> a = Ok () \<and> b = Panic"
  by (cases a) auto

lemma container_ports_step:
  "container_ports_loop (p # ps) nums names h hs = Ok () \<longleftrightarrow>
     ecp_PortNumber p \<notin> set nums \<and> ecp_Name p \<notin> set names \<and>
     container_ports_loop ps (nums @ [ecp_PortNumber p]) (names @ [ecp_Name p])
       (h \<or> ecp_Name p = ''http'') (hs \<or> ecp_Name p = ''https'') = Ok ()"
proof -
  have "(if ecp_Name p = ''http'' then True else h) = (h \<or> ecp_Name p = ''http'')"
    "(if ecp_Name p = ''http'' then hs else if ecp_Name p = ''https'' then True else hs) =
      (hs \<or> ecp_Name p = ''https'')"
    by auto
  then show ?thesis by auto
qed

lemma container_ports_loop_ok:
  "container_ports_loop ports nums names h hs = Ok () \<longleftrightarrow>
     distinct (map ecp_PortNumber ports) \<and> set (map ecp_PortNumber ports) \<inter> set nums = {} \<and>
     distinct (map ecp_Name ports) \<and> set (map ecp_Name ports) \<inter> set names = {} \<and>
     (h \<or> ''http'' \<in> set (map ecp_Name ports)) \<and> (hs \<or> ''https'' \<in> set (map ecp_Name ports))"
proof (induction ports arbitrary: nums names h hs)
  case (Cons p ps)
  show ?case unfolding container_ports_step Cons by auto
qed auto

lemma container_ports_loop_no_panic: "container_ports_loop ports nums names h hs \<noteq> Panic"
  by (induction ports nums names h hs rule: container_ports_loop.induct) auto

lemma node_port_names_ok:
  "node_port_names ps = Ok () \<longleftrightarrow> (\<forall>p \<in> set ps. np_Name p \<in> {''http'', ''https''})"
  by (induction ps) auto

lemma node_port_names_cases:
  "\<exists>e. node_port_names ps =
     (if list_all (\<lambda>p. np_Name p = ''http'' \<or> np_Name p = ''https'') ps then Ok () else Err e)"
  by (induction ps) auto

lemma node_port_names_no_panic: "node_port_names ps \<noteq> Panic"
  by (induction ps) auto

end
