(* ===== verification/Objects_Util.thy ===== *)
theory Objects_Util
  imports Sesame_Obj
begin

text \<open>
  What the object packages share: \<open>internal/config\<close> (the operator's configuration and its
  defaults), \<open>internal/objects/object.go\<close>, \<open>internal/objects/sharedconfig\<close>,
  \<open>internal/intstr\<close>, the resource names of \<open>internal/objects/rbac.go\<close>, and \<open>filepath.Join\<close>
  of Go's standard library.
\<close>

section \<open>internal/config\<close>

definition DefaultSesameImage :: string where
  "DefaultSesameImage = ''ghcr.io/projectsesame/sesame:main''"

definition DefaultEnvoyImage :: string where
  "DefaultEnvoyImage = ''docker.io/envoyproxy/envoy:v1.20.1''"

definition DefaultMetricsAddr :: string where
  "DefaultMetricsAddr = '':8080''"

definition DefaultEnableLeaderElection :: bool where
  "DefaultEnableLeaderElection = False"

definition DefaultEnableLeaderElectionID :: string where
  "DefaultEnableLeaderElectionID = ''0d879e31.projectsesame.io''"

record OperatorConfig =
  op_SesameImage :: string
  op_EnvoyImage :: string
  op_MetricsBindAddress :: string
  op_LeaderElection :: bool
  op_LeaderElectionID :: string

definition NewOperatorConfig :: OperatorConfig where
  "NewOperatorConfig = \<lparr>op_SesameImage = DefaultSesameImage, op_EnvoyImage = DefaultEnvoyImage,
     op_MetricsBindAddress = DefaultMetricsAddr, op_LeaderElection = DefaultEnableLeaderElection,
     op_LeaderElectionID = DefaultEnableLeaderElectionID\<rparr>"

section \<open>Ports and names\<close>

definition XDSPort :: int32 where
  "XDSPort = 8001"

definition EnvoyInsecureContainerPort :: int32 where
  "EnvoyInsecureContainerPort = 8080"

definition EnvoySecureContainerPort :: int32 where
  "EnvoySecureContainerPort = 8443"

definition SesameRbacName :: string where
  "SesameRbacName = ''sesame''"

definition EnvoyRbacName :: string where
  "EnvoyRbacName = ''envoy''"

definition CertGenRbacName :: string where
  "CertGenRbacName = ''sesame-certgen''"

lemma rbac_names_distinct [simp]:
  "SesameRbacName \<noteq> EnvoyRbacName" "SesameRbacName \<noteq> CertGenRbacName"
  "EnvoyRbacName \<noteq> SesameRbacName" "EnvoyRbacName \<noteq> CertGenRbacName"
  "CertGenRbacName \<noteq> SesameRbacName" "CertGenRbacName \<noteq> EnvoyRbacName"
  by (simp_all add: SesameRbacName_def EnvoyRbacName_def CertGenRbacName_def)

section \<open>object.go and intstr.go\<close>

definition NewUnprivilegedPodSecurity :: PodSecurityContext where
  "NewUnprivilegedPodSecurity = \<lparr>RunAsUser = Some 65534, RunAsGroup = Some 65534,
     RunAsNonRoot = Some True\<rparr>"

definition TagFromImage :: "string \<Rightarrow> string" where
  "TagFromImage img =
     (if contains_str img '':'' then (let parsed = split_on (CHR '':'') img in parsed ! 1)
      else [])"

definition PointerTo :: "IntOrString \<Rightarrow> IntOrString option" where
  "PointerTo ios = Some ios"

section \<open>filepath.Join\<close>

text \<open>
  \<open>Join\<close> joins the non-empty elements with a slash and cleans the result: empty and \<open>.\<close> parts
  disappear, \<open>..\<close> removes the part before it.
\<close>

fun clean_parts :: "bool \<Rightarrow> string list \<Rightarrow> string list \<Rightarrow> string list" where
  "clean_parts rooted acc [] = rev acc"
| "clean_parts rooted acc (p # ps) =
     (if p = [] \<or> p = ''.'' then clean_parts rooted acc ps
      else if p = ''..'' then
        (case acc of
           [] \<Rightarrow> clean_parts rooted (if rooted then [] else [p]) ps
         | a # as \<Rightarrow> clean_parts rooted (if a = ''..'' then p # acc else as) ps)
      else clean_parts rooted (p # acc) ps)"

definition path_clean :: "string \<Rightarrow> string" where
  "path_clean s =
     (let rooted = has_prefix s ''/'';
          body = join_with ''/'' (clean_parts rooted [] (split_on (CHR ''/'') s))
      in if rooted then CHR ''/'' # body else if body = [] then ''.'' else body)"

definition path_join :: "string list \<Rightarrow> string" where
  "path_join elems =
     (let es = filter (\<lambda>e. e \<noteq> []) elems
      in if es = [] then [] else path_clean (join_with ''/'' es))"

lemma path_join_examples:
  "path_join [''/'', ''certs'', ''ca.crt''] = ''/certs/ca.crt''"
  "path_join [''/'', ''config''] = ''/config''"
  by (simp_all add: path_join_def path_clean_def)

lemma digit_chars [simp]:
  "char_of (48 :: nat) = CHR ''0''" "char_of (49 :: nat) = CHR ''1''"
  "char_of (50 :: nat) = CHR ''2''" "char_of (51 :: nat) = CHR ''3''"
  "char_of (52 :: nat) = CHR ''4''" "char_of (53 :: nat) = CHR ''5''"
  "char_of (54 :: nat) = CHR ''6''" "char_of (55 :: nat) = CHR ''7''"
  "char_of (56 :: nat) = CHR ''8''" "char_of (57 :: nat) = CHR ''9''"
  by (simp_all add: char_of_eq_iff)

lemma XDSPort_str: "int32_str XDSPort = ''8001''"
  by (simp add: XDSPort_def int32_str_def int_str_def nat_digits.simps)

section \<open>The tag of an image\<close>

lemma TagFromImage_no_colon: "CHR '':'' \<notin> set img \<Longrightarrow> TagFromImage img = []"
  by (simp add: TagFromImage_def contains_char_iff)

lemma TagFromImage_colon:
  assumes "CHR '':'' \<notin> set a"
  shows "TagFromImage (a @ CHR '':'' # b) = hd (split_on (CHR '':'') b)"
  using assms
  by (cases "split_on (CHR '':'') b")
    (simp_all add: TagFromImage_def contains_char_iff split_on_append)

end
