(* ===== verification/Configmap_Obj.thy ===== *)
theory Configmap_Obj
  imports Objects_Util
begin

text \<open>
  Package \<open>internal/objects/configmap\<close>: the ConfigMap that holds Sesame's configuration file. The
  template is kept line by line (\<open>template_head\<close>, \<open>template_middle\<close>, \<open>template_tail\<close> around its
  two conditional sections), and \<open>render\<close> is its execution on a \<open>sesameConfig\<close>. The package's
  \<open>current\<close>, \<open>desired\<close>, \<open>create\<close> and \<open>updateIfNeeded\<close> have the prefix \<open>configmap_\<close> here.
\<close>

section \<open>The template\<close>

definition SesameConfigMapName :: string where
  "SesameConfigMapName = ''sesame''"

abbreviation nl :: char where "nl \<equiv> CHR 0x0A"
abbreviation dq :: char where "dq \<equiv> CHR 0x22"
abbreviation sq :: char where "sq \<equiv> CHR 0x27"

definition template_head :: "string list" where
  "template_head = [
     ''#'',
     ''# server:'',
     ''#   determine which XDS Server implementation to utilize in Sesame.'',
     ''#   xds-server-type: sesame'',
     ''#'',
     ''# Specify the Gateway API configuration.'']"

definition template_middle :: "string list" where
  "template_middle = [
     ''#'',
     ''# should sesame expect to be running inside a k8s cluster'',
     ''# incluster: true'',
     ''#'',
     ''# path to kubeconfig (if not running inside a k8s cluster)'',
     ''# kubeconfig: /path/to/.kube/config'',
     ''#'',
     ''# Disable RFC-compliant behavior to strip '' @ [dq] @ ''Content-Length'' @ [dq] @ '' header if'',
     ''# '' @ [dq] @ ''Tranfer-Encoding: chunked'' @ [dq] @ '' is also set.'',
     ''# disableAllowChunkedLength: false'',
     ''# Disable HTTPProxy permitInsecure field'',
     ''disablePermitInsecure: false'',
     ''tls:'',
     ''# minimum TLS version that Sesame will negotiate'',
     ''# minimum-protocol-version: '' @ [dq] @ ''1.2'' @ [dq],
     ''# TLS ciphers to be supported by Envoy TLS listeners when negotiating'',
     ''# TLS 1.2.'',
     ''# cipher-suites:'',
     ''# - '' @ [sq] @ ''[ECDHE-ECDSA-AES128-GCM-SHA256|ECDHE-ECDSA-CHACHA20-POLY1305]'' @ [sq],
     ''# - '' @ [sq] @ ''[ECDHE-RSA-AES128-GCM-SHA256|ECDHE-RSA-CHACHA20-POLY1305]'' @ [sq],
     ''# - '' @ [sq] @ ''ECDHE-ECDSA-AES256-GCM-SHA384'' @ [sq],
     ''# - '' @ [sq] @ ''ECDHE-RSA-AES256-GCM-SHA384'' @ [sq],
     ''# Defines the Kubernetes name/namespace matching a secret to use'',
     ''# as the fallback certificate when requests which don'' @ [sq] @ ''t match the'',
     ''# SNI defined for a vhost.'',
     ''  fallback-certificate:'',
     ''#   name: fallback-secret-name'',
     ''#   namespace: projectsesame'',
     ''  envoy-client-certificate:'',
     ''#   name: envoy-client-cert-secret-name'',
     ''#   namespace: projectsesame'',
     ''# The following config shows the defaults for the leader election.'',
     ''# leaderelection:'',
     ''#   configmap-name: leader-elect'',
     ''#   configmap-namespace: projectsesame'',
     ''####'',
     ''# ExternalName Services are disabled by default due to CVE-2021-XXXXX'',
     ''# You can re-enable them by setting this setting to '' @ [dq] @ ''true'' @ [dq] @ ''.'',
     ''# This is not recommended without understanding the security implications.'',
     ''# Please see the advisory at https://github.com/projectsesame/sesame/security/advisories/GHSA-5ph6-qq5x-7jwc for the details.'']"

definition template_tail :: "string list" where
  "template_tail = [
     ''##'',
     ''### Logging options'',
     ''# Default setting'',
     ''accesslog-format: envoy'',
     ''# To enable JSON logging in Envoy'',
     ''# accesslog-format: json'',
     ''# The default fields that will be logged are specified below.'',
     ''# To customize this list, just add or remove entries.'',
     ''# The canonical list is available at'',
     ''# https://godoc.org/github.com/projectsesame/sesame/internal/envoy#JSONFields'',
     ''# json-fields:'',
     ''#   - '' @ [dq] @ ''@timestamp'' @ [dq],
     ''#   - '' @ [dq] @ ''authority'' @ [dq],
     ''#   - '' @ [dq] @ ''bytes_received'' @ [dq],
     ''#   - '' @ [dq] @ ''bytes_sent'' @ [dq],
     ''#   - '' @ [dq] @ ''downstream_local_address'' @ [dq],
     ''#   - '' @ [dq] @ ''downstream_remote_address'' @ [dq],
     ''#   - '' @ [dq] @ ''duration'' @ [dq],
     ''#   - '' @ [dq] @ ''method'' @ [dq],
     ''#   - '' @ [dq] @ ''path'' @ [dq],
     ''#   - '' @ [dq] @ ''protocol'' @ [dq],
     ''#   - '' @ [dq] @ ''request_id'' @ [dq],
     ''#   - '' @ [dq] @ ''requested_server_name'' @ [dq],
     ''#   - '' @ [dq] @ ''response_code'' @ [dq],
     ''#   - '' @ [dq] @ ''response_flags'' @ [dq],
     ''#   - '' @ [dq] @ ''uber_trace_id'' @ [dq],
     ''#   - '' @ [dq] @ ''upstream_cluster'' @ [dq],
     ''#   - '' @ [dq] @ ''upstream_host'' @ [dq],
     ''#   - '' @ [dq] @ ''upstream_local_address'' @ [dq],
     ''#   - '' @ [dq] @ ''upstream_service_time'' @ [dq],
     ''#   - '' @ [dq] @ ''user_agent'' @ [dq],
     ''#   - '' @ [dq] @ ''x_forwarded_for'' @ [dq],
     ''#'',
     ''# default-http-versions:'',
     ''# - '' @ [dq] @ ''HTTP/2'' @ [dq],
     ''# - '' @ [dq] @ ''HTTP/1.1'' @ [dq],
     ''#'',
     ''# The following shows the default proxy timeout settings.'',
     ''# timeouts:'',
     ''#   request-timeout: infinity'',
     ''#   connection-idle-timeout: 60s'',
     ''#   stream-idle-timeout: 5m'',
     ''#   max-connection-duration: infinity'',
     ''#   delayed-close-timeout: 1s'',
     ''#   connection-shutdown-grace-period: 5s'',
     ''#'',
     ''# Envoy cluster settings.'',
     ''# cluster:'',
     ''#   configure the cluster dns lookup family'',
     ''#   valid options are: auto (default), v4, v6'',
     ''#   dns-lookup-family: auto'',
     ''#'',
     ''# Envoy network settings.'',
     ''# network:'',
     ''#   Configure the number of additional ingress proxy hops from the'',
     ''#   right side of the x-forwarded-for HTTP header to trust.'',
     ''#   num-trusted-hops: 0'']"

record sesameConfig =
  sc_GatewayControllerName :: string
  sc_EnableExternalNameService :: bool

record configMapParams =
  cmp_Namespace :: string
  cmp_Name :: string
  cmp_Labels :: strmap
  cmp_Sesame :: sesameConfig

definition render :: "sesameConfig \<Rightarrow> string" where
  "render c =
     join_with [nl] template_head @
     (if sc_GatewayControllerName c \<noteq> []
      then nl # ''gateway:'' @ nl # ''  controllerName: '' @ sc_GatewayControllerName c
      else nl # ''# gateway:'' @ nl # ''#   controllerName: projectsesame.io/projectsesame/sesame'') @
     nl # join_with [nl] template_middle @
     (if sc_EnableExternalNameService c
      then nl # ''enableExternalNameService: true''
      else nl # ''# enableExternalNameService: false'') @
     nl # join_with [nl] template_tail @ [nl]"

section \<open>Operations\<close>

definition configForSesame :: "Sesame \<Rightarrow> configMapParams" where
  "configForSesame s =
     (let cfg0 = \<lparr>cmp_Namespace = spec_ns s, cmp_Name = SesameConfigMapName,
            cmp_Labels = OwnerLabels s,
            cmp_Sesame = \<lparr>sc_GatewayControllerName = [], sc_EnableExternalNameService = False\<rparr>\<rparr>;
          cfg1 = (case GatewayControllerName (Spec s) of None \<Rightarrow> cfg0
            | Some n \<Rightarrow> cfg0\<lparr>cmp_Sesame := \<lparr>sc_GatewayControllerName = n,
                sc_EnableExternalNameService = False\<rparr>\<rparr>)
      in (case EnableExternalNameService (Spec s) of None \<Rightarrow> cfg1
            | Some b \<Rightarrow> cfg1\<lparr>cmp_Sesame := (cmp_Sesame cfg1)\<lparr>sc_EnableExternalNameService := b\<rparr>\<rparr>))"

text \<open>Executing the template on a string and a flag into a buffer cannot fail.\<close>

definition configmap_desired :: "configMapParams \<Rightarrow> ConfigMap res" where
  "configmap_desired cfg = Ok \<lparr>
     cm_Meta = zero_ObjectMeta\<lparr>Name := cmp_Name cfg, Namespace := cmp_Namespace cfg,
       Labels := cmp_Labels cfg\<rparr>,
     cm_Data = Some [(''sesame.yaml'', render (cmp_Sesame cfg))]\<rparr>"

definition configmap_current :: "'w client \<Rightarrow> configMapParams \<Rightarrow> ('w, api_error + ConfigMap) state" where
  "configmap_current cli cfg =
     Get (configmaps cli) \<lparr>nn_Namespace = cmp_Namespace cfg, nn_Name = cmp_Name cfg\<rparr>"

definition configmap_create :: "'w client \<Rightarrow> ConfigMap \<Rightarrow> ('w, unit res) state" where
  "configmap_create cli cm = do {
     r \<leftarrow> Create (configmaps cli) cm;
     ret (call_res (Wrapf ''failed to create configmap %s/%s: %w''
       [Namespace (cm_Meta cm), Name (cm_Meta cm)]) r)
   }"

definition cfgMapChanged ::
    "(iface \<Rightarrow> iface \<Rightarrow> bool) \<Rightarrow> ConfigMap \<Rightarrow> ConfigMap \<Rightarrow> ConfigMap option" where
  "cfgMapChanged deq current expected = updated_if
     (set_if (\<not> deq (IMap (cm_Data current)) (IMap (cm_Data expected)))
        (\<lambda>u. u\<lparr>cm_Data := cm_Data expected\<rparr>) (False, current))"

definition configmap_updateIfNeeded :: "'w lib \<Rightarrow> 'w client \<Rightarrow> configMapParams \<Rightarrow> ConfigMap \<Rightarrow>
    ConfigMap \<Rightarrow> ('w, unit res) state" where
  "configmap_updateIfNeeded L cli cfg current desired =
     (if Exist (cm_Meta current) (cmp_Labels cfg) then
        (case cfgMapChanged (DeepEqual L) current desired of
           None \<Rightarrow> ret (Ok ())
         | Some updated \<Rightarrow> do {
             r \<leftarrow> Update (configmaps cli) updated;
             ret (call_res (Wrapf ''failed to update configmap: %w'' []) r)
           })
      else ret (Ok ()))"

definition EnsureConfigMap :: "'w lib \<Rightarrow> 'w client \<Rightarrow> Sesame \<Rightarrow> ('w, unit res) state" where
  "EnsureConfigMap L cli s = (let cfg = configForSesame s in
     case configmap_desired cfg of
       Err e \<Rightarrow> ret (Err (Wrapf ''failed to build configmap: %w'' [] e))
     | Panic \<Rightarrow> ret Panic
     | Ok desired \<Rightarrow> (let args = [Namespace (cm_Meta desired), Name (cm_Meta desired)] in do {
         r \<leftarrow> configmap_current cli cfg;
         case r of
           Inl e \<Rightarrow>
             (if IsNotFound L e then configmap_create cli desired
              else ret (Err (Wrapf ''failed to get configmap %s/%s: %w'' args (ApiErr e))))
         | Inr current \<Rightarrow> do {
             u \<leftarrow> configmap_updateIfNeeded L cli cfg current desired;
             ret (map_err (Wrapf ''failed to update configmap %s/%s: %w'' args) u)
           }
       }))"

definition EnsureConfigMapDeleted :: "'w lib \<Rightarrow> 'w client \<Rightarrow> Sesame \<Rightarrow> ('w, unit res) state" where
  "EnsureConfigMapDeleted L cli s = (let cfg = configForSesame s in do {
     r \<leftarrow> configmap_current cli cfg;
     case r of
       Inl e \<Rightarrow> (if IsNotFound L e then ret (Ok ()) else ret (Err (ApiErr e)))
     | Inr cfgMap \<Rightarrow>
         (if Exist (cm_Meta cfgMap) (cmp_Labels cfg) then do {
            d \<leftarrow> Delete (configmaps cli) cfgMap;
            ret (delete_res (IsNotFound L) id d)
          } else ret (Ok ()))
   })"

section \<open>Facts\<close>

lemma configForSesame_simps [simp]:
  "cmp_Labels (configForSesame s) = OwnerLabels s"
  "cmp_Namespace (configForSesame s) = spec_ns s"
  "cmp_Name (configForSesame s) = SesameConfigMapName"
  by (simp_all add: configForSesame_def Let_def split: option.splits)

lemma configForSesame_config [simp]:
  "sc_GatewayControllerName (cmp_Sesame (configForSesame s)) =
     (case GatewayControllerName (Spec s) of None \<Rightarrow> [] | Some n \<Rightarrow> n)"
  "sc_EnableExternalNameService (cmp_Sesame (configForSesame s)) \<longleftrightarrow>
     EnableExternalNameService (Spec s) = Some True"
  by (auto simp: configForSesame_def Let_def split: option.splits)

lemma configmap_desired_ok:
  "configmap_desired cfg = Ok cm \<Longrightarrow> Labels (cm_Meta cm) = cmp_Labels cfg \<and>
     nsname (cm_Meta cm) = \<lparr>nn_Namespace = cmp_Namespace cfg, nn_Name = cmp_Name cfg\<rparr> \<and>
     cm_Data cm = Some [(''sesame.yaml'', render (cmp_Sesame cfg))]"
  by (auto simp: configmap_desired_def nsname_def)

definition configmap_agrees :: "(iface \<Rightarrow> iface \<Rightarrow> bool) \<Rightarrow> ConfigMap \<Rightarrow> ConfigMap \<Rightarrow> bool" where
  "configmap_agrees deq c e \<longleftrightarrow> deq (IMap (cm_Data c)) (IMap (cm_Data e))"

context deep_equal
begin

lemma configmap_drift: "drift_check (cfgMapChanged deq) (configmap_agrees deq) cm_Meta"
  by unfold_locales
    (auto simp: cfgMapChanged_def configmap_agrees_def updated_if_def set_if_def deq_refl
      nsname_def split: if_splits)

end

sublocale deep_equal \<subseteq> cm: drift_check "cfgMapChanged deq" "configmap_agrees deq" cm_Meta
  by (rule configmap_drift)

section \<open>The settings of the rendered file\<close>

lemma join_with_append:
  "xs \<noteq> [] \<Longrightarrow> ys \<noteq> [] \<Longrightarrow> join_with sep (xs @ ys) = join_with sep xs @ sep @ join_with sep ys"
proof (induction sep xs rule: join_with.induct)
  case (2 sep x)
  then show ?case by (cases ys) auto
qed auto

lemma split_join:
  "ls \<noteq> [] \<Longrightarrow> list_all (\<lambda>l. c \<notin> set l) ls \<Longrightarrow> split_on c (join_with [c] ls) = ls"
  by (induction "[c]" ls rule: join_with.induct) (auto simp: split_on_absent split_on_append)

text \<open>The lines of a configuration file that are neither empty nor comments.\<close>

definition is_setting :: "string \<Rightarrow> bool" where
  "is_setting l \<longleftrightarrow> l \<noteq> [] \<and> \<not> has_prefix l ''#''"

definition settings :: "string \<Rightarrow> string list" where
  "settings s = filter is_setting (split_on nl s)"

text \<open>A controller name is inserted as it is: when it has several lines, each is a line of the file.\<close>

definition gateway_lines :: "string \<Rightarrow> string list" where
  "gateway_lines n = (if n \<noteq> [] then ''gateway:'' # (''  controllerName: '' @ hd (split_on nl n)) # tl (split_on nl n)
     else [''# gateway:'', ''#   controllerName: projectsesame.io/projectsesame/sesame''])"

definition externalname_lines :: "bool \<Rightarrow> string list" where
  "externalname_lines b = (if b then [''enableExternalNameService: true'']
     else [''# enableExternalNameService: false''])"

lemma template_nonempty [simp]:
  "template_head \<noteq> []" "template_middle \<noteq> []" "template_tail \<noteq> []"
  by (simp_all add: template_head_def template_middle_def template_tail_def)

lemma gateway_join: "n \<noteq> [] \<Longrightarrow> join_with [nl] (gateway_lines n) = ''gateway:'' @ nl # ''  controllerName: '' @ n"
  using join_split [of nl n] by (cases "split_on nl n"; cases "tl (split_on nl n)") (auto simp: gateway_lines_def)

lemma gateway_lines_nonempty [simp]: "gateway_lines n \<noteq> []"
  by (simp add: gateway_lines_def)

lemma render_lines:
  "render c = join_with [nl] (template_head @ gateway_lines (sc_GatewayControllerName c) @
     template_middle @ externalname_lines (sc_EnableExternalNameService c) @ template_tail @ [[]])"
  using gateway_join [of "sc_GatewayControllerName c"]
  by (cases "sc_GatewayControllerName c = []")
    (simp_all add: render_def join_with_append externalname_lines_def, simp add: gateway_lines_def)

lemma template_lines_one_line:
  "list_all (\<lambda>l. nl \<notin> set l) template_head"
  "list_all (\<lambda>l. nl \<notin> set l) template_middle"
  "list_all (\<lambda>l. nl \<notin> set l) template_tail"
  by (simp_all add: template_head_def template_middle_def template_tail_def)

lemma template_settings:
  "filter is_setting template_head = []"
  "filter is_setting template_middle =
     [''disablePermitInsecure: false'', ''tls:'', ''  fallback-certificate:'',
      ''  envoy-client-certificate:'']"
  "filter is_setting template_tail = [''accesslog-format: envoy'']"
  by (simp_all add: template_head_def template_middle_def template_tail_def is_setting_def)

lemma gateway_lines_one_line: "list_all (\<lambda>l. nl \<notin> set l) (gateway_lines n)"
proof -
  have "list_all (\<lambda>l. nl \<notin> set l) (split_on nl n)" by (rule split_on_free)
  then show ?thesis by (cases "split_on nl n") (simp_all add: gateway_lines_def)
qed

lemma render_settings:
  "settings (render c) =
     (if sc_GatewayControllerName c \<noteq> []
      then ''gateway:'' # (''  controllerName: '' @ hd (split_on nl (sc_GatewayControllerName c))) #
        filter is_setting (tl (split_on nl (sc_GatewayControllerName c))) else []) @
     [''disablePermitInsecure: false'', ''tls:'', ''  fallback-certificate:'',
      ''  envoy-client-certificate:''] @
     (if sc_EnableExternalNameService c then [''enableExternalNameService: true''] else []) @
     [''accesslog-format: envoy'']"
proof -
  have "split_on nl (render c) = template_head @ gateway_lines (sc_GatewayControllerName c) @
     template_middle @ externalname_lines (sc_EnableExternalNameService c) @ template_tail @ [[]]"
    by (simp add: render_lines split_join template_lines_one_line gateway_lines_one_line externalname_lines_def)
  then show ?thesis
    by (simp add: settings_def template_settings gateway_lines_def externalname_lines_def is_setting_def)
qed

end
