(* ===== verification/Deployment_Obj.thy ===== *)
theory Deployment_Obj
  imports Configmap_Obj
begin

text \<open>
  Package \<open>internal/objects/deployment\<close>: Sesame's Deployment. \<open>DesiredDeployment\<close> is the whole
  object the operator wants; \<open>EnsureDeployment\<close> creates it, deletes it when the selectors differ
  (the next reconciliation creates it again), or updates it when it is owned and drifted.
\<close>

section \<open>Constants\<close>

definition SesameDeploymentName :: string where
  "SesameDeploymentName = ''sesame''"

definition SesameContainerName :: string where
  "SesameContainerName = ''sesame''"

definition SesameNsEnvVar :: string where
  "SesameNsEnvVar = ''Sesame_NAMESPACE''"

definition SesamePodEnvVar :: string where
  "SesamePodEnvVar = ''POD_NAME''"

definition SesameCertsVolName :: string where
  "SesameCertsVolName = ''Sesamecert''"

definition SesameCertsVolMntDir :: string where
  "SesameCertsVolMntDir = ''certs''"

definition SesameCertsSecretName :: string where
  "SesameCertsSecretName = SesameCertsVolName"

definition SesameCfgVolName :: string where
  "SesameCfgVolName = ''sesame-config''"

definition SesameCfgVolMntDir :: string where
  "SesameCfgVolMntDir = ''config''"

definition SesameCfgFileName :: string where
  "SesameCfgFileName = ''sesame.yaml''"

definition metricsPort :: int32 where
  "metricsPort = 8000"

definition debugPort :: int32 where
  "debugPort = 6060"

section \<open>The desired object\<close>

definition SesameDeploymentPodSelector :: LabelSelector where
  "SesameDeploymentPodSelector = \<lparr>MatchLabels = Some [(''app'', ''sesame'')]\<rparr>"

definition makeDeploymentLabels :: "Sesame \<Rightarrow> strmap" where
  "makeDeploymentLabels s = Some
     [(''app.kubernetes.io/name'', ''sesame''),
      (''app.kubernetes.io/instance'', sesame_name s),
      (''app.kubernetes.io/component'', ''ingress-controller''),
      (''app.kubernetes.io/managed-by'', ''sesame-operator''),
      (OwningSesameNameLabel, sesame_name s),
      (OwningSesameNsLabel, sesame_namespace s)]"

text \<open>The loop over the container ports that appends the flags for non-default ports.\<close>

fun port_args :: "ContainerPort list \<Rightarrow> string list \<Rightarrow> string list" where
  "port_args [] args = args"
| "port_args (port # ports) args = port_args ports
     (if ecp_Name port = ''http'' \<and> ecp_PortNumber port \<noteq> EnvoyInsecureContainerPort
      then args @ [''--envoy-service-http-port='' @ int32_str (ecp_PortNumber port)]
      else if ecp_Name port = ''https'' \<and> ecp_PortNumber port \<noteq> EnvoySecureContainerPort
      then args @ [''--envoy-service-https-port='' @ int32_str (ecp_PortNumber port)]
      else args)"

definition deployment_args :: "Sesame \<Rightarrow> string list" where
  "deployment_args s =
     (let args = [''serve'', ''--incluster'', ''--xds-address=0.0.0.0'',
            ''--xds-port='' @ int32_str XDSPort,
            ''--sesame-cafile='' @ path_join [''/'', SesameCertsVolMntDir, ''ca.crt''],
            ''--sesame-cert-file='' @ path_join [''/'', SesameCertsVolMntDir, ''tls.crt''],
            ''--sesame-key-file='' @ path_join [''/'', SesameCertsVolMntDir, ''tls.key''],
            ''--config-path='' @ path_join [''/'', SesameCfgVolMntDir, SesameCfgFileName]];
          args = port_args (ContainerPorts (envoy_pub s)) args
      in (case IngressClassName (Spec s) of None \<Rightarrow> args
          | Some n \<Rightarrow> args @ [''--ingress-class-name='' @ n]))"

definition sesame_container :: "Sesame \<Rightarrow> string \<Rightarrow> Container" where
  "sesame_container s img = zero_Container\<lparr>
     c_Name := SesameContainerName,
     c_Image := img,
     c_ImagePullPolicy := ''IfNotPresent'',
     c_Command := [''sesame''],
     c_Args := deployment_args s,
     c_Env := [
       \<lparr>env_Name = SesameNsEnvVar, env_APIVersion = ''v1'', env_FieldPath = ''metadata.namespace''\<rparr>,
       \<lparr>env_Name = SesamePodEnvVar, env_APIVersion = ''v1'', env_FieldPath = ''metadata.name''\<rparr>],
     c_Ports := [
       \<lparr>cp_Name = ''xds'', cp_ContainerPort = XDSPort, cp_Protocol = ''TCP''\<rparr>,
       \<lparr>cp_Name = ''metrics'', cp_ContainerPort = metricsPort, cp_Protocol = ''TCP''\<rparr>,
       \<lparr>cp_Name = ''debug'', cp_ContainerPort = debugPort, cp_Protocol = ''TCP''\<rparr>],
     c_LivenessProbe := Some \<lparr>
       pr_Handler = zero_Handler\<lparr>h_HTTPGet := Some \<lparr>http_Scheme = ''HTTP'',
         http_Path = ''/healthz'', http_Port = IntVal metricsPort\<rparr>\<rparr>,
       pr_InitialDelaySeconds = 0, pr_TimeoutSeconds = 1, pr_PeriodSeconds = 10,
       pr_SuccessThreshold = 1, pr_FailureThreshold = 3\<rparr>,
     c_ReadinessProbe := Some \<lparr>
       pr_Handler = zero_Handler\<lparr>h_TCPSocket := Some (IntVal XDSPort)\<rparr>,
       pr_InitialDelaySeconds = 15, pr_TimeoutSeconds = 1, pr_PeriodSeconds = 10,
       pr_SuccessThreshold = 1, pr_FailureThreshold = 3\<rparr>,
     c_TerminationMessagePath := ''/dev/termination-log'',
     c_TerminationMessagePolicy := ''File'',
     c_VolumeMounts := [
       \<lparr>vm_Name = SesameCertsVolName, vm_MountPath = path_join [''/'', SesameCertsVolMntDir],
        vm_ReadOnly = True\<rparr>,
       \<lparr>vm_Name = SesameCfgVolName, vm_MountPath = path_join [''/'', SesameCfgVolMntDir],
        vm_ReadOnly = True\<rparr>]\<rparr>"

text \<open>\<open>Spec.NodePlacement.Sesame\<close>, read under the guards that make it non-nil.\<close>

definition sesame_placement :: "Sesame \<Rightarrow> SesameNodePlacement option" where
  "sesame_placement s = (case SpecNodePlacement (Spec s) of None \<Rightarrow> None
     | Some np \<Rightarrow> npl_Sesame np)"

definition deployment_podspec :: "Sesame \<Rightarrow> string \<Rightarrow> PodSpec" where
  "deployment_podspec s img =
     (let spec = zero_PodSpec\<lparr>
            ps_PodAntiAffinity := [\<lparr>pa_Weight = 100, pa_TopologyKey = ''kubernetes.io/hostname'',
              pa_LabelSelector = Some \<lparr>MatchLabels = MatchLabels SesameDeploymentPodSelector\<rparr>\<rparr>],
            ps_Containers := [sesame_container s img],
            ps_Volumes := [
              \<lparr>v_Name = SesameCertsVolName,
               v_Source = SecretSource SesameCertsSecretName (Some 420)\<rparr>,
              \<lparr>v_Name = SesameCfgVolName,
               v_Source = ConfigMapSource SesameConfigMapName
                 [(SesameCfgFileName, SesameCfgFileName)] (Some 420)\<rparr>],
            ps_DNSPolicy := ''ClusterFirst'',
            ps_DeprecatedServiceAccount := SesameRbacName,
            ps_ServiceAccountName := SesameRbacName,
            ps_RestartPolicy := ''Always'',
            ps_SchedulerName := ''default-scheduler'',
            ps_SecurityContext := Some NewUnprivilegedPodSecurity,
            ps_TerminationGracePeriodSeconds := Some 30\<rparr>;
          spec = (case sesame_placement s of
              Some p \<Rightarrow> (if SesameNodeSelectorExists s
                then spec\<lparr>ps_NodeSelector := snp_NodeSelector p\<rparr> else spec)
            | None \<Rightarrow> spec)
      in (case sesame_placement s of
              Some p \<Rightarrow> (if SesameTolerationsExist s
                then spec\<lparr>ps_Tolerations := snp_Tolerations p\<rparr> else spec)
            | None \<Rightarrow> spec))"

definition DesiredDeployment :: "Sesame \<Rightarrow> string \<Rightarrow> Deployment" where
  "DesiredDeployment s img = \<lparr>
     dep_Meta = zero_ObjectMeta\<lparr>Namespace := spec_ns s, Name := SesameDeploymentName,
       Labels := makeDeploymentLabels s\<rparr>,
     dep_Spec = \<lparr>
       ds_Replicas = Some (Replicas (Spec s)),
       ds_Selector = Some SesameDeploymentPodSelector,
       ds_Template = \<lparr>
         pt_Annotations = Some [(''prometheus.io/scrape'', ''true''),
                                (''prometheus.io/port'', int32_str metricsPort)],
         pt_Labels = MatchLabels SesameDeploymentPodSelector,
         pt_Spec = deployment_podspec s img\<rparr>,
       ds_StrategyType = ''RollingUpdate'',
       ds_MaxSurge = PointerTo (StrVal ''50%''),
       ds_MaxUnavailable = PointerTo (StrVal ''25%''),
       ds_RevisionHistoryLimit = Some 10,
       ds_ProgressDeadlineSeconds = Some 600,
       ds_Unset = []\<rparr>,
     dep_AvailableReplicas = 0,
     dep_Conditions = []\<rparr>"

section \<open>Handlers\<close>

definition CurrentDeployment :: "'w client \<Rightarrow> Sesame \<Rightarrow> ('w, api_error + Deployment) state" where
  "CurrentDeployment cli s =
     Get (deployments cli) \<lparr>nn_Namespace = spec_ns s, nn_Name = SesameDeploymentName\<rparr>"

definition createDeployment :: "'w client \<Rightarrow> Deployment \<Rightarrow> ('w, unit res) state" where
  "createDeployment cli deploy = do {
     r \<leftarrow> Create (deployments cli) deploy;
     ret (call_res (Wrapf ''failed to create deployment %s/%s: %w''
       [Namespace (dep_Meta deploy), Name (dep_Meta deploy)]) r)
   }"

definition updateDeploymentIfNeeded ::
    "'w lib \<Rightarrow> 'w client \<Rightarrow> Sesame \<Rightarrow> Deployment \<Rightarrow> Deployment \<Rightarrow> ('w, unit res) state" where
  "updateDeploymentIfNeeded L cli s current desired =
     (if Exist (dep_Meta current) (OwnerLabels s) then
        (case DeploymentConfigChanged (DeepEqual L) current desired of
           Some deploy \<Rightarrow> do {
             r \<leftarrow> Update (deployments cli) deploy;
             ret (call_res (Wrapf ''failed to update deployment %s/%s: %w''
               [Namespace (dep_Meta deploy), Name (dep_Meta deploy)]) r)
           }
         | None \<Rightarrow> ret (Ok ()))
      else ret (Ok ()))"

definition EnsureDeploymentDeleted :: "'w lib \<Rightarrow> 'w client \<Rightarrow> Sesame \<Rightarrow> ('w, unit res) state" where
  "EnsureDeploymentDeleted L cli s = do {
     r \<leftarrow> CurrentDeployment cli s;
     case r of
       Inl e \<Rightarrow> (if IsNotFound L e then ret (Ok ()) else ret (Err (ApiErr e)))
     | Inr deploy \<Rightarrow>
         (if Exist (dep_Meta deploy) (OwnerLabels s) then do {
            d \<leftarrow> Delete (deployments cli) deploy;
            ret (delete_res (IsNotFound L) id d)
          } else ret (Ok ()))
   }"

text \<open>
  An error of the read other than \<open>NotFound\<close> is not returned: the code falls through with a nil
  \<open>current\<close>, whose \<open>Spec\<close> the comparison of the selectors dereferences.
\<close>

definition EnsureDeployment ::
    "'w lib \<Rightarrow> 'w client \<Rightarrow> Sesame \<Rightarrow> string \<Rightarrow> ('w, unit res) state" where
  "EnsureDeployment L cli s img = (let desired = DesiredDeployment s img;
       args = [Namespace (dep_Meta desired), Name (dep_Meta desired)] in do {
     r \<leftarrow> CurrentDeployment cli s;
     case r of
       Inl e \<Rightarrow>
         (if IsNotFound L e then do {
            c \<leftarrow> createDeployment cli desired;
            ret (map_err (Wrapf ''failed to create deployment %s/%s: %w'' args) c)
          } else ret Panic)
     | Inr current \<Rightarrow>
         (if DeploymentSelectorsDiffer (DeepEqual L) current desired
          then EnsureDeploymentDeleted L cli s
          else do {
            u \<leftarrow> updateDeploymentIfNeeded L cli s current desired;
            ret (map_err (Wrapf ''failed to update deployment %s/%s: %w'' args) u)
          })
   })"

section \<open>Facts\<close>

lemma DesiredDeployment_owned [simp]: "owned_by s (dep_Meta (DesiredDeployment s img))"
  by (simp add: DesiredDeployment_def makeDeploymentLabels_def owned_by_iff const_defs)

lemma DesiredDeployment_key [simp]:
  "nsname (dep_Meta (DesiredDeployment s img)) =
     \<lparr>nn_Namespace = spec_ns s, nn_Name = SesameDeploymentName\<rparr>"
  by (simp add: DesiredDeployment_def nsname_def zero_ObjectMeta_def)

text \<open>Each port contributes at most one flag, in the order of the ports.\<close>

definition port_flag :: "ContainerPort \<Rightarrow> string list" where
  "port_flag p =
     (if ecp_Name p = ''http'' \<and> ecp_PortNumber p \<noteq> 8080
      then [''--envoy-service-http-port='' @ int32_str (ecp_PortNumber p)] else []) @
     (if ecp_Name p = ''https'' \<and> ecp_PortNumber p \<noteq> 8443
      then [''--envoy-service-https-port='' @ int32_str (ecp_PortNumber p)] else [])"

lemma port_args_flags: "port_args ports args = args @ concat (map port_flag ports)"
  by (induction ports args rule: port_args.induct)
    (simp_all add: port_flag_def EnvoyInsecureContainerPort_def EnvoySecureContainerPort_def)

lemma deployment_args_closed:
  "deployment_args s =
     [''serve'', ''--incluster'', ''--xds-address=0.0.0.0'', ''--xds-port=8001'',
      ''--sesame-cafile=/certs/ca.crt'', ''--sesame-cert-file=/certs/tls.crt'',
      ''--sesame-key-file=/certs/tls.key'', ''--config-path=/config/sesame.yaml''] @
     concat (map port_flag (ContainerPorts (envoy_pub s))) @
     (case IngressClassName (Spec s) of None \<Rightarrow> [] | Some n \<Rightarrow> [''--ingress-class-name='' @ n])"
  by (simp add: deployment_args_def port_args_flags XDSPort_str SesameCertsVolMntDir_def
      SesameCfgVolMntDir_def SesameCfgFileName_def path_join_def path_clean_def
      split: option.split)

end
