(* ===== verification/Daemonset_Obj.thy ===== *)
theory Daemonset_Obj
  imports Objects_Util
begin

text \<open>
  Package \<open>internal/objects/daemonset\<close>: Envoy's DaemonSet. Three containers share the volumes: the
  shutdown manager, Envoy itself, and the init container that writes Envoy's bootstrap file.
\<close>

section \<open>Constants\<close>

definition envoyDaemonSetName :: string where
  "envoyDaemonSetName = ''envoy''"

definition EnvoyContainerName :: string where
  "EnvoyContainerName = ''envoy''"

definition ShutdownContainerName :: string where
  "ShutdownContainerName = ''shutdown-manager''"

definition envoyInitContainerName :: string where
  "envoyInitContainerName = ''envoy-initconfig''"

definition envoyNsEnvVar :: string where
  "envoyNsEnvVar = ''Sesame_NAMESPACE''"

definition envoyPodEnvVar :: string where
  "envoyPodEnvVar = ''ENVOY_POD_NAME''"

definition envoyCertsVolName :: string where
  "envoyCertsVolName = ''envoycert''"

definition envoyCertsVolMntDir :: string where
  "envoyCertsVolMntDir = ''certs''"

definition envoyCertsSecretName :: string where
  "envoyCertsSecretName = envoyCertsVolName"

definition envoyCfgVolName :: string where
  "envoyCfgVolName = ''envoy-config''"

definition envoyCfgVolMntDir :: string where
  "envoyCfgVolMntDir = ''config''"

definition envoyAdminVolName :: string where
  "envoyAdminVolName = ''envoy-admin''"

definition envoyAdminVolMntDir :: string where
  "envoyAdminVolMntDir = ''admin''"

definition envoyCfgFileName :: string where
  "envoyCfgFileName = ''envoy.json''"

definition xdsResourceVersion :: string where
  "xdsResourceVersion = ''v3''"

section \<open>The desired object\<close>

definition EnvoyDaemonSetPodSelector :: LabelSelector where
  "EnvoyDaemonSetPodSelector = \<lparr>MatchLabels = Some [(''app'', ''envoy'')]\<rparr>"

definition daemonset_labels :: "Sesame \<Rightarrow> strmap" where
  "daemonset_labels s = Some
     [(''app.kubernetes.io/name'', ''sesame''),
      (''app.kubernetes.io/instance'', sesame_name s),
      (''app.kubernetes.io/component'', ''ingress-controller''),
      (''app.kubernetes.io/managed-by'', ''sesame-operator''),
      (OwningSesameNsLabel, sesame_namespace s),
      (OwningSesameNameLabel, sesame_name s)]"

text \<open>The loop that appends one container port per port of the spec.\<close>

fun daemonset_ports :: "ContainerPort list \<Rightarrow> K8sContainerPort list \<Rightarrow> K8sContainerPort list" where
  "daemonset_ports [] ports = ports"
| "daemonset_ports (port # rest) ports = daemonset_ports rest
     (ports @ [\<lparr>cp_Name = ecp_Name port, cp_ContainerPort = ecp_PortNumber port,
        cp_Protocol = ''TCP''\<rparr>])"

definition shutdown_container :: "string \<Rightarrow> Container" where
  "shutdown_container SesameImage = zero_Container\<lparr>
     c_Name := ShutdownContainerName,
     c_Image := SesameImage,
     c_ImagePullPolicy := ''IfNotPresent'',
     c_Command := [''/bin/sesame''],
     c_Args := [''envoy'', ''shutdown-manager''],
     c_LivenessProbe := Some \<lparr>
       pr_Handler = zero_Handler\<lparr>h_HTTPGet := Some \<lparr>http_Scheme = ''HTTP'',
         http_Path = ''/healthz'', http_Port = IntVal 8090\<rparr>\<rparr>,
       pr_InitialDelaySeconds = 3, pr_TimeoutSeconds = 1, pr_PeriodSeconds = 10,
       pr_SuccessThreshold = 1, pr_FailureThreshold = 3\<rparr>,
     c_PreStop := Some (zero_Handler\<lparr>h_Exec := Some [''/bin/sesame'', ''envoy'', ''shutdown'']\<rparr>),
     c_TerminationMessagePolicy := ''File'',
     c_TerminationMessagePath := ''/dev/termination-log'',
     c_VolumeMounts := [
       \<lparr>vm_Name = envoyAdminVolName, vm_MountPath = path_join [''/'', envoyAdminVolMntDir],
        vm_ReadOnly = False\<rparr>]\<rparr>"

definition envoy_container :: "Sesame \<Rightarrow> string \<Rightarrow> Container" where
  "envoy_container s envoyImage = zero_Container\<lparr>
     c_Name := EnvoyContainerName,
     c_Image := envoyImage,
     c_ImagePullPolicy := ''IfNotPresent'',
     c_Command := [''envoy''],
     c_Args := [
       ''-c'',
       path_join [''/'', envoyCfgVolMntDir, envoyCfgFileName],
       ''--service-cluster $('' @ envoyNsEnvVar @ '')'',
       ''--service-node $('' @ envoyPodEnvVar @ '')'',
       ''--log-level info''],
     c_Env := [
       \<lparr>env_Name = envoyNsEnvVar, env_APIVersion = ''v1'', env_FieldPath = ''metadata.namespace''\<rparr>,
       \<lparr>env_Name = envoyPodEnvVar, env_APIVersion = ''v1'', env_FieldPath = ''metadata.name''\<rparr>],
     c_ReadinessProbe := Some \<lparr>
       pr_Handler = zero_Handler\<lparr>h_HTTPGet := Some \<lparr>http_Scheme = ''HTTP'',
         http_Path = ''/ready'', http_Port = IntVal 8002\<rparr>\<rparr>,
       pr_InitialDelaySeconds = 3, pr_TimeoutSeconds = 1, pr_PeriodSeconds = 4,
       pr_SuccessThreshold = 1, pr_FailureThreshold = 3\<rparr>,
     c_Ports := daemonset_ports (ContainerPorts (envoy_pub s)) [],
     c_VolumeMounts := [
       \<lparr>vm_Name = envoyCertsVolName, vm_MountPath = path_join [''/'', envoyCertsVolMntDir],
        vm_ReadOnly = True\<rparr>,
       \<lparr>vm_Name = envoyCfgVolName, vm_MountPath = path_join [''/'', envoyCfgVolMntDir],
        vm_ReadOnly = True\<rparr>,
       \<lparr>vm_Name = envoyAdminVolName, vm_MountPath = path_join [''/'', envoyAdminVolMntDir],
        vm_ReadOnly = False\<rparr>],
     c_PreStop := Some (zero_Handler\<lparr>h_HTTPGet := Some \<lparr>http_Scheme = ''HTTP'',
       http_Path = ''/shutdown'', http_Port = IntVal 8090\<rparr>\<rparr>),
     c_TerminationMessagePolicy := ''File'',
     c_TerminationMessagePath := ''/dev/termination-log''\<rparr>"

definition init_container :: "string \<Rightarrow> Container" where
  "init_container SesameImage = zero_Container\<lparr>
     c_Name := envoyInitContainerName,
     c_Image := SesameImage,
     c_ImagePullPolicy := ''IfNotPresent'',
     c_Command := [''sesame''],
     c_Args := [
       ''bootstrap'',
       path_join [''/'', envoyCfgVolMntDir, envoyCfgFileName],
       ''--xds-address=sesame'',
       ''--xds-port='' @ int32_str XDSPort,
       ''--xds-resource-version='' @ xdsResourceVersion,
       ''--resources-dir='' @ path_join [''/'', envoyCfgVolMntDir, ''resources''],
       ''--envoy-cafile='' @ path_join [''/'', envoyCertsVolMntDir, ''ca.crt''],
       ''--envoy-cert-file='' @ path_join [''/'', envoyCertsVolMntDir, ''tls.crt''],
       ''--envoy-key-file='' @ path_join [''/'', envoyCertsVolMntDir, ''tls.key'']],
     c_VolumeMounts := [
       \<lparr>vm_Name = envoyCertsVolName, vm_MountPath = path_join [''/'', envoyCertsVolMntDir],
        vm_ReadOnly = True\<rparr>,
       \<lparr>vm_Name = envoyCfgVolName, vm_MountPath = path_join [''/'', envoyCfgVolMntDir],
        vm_ReadOnly = False\<rparr>],
     c_Env := [
       \<lparr>env_Name = envoyNsEnvVar, env_APIVersion = ''v1'', env_FieldPath = ''metadata.namespace''\<rparr>],
     c_TerminationMessagePolicy := ''File'',
     c_TerminationMessagePath := ''/dev/termination-log''\<rparr>"

text \<open>\<open>Spec.NodePlacement.Envoy\<close>, read under the guards that make it non-nil.\<close>

definition envoy_placement :: "Sesame \<Rightarrow> EnvoyNodePlacement option" where
  "envoy_placement s = (case SpecNodePlacement (Spec s) of None \<Rightarrow> None
     | Some np \<Rightarrow> npl_Envoy np)"

definition daemonset_podspec :: "Sesame \<Rightarrow> string \<Rightarrow> string \<Rightarrow> PodSpec" where
  "daemonset_podspec s SesameImage envoyImage =
     (let spec = zero_PodSpec\<lparr>
            ps_Containers := [shutdown_container SesameImage, envoy_container s envoyImage],
            ps_InitContainers := [init_container SesameImage],
            ps_Volumes := [
              \<lparr>v_Name = envoyCertsVolName,
               v_Source = SecretSource envoyCertsSecretName (Some 420)\<rparr>,
              \<lparr>v_Name = envoyCfgVolName, v_Source = EmptyDirSource\<rparr>,
              \<lparr>v_Name = envoyAdminVolName, v_Source = EmptyDirSource\<rparr>],
            ps_ServiceAccountName := EnvoyRbacName,
            ps_DeprecatedServiceAccount := EnvoyContainerName,
            ps_AutomountServiceAccountToken := Some False,
            ps_TerminationGracePeriodSeconds := Some 300,
            ps_SecurityContext := Some NewUnprivilegedPodSecurity,
            ps_DNSPolicy := ''ClusterFirst'',
            ps_RestartPolicy := ''Always'',
            ps_SchedulerName := ''default-scheduler''\<rparr>;
          spec = (case envoy_placement s of
              Some p \<Rightarrow> (if EnvoyNodeSelectorExists s
                then spec\<lparr>ps_NodeSelector := enp_NodeSelector p\<rparr> else spec)
            | None \<Rightarrow> spec)
      in (case envoy_placement s of
              Some p \<Rightarrow> (if EnvoyTolerationsExist s
                then spec\<lparr>ps_Tolerations := enp_Tolerations p\<rparr> else spec)
            | None \<Rightarrow> spec))"

definition DesiredDaemonSet :: "Sesame \<Rightarrow> string \<Rightarrow> string \<Rightarrow> DaemonSet" where
  "DesiredDaemonSet s SesameImage envoyImage = \<lparr>
     dms_Meta = zero_ObjectMeta\<lparr>Namespace := spec_ns s, Name := envoyDaemonSetName,
       Labels := daemonset_labels s\<rparr>,
     dms_Spec = \<lparr>
       dss_Selector = Some EnvoyDaemonSetPodSelector,
       dss_Template = \<lparr>
         pt_Annotations = Some [(''prometheus.io/scrape'', ''true''),
           (''prometheus.io/port'', ''8002''), (''prometheus.io/path'', ''/stats/prometheus'')],
         pt_Labels = MatchLabels EnvoyDaemonSetPodSelector,
         pt_Spec = daemonset_podspec s SesameImage envoyImage\<rparr>,
       dss_UpdateStrategyType = ''RollingUpdate'',
       dss_MaxUnavailable = PointerTo (StrVal ''10%''),
       dss_RevisionHistoryLimit = Some 10,
       dss_Unset = []\<rparr>,
     dms_NumberAvailable = 0\<rparr>"

section \<open>Handlers\<close>

definition CurrentDaemonSet :: "'w client \<Rightarrow> Sesame \<Rightarrow> ('w, api_error + DaemonSet) state" where
  "CurrentDaemonSet cli s =
     Get (daemonsets cli) \<lparr>nn_Namespace = spec_ns s, nn_Name = envoyDaemonSetName\<rparr>"

definition createDaemonSet :: "'w client \<Rightarrow> DaemonSet \<Rightarrow> ('w, unit res) state" where
  "createDaemonSet cli ds = do {
     r \<leftarrow> Create (daemonsets cli) ds;
     ret (call_res (Wrapf ''failed to create daemonset %s/%s: %w''
       [Namespace (dms_Meta ds), Name (dms_Meta ds)]) r)
   }"

definition updateDaemonSetIfNeeded ::
    "'w lib \<Rightarrow> 'w client \<Rightarrow> Sesame \<Rightarrow> DaemonSet \<Rightarrow> DaemonSet \<Rightarrow> ('w, unit res) state" where
  "updateDaemonSetIfNeeded L cli s current desired =
     (if Exist (dms_Meta current) (OwnerLabels s) then
        (case DaemonsetConfigChanged (DeepEqual L) current desired of
           Some ds \<Rightarrow> do {
             r \<leftarrow> Update (daemonsets cli) ds;
             ret (call_res (Wrapf ''failed to update daemonset %s/%s: %w''
               [Namespace (dms_Meta ds), Name (dms_Meta ds)]) r)
           }
         | None \<Rightarrow> ret (Ok ()))
      else ret (Ok ()))"

definition EnsureDaemonSetDeleted :: "'w lib \<Rightarrow> 'w client \<Rightarrow> Sesame \<Rightarrow> ('w, unit res) state" where
  "EnsureDaemonSetDeleted L cli s = do {
     r \<leftarrow> CurrentDaemonSet cli s;
     case r of
       Inl e \<Rightarrow> (if IsNotFound L e then ret (Ok ()) else ret (Err (ApiErr e)))
     | Inr ds \<Rightarrow>
         (if Exist (dms_Meta ds) (OwnerLabels s) then do {
            d \<leftarrow> Delete (daemonsets cli) ds;
            ret (delete_res (IsNotFound L) id d)
          } else ret (Ok ()))
   }"

definition EnsureDaemonSet ::
    "'w lib \<Rightarrow> 'w client \<Rightarrow> Sesame \<Rightarrow> string \<Rightarrow> string \<Rightarrow> ('w, unit res) state" where
  "EnsureDaemonSet L cli s SesameImage envoyImage =
     (let desired = DesiredDaemonSet s SesameImage envoyImage in do {
     r \<leftarrow> CurrentDaemonSet cli s;
     case r of
       Inl e \<Rightarrow>
         (if IsNotFound L e then createDaemonSet cli desired
          else ret (Err (Wrapf ''failed to get daemonset %s/%s: %w''
            [Namespace (dms_Meta desired), Name (dms_Meta desired)] (ApiErr e))))
     | Inr current \<Rightarrow>
         (if DaemonSetSelectorsDiffer (DeepEqual L) current desired
          then EnsureDaemonSetDeleted L cli s
          else do {
            u \<leftarrow> updateDaemonSetIfNeeded L cli s current desired;
            ret (map_err (Wrapf ''failed to update daemonset for sesame %s/%s: %w''
              [sesame_namespace s, sesame_name s]) u)
          })
   })"

section \<open>Facts\<close>

lemma DesiredDaemonSet_owned [simp]: "owned_by s (dms_Meta (DesiredDaemonSet s c e))"
  by (simp add: DesiredDaemonSet_def daemonset_labels_def owned_by_iff const_defs)

lemma DesiredDaemonSet_key [simp]:
  "nsname (dms_Meta (DesiredDaemonSet s c e)) =
     \<lparr>nn_Namespace = spec_ns s, nn_Name = envoyDaemonSetName\<rparr>"
  by (simp add: DesiredDaemonSet_def nsname_def zero_ObjectMeta_def)

lemma daemonset_ports_map:
  "daemonset_ports ports acc = acc @ map (\<lambda>p. \<lparr>cp_Name = ecp_Name p,
     cp_ContainerPort = ecp_PortNumber p, cp_Protocol = ''TCP''\<rparr>) ports"
  by (induction ports acc rule: daemonset_ports.induct) simp_all

text \<open>Which parts of the pod the spec of the Sesame reaches.\<close>

lemma daemonset_podspec_fields [simp]:
  "ps_Containers (daemonset_podspec s c e) = [shutdown_container c, envoy_container s e]"
  "ps_InitContainers (daemonset_podspec s c e) = [init_container c]"
  "map v_Name (ps_Volumes (daemonset_podspec s c e)) =
     [envoyCertsVolName, envoyCfgVolName, envoyAdminVolName]"
  by (simp_all add: daemonset_podspec_def Let_def split: option.splits)

text \<open>A pod is well-formed when every mount of its containers names one of its volumes.\<close>

definition mounts_ok :: "PodSpec \<Rightarrow> bool" where
  "mounts_ok ps \<longleftrightarrow> list_all (\<lambda>c. list_all (\<lambda>m. vm_Name m \<in> set (map v_Name (ps_Volumes ps)))
     (c_VolumeMounts c)) (ps_Containers ps @ ps_InitContainers ps)"

lemma daemonset_mounts_ok: "mounts_ok (daemonset_podspec s c e)"
  by (simp add: mounts_ok_def shutdown_container_def envoy_container_def init_container_def
      zero_Container_def del: set_map)

end
