(* ===== verification/Status_Sync.thy ===== *)
theory Status_Sync
  imports Retryable Deployment_Obj Daemonset_Obj
begin

text \<open>
  Package \<open>internal/status\<close>: the \<open>Available\<close> condition computed from the Deployment and the
  DaemonSet, the merge of conditions, and \<open>SyncSesame\<close>, which writes the status back.

  \<open>SyncSesame\<close> calls itself whenever the status update reports a conflict, without a bound. The
  model takes the number of calls it may make as fuel; \<open>None\<close> means that it was not enough.
\<close>

section \<open>conditions.go\<close>

definition ConditionTrue :: string where "ConditionTrue = ''True''"
definition ConditionFalse :: string where "ConditionFalse = ''False''"
definition ConditionUnknown :: string where "ConditionUnknown = ''Unknown''"
definition DeploymentAvailable :: string where "DeploymentAvailable = ''Available''"

lemma condition_statuses_distinct [simp]:
  "ConditionTrue \<noteq> ConditionFalse" "ConditionTrue \<noteq> ConditionUnknown"
  "ConditionFalse \<noteq> ConditionTrue" "ConditionFalse \<noteq> ConditionUnknown"
  "ConditionUnknown \<noteq> ConditionTrue" "ConditionUnknown \<noteq> ConditionFalse"
  by (simp_all add: ConditionTrue_def ConditionFalse_def ConditionUnknown_def)

text \<open>A condition of the Sesame, its transition time still zero.\<close>

definition available_cond :: "string \<Rightarrow> string \<Rightarrow> string \<Rightarrow> Condition" where
  "available_cond st reason msg = \<lparr>cond_Type = SesameAvailableConditionType, cond_Status = st,
     cond_Reason = reason, cond_Message = msg, cond_LastTransitionTime = 0\<rparr>"

fun available_loop :: "bool \<Rightarrow> DeploymentCondition list \<Rightarrow> Condition" where
  "available_loop dsAvailable [] =
     available_cond ConditionUnknown ''SesameUnknown'' ''Sesame status unknown.''"
| "available_loop dsAvailable (c # cs) =
     (if dc_Type c \<noteq> DeploymentAvailable then available_loop dsAvailable cs
      else if dc_Status c = ConditionTrue then
        (if dsAvailable
         then available_cond ConditionTrue ''SesameAvailable'' ''Sesame has minimum availability.''
         else available_cond ConditionFalse ''SesameUnavailable''
                ''Envoy daemonset does not have minimum availability.'')
      else if dc_Status c = ConditionFalse then
        (if dsAvailable
         then available_cond ConditionFalse ''SesameUnavailable'' (''Sesame '' @ to_lower (dc_Message c))
         else available_cond ConditionFalse ''SesameUnavailable''
                (''Envoy daemonset does not have minimum availability. Sesame '' @
                 to_lower (dc_Message c)))
      else if dc_Status c = ConditionUnknown then
        available_cond ConditionUnknown (''SesameUnknown: '' @ dc_Message c)
          (''Sesame status unknown. '' @ dc_Message c)
      else available_loop dsAvailable cs)"

definition computeSesameAvailableCondition ::
    "Deployment option \<Rightarrow> DaemonSet option \<Rightarrow> Condition" where
  "computeSesameAvailableCondition deployment ds = (case deployment of
       None \<Rightarrow> available_cond ConditionFalse ''SesameUnavailable'' ''Sesame deployment does not exist.''
     | Some d \<Rightarrow> (case ds of
           None \<Rightarrow> available_cond ConditionFalse ''SesameUnavailable'' ''Envoy daemonset does not exist.''
         | Some x \<Rightarrow> available_loop (sint (dms_NumberAvailable x) > 0) (dep_Conditions d)))"

definition conditionChanged :: "Condition \<Rightarrow> Condition \<Rightarrow> bool" where
  "conditionChanged a b \<longleftrightarrow> cond_Status a \<noteq> cond_Status b \<or> cond_Reason a \<noteq> cond_Reason b \<or>
     cond_Message a \<noteq> cond_Message b"

text \<open>
  The inner loop of \<open>mergeConditions\<close> for one update: whether a condition of its type was found,
  and the conditions, of which the first that differs was overwritten.
\<close>

fun merge_into :: "Time \<Rightarrow> Condition \<Rightarrow> Condition list \<Rightarrow> bool \<times> Condition list" where
  "merge_into now upd [] = (False, [])"
| "merge_into now upd (c # cs) =
     (if cond_Type c = cond_Type upd then
        (if conditionChanged c upd
         then (True, c\<lparr>cond_Status := cond_Status upd, cond_Reason := cond_Reason upd,
                 cond_Message := cond_Message upd,
                 cond_LastTransitionTime :=
                   (if cond_Status c \<noteq> cond_Status upd then now else cond_LastTransitionTime c)\<rparr> # cs)
         else (True, c # snd (merge_into now upd cs)))
      else (let (found, cs') = merge_into now upd cs in (found, c # cs')))"

fun merge_loop :: "Time \<Rightarrow> Condition list \<Rightarrow> Condition list \<Rightarrow> Condition list \<Rightarrow> Condition list" where
  "merge_loop now conditions additions [] = conditions @ additions"
| "merge_loop now conditions additions (upd # upds) =
     (let (found, conditions') = merge_into now upd conditions
      in merge_loop now conditions'
           (if found then additions else additions @ [upd\<lparr>cond_LastTransitionTime := now\<rparr>]) upds)"

text \<open>\<open>now\<close> is the reading of the clock the function starts with.\<close>

definition mergeConditions :: "Time \<Rightarrow> Condition list \<Rightarrow> Condition list \<Rightarrow> Condition list" where
  "mergeConditions now conditions updates = merge_loop now conditions [] updates"

section \<open>status.go\<close>

definition conflict_text :: string where
  "conflict_text = ''the object has been modified''"

definition agg_res :: "'w lib \<Rightarrow> error list \<Rightarrow> unit res" where
  "agg_res L errs = (case NewMaybeRetryableAggregate (NewAggregate L) (map Some errs) of
     None \<Rightarrow> Ok () | Some e \<Rightarrow> Err e)"

text \<open>The value of a read, nil when it failed, and the error appended.\<close>

fun read_value :: "api_error + 'o \<Rightarrow> 'o option" where
  "read_value (Inl e) = None"
| "read_value (Inr x) = Some x"

fun read_errs :: "(error \<Rightarrow> error) \<Rightarrow> api_error + 'o \<Rightarrow> error list" where
  "read_errs wrap (Inl e) = [wrap (ApiErr e)]"
| "read_errs wrap (Inr x) = []"

text \<open>The status computed in one call.\<close>

definition new_status :: "Time \<Rightarrow> Sesame \<Rightarrow> Deployment option \<Rightarrow> DaemonSet option \<Rightarrow> SesameStatus" where
  "new_status now latest deploy ds =
     (let st = Status latest;
          st = (case deploy of None \<Rightarrow> st | Some d \<Rightarrow> st\<lparr>AvailableSesames := dep_AvailableReplicas d\<rparr>);
          st = (case ds of None \<Rightarrow> st | Some x \<Rightarrow> st\<lparr>AvailableEnvoys := dms_NumberAvailable x\<rparr>)
      in st\<lparr>Conditions := mergeConditions now (Conditions st)
              [computeSesameAvailableCondition deploy ds]\<rparr>)"

definition status_err :: "Sesame \<Rightarrow> error \<Rightarrow> error" where
  "status_err latest =
     Wrapf ''failed to update sesame %s/%s status: %w'' [sesame_namespace latest, sesame_name latest]"

fun SyncSesame :: "nat \<Rightarrow> 'w lib \<Rightarrow> 'w client \<Rightarrow> Sesame \<Rightarrow> ('w, unit res option) state" where
  "SyncSesame 0 L cli s = ret None"
| "SyncSesame (Suc n) L cli s = do {
     r \<leftarrow> Get (sesames cli) \<lparr>nn_Namespace = sesame_namespace s, nn_Name = sesame_name s\<rparr>;
     case r of
       Inl e \<Rightarrow> ret (Some (if IsNotFound L e then Ok ()
         else Err (Wrapf ''failed to get sesame %s/%s: %w'' [sesame_namespace s, sesame_name s]
                (ApiErr e))))
     | Inr latest \<Rightarrow> do {
         deploy \<leftarrow> CurrentDeployment cli latest;
         ds \<leftarrow> CurrentDaemonSet cli latest;
         now \<leftarrow> Now L;
         let args = [sesame_namespace latest, sesame_name latest];
         let errs = read_errs (Wrapf ''failed to get deployment for sesame %s/%s status: %w'' args) deploy @
               read_errs (Wrapf ''failed to get daemonset for sesame %s/%s status: %w'' args) ds;
         let updated = latest\<lparr>Status := new_status now latest (read_value deploy) (read_value ds)\<rparr>;
         if SesameStatusChanged (DeepEqual L) (Status latest) (Status updated) then do {
           u \<leftarrow> status_update cli updated;
           case u of
             None \<Rightarrow> ret (Some (agg_res L errs))
           | Some e \<Rightarrow>
               (if IsNotFound L e then ret (Some (agg_res L errs))
                else if contains_str (Message e) conflict_text then do {
                  again \<leftarrow> SyncSesame n L cli updated;
                  ret (case again of
                      None \<Rightarrow> None
                    | Some (Ok _) \<Rightarrow> Some (agg_res L errs)
                    | Some (Err e') \<Rightarrow> Some (agg_res L (errs @ [status_err latest e']))
                    | Some Panic \<Rightarrow> Some Panic)
                } else ret (Some (agg_res L (errs @ [status_err latest (ApiErr e)]))))
         } else ret (Some (agg_res L errs))
       }
   }"

declare SyncSesame.simps [simp del]

section \<open>The available condition\<close>

definition has_available :: "string \<Rightarrow> DeploymentCondition list \<Rightarrow> bool" where
  "has_available st cs \<longleftrightarrow> (case find (\<lambda>c. dc_Type c = DeploymentAvailable \<and>
     dc_Status c \<in> {ConditionTrue, ConditionFalse, ConditionUnknown}) cs of
       None \<Rightarrow> False | Some c \<Rightarrow> dc_Status c = st)"

lemma available_loop_status:
  "cond_Status (available_loop av cs) =
     (if has_available ConditionTrue cs then (if av then ConditionTrue else ConditionFalse)
      else if has_available ConditionFalse cs then ConditionFalse else ConditionUnknown)"
  by (induction av cs rule: available_loop.induct)
    (auto simp: has_available_def available_cond_def)

lemma available_loop_shape [simp]:
  "cond_Type (available_loop av cs) = SesameAvailableConditionType"
  "cond_LastTransitionTime (available_loop av cs) = 0"
  by (induction av cs rule: available_loop.induct) (auto simp: available_cond_def)

lemma computeSesameAvailableCondition_type [simp]:
  "cond_Type (computeSesameAvailableCondition d x) = SesameAvailableConditionType"
  by (simp add: computeSesameAvailableCondition_def available_cond_def split: option.split)

section \<open>The merge of conditions\<close>

text \<open>Conditions with pairwise different types, as the API server keeps them.\<close>

definition conditions_ok :: "Condition list \<Rightarrow> bool" where
  "conditions_ok cs \<longleftrightarrow> distinct (map cond_Type cs)"

lemma merge_into_found: "fst (merge_into now upd cs) \<longleftrightarrow> cond_Type upd \<in> set (map cond_Type cs)"
  by (induction now upd cs rule: merge_into.induct) (auto split: prod.splits)

lemma merge_into_types: "map cond_Type (snd (merge_into now upd cs)) = map cond_Type cs"
  by (induction now upd cs rule: merge_into.induct) (auto split: prod.splits)

lemma merge_into_others:
  "filter (\<lambda>c. cond_Type c \<noteq> cond_Type upd) (snd (merge_into now upd cs)) =
     filter (\<lambda>c. cond_Type c \<noteq> cond_Type upd) cs"
  by (induction now upd cs rule: merge_into.induct) (auto split: prod.splits)

text \<open>What one update makes of the condition of its type.\<close>

definition merged_cond :: "Time \<Rightarrow> Condition \<Rightarrow> Condition \<Rightarrow> Condition" where
  "merged_cond now upd c = upd\<lparr>cond_LastTransitionTime :=
     (if cond_Status c \<noteq> cond_Status upd then now else cond_LastTransitionTime c)\<rparr>"

lemma merge_into_absent: "cond_Type upd \<notin> set (map cond_Type cs) \<Longrightarrow> merge_into now upd cs = (False, cs)"
  by (induction now upd cs rule: merge_into.induct) auto

lemma merge_into_map:
  assumes "conditions_ok cs"
  shows "snd (merge_into now upd cs) =
     map (\<lambda>c. if cond_Type c = cond_Type upd then merged_cond now upd c else c) cs"
  using assms
proof (induction cs)
  case (Cons c cs)
  show ?case
  proof (cases "cond_Type c = cond_Type upd")
    case True
    with Cons.prems have absent: "cond_Type upd \<notin> set (map cond_Type cs)"
      by (simp add: conditions_ok_def)
    then have same: "map (\<lambda>c. if cond_Type c = cond_Type upd then merged_cond now upd c else c) cs = cs"
      by (intro map_idI) (metis image_eqI set_map)
    have "\<not> conditionChanged c upd \<Longrightarrow> merged_cond now upd c = c"
      using True by (simp add: merged_cond_def conditionChanged_def)
    moreover have "conditionChanged c upd \<Longrightarrow> c\<lparr>cond_Status := cond_Status upd,
        cond_Reason := cond_Reason upd, cond_Message := cond_Message upd,
        cond_LastTransitionTime :=
          (if cond_Status c \<noteq> cond_Status upd then now else cond_LastTransitionTime c)\<rparr> =
        merged_cond now upd c"
      using True by (simp add: merged_cond_def)
    ultimately show ?thesis using True absent same by (simp add: merge_into_absent)
  next
    case False
    with Cons show ?thesis by (cases "merge_into now upd cs") (simp add: conditions_ok_def)
  qed
qed simp

lemma mergeConditions_one:
  assumes "conditions_ok cs"
  shows "mergeConditions now cs [upd] =
     (if cond_Type upd \<in> set (map cond_Type cs)
      then map (\<lambda>c. if cond_Type c = cond_Type upd then merged_cond now upd c else c) cs
      else cs @ [upd\<lparr>cond_LastTransitionTime := now\<rparr>])"
  using merge_into_map [OF assms, of now upd] merge_into_found [of now upd cs]
    merge_into_absent [of upd cs now]
  by (auto simp: mergeConditions_def split: prod.split)

lemma mergeConditions_types:
  assumes "conditions_ok cs"
  shows "map cond_Type (mergeConditions now cs [u]) =
    (if cond_Type u \<in> set (map cond_Type cs) then map cond_Type cs else map cond_Type cs @ [cond_Type u])"
  by (simp add: mergeConditions_one [OF assms] merged_cond_def comp_def)

lemma mergeConditions_ok:
  assumes "conditions_ok cs"
  shows "conditions_ok (mergeConditions now cs [u])"
  using mergeConditions_types [OF assms, of now u] assms unfolding conditions_ok_def by simp

lemma mergeConditions_again:
  assumes ok: "conditions_ok cs"
  shows "mergeConditions later (mergeConditions now cs [u]) [u] = mergeConditions now cs [u]"
proof -
  have "cond_Type u \<in> set (map cond_Type (mergeConditions now cs [u]))"
    by (simp only: mergeConditions_types [OF ok]) (simp del: set_map)
  then have "mergeConditions later (mergeConditions now cs [u]) [u] =
      map (\<lambda>c. if cond_Type c = cond_Type u then merged_cond later u c else c) (mergeConditions now cs [u])"
    by (simp only: mergeConditions_one [OF mergeConditions_ok [OF ok]] if_True)
  also have "\<dots> = mergeConditions now cs [u]"
  proof (rule map_idI)
    fix c
    assume c: "c \<in> set (mergeConditions now cs [u])"
    show "(if cond_Type c = cond_Type u then merged_cond later u c else c) = c"
    proof (cases "cond_Type c = cond_Type u")
      case True
      with c have "\<exists>t. c = u\<lparr>cond_LastTransitionTime := t\<rparr>"
        by (auto simp: mergeConditions_one [OF ok] merged_cond_def image_iff split: if_splits)
      then show ?thesis by (auto simp: merged_cond_def)
    qed simp
  qed
  finally show ?thesis .
qed

section \<open>The retries of SyncSesame\<close>

text \<open>More fuel does not change an outcome.\<close>

lemma SyncSesame_more:
  "fst (run_state (SyncSesame n L cli s) w) \<noteq> None \<Longrightarrow>
   run_state (SyncSesame (n + k) L cli s) w = run_state (SyncSesame n L cli s) w"
proof (induction n arbitrary: s w)
  case (Suc n)
  from Suc.prems Suc.IH show ?case
    by (auto simp: SyncSesame.simps Let_def split: prod.split sum.split option.split res.split)
qed (simp add: SyncSesame.simps)

text \<open>
  A bound on the conflicts: \<open>\<mu>\<close> of the world is at least the number of conflicts the server will
  still report. Reads do not increase it and each conflict uses one up.
\<close>

locale finite_conflicts =
  fixes L :: "'w lib" and cli :: "'w client" and \<mu> :: "'w \<Rightarrow> nat"
  assumes mu_sesame: "\<mu> (snd (run_state (Get (sesames cli) k) w)) \<le> \<mu> w"
    and mu_deployment: "\<mu> (snd (run_state (Get (deployments cli) k) w)) \<le> \<mu> w"
    and mu_daemonset: "\<mu> (snd (run_state (Get (daemonsets cli) k) w)) \<le> \<mu> w"
    and mu_now: "\<mu> (snd (run_state (Now L) w)) \<le> \<mu> w"
    and mu_conflict: "fst (run_state (status_update cli s) w) = Some e \<Longrightarrow>
      contains_str (Message e) conflict_text \<Longrightarrow> \<mu> (snd (run_state (status_update cli s) w)) < \<mu> w"
begin

lemma sync_ends: "\<mu> w < n \<Longrightarrow> fst (run_state (SyncSesame n L cli s) w) \<noteq> None"
proof (induction n arbitrary: s w)
  case (Suc n)
  obtain g w1 where g: "run_state (Get (sesames cli)
      \<lparr>nn_Namespace = sesame_namespace s, nn_Name = sesame_name s\<rparr>) w = (g, w1)"
    by (cases "run_state (Get (sesames cli)
      \<lparr>nn_Namespace = sesame_namespace s, nn_Name = sesame_name s\<rparr>) w")
  show ?case
  proof (cases g)
    case (Inl e)
    with g show ?thesis by (simp add: SyncSesame.simps)
  next
    case (Inr latest)
    obtain d w2 where d: "run_state (CurrentDeployment cli latest) w1 = (d, w2)"
      by (cases "run_state (CurrentDeployment cli latest) w1")
    obtain x w3 where x: "run_state (CurrentDaemonSet cli latest) w2 = (x, w3)"
      by (cases "run_state (CurrentDaemonSet cli latest) w2")
    obtain now w4 where now: "run_state (Now L) w3 = (now, w4)"
      by (cases "run_state (Now L) w3")
    let ?u = "latest\<lparr>Status := new_status now latest (read_value d) (read_value x)\<rparr>"
    obtain u w5 where u: "run_state (status_update cli ?u) w4 = (u, w5)"
      by (cases "run_state (status_update cli ?u) w4")
    have "\<mu> w4 \<le> \<mu> w"
      using mu_sesame [of _ w] mu_deployment [of _ w1] mu_daemonset [of _ w2] mu_now [of w3] g d x now
      unfolding CurrentDeployment_def CurrentDaemonSet_def by (metis order_trans snd_conv)
    then have "u = Some e \<Longrightarrow> contains_str (Message e) conflict_text \<Longrightarrow>
        fst (run_state (SyncSesame n L cli ?u) w5) \<noteq> None" for e
      using mu_conflict [of ?u w4 e] u Suc by auto
    with g Inr d x now u show ?thesis
      by (auto simp: SyncSesame.simps Let_def split: prod.splits option.splits res.splits)
  qed
qed simp

end

end
