(* ===== verification/Rbac_Kinds.thy ===== *)
theory Rbac_Kinds
  imports Sesame_Obj
begin

text \<open>
  The RBAC resources, one package each: \<open>serviceaccount\<close>, \<open>clusterrole\<close>, \<open>clusterrolebinding\<close>,
  \<open>role\<close> and \<open>rolebinding\<close> under \<open>internal/objects\<close>. The desired objects, the reads, and the
  create-or-update handlers.
\<close>

text \<open>API group names of k8s.io/api the operator imports.\<close>

definition corev1_GroupName :: string where
  "corev1_GroupName = []"

definition rbacv1_GroupName :: string where
  "rbacv1_GroupName = ''rbac.authorization.k8s.io''"

section \<open>Service accounts\<close>

definition DesiredServiceAccount :: "string \<Rightarrow> Sesame \<Rightarrow> ServiceAccount" where
  "DesiredServiceAccount name s = \<lparr>sa_Kind = ''ServiceAccount'',
     sa_Meta = zero_ObjectMeta\<lparr>
       Namespace := spec_ns s, Name := name,
       Labels := Some [(OwningSesameNameLabel, sesame_name s),
                       (OwningSesameNsLabel, sesame_namespace s)]\<rparr>\<rparr>"

definition CurrentServiceAccount ::
    "'w client \<Rightarrow> string \<Rightarrow> string \<Rightarrow> ('w, api_error + ServiceAccount) state" where
  "CurrentServiceAccount cli ns name =
     Get (serviceaccounts cli) \<lparr>nn_Namespace = ns, nn_Name = name\<rparr>"

definition createServiceAccount :: "'w client \<Rightarrow> ServiceAccount \<Rightarrow> ('w, ServiceAccount res) state" where
  "createServiceAccount cli sa = do {
     r \<leftarrow> Create (serviceaccounts cli) sa;
     ret (obj_res (Wrapf ''failed to create service account %s/%s: %w''
       [Namespace (sa_Meta sa), Name (sa_Meta sa)]) r)
   }"

definition updateSvcAcctIfNeeded :: "'w lib \<Rightarrow> 'w client \<Rightarrow> Sesame \<Rightarrow> ServiceAccount \<Rightarrow>
    ServiceAccount \<Rightarrow> ('w, ServiceAccount res) state" where
  "updateSvcAcctIfNeeded L cli s current desired =
     (if Exist (sa_Meta current) (OwnerLabels s) then
        (case ServiceAccountConfigChanged (DeepEqual L) current desired of
           Some sa \<Rightarrow> do {
             r \<leftarrow> Update (serviceaccounts cli) sa;
             ret (obj_res (Wrapf ''failed to update service account %s/%s: %w''
               [Namespace (sa_Meta sa), Name (sa_Meta sa)]) r)
           }
         | None \<Rightarrow> ret (Ok current))
      else ret (Ok current))"

definition EnsureServiceAccount ::
    "'w lib \<Rightarrow> 'w client \<Rightarrow> string \<Rightarrow> Sesame \<Rightarrow> ('w, ServiceAccount res) state" where
  "EnsureServiceAccount L cli name s = (let desired = DesiredServiceAccount name s;
       args = [Namespace (sa_Meta desired), Name (sa_Meta desired)] in do {
     r \<leftarrow> CurrentServiceAccount cli (spec_ns s) name;
     case r of
       Inl e \<Rightarrow>
         (if IsNotFound L e then do {
            c \<leftarrow> createServiceAccount cli desired;
            ret (map_err (Wrapf ''failed to create service account %s/%s: %w'' args) c)
          } else ret (Err (Wrapf ''failed to get service account %s/%s: %w'' args (ApiErr e))))
     | Inr current \<Rightarrow> do {
         u \<leftarrow> updateSvcAcctIfNeeded L cli s current desired;
         ret (map_err (Wrapf ''failed to update service account %s/%s: %w'' args) u)
       }
   })"

section \<open>Cluster roles\<close>

definition sesameV1GroupName :: string where
  "sesameV1GroupName = ''projectsesame.io''"

definition desiredClusterRole :: "string \<Rightarrow> Sesame \<Rightarrow> ClusterRole" where
  "desiredClusterRole name s =
     (let groupAll = [corev1_GroupName];
          groupNet = [''networking.k8s.io''];
          groupGateway = [''gateway.networking.k8s.io''];
          groupExt = [''apiextensions.k8s.io''];
          groupSesame = [sesameV1GroupName];
          groupCoordination = [''coordination.k8s.io''];
          verbCGU = [''create'', ''get'', ''update''];
          verbGLW = [''get'', ''list'', ''watch''];
          verbGLWU = [''get'', ''list'', ''watch'', ''update''];
          leaderElectionCore = \<lparr>rule_Verbs = verbCGU, rule_APIGroups = groupAll,
            rule_Resources = [''configmaps'', ''events'']\<rparr>;
          leaderElectionCoordination = \<lparr>rule_Verbs = verbCGU, rule_APIGroups = groupCoordination,
            rule_Resources = [''leases'']\<rparr>;
          endPt = \<lparr>rule_Verbs = verbGLW, rule_APIGroups = groupAll,
            rule_Resources = [''endpoints'']\<rparr>;
          ns = \<lparr>rule_Verbs = verbGLW, rule_APIGroups = groupAll,
            rule_Resources = [''namespaces'']\<rparr>;
          secret = \<lparr>rule_Verbs = verbGLW, rule_APIGroups = groupAll,
            rule_Resources = [''secrets'']\<rparr>;
          svc = \<lparr>rule_Verbs = verbGLW, rule_APIGroups = groupAll,
            rule_Resources = [''services'']\<rparr>;
          crd = \<lparr>rule_Verbs = [''list''], rule_APIGroups = groupExt,
            rule_Resources = [''customresourcedefinitions'']\<rparr>;
          gateway = \<lparr>rule_Verbs = verbGLWU, rule_APIGroups = groupGateway,
            rule_Resources = [''gatewayclasses'', ''gateways'', ''httproutes'', ''tlsroutes'',
              ''referencepolicies'']\<rparr>;
          gatewayStatus = \<lparr>rule_Verbs = verbCGU, rule_APIGroups = groupGateway,
            rule_Resources = [''gatewayclasses/status'', ''gateways/status'', ''httproutes/status'',
              ''tlsroutes/status'']\<rparr>;
          ing = \<lparr>rule_Verbs = verbGLW, rule_APIGroups = groupNet,
            rule_Resources = [''ingresses'', ''ingressclasses'']\<rparr>;
          ingStatus = \<lparr>rule_Verbs = verbCGU, rule_APIGroups = groupNet,
            rule_Resources = [''ingresses/status'']\<rparr>;
          cntr = \<lparr>rule_Verbs = verbGLW, rule_APIGroups = groupSesame,
            rule_Resources = [''httpproxies'', ''tlscertificatedelegations'', ''extensionservices'',
              ''Sesameconfigurations'']\<rparr>;
          cntrStatus = \<lparr>rule_Verbs = verbCGU, rule_APIGroups = groupSesame,
            rule_Resources = [''httpproxies/status'', ''extensionservices/status'',
              ''Sesameconfigurations/status'']\<rparr>
      in \<lparr>cr_Kind = ''Role'',
          cr_Meta = zero_ObjectMeta\<lparr>Name := name,
            Labels := Some [(OwningSesameNameLabel, sesame_name s),
                            (OwningSesameNsLabel, sesame_namespace s)]\<rparr>,
          cr_Rules = [leaderElectionCore, leaderElectionCoordination, endPt, secret, svc, gateway,
            gatewayStatus, ing, ingStatus, cntr, cntrStatus, crd, ns]\<rparr>)"

definition CurrentClusterRole :: "'w client \<Rightarrow> string \<Rightarrow> ('w, api_error + ClusterRole) state" where
  "CurrentClusterRole cli name = Get (clusterroles cli) \<lparr>nn_Namespace = [], nn_Name = name\<rparr>"

definition createClusterRole :: "'w client \<Rightarrow> ClusterRole \<Rightarrow> ('w, ClusterRole res) state" where
  "createClusterRole cli cr = do {
     r \<leftarrow> Create (clusterroles cli) cr;
     ret (obj_res (Wrapf ''failed to create cluster role %s: %w'' [Name (cr_Meta cr)]) r)
   }"

definition updateClusterRoleIfNeeded :: "'w lib \<Rightarrow> 'w client \<Rightarrow> Sesame \<Rightarrow> ClusterRole \<Rightarrow>
    ClusterRole \<Rightarrow> ('w, ClusterRole res) state" where
  "updateClusterRoleIfNeeded L cli s current desired =
     (if Exist (cr_Meta current) (OwnerLabels s) then
        (case ClusterRoleConfigChanged (DeepEqual L) current desired of
           Some cr \<Rightarrow> do {
             r \<leftarrow> Update (clusterroles cli) cr;
             ret (obj_res (Wrapf ''failed to update cluster role %s: %w'' [Name (cr_Meta cr)]) r)
           }
         | None \<Rightarrow> ret (Ok current))
      else ret (Ok current))"

definition EnsureClusterRole ::
    "'w lib \<Rightarrow> 'w client \<Rightarrow> string \<Rightarrow> Sesame \<Rightarrow> ('w, ClusterRole res) state" where
  "EnsureClusterRole L cli name s = (let desired = desiredClusterRole name s;
       args = [Name (cr_Meta desired)] in do {
     r \<leftarrow> CurrentClusterRole cli name;
     case r of
       Inl e \<Rightarrow>
         (if IsNotFound L e then do {
            c \<leftarrow> createClusterRole cli desired;
            ret (map_err (Wrapf ''failed to create cluster role %s: %w'' args) c)
          } else ret (Err (Wrapf ''failed to get cluster role %s: %w'' args (ApiErr e))))
     | Inr current \<Rightarrow> do {
         u \<leftarrow> updateClusterRoleIfNeeded L cli s current desired;
         ret (map_err (Wrapf ''failed to update cluster role %s: %w'' args) u)
       }
   })"

section \<open>Cluster role bindings\<close>

definition desiredClusterRoleBinding ::
    "string \<Rightarrow> string \<Rightarrow> string \<Rightarrow> Sesame \<Rightarrow> ClusterRoleBinding" where
  "desiredClusterRoleBinding name roleRef svcAcctRef s = \<lparr>crb_Kind = ''RoleBinding'',
     crb_Meta = zero_ObjectMeta\<lparr>Name := name,
       Labels := Some [(OwningSesameNameLabel, sesame_name s),
                       (OwningSesameNsLabel, sesame_namespace s)]\<rparr>,
     crb_Subjects = [\<lparr>sub_Kind = ''ServiceAccount'', sub_APIGroup = corev1_GroupName,
       sub_Name = svcAcctRef, sub_Namespace = spec_ns s\<rparr>],
     crb_RoleRef = \<lparr>ref_APIGroup = rbacv1_GroupName, ref_Kind = ''ClusterRole'',
       ref_Name = roleRef\<rparr>\<rparr>"

definition CurrentClusterRoleBinding ::
    "'w client \<Rightarrow> string \<Rightarrow> ('w, api_error + ClusterRoleBinding) state" where
  "CurrentClusterRoleBinding cli name =
     Get (clusterrolebindings cli) \<lparr>nn_Namespace = [], nn_Name = name\<rparr>"

definition createClusterRoleBinding :: "'w client \<Rightarrow> ClusterRoleBinding \<Rightarrow> ('w, unit res) state" where
  "createClusterRoleBinding cli crb = do {
     r \<leftarrow> Create (clusterrolebindings cli) crb;
     ret (call_res (Wrapf ''failed to create cluster role binding %s: %w'' [Name (crb_Meta crb)]) r)
   }"

definition updateClusterRoleBindingIfNeeded :: "'w lib \<Rightarrow> 'w client \<Rightarrow> Sesame \<Rightarrow>
    ClusterRoleBinding \<Rightarrow> ClusterRoleBinding \<Rightarrow> ('w, unit res) state" where
  "updateClusterRoleBindingIfNeeded L cli s current desired =
     (if Exist (crb_Meta current) (OwnerLabels s) then
        (case ClusterRoleBindingConfigChanged (DeepEqual L) current desired of
           Some crb \<Rightarrow> do {
             r \<leftarrow> Update (clusterrolebindings cli) crb;
             ret (call_res (Wrapf ''failed to update cluster role binding %s: %w''
               [Name (crb_Meta crb)]) r)
           }
         | None \<Rightarrow> ret (Ok ()))
      else ret (Ok ()))"

definition EnsureClusterRoleBinding :: "'w lib \<Rightarrow> 'w client \<Rightarrow> string \<Rightarrow> string \<Rightarrow> string \<Rightarrow>
    Sesame \<Rightarrow> ('w, unit res) state" where
  "EnsureClusterRoleBinding L cli name roleRef svcAct s =
     (let desired = desiredClusterRoleBinding name roleRef svcAct s;
          args = [Name (crb_Meta desired)] in do {
     r \<leftarrow> CurrentClusterRoleBinding cli name;
     case r of
       Inl e \<Rightarrow>
         (if IsNotFound L e then do {
            c \<leftarrow> createClusterRoleBinding cli desired;
            ret (map_err (Wrapf ''failed to create cluster role binding %s: %w'' args) c)
          } else ret (Err (Wrapf ''failed to get cluster role binding %s: %w'' args (ApiErr e))))
     | Inr current \<Rightarrow> do {
         u \<leftarrow> updateClusterRoleBindingIfNeeded L cli s current desired;
         ret (map_err (Wrapf ''failed to update cluster role binding %s: %w'' args) u)
       }
   })"

section \<open>Roles\<close>

definition desiredRole :: "string \<Rightarrow> Sesame \<Rightarrow> Role" where
  "desiredRole name s = \<lparr>role_Kind = ''Role'',
     role_Meta = zero_ObjectMeta\<lparr>Namespace := spec_ns s, Name := name,
       Labels := Some [(OwningSesameNameLabel, sesame_name s),
                       (OwningSesameNsLabel, sesame_namespace s)]\<rparr>,
     role_Rules = [\<lparr>rule_Verbs = [''create'', ''update''], rule_APIGroups = [[]],
       rule_Resources = [''secrets'']\<rparr>]\<rparr>"

definition CurrentRole :: "'w client \<Rightarrow> string \<Rightarrow> string \<Rightarrow> ('w, api_error + Role) state" where
  "CurrentRole cli ns name = Get (roles cli) \<lparr>nn_Namespace = ns, nn_Name = name\<rparr>"

definition createRole :: "'w client \<Rightarrow> Role \<Rightarrow> ('w, Role res) state" where
  "createRole cli role = do {
     r \<leftarrow> Create (roles cli) role;
     ret (obj_res (Wrapf ''failed to create role %s/%s: %w''
       [Namespace (role_Meta role), Name (role_Meta role)]) r)
   }"

definition updateRoleIfNeeded ::
    "'w lib \<Rightarrow> 'w client \<Rightarrow> Sesame \<Rightarrow> Role \<Rightarrow> Role \<Rightarrow> ('w, Role res) state" where
  "updateRoleIfNeeded L cli s current desired =
     (if Exist (role_Meta current) (OwnerLabels s) then
        (case RoleConfigChanged (DeepEqual L) current desired of
           Some role \<Rightarrow> do {
             r \<leftarrow> Update (roles cli) role;
             ret (obj_res (Wrapf ''failed to update cluster role %s/%s: %w''
               [Namespace (role_Meta role), Name (role_Meta role)]) r)
           }
         | None \<Rightarrow> ret (Ok current))
      else ret (Ok current))"

definition EnsureRole :: "'w lib \<Rightarrow> 'w client \<Rightarrow> string \<Rightarrow> Sesame \<Rightarrow> ('w, Role res) state" where
  "EnsureRole L cli name s = (let desired = desiredRole name s;
       args = [Namespace (role_Meta desired), Name (role_Meta desired)] in do {
     r \<leftarrow> CurrentRole cli (spec_ns s) name;
     case r of
       Inl e \<Rightarrow>
         (if IsNotFound L e then do {
            c \<leftarrow> createRole cli desired;
            ret (map_err (Wrapf ''failed to create role %s/%s: %w'' args) c)
          } else ret (Err (Wrapf ''failed to get role %s/%s: %w'' args (ApiErr e))))
     | Inr current \<Rightarrow> do {
         u \<leftarrow> updateRoleIfNeeded L cli s current desired;
         ret (map_err (Wrapf ''failed to update role %s/%s: %w'' args) u)
       }
   })"

section \<open>Role bindings\<close>

definition desiredRoleBinding :: "string \<Rightarrow> string \<Rightarrow> string \<Rightarrow> Sesame \<Rightarrow> RoleBinding" where
  "desiredRoleBinding name svcAcctRef roleRef s = \<lparr>rb_Kind = ''RoleBinding'',
     rb_Meta = zero_ObjectMeta\<lparr>Namespace := spec_ns s, Name := name,
       Labels := Some [(OwningSesameNameLabel, sesame_name s),
                       (OwningSesameNsLabel, sesame_namespace s)]\<rparr>,
     rb_Subjects = [\<lparr>sub_Kind = ''ServiceAccount'', sub_APIGroup = corev1_GroupName,
       sub_Name = svcAcctRef, sub_Namespace = spec_ns s\<rparr>],
     rb_RoleRef = \<lparr>ref_APIGroup = rbacv1_GroupName, ref_Kind = ''Role'', ref_Name = roleRef\<rparr>\<rparr>"

definition CurrentRoleBinding ::
    "'w client \<Rightarrow> string \<Rightarrow> string \<Rightarrow> ('w, api_error + RoleBinding) state" where
  "CurrentRoleBinding cli ns name = Get (rolebindings cli) \<lparr>nn_Namespace = ns, nn_Name = name\<rparr>"

definition createRoleBinding :: "'w client \<Rightarrow> RoleBinding \<Rightarrow> ('w, unit res) state" where
  "createRoleBinding cli rb = do {
     r \<leftarrow> Create (rolebindings cli) rb;
     ret (call_res (Wrapf ''failed to create role binding %s/%s: %w''
       [Namespace (rb_Meta rb), Name (rb_Meta rb)]) r)
   }"

definition updateRoleBindingIfNeeded ::
    "'w lib \<Rightarrow> 'w client \<Rightarrow> Sesame \<Rightarrow> RoleBinding \<Rightarrow> RoleBinding \<Rightarrow> ('w, unit res) state" where
  "updateRoleBindingIfNeeded L cli s current desired =
     (if Exist (rb_Meta current) (OwnerLabels s) then
        (case RoleBindingConfigChanged (DeepEqual L) current desired of
           Some rb \<Rightarrow> do {
             r \<leftarrow> Update (rolebindings cli) rb;
             ret (call_res (Wrapf ''failed to update role binding %s/%s: %w''
               [Namespace (rb_Meta rb), Name (rb_Meta rb)]) r)
           }
         | None \<Rightarrow> ret (Ok ()))
      else ret (Ok ()))"

definition EnsureRoleBinding :: "'w lib \<Rightarrow> 'w client \<Rightarrow> string \<Rightarrow> string \<Rightarrow> string \<Rightarrow>
    Sesame \<Rightarrow> ('w, unit res) state" where
  "EnsureRoleBinding L cli name svcAct role s =
     (let desired = desiredRoleBinding name svcAct role s;
          args = [Namespace (rb_Meta desired), Name (rb_Meta desired)] in do {
     r \<leftarrow> CurrentRoleBinding cli (spec_ns s) name;
     case r of
       Inl e \<Rightarrow>
         (if IsNotFound L e then do {
            c \<leftarrow> createRoleBinding cli desired;
            ret (map_err (Wrapf ''failed to create role binding %s/%s: %w'' args) c)
          } else ret (Err (Wrapf ''failed to get role binding %s/%s: %w'' args (ApiErr e))))
     | Inr current \<Rightarrow> do {
         u \<leftarrow> updateRoleBindingIfNeeded L cli s current desired;
         ret (map_err (Wrapf ''failed to update role binding %s/%s: %w'' args) u)
       }
   })"

section \<open>The desired objects are owned, under the expected keys\<close>

lemma desired_rbac_owned [simp]:
  "owned_by s (sa_Meta (DesiredServiceAccount name s))"
  "owned_by s (cr_Meta (desiredClusterRole name s))"
  "owned_by s (crb_Meta (desiredClusterRoleBinding name r a s))"
  "owned_by s (role_Meta (desiredRole name s))"
  "owned_by s (rb_Meta (desiredRoleBinding name a r s))"
  by (simp_all add: DesiredServiceAccount_def desiredClusterRole_def desiredClusterRoleBinding_def
      desiredRole_def desiredRoleBinding_def owned_by_iff Let_def)

lemma desired_rbac_keys [simp]:
  "nsname (sa_Meta (DesiredServiceAccount name s)) = \<lparr>nn_Namespace = spec_ns s, nn_Name = name\<rparr>"
  "nsname (cr_Meta (desiredClusterRole name s)) = \<lparr>nn_Namespace = [], nn_Name = name\<rparr>"
  "nsname (crb_Meta (desiredClusterRoleBinding name r a s)) = \<lparr>nn_Namespace = [], nn_Name = name\<rparr>"
  "nsname (role_Meta (desiredRole name s)) = \<lparr>nn_Namespace = spec_ns s, nn_Name = name\<rparr>"
  "nsname (rb_Meta (desiredRoleBinding name a r s)) = \<lparr>nn_Namespace = spec_ns s, nn_Name = name\<rparr>"
  by (simp_all add: DesiredServiceAccount_def desiredClusterRole_def desiredClusterRoleBinding_def
      desiredRole_def desiredRoleBinding_def nsname_def zero_ObjectMeta_def Let_def)

end
