(* ===== verification/Rbac.thy ===== *)
theory Rbac
  imports Rbac_Kinds Objects_Util
begin

text \<open>
  \<open>internal/objects/rbac.go\<close>: the RBAC resources of one Sesame, as a sequence of the handlers of
  the kinds, and their deletion. The deletion collects the objects first and then deletes the
  owned ones; namespaced objects are left alone while another Sesame uses the namespace, cluster
  scoped ones while another Sesame exists anywhere.
\<close>

section \<open>Creation\<close>

definition rbac_names :: "string list" where
  "rbac_names = [SesameRbacName, EnvoyRbacName, CertGenRbacName]"

definition cluster_rbac_name :: "Sesame \<Rightarrow> string" where
  "cluster_rbac_name s = SesameRbacName @ ''-'' @ spec_ns s"

text \<open>The zero value \<open>&corev1.ServiceAccount{}\<close>.\<close>

definition zero_ServiceAccount :: ServiceAccount where
  "zero_ServiceAccount = \<lparr>sa_Kind = [], sa_Meta = zero_ObjectMeta\<rparr>"

text \<open>The loop over the account names; it remembers the account of the certificate generator.\<close>

fun ensure_accounts :: "'w lib \<Rightarrow> 'w client \<Rightarrow> Sesame \<Rightarrow> string list \<Rightarrow> ServiceAccount \<Rightarrow>
    ('w, ServiceAccount res) state" where
  "ensure_accounts L cli s [] certSvcAct = ret (Ok certSvcAct)"
| "ensure_accounts L cli s (name # names) certSvcAct = do {
     r \<leftarrow> EnsureServiceAccount L cli name s;
     case r of
       Err e \<Rightarrow> ret (Err (Wrapf ''failed to ensure service account %s/%s: %w'' [spec_ns s, name] e))
     | Panic \<Rightarrow> ret Panic
     | Ok svcAct \<Rightarrow> ensure_accounts L cli s names
         (if Name (sa_Meta svcAct) = CertGenRbacName then svcAct else certSvcAct)
   }"

text \<open>A call of a handler, its error wrapped.\<close>

definition wrapped :: "(error \<Rightarrow> error) \<Rightarrow> ('w, 'a res) state \<Rightarrow> ('w, 'a res) state" where
  "wrapped f m = do { r \<leftarrow> m; ret (map_err f r) }"

lemma keeps_wrapped [keeps_intro]: "keeps I m \<Longrightarrow> keeps I (wrapped f m)"
  unfolding wrapped_def by (intro keeps_intro)

definition EnsureRBAC :: "'w lib \<Rightarrow> 'w client \<Rightarrow> Sesame \<Rightarrow> ('w, unit res) state" where
  "EnsureRBAC L cli s = (let ns = spec_ns s; nsName = cluster_rbac_name s in
     and_then (ensure_accounts L cli s rbac_names zero_ServiceAccount) (\<lambda>certSvcAct.
     and_then (wrapped (Wrapf ''failed to ensure cluster role %s: %w'' [SesameRbacName])
         (EnsureClusterRole L cli nsName s)) (\<lambda>cr.
     and_then (wrapped (Wrapf ''failed to ensure cluster role binding %s: %w'' [SesameRbacName])
         (EnsureClusterRoleBinding L cli nsName (Name (cr_Meta cr)) SesameRbacName s)) (\<lambda>_.
     and_then (wrapped (Wrapf ''failed to ensure role %s/%s: %w'' [ns, CertGenRbacName])
         (EnsureRole L cli CertGenRbacName s)) (\<lambda>certRole.
     wrapped (Wrapf ''failed to ensure role binding %s/%s: %w'' [ns, SesameRbacName])
         (EnsureRoleBinding L cli SesameRbacName (Name (sa_Meta certSvcAct))
            (Name (role_Meta certRole)) s))))))"

section \<open>Deletion\<close>

text \<open>The \<open>client.Object\<close> values the deletion collects.\<close>

datatype rbac_object =
    ORoleBinding RoleBinding
  | ORole Role
  | OServiceAccount ServiceAccount
  | OClusterRoleBinding ClusterRoleBinding
  | OClusterRole ClusterRole

fun object_meta :: "rbac_object \<Rightarrow> ObjectMeta" where
  "object_meta (ORoleBinding x) = rb_Meta x"
| "object_meta (ORole x) = role_Meta x"
| "object_meta (OServiceAccount x) = sa_Meta x"
| "object_meta (OClusterRoleBinding x) = crb_Meta x"
| "object_meta (OClusterRole x) = cr_Meta x"

fun object_kind :: "rbac_object \<Rightarrow> string" where
  "object_kind (ORoleBinding x) = rb_Kind x"
| "object_kind (ORole x) = role_Kind x"
| "object_kind (OServiceAccount x) = sa_Kind x"
| "object_kind (OClusterRoleBinding x) = crb_Kind x"
| "object_kind (OClusterRole x) = cr_Kind x"

fun delete_object :: "'w client \<Rightarrow> rbac_object \<Rightarrow> ('w, api_error option) state" where
  "delete_object cli (ORoleBinding x) = Delete (rolebindings cli) x"
| "delete_object cli (ORole x) = Delete (roles cli) x"
| "delete_object cli (OServiceAccount x) = Delete (serviceaccounts cli) x"
| "delete_object cli (OClusterRoleBinding x) = Delete (clusterrolebindings cli) x"
| "delete_object cli (OClusterRole x) = Delete (clusterroles cli) x"

text \<open>One read of the collection: an object that is not found is skipped.\<close>

definition collect_object :: "'w lib \<Rightarrow> ('o \<Rightarrow> rbac_object) \<Rightarrow> ('w, api_error + 'o) state \<Rightarrow>
    rbac_object list \<Rightarrow> ('w, rbac_object list res) state" where
  "collect_object L mk get objs = do {
     r \<leftarrow> get;
     ret (case r of
         Inl e \<Rightarrow> (if \<not> IsNotFound L e then Err (ApiErr e) else Ok objs)
       | Inr x \<Rightarrow> Ok (objs @ [mk x]))
   }"

fun collect_accounts :: "'w lib \<Rightarrow> 'w client \<Rightarrow> string \<Rightarrow> string list \<Rightarrow> rbac_object list \<Rightarrow>
    ('w, rbac_object list res) state" where
  "collect_accounts L cli ns [] objs = ret (Ok objs)"
| "collect_accounts L cli ns (name # names) objs =
     and_then (collect_object L OServiceAccount (CurrentServiceAccount cli ns name) objs)
       (collect_accounts L cli ns names)"

definition collect_namespaced :: "'w lib \<Rightarrow> 'w client \<Rightarrow> string \<Rightarrow> rbac_object list \<Rightarrow>
    ('w, rbac_object list res) state" where
  "collect_namespaced L cli ns objs =
     and_then (collect_object L ORoleBinding (CurrentRoleBinding cli ns SesameRbacName) objs) (\<lambda>objs.
     and_then (collect_object L ORole (CurrentRole cli ns SesameRbacName) objs) (\<lambda>objs.
     and_then (collect_object L ORole (CurrentRole cli ns CertGenRbacName) objs) (\<lambda>objs.
     collect_accounts L cli ns rbac_names objs)))"

definition collect_cluster :: "'w lib \<Rightarrow> 'w client \<Rightarrow> string \<Rightarrow> rbac_object list \<Rightarrow>
    ('w, rbac_object list res) state" where
  "collect_cluster L cli nsName objs =
     and_then (collect_object L OClusterRoleBinding (CurrentClusterRoleBinding cli nsName) objs)
       (collect_object L OClusterRole (CurrentClusterRole cli nsName))"

text \<open>The loop that deletes the collected objects that are owned.\<close>

fun delete_objects :: "'w lib \<Rightarrow> 'w client \<Rightarrow> Sesame \<Rightarrow> rbac_object list \<Rightarrow> ('w, unit res) state" where
  "delete_objects L cli s [] = ret (Ok ())"
| "delete_objects L cli s (x # xs) =
     (if Exist (object_meta x) (OwnerLabels s) then do {
        d \<leftarrow> delete_object cli x;
        case d of
          None \<Rightarrow> delete_objects L cli s xs
        | Some e \<Rightarrow>
            (if IsNotFound L e then delete_objects L cli s xs
             else ret (Err (Wrapf ''failed to delete %s %s/%s: %w''
               [object_kind x, Namespace (object_meta x), Name (object_meta x)] (ApiErr e))))
      } else delete_objects L cli s xs)"

definition EnsureRBACDeleted :: "'w lib \<Rightarrow> 'w client \<Rightarrow> Sesame \<Rightarrow> ('w, unit res) state" where
  "EnsureRBACDeleted L cli s =
     and_then (wrapped (Wrapf ''failed to verify if Sesames SesamesExist in namespace %s: %w'' [spec_ns s])
         (OtherSesamesExistInSpecNs cli s)) (\<lambda>inNs.
     and_then (if \<not> inNs then collect_namespaced L cli (spec_ns s) [] else ret (Ok [])) (\<lambda>objs.
     and_then (wrapped (Wrapf ''failed to verify if Sesames exist in any namespace: %w'' [])
         (OtherSesamesExist cli s)) (\<lambda>(anywhere, _).
     and_then (if \<not> anywhere then collect_cluster L cli (cluster_rbac_name s) objs else ret (Ok objs))
       (\<lambda>objs.
     and_then (delete_objects L cli s objs) (\<lambda>_.
     ret (case NewAggregate L [] of None \<Rightarrow> Ok () | Some es \<Rightarrow> Err (Aggregate es)))))))"

end
