(* ===== verification/Namespace_Obj.thy ===== *)
theory Namespace_Obj
  imports Sesame_Obj
begin

text \<open>
  Package \<open>internal/objects/namespace\<close>: the namespace the managed resources live in. It is created
  when missing, updated only when it carries the owner labels, and deleted only when the spec asks
  for it, it is not a core namespace, it is owned and no other Sesame uses it.
\<close>

definition namespaceCoreList :: "string list" where
  "namespaceCoreList = [''sesame-operator'', ''default'', ''kube-system'']"

fun in_core_list :: "string \<Rightarrow> string list \<Rightarrow> bool" where
  "in_core_list name [] = False"
| "in_core_list name (ns # nss) = (if name = ns then True else in_core_list name nss)"

definition DesiredNamespace :: "Sesame \<Rightarrow> KNamespace" where
  "DesiredNamespace s = \<lparr>ns_Meta = zero_ObjectMeta\<lparr>
     Name := spec_ns s,
     Labels := Some [(OwningSesameNameLabel, sesame_name s),
                     (OwningSesameNsLabel, sesame_namespace s)]\<rparr>\<rparr>"

definition createNamespace :: "'w client \<Rightarrow> KNamespace \<Rightarrow> ('w, unit res) state" where
  "createNamespace cli ns = do {
     r \<leftarrow> Create (namespaces cli) ns;
     ret (call_res (Wrapf ''failed to create namespace %s: %w'' [Name (ns_Meta ns)]) r)
   }"

definition currentSpecNsName :: "'w client \<Rightarrow> string \<Rightarrow> ('w, api_error + KNamespace) state" where
  "currentSpecNsName cli name = Get (namespaces cli) \<lparr>nn_Namespace = [], nn_Name = name\<rparr>"

definition updateNamespaceIfNeeded ::
    "'w lib \<Rightarrow> 'w client \<Rightarrow> Sesame \<Rightarrow> KNamespace \<Rightarrow> KNamespace \<Rightarrow> ('w, unit res) state" where
  "updateNamespaceIfNeeded L cli s current desired =
     (if Exist (ns_Meta current) (OwnerLabels s) then
        (case NamespaceConfigChanged (DeepEqual L) current desired of
           Some ns \<Rightarrow> do {
             r \<leftarrow> Update (namespaces cli) ns;
             ret (call_res (Wrapf ''failed to update namespace %s: %w'' [Name (ns_Meta ns)]) r)
           }
         | None \<Rightarrow> ret (Ok ()))
      else ret (Ok ()))"

definition EnsureNamespace :: "'w lib \<Rightarrow> 'w client \<Rightarrow> Sesame \<Rightarrow> ('w, unit res) state" where
  "EnsureNamespace L cli s = (let desired = DesiredNamespace s in do {
     r \<leftarrow> currentSpecNsName cli (spec_ns s);
     case r of
       Inl e \<Rightarrow>
         (if IsNotFound L e then createNamespace cli desired
          else ret (Err (Wrapf ''failed to get namespace %s: %w'' [Name (ns_Meta desired)] (ApiErr e))))
     | Inr current \<Rightarrow> do {
         u \<leftarrow> updateNamespaceIfNeeded L cli s current desired;
         ret (map_err (Wrapf ''failed to update namespace %s: %w'' [Name (ns_Meta desired)]) u)
       }
   })"

text \<open>The flag says whether the deletion was expected to occur.\<close>

definition EnsureNamespaceDeleted ::
    "'w lib \<Rightarrow> 'w client \<Rightarrow> Sesame \<Rightarrow> ('w, bool \<times> unit res) state" where
  "EnsureNamespaceDeleted L cli s = (let name = spec_ns s in
     if \<not> RemoveOnDeletion (SpecNamespace (Spec s)) then ret (False, Ok ())
     else if in_core_list name namespaceCoreList then ret (False, Ok ())
     else do {
       r \<leftarrow> currentSpecNsName cli name;
       case r of
         Inl e \<Rightarrow> (if IsNotFound L e then ret (True, Ok ()) else ret (True, Err (ApiErr e)))
       | Inr ns \<Rightarrow>
           (if Exist (ns_Meta ns) (OwnerLabels s) then do {
              x \<leftarrow> OtherSesamesExistInSpecNs cli s;
              (case x of
                Err e \<Rightarrow> ret (True, Err (Wrapf ''failed to verify if Sesames exist in namespace %s: %w''
                  [name] e))
              | Panic \<Rightarrow> ret (True, Panic)
              | Ok exist \<Rightarrow>
                  (if \<not> exist then do {
                     d \<leftarrow> Delete (namespaces cli) ns;
                     ret (True, delete_res (IsNotFound L)
                       (Wrapf ''failed to delete namespace %s: %w'' [Name (ns_Meta ns)]) d)
                   } else ret (True, Ok ())))
            } else ret (True, Ok ()))
     })"

lemma in_core_list_iff: "in_core_list name l \<longleftrightarrow> name \<in> set l"
  by (induction l) auto

lemma DesiredNamespace_owned [simp]: "owned_by s (ns_Meta (DesiredNamespace s))"
  by (simp add: DesiredNamespace_def owned_by_iff)

lemma DesiredNamespace_key [simp]:
  "nsname (ns_Meta (DesiredNamespace s)) = \<lparr>nn_Namespace = [], nn_Name = spec_ns s\<rparr>"
  by (simp add: DesiredNamespace_def nsname_def zero_ObjectMeta_def)

end
