(* ===== verification/Service_Obj.thy ===== *)
theory Service_Obj
  imports Deployment_Obj Daemonset_Obj
begin

text \<open>
  Package \<open>internal/objects/service\<close>: the ClusterIP Service of Sesame's xDS port, and Envoy's
  Service, whose type, annotations, load-balancer address and node ports follow the network
  publishing part of the spec. A step of \<open>DesiredEnvoyService\<close> that dereferences a pointer of
  the spec is a \<open>res\<close>: a nil pointer is a panic.
\<close>

section \<open>Constants\<close>

definition SesameSvcName :: string where
  "SesameSvcName = ''sesame''"

definition envoySvcName :: string where
  "envoySvcName = ''envoy''"

definition awsLbBackendProtoAnnotation :: string where
  "awsLbBackendProtoAnnotation = ''service.beta.kubernetes.io/aws-load-balancer-backend-protocol''"

definition awsLBTypeAnnotation :: string where
  "awsLBTypeAnnotation = ''service.beta.kubernetes.io/aws-load-balancer-type''"

definition awsLBProxyProtocolAnnotation :: string where
  "awsLBProxyProtocolAnnotation = ''service.beta.kubernetes.io/aws-load-balancer-proxy-protocol''"

definition awsLBAllocationIDsAnnotation :: string where
  "awsLBAllocationIDsAnnotation = ''service.beta.kubernetes.io/aws-load-balancer-eip-allocations''"

definition awsInternalLBAnnotation :: string where
  "awsInternalLBAnnotation = ''service.beta.kubernetes.io/aws-load-balancer-internal''"

definition azureLBResourceGroupAnnotation :: string where
  "azureLBResourceGroupAnnotation = ''service.beta.kubernetes.io/azure-load-balancer-resource-group''"

definition azureLBSubnetAnnotation :: string where
  "azureLBSubnetAnnotation = ''service.beta.kubernetes.io/azure-load-balancer-internal-subnet''"

definition azureInternalLBAnnotation :: string where
  "azureInternalLBAnnotation = ''service.beta.kubernetes.io/azure-load-balancer-internal''"

definition gcpLBSubnetAnnotation :: string where
  "gcpLBSubnetAnnotation = ''networking.gke.io/internal-load-balancer-subnet''"

definition gcpLBTypeAnnotationLegacy :: string where
  "gcpLBTypeAnnotationLegacy = ''cloud.google.com/load-balancer-type''"

definition gcpLBTypeAnnotation :: string where
  "gcpLBTypeAnnotation = ''networking.gke.io/load-balancer-type''"

definition EnvoyServiceHTTPPort :: int32 where
  "EnvoyServiceHTTPPort = 80"

definition EnvoyServiceHTTPSPort :: int32 where
  "EnvoyServiceHTTPSPort = 443"

definition EnvoyNodePortHTTPPort :: int32 where
  "EnvoyNodePortHTTPPort = 30080"

definition EnvoyNodePortHTTPSPort :: int32 where
  "EnvoyNodePortHTTPSPort = 30443"

lemmas annotation_defs = awsLbBackendProtoAnnotation_def awsLBTypeAnnotation_def awsLBProxyProtocolAnnotation_def awsLBAllocationIDsAnnotation_def awsInternalLBAnnotation_def azureLBResourceGroupAnnotation_def azureLBSubnetAnnotation_def azureInternalLBAnnotation_def gcpLBSubnetAnnotation_def gcpLBTypeAnnotationLegacy_def gcpLBTypeAnnotation_def

definition InternalLBAnnotations ::
    "(LoadBalancerProviderType \<times> (string \<times> string) list) list" where
  "InternalLBAnnotations =
     [(AWSLoadBalancerProvider, [(awsInternalLBAnnotation, ''true'')]),
      (AzureLoadBalancerProvider, [(azureInternalLBAnnotation, ''true'')]),
      (GCPLoadBalancerProvider, [(gcpLBTypeAnnotation, ''Internal''),
                                 (gcpLBTypeAnnotationLegacy, ''Internal'')])]"

section \<open>Sesame's Service\<close>

definition DesiredSesameService :: "Sesame \<Rightarrow> Service" where
  "DesiredSesameService s = \<lparr>
     svc_Meta = zero_ObjectMeta\<lparr>Namespace := spec_ns s, Name := SesameSvcName,
       Labels := Some [(OwningSesameNameLabel, sesame_name s),
                       (OwningSesameNsLabel, sesame_namespace s)]\<rparr>,
     svc_Spec = zero_ServiceSpec\<lparr>
       svs_Ports := [\<lparr>sp_Name = ''xds'', sp_Protocol = ''TCP'', sp_AppProtocol = None,
         sp_Port = XDSPort, sp_TargetPort = IntVal XDSPort, sp_NodePort = 0\<rparr>],
       svs_Selector := MatchLabels SesameDeploymentPodSelector,
       svs_Type := ''ClusterIP'',
       svs_SessionAffinity := ''None''\<rparr>\<rparr>"

section \<open>What the spec asks of the load balancer\<close>

definition isELB :: "ProviderLoadBalancerParameters \<Rightarrow> bool" where
  "isELB params \<longleftrightarrow> prov_Type params = AWSLoadBalancerProvider \<and>
     (case prov_AWS params of None \<Rightarrow> True | Some p \<Rightarrow> aws_Type p = AWSClassicLoadBalancer)"

definition allocationIDsNeeded :: "SesameSpec \<Rightarrow> bool" where
  "allocationIDsNeeded spec \<longleftrightarrow>
     pub_Type (spec_pub spec) = LoadBalancerServicePublishingType \<and>
     Scope (LoadBalancer (spec_pub spec)) = ''External'' \<and>
     prov_Type (spec_params spec) = AWSLoadBalancerProvider \<and>
     (case prov_AWS (spec_params spec) of None \<Rightarrow> False
      | Some p \<Rightarrow> aws_Type p = AWSNetworkLoadBalancer \<and> AllocationIDs p \<noteq> None)"

definition resourceGroupNeeded :: "SesameSpec \<Rightarrow> bool" where
  "resourceGroupNeeded spec \<longleftrightarrow>
     pub_Type (spec_pub spec) = LoadBalancerServicePublishingType \<and>
     prov_Type (spec_params spec) = AzureLoadBalancerProvider \<and>
     (case prov_Azure (spec_params spec) of None \<Rightarrow> False
      | Some p \<Rightarrow> Scope (LoadBalancer (spec_pub spec)) = ''External'' \<and> az_ResourceGroup p \<noteq> None)"

definition subnetNeeded :: "SesameSpec \<Rightarrow> bool" where
  "subnetNeeded spec \<longleftrightarrow>
     pub_Type (spec_pub spec) = LoadBalancerServicePublishingType \<and>
     Scope (LoadBalancer (spec_pub spec)) = ''Internal'' \<and>
     (prov_Type (spec_params spec) = AzureLoadBalancerProvider \<and>
        (case prov_Azure (spec_params spec) of None \<Rightarrow> False | Some p \<Rightarrow> az_Subnet p \<noteq> None) \<or>
      prov_Type (spec_params spec) = GCPLoadBalancerProvider \<and>
        (case prov_GCP (spec_params spec) of None \<Rightarrow> False | Some p \<Rightarrow> gcp_Subnet p \<noteq> None))"

definition loadBalancerAddressNeeded :: "SesameSpec \<Rightarrow> bool" where
  "loadBalancerAddressNeeded spec \<longleftrightarrow>
     pub_Type (spec_pub spec) = LoadBalancerServicePublishingType \<and>
     (prov_Type (spec_params spec) = AzureLoadBalancerProvider \<and>
        (case prov_Azure (spec_params spec) of None \<Rightarrow> False | Some p \<Rightarrow> az_Address p \<noteq> None) \<or>
      prov_Type (spec_params spec) = GCPLoadBalancerProvider \<and>
        (case prov_GCP (spec_params spec) of None \<Rightarrow> False | Some p \<Rightarrow> gcp_Address p \<noteq> None))"

section \<open>Envoy's Service\<close>

text \<open>The two flags are declared inside the loop: they are false at the start of every round.\<close>

fun envoy_ports :: "ContainerPort list \<Rightarrow> ServicePort list \<Rightarrow> ServicePort list" where
  "envoy_ports [] ports = ports"
| "envoy_ports (port # rest) ports =
     (let httpFound = False; httpsFound = False in
      envoy_ports rest
        (if httpsFound \<and> httpFound then ports
         else if ecp_Name port = ''http'' then ports @
           [\<lparr>sp_Name = ecp_Name port, sp_Protocol = ''TCP'', sp_AppProtocol = None,
             sp_Port = EnvoyServiceHTTPPort, sp_TargetPort = IntVal (ecp_PortNumber port),
             sp_NodePort = 0\<rparr>]
         else if ecp_Name port = ''https'' then ports @
           [\<lparr>sp_Name = ecp_Name port, sp_Protocol = ''TCP'', sp_AppProtocol = None,
             sp_Port = EnvoyServiceHTTPSPort, sp_TargetPort = IntVal (ecp_PortNumber port),
             sp_NodePort = 0\<rparr>]
         else ports))"

definition annotate :: "string \<Rightarrow> string \<Rightarrow> Service \<Rightarrow> Service" where
  "annotate k v svc = svc\<lparr>svc_Meta := (svc_Meta svc)\<lparr>Annotations :=
     Some (set_entry k v (map_entries (Annotations (svc_Meta svc))))\<rparr>\<rparr>"

definition envoy_base :: "Sesame \<Rightarrow> Service" where
  "envoy_base s = \<lparr>
     svc_Meta = zero_ObjectMeta\<lparr>Namespace := spec_ns s, Name := envoySvcName,
       Annotations := Some [],
       Labels := Some [(OwningSesameNameLabel, sesame_name s),
                       (OwningSesameNsLabel, sesame_namespace s)]\<rparr>,
     svc_Spec = zero_ServiceSpec\<lparr>
       svs_Ports := envoy_ports (ContainerPorts (envoy_pub s)) [],
       svs_Selector := MatchLabels EnvoyDaemonSetPodSelector,
       svs_SessionAffinity := ''None''\<rparr>\<rparr>"

definition envoy_aws :: "Sesame \<Rightarrow> Service \<Rightarrow> Service" where
  "envoy_aws s svc =
     (if pub_Type (envoy_pub s) = LoadBalancerServicePublishingType \<and>
         prov_Type (lb_params s) = AWSLoadBalancerProvider
      then (if isELB (lb_params s)
            then annotate awsLBProxyProtocolAnnotation ''*''
                   (annotate awsLbBackendProtoAnnotation ''tcp'' svc)
            else annotate awsLBTypeAnnotation ''nlb'' svc)
      else svc)"

text \<open>Dereferencing a pointer, and a field of a pointer.\<close>

fun deref_or :: "'a option \<Rightarrow> ('a \<Rightarrow> 'b res) \<Rightarrow> 'b res" where
  "deref_or None f = Panic"
| "deref_or (Some x) f = f x"

fun res_bind :: "'a res \<Rightarrow> ('a \<Rightarrow> 'b res) \<Rightarrow> 'b res" where
  "res_bind (Ok x) f = f x"
| "res_bind (Err e) f = Err e"
| "res_bind Panic f = Panic"

text \<open>\<open>strings.Join\<close> of a nil slice is empty.\<close>

definition envoy_allocation_ids :: "Sesame \<Rightarrow> Service \<Rightarrow> Service res" where
  "envoy_allocation_ids s svc =
     (if allocationIDsNeeded (Spec s)
      then deref_or (prov_AWS (lb_params s)) (\<lambda>p. Ok (annotate awsLBAllocationIDsAnnotation
             (join_with '','' (case AllocationIDs p of None \<Rightarrow> [] | Some ids \<Rightarrow> ids)) svc))
      else Ok svc)"

definition envoy_resource_group :: "Sesame \<Rightarrow> Service \<Rightarrow> Service res" where
  "envoy_resource_group s svc =
     (if resourceGroupNeeded (Spec s)
      then deref_or (prov_Azure (lb_params s)) (\<lambda>p. deref_or (az_ResourceGroup p)
             (\<lambda>g. Ok (annotate azureLBResourceGroupAnnotation g svc)))
      else Ok svc)"

definition envoy_subnet :: "Sesame \<Rightarrow> Service \<Rightarrow> Service res" where
  "envoy_subnet s svc =
     (if subnetNeeded (Spec s)
      then (if prov_Type (lb_params s) = AzureLoadBalancerProvider
            then deref_or (prov_Azure (lb_params s)) (\<lambda>p. deref_or (az_Subnet p)
                   (\<lambda>n. Ok (annotate azureLBSubnetAnnotation n svc)))
            else if prov_Type (lb_params s) = GCPLoadBalancerProvider
            then deref_or (prov_GCP (lb_params s)) (\<lambda>p. deref_or (gcp_Subnet p)
                   (\<lambda>n. Ok (annotate gcpLBSubnetAnnotation n svc)))
            else Ok svc)
      else Ok svc)"

definition envoy_lb_ip :: "Sesame \<Rightarrow> Service \<Rightarrow> Service res" where
  "envoy_lb_ip s svc =
     (if loadBalancerAddressNeeded (Spec s)
      then (if prov_Type (lb_params s) = AzureLoadBalancerProvider
            then deref_or (prov_Azure (lb_params s)) (\<lambda>p. deref_or (az_Address p)
                   (\<lambda>a. Ok (upd_spec (\<lambda>sp. sp\<lparr>svs_LoadBalancerIP := a\<rparr>) svc)))
            else if prov_Type (lb_params s) = GCPLoadBalancerProvider
            then deref_or (prov_GCP (lb_params s)) (\<lambda>p. deref_or (gcp_Address p)
                   (\<lambda>a. Ok (upd_spec (\<lambda>sp. sp\<lparr>svs_LoadBalancerIP := a\<rparr>) svc)))
            else Ok svc)
      else Ok svc)"

text \<open>The loops over the node ports and, inside, over the service ports.\<close>

fun set_node_ports :: "NodePort list \<Rightarrow> ServicePort list \<Rightarrow> ServicePort list" where
  "set_node_ports [] ports = ports"
| "set_node_ports (p # ps) ports = set_node_ports ps
     (case np_PortNumber p of None \<Rightarrow> ports
      | Some n \<Rightarrow> map (\<lambda>q. if sp_Name q = np_Name p then q\<lparr>sp_NodePort := deref n\<rparr> else q) ports)"

definition envoy_publish :: "Sesame \<Rightarrow> Service \<Rightarrow> Service" where
  "envoy_publish s svc0 =
     (let epType = pub_Type (envoy_pub s);
          svc = (if epType = LoadBalancerServicePublishingType \<or>
                    epType = NodePortServicePublishingType
                 then upd_spec (\<lambda>sp. sp\<lparr>svs_ExternalTrafficPolicy := ''Local''\<rparr>) svc0 else svc0)
      in if epType = LoadBalancerServicePublishingType then
           (let svc' = upd_spec (\<lambda>sp. sp\<lparr>svs_Type := ''LoadBalancer''\<rparr>) svc
            in if Scope (LoadBalancer (envoy_pub s)) = InternalLoadBalancer
               then (case map_of InternalLBAnnotations (prov_Type (lb_params s)) of
                       None \<Rightarrow> svc'
                     | Some kvs \<Rightarrow> fold (\<lambda>(k, v). annotate k v) kvs svc')
               else svc')
         else if epType = NodePortServicePublishingType then
           (let svc' = upd_spec (\<lambda>sp. sp\<lparr>svs_Type := ''NodePort''\<rparr>) svc
            in case NodePorts (envoy_pub s) of
                 None \<Rightarrow> svc'
               | Some nps \<Rightarrow> (if length nps > 0
                   then upd_spec (\<lambda>sp. sp\<lparr>svs_Ports := set_node_ports nps (svs_Ports sp)\<rparr>) svc'
                   else svc'))
         else if epType = ClusterIPServicePublishingType then
           upd_spec (\<lambda>sp. sp\<lparr>svs_Type := ''ClusterIP''\<rparr>) svc
         else svc)"

definition DesiredEnvoyService :: "Sesame \<Rightarrow> Service res" where
  "DesiredEnvoyService s =
     res_bind (envoy_allocation_ids s (envoy_aws s (envoy_base s))) (\<lambda>svc.
     res_bind (envoy_resource_group s svc) (\<lambda>svc.
     res_bind (envoy_subnet s svc) (\<lambda>svc.
     res_bind (envoy_lb_ip s svc) (\<lambda>svc.
     Ok (envoy_publish s svc)))))"

section \<open>Handlers\<close>

definition currentSesameService :: "'w client \<Rightarrow> Sesame \<Rightarrow> ('w, api_error + Service) state" where
  "currentSesameService cli s =
     Get (services cli) \<lparr>nn_Namespace = spec_ns s, nn_Name = SesameSvcName\<rparr>"

definition currentEnvoyService :: "'w client \<Rightarrow> Sesame \<Rightarrow> ('w, api_error + Service) state" where
  "currentEnvoyService cli s =
     Get (services cli) \<lparr>nn_Namespace = spec_ns s, nn_Name = envoySvcName\<rparr>"

definition createService :: "'w client \<Rightarrow> Service \<Rightarrow> ('w, unit res) state" where
  "createService cli svc = do {
     r \<leftarrow> Create (services cli) svc;
     ret (call_res (Wrapf ''failed to create service %s/%s: %w''
       [Namespace (svc_Meta svc), Name (svc_Meta svc)]) r)
   }"

text \<open>The object the comparison built is dropped: the call sends \<open>desired\<close>.\<close>

definition updateSesameServiceIfNeeded ::
    "'w lib \<Rightarrow> 'w client \<Rightarrow> Sesame \<Rightarrow> Service \<Rightarrow> Service \<Rightarrow> ('w, unit res) state" where
  "updateSesameServiceIfNeeded L cli s current desired =
     (if Exist (svc_Meta current) (OwnerLabels s) then
        (case ClusterIPServiceChanged (DeepEqual L) current desired of
           Some _ \<Rightarrow> do {
             r \<leftarrow> Update (services cli) desired;
             ret (call_res (Wrapf ''failed to update service %s/%s: %w''
               [Namespace (svc_Meta desired), Name (svc_Meta desired)]) r)
           }
         | None \<Rightarrow> ret (Ok ()))
      else ret (Ok ()))"

text \<open>The comparison for the publishing type; the load balancer's is the default.\<close>

definition envoy_service_changed ::
    "(iface \<Rightarrow> iface \<Rightarrow> bool) \<Rightarrow> Sesame \<Rightarrow> Service \<Rightarrow> Service \<Rightarrow> Service option res" where
  "envoy_service_changed deq s current desired =
     (if pub_Type (envoy_pub s) = NodePortServicePublishingType
      then NodePortServiceChanged deq current desired
      else if pub_Type (envoy_pub s) = ClusterIPServicePublishingType
      then Ok (ClusterIPServiceChanged deq current desired)
      else Ok (LoadBalancerServiceChanged deq current desired))"

definition updateEnvoyServiceIfNeeded ::
    "'w lib \<Rightarrow> 'w client \<Rightarrow> Sesame \<Rightarrow> Service \<Rightarrow> Service \<Rightarrow> ('w, unit res) state" where
  "updateEnvoyServiceIfNeeded L cli s current desired =
     (if Exist (svc_Meta current) (OwnerLabels s) then
        (case envoy_service_changed (DeepEqual L) s current desired of
           Panic \<Rightarrow> ret Panic
         | Err e \<Rightarrow> ret (Err e)
         | Ok None \<Rightarrow> ret (Ok ())
         | Ok (Some updated) \<Rightarrow> do {
             r \<leftarrow> Update (services cli) updated;
             ret (call_res (Wrapf ''failed to update service %s/%s: %w''
               [Namespace (svc_Meta desired), Name (svc_Meta desired)]) r)
           })
      else ret (Ok ()))"

definition EnsureSesameService :: "'w lib \<Rightarrow> 'w client \<Rightarrow> Sesame \<Rightarrow> ('w, unit res) state" where
  "EnsureSesameService L cli s = (let desired = DesiredSesameService s;
       args = [Namespace (svc_Meta desired), Name (svc_Meta desired)] in do {
     r \<leftarrow> currentSesameService cli s;
     case r of
       Inl e \<Rightarrow>
         (if IsNotFound L e then createService cli desired
          else ret (Err (Wrapf ''failed to get service %s/%s: %w'' args (ApiErr e))))
     | Inr current \<Rightarrow> do {
         u \<leftarrow> updateSesameServiceIfNeeded L cli s current desired;
         ret (map_err (Wrapf ''failed to update service %s/%s: %w'' args) u)
       }
   })"

definition EnsureEnvoyService :: "'w lib \<Rightarrow> 'w client \<Rightarrow> Sesame \<Rightarrow> ('w, unit res) state" where
  "EnsureEnvoyService L cli s = (case DesiredEnvoyService s of
       Panic \<Rightarrow> ret Panic
     | Err e \<Rightarrow> ret (Err e)
     | Ok desired \<Rightarrow> (let args = [Namespace (svc_Meta desired), Name (svc_Meta desired)] in do {
         r \<leftarrow> currentEnvoyService cli s;
         case r of
           Inl e \<Rightarrow>
             (if IsNotFound L e then createService cli desired
              else ret (Err (Wrapf ''failed to get service %s/%s: %w'' args (ApiErr e))))
         | Inr current \<Rightarrow> do {
             u \<leftarrow> updateEnvoyServiceIfNeeded L cli s current desired;
             ret (map_err (Wrapf ''failed to update service %s/%s: %w'' args) u)
           }
       }))"

definition EnsureSesameServiceDeleted ::
    "'w lib \<Rightarrow> 'w client \<Rightarrow> Sesame \<Rightarrow> ('w, unit res) state" where
  "EnsureSesameServiceDeleted L cli s = do {
     r \<leftarrow> currentSesameService cli s;
     case r of
       Inl e \<Rightarrow> (if IsNotFound L e then ret (Ok ()) else ret (Err (ApiErr e)))
     | Inr svc \<Rightarrow>
         (if Exist (svc_Meta svc) (OwnerLabels s) then do {
            d \<leftarrow> Delete (services cli) svc;
            ret (delete_res (IsNotFound L) id d)
          } else ret (Ok ()))
   }"

definition EnsureEnvoyServiceDeleted ::
    "'w lib \<Rightarrow> 'w client \<Rightarrow> Sesame \<Rightarrow> ('w, unit res) state" where
  "EnsureEnvoyServiceDeleted L cli s = do {
     r \<leftarrow> currentEnvoyService cli s;
     case r of
       Inl e \<Rightarrow> (if IsNotFound L e then ret (Ok ()) else ret (Err (ApiErr e)))
     | Inr svc \<Rightarrow>
         (if Exist (svc_Meta svc) (OwnerLabels s) then do {
            d \<leftarrow> Delete (services cli) svc;
            ret (delete_res (IsNotFound L) id d)
          } else ret (Ok ()))
   }"

section \<open>Facts\<close>

lemma DesiredSesameService_owned [simp]: "owned_by s (svc_Meta (DesiredSesameService s))"
  by (simp add: DesiredSesameService_def owned_by_iff)

lemma DesiredSesameService_key [simp]:
  "nsname (svc_Meta (DesiredSesameService s)) = \<lparr>nn_Namespace = spec_ns s, nn_Name = SesameSvcName\<rparr>"
  by (simp add: DesiredSesameService_def nsname_def zero_ObjectMeta_def)

lemma annotate_simps [simp]:
  "svc_Spec (annotate k v svc) = svc_Spec svc"
  "Labels (svc_Meta (annotate k v svc)) = Labels (svc_Meta svc)"
  "nsname (svc_Meta (annotate k v svc)) = nsname (svc_Meta svc)"
  "Annotations (svc_Meta (annotate k v svc)) =
     Some (set_entry k v (map_entries (Annotations (svc_Meta svc))))"
  by (simp_all add: annotate_def)

lemma annotation_keys_distinct:
  "distinct [awsLbBackendProtoAnnotation, awsLBProxyProtocolAnnotation, awsLBTypeAnnotation,
     awsLBAllocationIDsAnnotation, azureLBResourceGroupAnnotation, azureLBSubnetAnnotation,
     gcpLBSubnetAnnotation, awsInternalLBAnnotation, azureInternalLBAnnotation, gcpLBTypeAnnotation,
     gcpLBTypeAnnotationLegacy]"
  by (simp add: annotation_defs)

lemmas annotation_keys_differ [simp] = annotation_keys_distinct [simplified distinct.simps
  list.set insert_iff empty_iff de_Morgan_disj simp_thms]

subsection \<open>The desired object without the nil checks\<close>

text \<open>The annotations as a table: when each entry is present, its key and its value.\<close>

definition opt_str :: "string option \<Rightarrow> string" where
  "opt_str x = (case x of None \<Rightarrow> [] | Some s \<Rightarrow> s)"

definition annotation_table :: "Sesame \<Rightarrow> (bool \<times> string \<times> string) list" where
  "annotation_table s =
     (let sp = Spec s; pr = lb_params s;
          lb = (pub_Type (envoy_pub s) = LoadBalancerServicePublishingType);
          aws = (prov_Type pr = AWSLoadBalancerProvider);
          azure = (prov_Type pr = AzureLoadBalancerProvider);
          gcp = (prov_Type pr = GCPLoadBalancerProvider);
          internal = (Scope (LoadBalancer (envoy_pub s)) = InternalLoadBalancer)
      in [(lb \<and> isELB pr, awsLbBackendProtoAnnotation, ''tcp''),
          (lb \<and> isELB pr, awsLBProxyProtocolAnnotation, ''*''),
          (lb \<and> aws \<and> \<not> isELB pr, awsLBTypeAnnotation, ''nlb''),
          (allocationIDsNeeded sp, awsLBAllocationIDsAnnotation,
             join_with '','' (case prov_AWS pr of None \<Rightarrow> []
               | Some p \<Rightarrow> (case AllocationIDs p of None \<Rightarrow> [] | Some ids \<Rightarrow> ids))),
          (resourceGroupNeeded sp, azureLBResourceGroupAnnotation,
             (case prov_Azure pr of None \<Rightarrow> [] | Some p \<Rightarrow> opt_str (az_ResourceGroup p))),
          (subnetNeeded sp \<and> azure, azureLBSubnetAnnotation,
             (case prov_Azure pr of None \<Rightarrow> [] | Some p \<Rightarrow> opt_str (az_Subnet p))),
          (subnetNeeded sp \<and> gcp, gcpLBSubnetAnnotation,
             (case prov_GCP pr of None \<Rightarrow> [] | Some p \<Rightarrow> opt_str (gcp_Subnet p))),
          (lb \<and> internal \<and> aws, awsInternalLBAnnotation, ''true''),
          (lb \<and> internal \<and> azure, azureInternalLBAnnotation, ''true''),
          (lb \<and> internal \<and> gcp, gcpLBTypeAnnotation, ''Internal''),
          (lb \<and> internal \<and> gcp, gcpLBTypeAnnotationLegacy, ''Internal'')])"

definition lb_ip :: "Sesame \<Rightarrow> string" where
  "lb_ip s = (if loadBalancerAddressNeeded (Spec s)
     then (if prov_Type (lb_params s) = AzureLoadBalancerProvider
           then (case prov_Azure (lb_params s) of None \<Rightarrow> [] | Some p \<Rightarrow> opt_str (az_Address p))
           else (case prov_GCP (lb_params s) of None \<Rightarrow> [] | Some p \<Rightarrow> opt_str (gcp_Address p)))
     else [])"

definition service_type :: "Sesame \<Rightarrow> string" where
  "service_type s =
     (if pub_Type (envoy_pub s) = LoadBalancerServicePublishingType then ''LoadBalancer''
      else if pub_Type (envoy_pub s) = NodePortServicePublishingType then ''NodePort''
      else if pub_Type (envoy_pub s) = ClusterIPServicePublishingType then ''ClusterIP'' else [])"

definition envoy_service_ports :: "Sesame \<Rightarrow> ServicePort list" where
  "envoy_service_ports s = (let ports = envoy_ports (ContainerPorts (envoy_pub s)) [] in
     if pub_Type (envoy_pub s) = NodePortServicePublishingType
     then set_node_ports (case NodePorts (envoy_pub s) of None \<Rightarrow> [] | Some l \<Rightarrow> l) ports
     else ports)"

definition envoy_service :: "Sesame \<Rightarrow> Service" where
  "envoy_service s = \<lparr>
     svc_Meta = zero_ObjectMeta\<lparr>Namespace := spec_ns s, Name := envoySvcName,
       Annotations := Some (map snd (filter fst (annotation_table s))),
       Labels := Some [(OwningSesameNameLabel, sesame_name s),
                       (OwningSesameNsLabel, sesame_namespace s)]\<rparr>,
     svc_Spec = zero_ServiceSpec\<lparr>
       svs_Ports := envoy_service_ports s,
       svs_Selector := Some [(''app'', ''envoy'')],
       svs_Type := service_type s,
       svs_SessionAffinity := ''None'',
       svs_LoadBalancerIP := lb_ip s,
       svs_ExternalTrafficPolicy :=
         (if pub_Type (envoy_pub s) \<in> {LoadBalancerServicePublishingType,
            NodePortServicePublishingType} then ''Local'' else [])\<rparr>\<rparr>"

definition annotate_if :: "bool \<Rightarrow> string \<Rightarrow> string \<Rightarrow> Service \<Rightarrow> Service" where
  "annotate_if b k v svc = (if b then annotate k v svc else svc)"

text \<open>A run of conditional annotations with distinct fresh keys appends the selected entries.\<close>

lemma set_entry_fresh: "k \<notin> fst ` set kvs \<Longrightarrow> set_entry k v kvs = kvs @ [(k, v)]"
  by (induction k v kvs rule: set_entry.induct) auto

lemma annotations_run:
  assumes "distinct (map (fst \<circ> snd) table)"
    and "\<forall>(b, k, v) \<in> set table. k \<notin> fst ` set (map_entries (Annotations (svc_Meta svc)))"
  shows "map_entries (Annotations (svc_Meta (fold (\<lambda>(b, k, v). annotate_if b k v) table svc))) =
     map_entries (Annotations (svc_Meta svc)) @ map snd (filter fst table)"
  using assms
proof (induction table arbitrary: svc)
  case (Cons t table)
  obtain b k v where t: "t = (b, k, v)" by (cases t)
  have fresh: "k \<notin> fst ` set (map_entries (Annotations (svc_Meta svc)))"
    using Cons.prems t by auto
  let ?svc = "annotate_if b k v svc"
  have entries: "map_entries (Annotations (svc_Meta ?svc)) =
      map_entries (Annotations (svc_Meta svc)) @ (if b then [(k, v)] else [])"
    using fresh by (simp add: annotate_if_def set_entry_fresh)
  have "map_entries (Annotations (svc_Meta (fold (\<lambda>(b, k, v). annotate_if b k v) table ?svc))) =
      map_entries (Annotations (svc_Meta ?svc)) @ map snd (filter fst table)"
    using Cons.prems t by (intro Cons.IH) (force simp: entries split: if_splits)+
  then show ?case by (simp add: t entries)
qed simp

lemma allocation_ids_step:
  "envoy_allocation_ids s svc = Ok (annotate_if (allocationIDsNeeded (Spec s))
     awsLBAllocationIDsAnnotation (join_with '','' (case prov_AWS (lb_params s) of None \<Rightarrow> []
       | Some p \<Rightarrow> (case AllocationIDs p of None \<Rightarrow> [] | Some ids \<Rightarrow> ids))) svc)"
  by (auto simp: envoy_allocation_ids_def annotate_if_def allocationIDsNeeded_def split: option.splits)

lemma resource_group_step:
  "envoy_resource_group s svc = Ok (annotate_if (resourceGroupNeeded (Spec s))
     azureLBResourceGroupAnnotation
     (case prov_Azure (lb_params s) of None \<Rightarrow> [] | Some p \<Rightarrow> opt_str (az_ResourceGroup p)) svc)"
  by (auto simp: envoy_resource_group_def annotate_if_def resourceGroupNeeded_def opt_str_def
      split: option.splits)

lemma subnet_step:
  "envoy_subnet s svc = Ok (annotate_if
       (subnetNeeded (Spec s) \<and> prov_Type (lb_params s) = GCPLoadBalancerProvider)
     gcpLBSubnetAnnotation
     (case prov_GCP (lb_params s) of None \<Rightarrow> [] | Some p \<Rightarrow> opt_str (gcp_Subnet p))
     (annotate_if (subnetNeeded (Spec s) \<and> prov_Type (lb_params s) = AzureLoadBalancerProvider)
       azureLBSubnetAnnotation
       (case prov_Azure (lb_params s) of None \<Rightarrow> [] | Some p \<Rightarrow> opt_str (az_Subnet p)) svc))"
  by (auto simp: envoy_subnet_def annotate_if_def subnetNeeded_def opt_str_def split: option.splits)

lemma lb_ip_step:
  assumes "svs_LoadBalancerIP (svc_Spec svc) = []"
  shows "envoy_lb_ip s svc = Ok (upd_spec (\<lambda>sp. sp\<lparr>svs_LoadBalancerIP := lb_ip s\<rparr>) svc)"
proof -
  have same: "sp\<lparr>svs_LoadBalancerIP := []\<rparr> = sp" if "svs_LoadBalancerIP sp = []" for sp :: ServiceSpec
    using that by simp
  show ?thesis using assms
    by (auto simp: envoy_lb_ip_def loadBalancerAddressNeeded_def lb_ip_def opt_str_def same
        split: option.splits)
qed

lemma aws_step:
  "envoy_aws s svc =
     annotate_if (pub_Type (envoy_pub s) = LoadBalancerServicePublishingType \<and>
         prov_Type (lb_params s) = AWSLoadBalancerProvider \<and> \<not> isELB (lb_params s))
       awsLBTypeAnnotation ''nlb''
     (annotate_if (pub_Type (envoy_pub s) = LoadBalancerServicePublishingType \<and> isELB (lb_params s))
       awsLBProxyProtocolAnnotation ''*''
     (annotate_if (pub_Type (envoy_pub s) = LoadBalancerServicePublishingType \<and> isELB (lb_params s))
       awsLbBackendProtoAnnotation ''tcp'' svc))"
  by (auto simp: envoy_aws_def annotate_if_def isELB_def)

lemma internal_step:
  "(case map_of InternalLBAnnotations p of None \<Rightarrow> svc
      | Some kvs \<Rightarrow> fold (\<lambda>(k, v). annotate k v) kvs svc) =
   annotate_if (p = GCPLoadBalancerProvider) gcpLBTypeAnnotationLegacy ''Internal''
   (annotate_if (p = GCPLoadBalancerProvider) gcpLBTypeAnnotation ''Internal''
   (annotate_if (p = AzureLoadBalancerProvider) azureInternalLBAnnotation ''true''
   (annotate_if (p = AWSLoadBalancerProvider) awsInternalLBAnnotation ''true'' svc)))"
  by (simp add: InternalLBAnnotations_def annotate_if_def)

text \<open>Annotating and setting spec fields do not interfere.\<close>

lemma annotate_if_spec [simp]: "svc_Spec (annotate_if b k v svc) = svc_Spec svc"
  by (simp add: annotate_if_def)

lemma annotate_if_keeps [simp]:
  "(svc_Meta (annotate_if b k v svc))\<lparr>Annotations := a\<rparr> = (svc_Meta svc)\<lparr>Annotations := a\<rparr>"
  by (simp add: annotate_if_def annotate_def)

lemma annotate_if_some:
  "Annotations (svc_Meta svc) = Some l \<Longrightarrow>
     \<exists>l'. Annotations (svc_Meta (annotate_if b k v svc)) = Some l'"
  by (simp add: annotate_if_def)

lemma annotate_if_false [simp]: "annotate_if False k v svc = svc"
  by (simp add: annotate_if_def)

lemma envoy_publish_step:
  "envoy_publish s svc = (let sp = svc_Spec svc;
       lb = (pub_Type (envoy_pub s) = LoadBalancerServicePublishingType);
       np = (pub_Type (envoy_pub s) = NodePortServicePublishingType);
       cip = (pub_Type (envoy_pub s) = ClusterIPServicePublishingType);
       internal = (lb \<and> Scope (LoadBalancer (envoy_pub s)) = InternalLoadBalancer);
       prov = prov_Type (lb_params s);
       sp' = sp\<lparr>svs_ExternalTrafficPolicy :=
                  (if lb \<or> np then ''Local'' else svs_ExternalTrafficPolicy sp),
                svs_Type := (if lb then ''LoadBalancer'' else if np then ''NodePort''
                  else if cip then ''ClusterIP'' else svs_Type sp),
                svs_Ports := (if np then set_node_ports
                    (case NodePorts (envoy_pub s) of None \<Rightarrow> [] | Some l \<Rightarrow> l) (svs_Ports sp)
                  else svs_Ports sp)\<rparr>
     in annotate_if (internal \<and> prov = GCPLoadBalancerProvider) gcpLBTypeAnnotationLegacy ''Internal''
       (annotate_if (internal \<and> prov = GCPLoadBalancerProvider) gcpLBTypeAnnotation ''Internal''
       (annotate_if (internal \<and> prov = AzureLoadBalancerProvider) azureInternalLBAnnotation ''true''
       (annotate_if (internal \<and> prov = AWSLoadBalancerProvider) awsInternalLBAnnotation ''true''
         (svc\<lparr>svc_Spec := sp'\<rparr>)))))"
  by (auto simp: envoy_publish_def internal_step Let_def split: option.split)

lemma fold_annotations_shape:
  "svc_Spec (fold (\<lambda>(b, k, v). annotate_if b k v) table svc) = svc_Spec svc"
  "(svc_Meta (fold (\<lambda>(b, k, v). annotate_if b k v) table svc))\<lparr>Annotations := a\<rparr> =
     (svc_Meta svc)\<lparr>Annotations := a\<rparr>"
  by (induction table arbitrary: svc) auto

lemma fold_annotations_some:
  "Annotations (svc_Meta svc) = Some l \<Longrightarrow>
     \<exists>l'. Annotations (svc_Meta (fold (\<lambda>(b, k, v). annotate_if b k v) table svc)) = Some l'"
proof (induction table arbitrary: svc l)
  case (Cons t table)
  obtain b k v where t: "t = (b, k, v)" by (cases t)
  obtain l' where "Annotations (svc_Meta (annotate_if b k v svc)) = Some l'"
    using annotate_if_some [OF Cons.prems] by blast
  from Cons.IH [OF this] show ?case by (simp add: t)
qed simp

definition envoy_spec_base :: "Sesame \<Rightarrow> Service" where
  "envoy_spec_base s = (envoy_service s)\<lparr>svc_Meta := (svc_Meta (envoy_service s))\<lparr>
     Annotations := Some []\<rparr>\<rparr>"

lemma annotate_if_update:
  "(annotate_if b k v svc)\<lparr>svc_Spec := sp\<rparr> = annotate_if b k v (svc\<lparr>svc_Spec := sp\<rparr>)"
  by (simp add: annotate_if_def annotate_def)

lemma isELB_aws: "isELB p \<Longrightarrow> prov_Type p = AWSLoadBalancerProvider"
  by (simp add: isELB_def)

lemma envoy_base_spec [simp]:
  "svc_Spec (envoy_base s) = zero_ServiceSpec\<lparr>
     svs_Ports := envoy_ports (ContainerPorts (envoy_pub s)) [],
     svs_Selector := Some [(''app'', ''envoy'')], svs_SessionAffinity := ''None''\<rparr>"
  "svs_LoadBalancerIP zero_ServiceSpec = []" "svs_ExternalTrafficPolicy zero_ServiceSpec = []"
  "svs_Type zero_ServiceSpec = []"
  by (simp_all add: envoy_base_def EnvoyDaemonSetPodSelector_def zero_ServiceSpec_def)

lemma envoy_spec_base_eq:
  "envoy_spec_base s = (envoy_base s)\<lparr>svc_Spec := svc_Spec (envoy_service s)\<rparr>"
  by (simp add: envoy_spec_base_def envoy_service_def envoy_base_def zero_ObjectMeta_def)

lemma DesiredEnvoyService_fold:
  "DesiredEnvoyService s =
     Ok (fold (\<lambda>(b, k, v). annotate_if b k v) (annotation_table s) (envoy_spec_base s))"
  by (simp add: DesiredEnvoyService_def allocation_ids_step resource_group_step subnet_step
      lb_ip_step aws_step envoy_publish_step annotation_table_def Let_def annotate_if_update
      envoy_spec_base_eq envoy_service_def envoy_service_ports_def service_type_def
      zero_ServiceSpec_def)

text \<open>Building the Service never dereferences a nil pointer, and its parts are those of the table.\<close>

lemma DesiredEnvoyService_closed: "DesiredEnvoyService s = Ok (envoy_service s)"
proof -
  let ?svc = "fold (\<lambda>(b, k, v). annotate_if b k v) (annotation_table s) (envoy_spec_base s)"
  have keys: "distinct (map (fst \<circ> snd) (annotation_table s))"
    using annotation_keys_distinct by (simp add: annotation_table_def Let_def)
  have none: "Annotations (svc_Meta (envoy_spec_base s)) = Some []"
    by (simp add: envoy_spec_base_def)
  obtain l where l: "Annotations (svc_Meta ?svc) = Some l"
    using fold_annotations_some [OF none] by blast
  have "l = map snd (filter fst (annotation_table s))"
    using annotations_run [OF keys, of "envoy_spec_base s"] none l by simp
  moreover have "svc_Meta ?svc = (svc_Meta (envoy_spec_base s))\<lparr>Annotations := Some l\<rparr>"
    using fold_annotations_shape(2) [of "Some l" "annotation_table s" "envoy_spec_base s"] l
    by (metis ObjectMeta.surjective ObjectMeta.update_convs(4) ObjectMeta.select_convs(4))
  moreover have "svc_Spec ?svc = svc_Spec (envoy_service s)"
    by (simp add: fold_annotations_shape envoy_spec_base_def)
  ultimately have "?svc = envoy_service s"
    by (intro Service.equality) (simp_all add: envoy_spec_base_def envoy_service_def)
  then show ?thesis by (simp add: DesiredEnvoyService_fold)
qed

lemma envoy_service_owned [simp]: "owned_by s (svc_Meta (envoy_service s))"
  by (simp add: envoy_service_def owned_by_iff)

lemma envoy_service_key [simp]:
  "nsname (svc_Meta (envoy_service s)) = \<lparr>nn_Namespace = spec_ns s, nn_Name = envoySvcName\<rparr>"
  by (simp add: envoy_service_def nsname_def zero_ObjectMeta_def)

end
