(* ===== verification/Job_Obj.thy ===== *)
theory Job_Obj
  imports Objects_Util
begin

text \<open>
  Package \<open>internal/objects/job\<close>: the certgen Job. A Job's template is immutable, so a drifted Job
  is deleted and created again, polling while the old object is still being removed.
\<close>

definition jobContainerName :: string where
  "jobContainerName = ''sesame''"

definition jobNsEnvVar :: string where
  "jobNsEnvVar = ''Sesame_NAMESPACE''"

definition certgenJobName :: string where
  "certgenJobName = ''sesame-certgen-'' @ TagFromImage DefaultSesameImage"

section \<open>The desired object\<close>

definition job_container :: "string \<Rightarrow> Container" where
  "job_container img = zero_Container\<lparr>
     c_Name := jobContainerName,
     c_Image := img,
     c_ImagePullPolicy := ''Always'',
     c_Command := [''sesame'', ''certgen'', ''--kube'', ''--incluster'', ''--overwrite'',
       ''--secrets-format=compact'', ''--namespace=$('' @ jobNsEnvVar @ '')''],
     c_Env := [\<lparr>env_Name = jobNsEnvVar, env_APIVersion = ''v1'',
       env_FieldPath = ''metadata.namespace''\<rparr>],
     c_TerminationMessagePath := ''/dev/termination-log'',
     c_TerminationMessagePolicy := ''File''\<rparr>"

definition job_podspec :: "string \<Rightarrow> PodSpec" where
  "job_podspec img = zero_PodSpec\<lparr>
     ps_Containers := [job_container img],
     ps_DeprecatedServiceAccount := CertGenRbacName,
     ps_ServiceAccountName := CertGenRbacName,
     ps_SecurityContext := Some NewUnprivilegedPodSecurity,
     ps_RestartPolicy := ''Never'',
     ps_DNSPolicy := ''ClusterFirst'',
     ps_SchedulerName := ''default-scheduler'',
     ps_TerminationGracePeriodSeconds := Some 30\<rparr>"

definition job_labels :: "Sesame \<Rightarrow> strmap" where
  "job_labels s = Some
     [(''app.kubernetes.io/name'', ''sesame-certgen''),
      (''app.kubernetes.io/instance'', sesame_name s),
      (''app.kubernetes.io/component'', ''ingress-controller''),
      (''app.kubernetes.io/part-of'', ''project-sesame''),
      (''app.kubernetes.io/managed-by'', ''sesame-operator''),
      (OwningSesameNameLabel, sesame_name s),
      (OwningSesameNsLabel, sesame_namespace s)]"

definition DesiredJob :: "Sesame \<Rightarrow> string \<Rightarrow> Job" where
  "DesiredJob s img = \<lparr>
     job_Meta = zero_ObjectMeta\<lparr>Name := certgenJobName, Namespace := spec_ns s,
       Labels := job_labels s\<rparr>,
     job_Spec = \<lparr>
       js_Parallelism = Some 1,
       js_Completions = Some 1,
       js_BackoffLimit = Some 1,
       js_TTLSecondsAfterFinished = Some 0,
       js_Template = \<lparr>pt_Annotations = None, pt_Labels = MatchLabels (OwningSelector s),
         pt_Spec = job_podspec img\<rparr>,
       js_Unset = []\<rparr>\<rparr>"

section \<open>Handlers\<close>

definition currentJob :: "'w client \<Rightarrow> Sesame \<Rightarrow> ('w, api_error + Job) state" where
  "currentJob cli s = Get (jobs cli) \<lparr>nn_Namespace = spec_ns s, nn_Name = certgenJobName\<rparr>"

definition createJob :: "'w client \<Rightarrow> Job \<Rightarrow> ('w, unit res) state" where
  "createJob cli job = do {
     r \<leftarrow> Create (jobs cli) job;
     ret (call_res (Wrapf ''failed to create job %s/%s: %w''
       [Namespace (job_Meta job), Name (job_Meta job)]) r)
   }"

text \<open>One attempt of the poller: an error of the call is not an error of the condition.\<close>

definition tryJobCreate :: "'w client \<Rightarrow> Job \<Rightarrow> ('w, bool \<times> error option) state" where
  "tryJobCreate cli job = do {
     r \<leftarrow> Create (jobs cli) job;
     ret (case r of Inl e \<Rightarrow> (False, None) | Inr _ \<Rightarrow> (True, None))
   }"

text \<open>Intervals and timeouts in seconds.\<close>

definition retryJobCreate :: "'w lib \<Rightarrow> 'w client \<Rightarrow> Job \<Rightarrow> nat \<Rightarrow> ('w, unit res) state" where
  "retryJobCreate L cli job timeout = do {
     err \<leftarrow> PollImmediate L 1 timeout (tryJobCreate cli job);
     ret (case err of None \<Rightarrow> Ok ()
       | Some e \<Rightarrow> Err (Wrapf ''failed to create job %s/%s: %w''
           [Namespace (job_Meta job), Name (job_Meta job)] e))
   }"

definition recreateJobIfNeeded ::
    "'w lib \<Rightarrow> 'w client \<Rightarrow> Sesame \<Rightarrow> Job \<Rightarrow> Job \<Rightarrow> ('w, unit res) state" where
  "recreateJobIfNeeded L cli s current desired =
     (if Exist (job_Meta current) (OwnerLabels s) then
        (case JobConfigChanged (DeepEqual L) current desired of
           None \<Rightarrow> ret (Ok ())
         | Some updated \<Rightarrow> do {
             d \<leftarrow> Delete (jobs cli) updated;
             case delete_res (IsNotFound L) id d of
               Ok _ \<Rightarrow> retryJobCreate L cli updated 3
             | Err e \<Rightarrow> ret (Err e)
             | Panic \<Rightarrow> ret Panic
           })
      else ret (Ok ()))"

definition EnsureJob :: "'w lib \<Rightarrow> 'w client \<Rightarrow> Sesame \<Rightarrow> string \<Rightarrow> ('w, unit res) state" where
  "EnsureJob L cli s img = (let desired = DesiredJob s img;
       args = [Namespace (job_Meta desired), Name (job_Meta desired)] in do {
     r \<leftarrow> currentJob cli s;
     case r of
       Inl e \<Rightarrow>
         (if IsNotFound L e then createJob cli desired
          else ret (Err (Wrapf ''failed to get job %s/%s: %w'' args (ApiErr e))))
     | Inr current \<Rightarrow> do {
         u \<leftarrow> recreateJobIfNeeded L cli s current desired;
         ret (map_err (Wrapf ''failed to recreate job %s/%s: %w'' args) u)
       }
   })"

definition EnsureJobDeleted :: "'w lib \<Rightarrow> 'w client \<Rightarrow> Sesame \<Rightarrow> ('w, unit res) state" where
  "EnsureJobDeleted L cli s = do {
     r \<leftarrow> currentJob cli s;
     case r of
       Inl e \<Rightarrow> (if IsNotFound L e then ret (Ok ()) else ret (Err (ApiErr e)))
     | Inr job \<Rightarrow>
         (if Exist (job_Meta job) (OwnerLabels s) then do {
            d \<leftarrow> Delete (jobs cli) job;
            ret (delete_res (IsNotFound L) id d)
          } else ret (Ok ()))
   }"

section \<open>Facts\<close>

lemma certgenJobName_eq: "certgenJobName = ''sesame-certgen-main''"
  by (simp add: certgenJobName_def TagFromImage_def DefaultSesameImage_def)

lemma DesiredJob_owned [simp]: "owned_by s (job_Meta (DesiredJob s img))"
  by (simp add: DesiredJob_def job_labels_def owned_by_iff const_defs)

lemma DesiredJob_key [simp]:
  "nsname (job_Meta (DesiredJob s img)) = \<lparr>nn_Namespace = spec_ns s, nn_Name = certgenJobName\<rparr>"
  by (simp add: DesiredJob_def nsname_def zero_ObjectMeta_def)

text \<open>The template carries the owner labels the comparison asks for, so it never asks to recreate
  the Job it just created.\<close>

lemma DesiredJob_template_labels:
  "\<not> owner_labels_missing (pt_Labels (js_Template (job_Spec (DesiredJob s img))))"
  by (simp add: owner_labels_missing_def DesiredJob_def OwningSelector_def)

end
