(* ===== verification/Controller.thy ===== *)
theory Controller
  imports Validation Status_Sync Rbac Configmap_Obj Namespace_Obj Service_Obj Job_Obj
begin

text \<open>
  Package \<open>internal/controller\<close>: one reconciliation of one Sesame. \<open>Reconcile\<close> reads the Sesame,
  and then either validates it, gives it the finalizer or ensures its resources, or, when it is
  being deleted, deletes them and removes the finalizer. The fuel \<open>n\<close> is that of \<open>SyncSesame\<close>:
  \<open>None\<close> means that its retries did not end within \<open>n\<close> calls.
\<close>

record ControllerConfig =
  ctl_SesameImage :: string
  ctl_EnvoyImage :: string

text \<open>\<open>ctrl.Result\<close>; the delay in nanoseconds.\<close>

record CtrlResult =
  Requeue :: bool
  RequeueAfter :: int

definition zero_Result :: CtrlResult where
  "zero_Result = \<lparr>Requeue = False, RequeueAfter = 0\<rparr>"

section \<open>Events\<close>

text \<open>The requests an event on a watched object with the given labels maps to.\<close>

definition enqueueRequestForOwningSesame :: "strmap \<Rightarrow> NamespacedName list" where
  "enqueueRequestForOwningSesame labels =
     (case (map_lookup labels OwningSesameNsLabel, map_lookup labels OwningSesameNameLabel) of
        (Some ns, Some name) \<Rightarrow> [\<lparr>nn_Namespace = ns, nn_Name = name\<rparr>]
      | _ \<Rightarrow> [])"

section \<open>Ensuring and deleting\<close>

text \<open>
  \<open>handleResult(resource, call())\<close>: the errors collected so far go in and come out, wrapped; a
  panic of a call ends the handler.
\<close>

definition handleResult :: "(string \<Rightarrow> error \<Rightarrow> error) \<Rightarrow> string \<Rightarrow> ('w, unit res) state \<Rightarrow>
    error list \<Rightarrow> ('w, error list res) state" where
  "handleResult wrap resource call errs = do {
     r \<leftarrow> call;
     ret (case r of
         Ok _ \<Rightarrow> Ok errs
       | Err e \<Rightarrow> Ok (errs @ [wrap resource e])
       | Panic \<Rightarrow> Panic)
   }"

definition ensure_err :: "Sesame \<Rightarrow> string \<Rightarrow> error \<Rightarrow> error" where
  "ensure_err s resource = Wrapf ''failed to ensure %s for sesame %s/%s: %w''
     [resource, sesame_namespace s, sesame_name s]"

definition delete_err :: "Sesame \<Rightarrow> string \<Rightarrow> error \<Rightarrow> error" where
  "delete_err s resource = Wrapf ''failed to delete %s for sesame %s/%s: %w''
     [resource, sesame_namespace s, sesame_name s]"

text \<open>The publishing types for which Envoy has a Service.\<close>

definition has_envoy_service :: "Sesame \<Rightarrow> bool" where
  "has_envoy_service s \<longleftrightarrow> pub_Type (envoy_pub s) \<in> {LoadBalancerServicePublishingType,
     NodePortServicePublishingType, ClusterIPServicePublishingType}"

definition syncSesameStatus ::
    "nat \<Rightarrow> 'w lib \<Rightarrow> 'w client \<Rightarrow> Sesame \<Rightarrow> error list \<Rightarrow> ('w, unit res option) state" where
  "syncSesameStatus n L cli s errs = do {
     r \<leftarrow> SyncSesame n L cli s;
     ret (case r of
         None \<Rightarrow> None
       | Some (Ok _) \<Rightarrow> Some (agg_res L errs)
       | Some (Err e) \<Rightarrow> Some (agg_res L (errs @
           [Wrapf ''failed to sync status for sesame %s/%s: %w''
              [sesame_namespace s, sesame_name s] e]))
       | Some Panic \<Rightarrow> Some Panic)
   }"

text \<open>The two parts of \<open>ensureSesame\<close>: what must succeed first, and the rest.\<close>

definition ensure_prerequisites ::
    "'w lib \<Rightarrow> 'w client \<Rightarrow> Sesame \<Rightarrow> ('w, error list res) state" where
  "ensure_prerequisites L cli s =
     and_then (handleResult (ensure_err s) ''namespace'' (EnsureNamespace L cli s) [])
       (handleResult (ensure_err s) ''rbac'' (EnsureRBAC L cli s))"

definition ensure_workloads :: "'w lib \<Rightarrow> 'w client \<Rightarrow> ControllerConfig \<Rightarrow> Sesame \<Rightarrow>
    error list \<Rightarrow> ('w, error list res) state" where
  "ensure_workloads L cli cfg s errs =
     (let SesameImage = ctl_SesameImage cfg; envoyImage = ctl_EnvoyImage cfg; h = handleResult (ensure_err s) in
      and_then (h ''configmap'' (EnsureConfigMap L cli s) errs) (\<lambda>errs.
      and_then (h ''job'' (EnsureJob L cli s SesameImage) errs) (\<lambda>errs.
      and_then (h ''deployment'' (EnsureDeployment L cli s SesameImage) errs) (\<lambda>errs.
      and_then (h ''daemonset'' (EnsureDaemonSet L cli s SesameImage envoyImage) errs) (\<lambda>errs.
      and_then (h ''sesame service'' (EnsureSesameService L cli s) errs) (\<lambda>errs.
      if has_envoy_service s then h ''envoy service'' (EnsureEnvoyService L cli s) errs
      else ret (Ok errs)))))))"

definition ensureSesame :: "nat \<Rightarrow> 'w lib \<Rightarrow> 'w client \<Rightarrow> ControllerConfig \<Rightarrow> Sesame \<Rightarrow>
    ('w, unit res option) state" where
  "ensureSesame n L cli cfg s = do {
     p \<leftarrow> ensure_prerequisites L cli s;
     case p of
       Err e \<Rightarrow> ret (Some (Err e))
     | Panic \<Rightarrow> ret (Some Panic)
     | Ok errs \<Rightarrow>
         (if length errs > 0 then syncSesameStatus n L cli s errs
          else do {
            q \<leftarrow> ensure_workloads L cli cfg s errs;
            case q of
              Err e \<Rightarrow> ret (Some (Err e))
            | Panic \<Rightarrow> ret (Some Panic)
            | Ok errs \<Rightarrow> syncSesameStatus n L cli s errs
          })
   }"

text \<open>The deletions in order; the namespace only counts when its deletion was expected.\<close>

definition delete_resources :: "'w lib \<Rightarrow> 'w client \<Rightarrow> Sesame \<Rightarrow> ('w, error list res) state" where
  "delete_resources L cli s = (let h = handleResult (delete_err s) in
     and_then (if has_envoy_service s then h ''envoy service'' (EnsureEnvoyServiceDeleted L cli s) []
               else ret (Ok [])) (\<lambda>errs.
     and_then (h ''service'' (EnsureSesameServiceDeleted L cli s) errs) (\<lambda>errs.
     and_then (h ''daemonset'' (EnsureDaemonSetDeleted L cli s) errs) (\<lambda>errs.
     and_then (h ''deployment'' (EnsureDeploymentDeleted L cli s) errs) (\<lambda>errs.
     and_then (h ''job'' (EnsureJobDeleted L cli s) errs) (\<lambda>errs.
     and_then (h ''configmap'' (EnsureConfigMapDeleted L cli s) errs) (\<lambda>errs.
     and_then (h ''rbac'' (EnsureRBACDeleted L cli s) errs) (\<lambda>errs. do {
       (deleteExpected, r) \<leftarrow> EnsureNamespaceDeleted L cli s;
       if deleteExpected then h ''namespace'' (ret r) errs else ret (Ok errs)
     }))))))))"

definition ensureSesameDeleted :: "'w lib \<Rightarrow> 'w client \<Rightarrow> Sesame \<Rightarrow> ('w, unit res) state" where
  "ensureSesameDeleted L cli s =
     and_then (delete_resources L cli s) (\<lambda>errs. do {
       r \<leftarrow> (if length errs = 0 then EnsureFinalizerRemoved cli s else ret (Ok ()));
       let final = (case r of
           Ok _ \<Rightarrow> Ok errs
         | Err e \<Rightarrow> Ok (errs @ [Wrapf ''failed to remove finalizer from sesame %s/%s: %w''
             [sesame_namespace s, sesame_name s] e])
         | Panic \<Rightarrow> Panic);
       ret (case final of
           Ok es \<Rightarrow> (case NewAggregate L (map Some es) of None \<Rightarrow> Ok () | Some l \<Rightarrow> Err (Aggregate l))
         | Err e \<Rightarrow> Err e
         | Panic \<Rightarrow> Panic)
     })"

section \<open>Reconcile\<close>

text \<open>\<open>DeletionTimestamp.IsZero()\<close>: nil or the zero time.\<close>

definition timestamp_is_zero :: "Time option \<Rightarrow> bool" where
  "timestamp_is_zero t \<longleftrightarrow> (case t of None \<Rightarrow> True | Some x \<Rightarrow> x = 0)"

text \<open>The type switch on a non-nil error.\<close>

definition requeue_or_fail :: "unit res \<Rightarrow> CtrlResult res" where
  "requeue_or_fail r = (case r of
       Ok _ \<Rightarrow> Ok zero_Result
     | Panic \<Rightarrow> Panic
     | Err e \<Rightarrow> (case retryable_After e of
         Some after \<Rightarrow> Ok (zero_Result\<lparr>RequeueAfter := after\<rparr>)
       | None \<Rightarrow> Err e))"

definition Reconcile :: "nat \<Rightarrow> 'w lib \<Rightarrow> 'w client \<Rightarrow> ControllerConfig \<Rightarrow> NamespacedName \<Rightarrow>
    ('w, CtrlResult res option) state" where
  "Reconcile n L cli cfg req = do {
     g \<leftarrow> Get (sesames cli) req;
     case g of
       Inl e \<Rightarrow> ret (Some (if IsNotFound L e then Ok zero_Result
         else Err (Wrapf ''failed to get sesame %s: %w'' [nn_Namespace req @ ''/'' @ nn_Name req]
                (ApiErr e))))
     | Inr s \<Rightarrow>
         (if timestamp_is_zero (DeletionTimestamp (Meta s)) then do {
            v \<leftarrow> validate_Sesame cli s;
            case v of
              Err e \<Rightarrow> ret (Some (Err (Wrapf ''failed to validate sesame %s/%s: %w''
                [sesame_namespace s, sesame_name s] e)))
            | Panic \<Rightarrow> ret (Some Panic)
            | Ok _ \<Rightarrow>
                (if \<not> IsFinalized s then do {
                   f \<leftarrow> EnsureFinalizer cli s;
                   ret (Some (case f of Ok _ \<Rightarrow> Ok zero_Result | Err e \<Rightarrow> Err e | Panic \<Rightarrow> Panic))
                 } else do {
                   r \<leftarrow> ensureSesame n L cli cfg s;
                   ret (map_option requeue_or_fail r)
                 })
          } else do {
            r \<leftarrow> ensureSesameDeleted L cli s;
            ret (Some (requeue_or_fail r))
          })
   }"

end
