(* ===== verification/Ensure_Spec.thy ===== *)
theory Ensure_Spec
  imports Contracts Controller
begin

text \<open>
  What a create-or-update handler promises, once for all kinds. \<open>ensure_obj\<close> is the abstract
  handler: read, create when missing, update when owned and drifted; \<open>delete_owned\<close> is the
  abstract deletion. In the locale \<open>managed_kind\<close> (an API kind together with its comparison) their
  effect on the stored objects is stated and proved, and every handler of the operator is shown
  to be an instance that only renames the outcome.
\<close>

section \<open>The abstract handler\<close>

datatype 'o ensured =
    ReadFailed api_error
  | Created "api_error + 'o"
  | Kept 'o
  | Updated 'o "api_error + 'o"

definition ensure_obj :: "(api_error \<Rightarrow> bool) \<Rightarrow> ('w, 'o) kind_client \<Rightarrow> ('o \<Rightarrow> ObjectMeta) \<Rightarrow>
    ('o \<Rightarrow> 'o \<Rightarrow> 'o option) \<Rightarrow> strmap \<Rightarrow> NamespacedName \<Rightarrow> 'o \<Rightarrow> ('w, 'o ensured) state" where
  "ensure_obj nf kc meta changed labels key desired = do {
     r \<leftarrow> Get kc key;
     case r of
       Inl e \<Rightarrow> (if nf e then do { c \<leftarrow> Create kc desired; ret (Created c) } else ret (ReadFailed e))
     | Inr cur \<Rightarrow>
         (if Exist (meta cur) labels then
            (case changed cur desired of
               None \<Rightarrow> ret (Kept cur)
             | Some u \<Rightarrow> do { x \<leftarrow> Update kc u; ret (Updated u x) })
          else ret (Kept cur))
   }"

fun ensured_ok :: "'o ensured \<Rightarrow> bool" where
  "ensured_ok (ReadFailed e) = False"
| "ensured_ok (Created r) = (case r of Inl _ \<Rightarrow> False | Inr _ \<Rightarrow> True)"
| "ensured_ok (Kept x) = True"
| "ensured_ok (Updated u r) = (case r of Inl _ \<Rightarrow> False | Inr _ \<Rightarrow> True)"

datatype deleted = DeleteReadFailed api_error | NothingToDelete | NotOwned | DeleteCalled "api_error option"

definition delete_owned :: "(api_error \<Rightarrow> bool) \<Rightarrow> ('w, 'o) kind_client \<Rightarrow> ('o \<Rightarrow> ObjectMeta) \<Rightarrow>
    strmap \<Rightarrow> NamespacedName \<Rightarrow> ('w, deleted) state" where
  "delete_owned nf kc meta labels key = do {
     r \<leftarrow> Get kc key;
     case r of
       Inl e \<Rightarrow> ret (if nf e then NothingToDelete else DeleteReadFailed e)
     | Inr cur \<Rightarrow>
         (if Exist (meta cur) labels then do { d \<leftarrow> Delete kc cur; ret (DeleteCalled d) }
          else ret NotOwned)
   }"

fun deleted_res :: "(api_error \<Rightarrow> bool) \<Rightarrow> deleted \<Rightarrow> unit res" where
  "deleted_res nf (DeleteReadFailed e) = Err (ApiErr e)"
| "deleted_res nf NothingToDelete = Ok ()"
| "deleted_res nf NotOwned = Ok ()"
| "deleted_res nf (DeleteCalled d) = delete_res nf id d"

section \<open>Its contract\<close>

locale managed_kind = api_kind kc meta view nf adm + drift_check changed agrees meta
  for kc :: "('w, 'o) kind_client" and meta view nf adm changed agrees +
  assumes agrees_self: "agrees d d"
    and adm_agrees: "adm x y \<Longrightarrow> agrees x d \<Longrightarrow> agrees y d"
begin

text \<open>A handler touches no other key, whatever happens.\<close>

lemma ensure_frame:
  assumes "k \<noteq> key" and "nsname (meta desired) = key"
  shows "view (snd (run_state (ensure_obj nf kc meta changed labels key desired) w)) k = view w k"
proof -
  obtain r w1 where get: "run_state (Get kc key) w = (r, w1)" by fastforce
  then have view1: "view w1 = view w" using get_reads [of key w] by simp
  show ?thesis
  proof (cases r)
    case (Inl e)
    then show ?thesis using get view1 assms create_frame [of k desired w1]
      by (cases "run_state (Create kc desired) w1") (simp add: ensure_obj_def)
  next
    case (Inr cur)
    with get have "view w key = Some cur" using get_found [of key w] by simp
    then have cur: "nsname (meta cur) = key" by (rule view_key)
    show ?thesis
    proof (cases "changed cur desired")
      case None
      then show ?thesis using get view1 Inr by (simp add: ensure_obj_def)
    next
      case (Some u)
      then have "nsname (meta u) = key" using changed_key cur assms(2) by auto
      then show ?thesis using get view1 Inr Some assms(1) update_frame [of k u w1]
        by (cases "run_state (Update kc u) w1") (simp add: ensure_obj_def)
    qed
  qed
qed

text \<open>
  When it succeeds, the stored object agrees with the desired one, unless somebody else owns it:
  then it is the object that was there.
\<close>

lemma ensure_establishes:
  assumes desired: "nsname (meta desired) = key"
    and run: "run_state (ensure_obj nf kc meta changed labels key desired) w = (out, w')"
    and ok: "ensured_ok out"
  obtains y where "view w' key = Some y"
    and "agrees y desired \<or> (view w key = Some y \<and> \<not> Exist (meta y) labels)"
proof -
  obtain r w1 where get: "run_state (Get kc key) w = (r, w1)" by fastforce
  then have view1: "view w1 = view w" using get_reads [of key w] by simp
  show thesis
  proof (cases r)
    case (Inl e)
    obtain c w2 where create: "run_state (Create kc desired) w1 = (c, w2)" by fastforce
    with run get Inl ok have "c = Inr (projr c)" "w' = w2" 
      by (auto simp: ensure_obj_def split: if_splits sum.splits)
    with create create_stores [of desired w1 "projr c"] desired
    have "view w' key = Some (projr c) \<and> adm desired (projr c)" by simp
    then show thesis using that adm_agrees agrees_self by blast
  next
    case (Inr cur)
    with get have cur: "view w key = Some cur" using get_found [of key w] by simp
    show thesis
    proof (cases "Exist (meta cur) labels \<and> changed cur desired \<noteq> None")
      case False
      then have "w' = w1" using run get Inr by (auto simp: ensure_obj_def split: if_splits option.splits)
      then show thesis using that [of cur] cur view1 False changed_None by auto
    next
      case True
      then obtain u where u: "changed cur desired = Some u" by auto
      obtain x w2 where upd: "run_state (Update kc u) w1 = (x, w2)" by fastforce
      with run get Inr ok True u have "x = Inr (projr x)" "w' = w2"
        by (auto simp: ensure_obj_def split: if_splits sum.splits)
      moreover have "nsname (meta u) = key"
        using changed_key [OF u] view_key [OF cur] desired by auto
      ultimately have "view w' key = Some (projr x) \<and> adm u (projr x)"
        using upd update_stores [of u w1 "projr x"] by simp
      then show thesis using that adm_agrees changed_agrees [OF u agrees_self] by blast
    qed
  qed
qed

text \<open>An object that agrees is left alone: the handler is idempotent.\<close>

lemma ensure_quiet:
  assumes "view w key = Some y" and "\<not> Exist (meta y) labels \<or> agrees y desired"
    and "fst (run_state (Get kc key) w) = Inr x"
  shows "fst (run_state (ensure_obj nf kc meta changed labels key desired) w) = Kept y"
    and "snd (run_state (ensure_obj nf kc meta changed labels key desired) w) =
      snd (run_state (Get kc key) w)"
proof -
  have "x = y" using assms get_found by fastforce
  moreover obtain w1 where "run_state (Get kc key) w = (Inr x, w1)"
    using assms(3) by (metis prod.collapse)
  ultimately show "fst (run_state (ensure_obj nf kc meta changed labels key desired) w) = Kept y"
    "snd (run_state (ensure_obj nf kc meta changed labels key desired) w) =
      snd (run_state (Get kc key) w)"
    using assms(2) changed_None [of y desired] by (auto simp: ensure_obj_def)
qed

text \<open>An object somebody else owns survives every handler.\<close>

lemma ensure_foreign:
  assumes "view w key = Some y" and "\<not> Exist (meta y) labels"
    and "nsname (meta desired) = key"
    and "\<And>e. fst (run_state (Get kc key) w) = Inl e \<Longrightarrow> \<not> nf e"
  shows "view (snd (run_state (ensure_obj nf kc meta changed labels key desired) w)) = view w"
proof -
  obtain r w1 where get: "run_state (Get kc key) w = (r, w1)" by fastforce
  then have view1: "view w1 = view w" using get_reads [of key w] by simp
  show ?thesis
  proof (cases r)
    case (Inl e)
    with assms(4) get have "\<not> nf e" by simp
    with get Inl view1 show ?thesis by (simp add: ensure_obj_def)
  next
    case (Inr cur)
    with get assms(1) have "cur = y" using get_found [of key w] by simp
    with get Inr view1 assms(2) show ?thesis by (simp add: ensure_obj_def)
  qed
qed

lemma delete_frame_key:
  assumes "k \<noteq> key"
  shows "view (snd (run_state (delete_owned nf kc meta labels key) w)) k = view w k"
proof -
  obtain r w1 where get: "run_state (Get kc key) w = (r, w1)" by fastforce
  then have view1: "view w1 = view w" using get_reads [of key w] by simp
  show ?thesis
  proof (cases r)
    case (Inl e)
    then show ?thesis using get view1 by (simp add: delete_owned_def)
  next
    case (Inr cur)
    with get have "view w key = Some cur" using get_found [of key w] by simp
    then have "nsname (meta cur) = key" by (rule view_key)
    then show ?thesis using get view1 Inr assms delete_frame [of k cur w1]
      by (cases "run_state (Delete kc cur) w1") (simp add: delete_owned_def)
  qed
qed

text \<open>After a successful deletion the key holds nothing, an object on its way out, or an object
  of somebody else.\<close>

lemma delete_establishes:
  assumes run: "run_state (delete_owned nf kc meta labels key) w = (out, w')"
    and ok: "is_ok (deleted_res nf out)" and y: "view w' key = Some y"
  shows "DeletionTimestamp (meta y) \<noteq> None \<or> (view w key = Some y \<and> \<not> Exist (meta y) labels)"
proof -
  obtain r w1 where get: "run_state (Get kc key) w = (r, w1)" by fastforce
  then have view1: "view w1 = view w" using get_reads [of key w] by simp
  show ?thesis
  proof (cases r)
    case (Inl e)
    with run get ok have "nf e" "w' = w1" by (auto simp: delete_owned_def split: if_splits)
    with Inl get view1 y get_missing [of key w e] show ?thesis by simp
  next
    case (Inr cur)
    with get have cur: "view w key = Some cur" using get_found [of key w] by simp
    show ?thesis
    proof (cases "Exist (meta cur) labels")
      case False
      then show ?thesis using run get Inr view1 cur y by (simp add: delete_owned_def)
    next
      case True
      obtain d w2 where del: "run_state (Delete kc cur) w1 = (d, w2)" by fastforce
      with run get Inr True ok have "w' = w2" and "is_ok (delete_res nf id d)"
        by (auto simp: delete_owned_def)
      then have "d = None \<or> (\<exists>e. d = Some e \<and> nf e)" by (cases d) (auto split: if_splits)
      then show ?thesis using delete_removes [of cur w1] del \<open>w' = w2\<close> y view_key [OF cur] by auto
    qed
  qed
qed

end

section \<open>Every handler is an instance\<close>

text \<open>
  \<open>refines_at w m spec\<close>: from world \<open>w\<close> the handler \<open>m\<close> makes the calls of the abstract handler,
  so that the final worlds are the same, succeeds exactly when it does, and does not panic.
\<close>

definition refines_at :: "'w \<Rightarrow> ('w, 'a res) state \<Rightarrow> ('w, 'o ensured) state \<Rightarrow> bool" where
  "refines_at w m spec \<longleftrightarrow> snd (run_state m w) = snd (run_state spec w) \<and>
     (is_ok (fst (run_state m w)) \<longleftrightarrow> ensured_ok (fst (run_state spec w))) \<and>
     \<not> is_panic (fst (run_state m w))"

lemma result_status [simp]:
  "is_ok (call_res f r) \<longleftrightarrow> (case r of Inl _ \<Rightarrow> False | Inr _ \<Rightarrow> True)"
  "is_ok (obj_res f r) \<longleftrightarrow> (case r of Inl _ \<Rightarrow> False | Inr _ \<Rightarrow> True)"
  "\<not> is_panic (call_res f r)" "\<not> is_panic (obj_res f r)"
  "is_ok (map_err g x) \<longleftrightarrow> is_ok x" "is_panic (map_err g x) \<longleftrightarrow> is_panic x"
  by (cases r; simp)+ (cases x; simp)+

lemma EnsureNamespace_refines:
  "refines_at w (EnsureNamespace L cli s)
     (ensure_obj (IsNotFound L) (namespaces cli) ns_Meta (NamespaceConfigChanged (DeepEqual L))
        (OwnerLabels s) \<lparr>nn_Namespace = [], nn_Name = spec_ns s\<rparr> (DesiredNamespace s))"
  by (auto simp: refines_at_def EnsureNamespace_def ensure_obj_def currentSpecNsName_def
      createNamespace_def updateNamespaceIfNeeded_def Let_def
      split: prod.splits sum.splits option.splits)

lemma EnsureServiceAccount_refines:
  "refines_at w (EnsureServiceAccount L cli name s)
     (ensure_obj (IsNotFound L) (serviceaccounts cli) sa_Meta
        (ServiceAccountConfigChanged (DeepEqual L)) (OwnerLabels s)
        \<lparr>nn_Namespace = spec_ns s, nn_Name = name\<rparr> (DesiredServiceAccount name s))"
  by (auto simp: refines_at_def EnsureServiceAccount_def ensure_obj_def CurrentServiceAccount_def
      createServiceAccount_def updateSvcAcctIfNeeded_def Let_def
      split: prod.splits sum.splits option.splits)

lemma EnsureClusterRole_refines:
  "refines_at w (EnsureClusterRole L cli name s)
     (ensure_obj (IsNotFound L) (clusterroles cli) cr_Meta (ClusterRoleConfigChanged (DeepEqual L))
        (OwnerLabels s) \<lparr>nn_Namespace = [], nn_Name = name\<rparr> (desiredClusterRole name s))"
  by (auto simp: refines_at_def EnsureClusterRole_def ensure_obj_def CurrentClusterRole_def
      createClusterRole_def updateClusterRoleIfNeeded_def Let_def
      split: prod.splits sum.splits option.splits)

lemma EnsureClusterRoleBinding_refines:
  "refines_at w (EnsureClusterRoleBinding L cli name ref acct s)
     (ensure_obj (IsNotFound L) (clusterrolebindings cli) crb_Meta
        (ClusterRoleBindingConfigChanged (DeepEqual L)) (OwnerLabels s)
        \<lparr>nn_Namespace = [], nn_Name = name\<rparr> (desiredClusterRoleBinding name ref acct s))"
  by (auto simp: refines_at_def EnsureClusterRoleBinding_def ensure_obj_def
      CurrentClusterRoleBinding_def createClusterRoleBinding_def
      updateClusterRoleBindingIfNeeded_def Let_def split: prod.splits sum.splits option.splits)

lemma EnsureRole_refines:
  "refines_at w (EnsureRole L cli name s)
     (ensure_obj (IsNotFound L) (roles cli) role_Meta (RoleConfigChanged (DeepEqual L))
        (OwnerLabels s) \<lparr>nn_Namespace = spec_ns s, nn_Name = name\<rparr> (desiredRole name s))"
  by (auto simp: refines_at_def EnsureRole_def ensure_obj_def CurrentRole_def createRole_def
      updateRoleIfNeeded_def Let_def split: prod.splits sum.splits option.splits)

lemma EnsureRoleBinding_refines:
  "refines_at w (EnsureRoleBinding L cli name acct ref s)
     (ensure_obj (IsNotFound L) (rolebindings cli) rb_Meta (RoleBindingConfigChanged (DeepEqual L))
        (OwnerLabels s) \<lparr>nn_Namespace = spec_ns s, nn_Name = name\<rparr>
        (desiredRoleBinding name acct ref s))"
  by (auto simp: refines_at_def EnsureRoleBinding_def ensure_obj_def CurrentRoleBinding_def
      createRoleBinding_def updateRoleBindingIfNeeded_def Let_def
      split: prod.splits sum.splits option.splits)

text \<open>The object \<open>configmap_desired\<close> returns.\<close>

definition desired_configmap :: "Sesame \<Rightarrow> ConfigMap" where
  "desired_configmap s = \<lparr>cm_Meta = zero_ObjectMeta\<lparr>Name := SesameConfigMapName,
     Namespace := spec_ns s, Labels := OwnerLabels s\<rparr>,
     cm_Data = Some [(''sesame.yaml'', render (cmp_Sesame (configForSesame s)))]\<rparr>"

lemma configmap_desired_eq: "configmap_desired (configForSesame s) = Ok (desired_configmap s)"
  by (simp add: configmap_desired_def desired_configmap_def)

lemma EnsureConfigMap_refines:
  "refines_at w (EnsureConfigMap L cli s)
     (ensure_obj (IsNotFound L) (configmaps cli) cm_Meta (cfgMapChanged (DeepEqual L))
        (OwnerLabels s) \<lparr>nn_Namespace = spec_ns s, nn_Name = SesameConfigMapName\<rparr>
        (desired_configmap s))"
  by (auto simp: refines_at_def EnsureConfigMap_def ensure_obj_def configmap_current_def
      configmap_create_def configmap_updateIfNeeded_def configmap_desired_eq Let_def
      split: prod.splits sum.splits option.splits)

text \<open>Sesame's Service sends the desired object whenever the comparison finds a difference.\<close>

definition clusterip_replace ::
    "(iface \<Rightarrow> iface \<Rightarrow> bool) \<Rightarrow> Service \<Rightarrow> Service \<Rightarrow> Service option" where
  "clusterip_replace deq c d = map_option (\<lambda>_. d) (ClusterIPServiceChanged deq c d)"

lemma EnsureSesameService_refines:
  "refines_at w (EnsureSesameService L cli s)
     (ensure_obj (IsNotFound L) (services cli) svc_Meta (clusterip_replace (DeepEqual L))
        (OwnerLabels s) \<lparr>nn_Namespace = spec_ns s, nn_Name = SesameSvcName\<rparr>
        (DesiredSesameService s))"
  by (auto simp: refines_at_def EnsureSesameService_def ensure_obj_def currentSesameService_def
      createService_def updateSesameServiceIfNeeded_def clusterip_replace_def Let_def
      split: prod.splits sum.splits option.splits)

text \<open>Envoy's Service, when the comparison of the publishing type cannot panic.\<close>

definition envoy_changed ::
    "(iface \<Rightarrow> iface \<Rightarrow> bool) \<Rightarrow> Sesame \<Rightarrow> Service \<Rightarrow> Service \<Rightarrow> Service option" where
  "envoy_changed deq s c d = (case envoy_service_changed deq s c d of
     Ok u \<Rightarrow> u | Err e \<Rightarrow> None | Panic \<Rightarrow> None)"

lemma envoy_service_changed_no_error: "envoy_service_changed deq s c d \<noteq> Err e"
  by (simp add: envoy_service_changed_def NodePortServiceChanged_def np_ports_eq Let_def)

lemma EnsureEnvoyService_refines:
  assumes "\<And>cur. fst (run_state (currentEnvoyService cli s) w) = Inr cur \<Longrightarrow>
    Exist (svc_Meta cur) (OwnerLabels s) \<Longrightarrow>
    envoy_service_changed (DeepEqual L) s cur (envoy_service s) \<noteq> Panic"
  shows "refines_at w (EnsureEnvoyService L cli s)
     (ensure_obj (IsNotFound L) (services cli) svc_Meta (envoy_changed (DeepEqual L) s)
        (OwnerLabels s) \<lparr>nn_Namespace = spec_ns s, nn_Name = envoySvcName\<rparr> (envoy_service s))"
  using assms
  by (auto simp: refines_at_def EnsureEnvoyService_def ensure_obj_def currentEnvoyService_def
      createService_def updateEnvoyServiceIfNeeded_def envoy_changed_def DesiredEnvoyService_closed
      envoy_service_changed_no_error Let_def
      split: prod.splits sum.splits option.splits res.splits)

text \<open>The Deployment and the DaemonSet, unless the selectors differ or, for the Deployment, the
  read fails.\<close>

lemma EnsureDeployment_refines:
  assumes "\<And>e. fst (run_state (CurrentDeployment cli s) w) = Inl e \<Longrightarrow> IsNotFound L e"
    and "\<And>cur. fst (run_state (CurrentDeployment cli s) w) = Inr cur \<Longrightarrow>
      \<not> DeploymentSelectorsDiffer (DeepEqual L) cur (DesiredDeployment s img)"
  shows "refines_at w (EnsureDeployment L cli s img)
     (ensure_obj (IsNotFound L) (deployments cli) dep_Meta (DeploymentConfigChanged (DeepEqual L))
        (OwnerLabels s) \<lparr>nn_Namespace = spec_ns s, nn_Name = SesameDeploymentName\<rparr>
        (DesiredDeployment s img))"
  using assms
  by (auto simp: refines_at_def EnsureDeployment_def ensure_obj_def CurrentDeployment_def
      createDeployment_def updateDeploymentIfNeeded_def Let_def
      split: prod.splits sum.splits option.splits)

lemma EnsureDaemonSet_refines:
  assumes "\<And>cur. fst (run_state (CurrentDaemonSet cli s) w) = Inr cur \<Longrightarrow>
      \<not> DaemonSetSelectorsDiffer (DeepEqual L) cur (DesiredDaemonSet s c e)"
  shows "refines_at w (EnsureDaemonSet L cli s c e)
     (ensure_obj (IsNotFound L) (daemonsets cli) dms_Meta (DaemonsetConfigChanged (DeepEqual L))
        (OwnerLabels s) \<lparr>nn_Namespace = spec_ns s, nn_Name = envoyDaemonSetName\<rparr>
        (DesiredDaemonSet s c e))"
  using assms
  by (auto simp: refines_at_def EnsureDaemonSet_def ensure_obj_def CurrentDaemonSet_def
      createDaemonSet_def updateDaemonSetIfNeeded_def Let_def
      split: prod.splits sum.splits option.splits)

definition result_of :: "'w lib \<Rightarrow> ('w, deleted) state \<Rightarrow> ('w, unit res) state" where
  "result_of L m = do { d \<leftarrow> m; ret (deleted_res (IsNotFound L) d) }"

text \<open>The six plain deletions are the abstract one.\<close>

lemma deletions_refine:
  "EnsureConfigMapDeleted L cli s = result_of L
     (delete_owned (IsNotFound L) (configmaps cli) cm_Meta (OwnerLabels s)
        \<lparr>nn_Namespace = spec_ns s, nn_Name = SesameConfigMapName\<rparr>)"
  "EnsureDeploymentDeleted L cli s = result_of L
     (delete_owned (IsNotFound L) (deployments cli) dep_Meta (OwnerLabels s)
        \<lparr>nn_Namespace = spec_ns s, nn_Name = SesameDeploymentName\<rparr>)"
  "EnsureDaemonSetDeleted L cli s = result_of L
     (delete_owned (IsNotFound L) (daemonsets cli) dms_Meta (OwnerLabels s)
        \<lparr>nn_Namespace = spec_ns s, nn_Name = envoyDaemonSetName\<rparr>)"
  "EnsureJobDeleted L cli s = result_of L
     (delete_owned (IsNotFound L) (jobs cli) job_Meta (OwnerLabels s)
        \<lparr>nn_Namespace = spec_ns s, nn_Name = certgenJobName\<rparr>)"
  "EnsureSesameServiceDeleted L cli s = result_of L
     (delete_owned (IsNotFound L) (services cli) svc_Meta (OwnerLabels s)
        \<lparr>nn_Namespace = spec_ns s, nn_Name = SesameSvcName\<rparr>)"
  "EnsureEnvoyServiceDeleted L cli s = result_of L
     (delete_owned (IsNotFound L) (services cli) svc_Meta (OwnerLabels s)
        \<lparr>nn_Namespace = spec_ns s, nn_Name = envoySvcName\<rparr>)"
  by (rule state_eqI, simp add: result_of_def delete_owned_def EnsureConfigMapDeleted_def
      configmap_current_def
      EnsureDeploymentDeleted_def CurrentDeployment_def EnsureDaemonSetDeleted_def
      CurrentDaemonSet_def EnsureJobDeleted_def currentJob_def EnsureSesameServiceDeleted_def
      currentSesameService_def EnsureEnvoyServiceDeleted_def currentEnvoyService_def Let_def
      split: prod.splits sum.splits)+

section \<open>What a refined handler reaches\<close>

text \<open>
  \<open>reaches\<close>: the key of the desired object holds an object that agrees with it, or the unchanged
  object of somebody else; all other keys are as before.
\<close>

definition reaches :: "('w \<Rightarrow> NamespacedName \<Rightarrow> 'o option) \<Rightarrow> ('o \<Rightarrow> ObjectMeta) \<Rightarrow>
    ('o \<Rightarrow> 'o \<Rightarrow> bool) \<Rightarrow> Sesame \<Rightarrow> 'o \<Rightarrow> 'w \<Rightarrow> 'w \<Rightarrow> bool" where
  "reaches view meta agrees s desired w w' \<longleftrightarrow>
     (\<exists>y. view w' (nsname (meta desired)) = Some y \<and>
        (agrees y desired \<or>
         view w (nsname (meta desired)) = Some y \<and> \<not> owned_by s (meta y))) \<and>
     (\<forall>k. k \<noteq> nsname (meta desired) \<longrightarrow> view w' k = view w k)"

context managed_kind
begin

lemma refined_reaches:
  assumes refines: "refines_at w m (ensure_obj nf kc meta changed (OwnerLabels s) key desired)"
    and key: "nsname (meta desired) = key"
    and run: "run_state m w = (r, w')" and ok: "is_ok r"
  shows "reaches view meta agrees s desired w w'"
proof -
  obtain out where out: "run_state (ensure_obj nf kc meta changed (OwnerLabels s) key desired) w =
      (out, w')" and "ensured_ok out"
    using refines run ok unfolding refines_at_def by (metis fst_conv prod.collapse snd_conv)
  then show ?thesis
    using ensure_establishes [OF key out] ensure_frame [OF _ key, of _ "OwnerLabels s" w] key out
    unfolding reaches_def by (metis snd_conv)
qed

text \<open>A handler that reached its goal and can read only reads when it runs again.\<close>

lemma refined_again:
  assumes refines: "\<And>w. refines_at w m (ensure_obj nf kc meta changed (OwnerLabels s) key desired)"
    and key: "nsname (meta desired) = key" and goal: "reaches view meta agrees s desired w w'"
    and read: "fst (run_state (Get kc key) w') = Inr x"
  shows "is_ok (fst (run_state m w')) \<and> snd (run_state m w') = snd (run_state (Get kc key) w')"
proof -
  obtain y where "view w' key = Some y" and "\<not> owned_by s (meta y) \<or> agrees y desired"
    using goal key unfolding reaches_def by blast
  from ensure_quiet [OF this read] show ?thesis using refines [of w'] by (simp add: refines_at_def)
qed

end

lemma managed_kindI:
  assumes "api_kind kc meta view nf adm" and "drift_check changed agrees meta"
    and "\<And>d. agrees d d" and "\<And>x y d. adm x y \<Longrightarrow> agrees x d \<Longrightarrow> agrees y d"
  shows "managed_kind kc meta view nf adm changed agrees"
  using assms unfolding managed_kind_def managed_kind_axioms_def by blast

section \<open>The comparisons agree with themselves\<close>

context deep_equal
begin

lemma agrees_refl:
  "namespace_agrees deq x1 x1" "serviceaccount_agrees deq x2 x2" "clusterrole_agrees deq x3 x3"
  "clusterrolebinding_agrees deq x4 x4" "role_agrees deq x5 x5" "rolebinding_agrees deq x6 x6"
  "configmap_agrees deq x7 x7" "deployment_agrees deq x8 x8" "daemonset_agrees deq x9 x9"
  "clusterip_agrees deq x10 x10" "loadbalancer_agrees deq x10 x10" "nodeport_agrees deq x10 x10"
  by (simp_all add: agrees_defs configmap_agrees_def loadbalancer_agrees_def nodeport_agrees_def
      exposed_agrees_def port_agrees_refl list_all2_refl deq_refl)

lemma envoy_changed_owned:
  assumes "envoy_service_changed deq s c d = Ok (Some u)"
    and "Exist (svc_Meta c) m" and "Exist (svc_Meta d) m"
  shows "Exist (svc_Meta u) m"
proof (cases "pub_Type (envoy_pub s) = NodePortServicePublishingType")
  case True
  with assms(1) have len: "length (svs_Ports (svc_Spec c)) \<le> length (svs_Ports (svc_Spec d))"
    and "NodePortServiceChanged deq c d = Ok (Some u)"
    using nodeport_panic_iff [of deq c d] by (force simp: envoy_service_changed_def)+
  then show ?thesis using assms(2)
    by (auto simp: nodeport_closed updated_if_def expose_def split: if_splits)
next
  case False
  with assms show ?thesis
    by (auto simp: envoy_service_changed_def split: if_splits
        intro: cip.changed_owned lb.changed_owned)
qed

lemma clusterip_replace_drift:
  "drift_check (clusterip_replace deq) (clusterip_agrees deq) svc_Meta"
  using cip.changed_None by unfold_locales (auto simp: clusterip_replace_def agrees_refl)

end

section \<open>Admission\<close>

text \<open>What the API server stores for an object agrees with whatever the object agrees with.\<close>

definition admission_keeps :: "('o \<Rightarrow> 'o \<Rightarrow> bool) \<Rightarrow> ('o \<Rightarrow> 'o \<Rightarrow> bool) \<Rightarrow> bool" where
  "admission_keeps adm agrees \<longleftrightarrow> (\<forall>x y d. adm x y \<longrightarrow> agrees x d \<longrightarrow> agrees y d)"

lemma admission_keeps_eq [simp]: "admission_keeps (=) agrees"
  by (simp add: admission_keeps_def)

lemma managed:
  assumes "api_kind kc meta view nf adm" and "drift_check changed agrees meta"
    and "admission_keeps adm agrees" and "\<And>d. agrees d d"
  shows "managed_kind kc meta view nf adm changed agrees"
  using assms by (intro managed_kindI) (auto simp: admission_keeps_def)

text \<open>It is enough to know this for one desired object.\<close>

lemma managed_at:
  assumes "api_kind kc meta view nf adm" and drift: "drift_check changed agrees meta"
    and "\<And>x y. adm x y \<Longrightarrow> agrees x d \<Longrightarrow> agrees y d" and refl: "\<And>d. agrees d d"
  shows "managed_kind kc meta view nf adm (\<lambda>c e. if e = d then changed c d else None) (\<lambda>c e. e = d \<longrightarrow> agrees c d)"
proof (rule managed_kindI [OF assms(1)])
  show "drift_check (\<lambda>c e. if e = d then changed c d else None) (\<lambda>c e. e = d \<longrightarrow> agrees c d) meta"
    using drift_check.changed_None [OF drift] drift_check.changed_agrees [OF drift _ refl]
      drift_check.changed_key [OF drift] drift_check.changed_owned [OF drift]
    by unfold_locales (auto split: if_splits)
qed (use assms(3) refl in auto)

lemma ensure_obj_at:
  "ensure_obj nf kc meta (\<lambda>c e. if e = d then changed c d else None) labels key d =
   ensure_obj nf kc meta changed labels key d"
  by (simp only: ensure_obj_def if_True simp_thms)

lemma library_deq: "library L \<Longrightarrow> deep_equal (DeepEqual L)"
  by (simp add: library_def)

section \<open>The handlers on the server in memory\<close>

lemma managed_mem:
  assumes "table_lens sel upd" and "drift_check changed agrees meta" and "\<And>d. agrees d d"
  shows "managed_kind (mem_kind sel upd meta) meta (\<lambda>w. lookup_obj meta (sel w))
    (\<lambda>e. Reason e = ''NotFound'') (=) changed agrees"
  using assms mem_kind_api by (intro managed_kindI) auto

interpretation mem_ns: managed_kind "mem_kind m_namespaces m_namespaces_update ns_Meta" ns_Meta
    "\<lambda>w. lookup_obj ns_Meta (m_namespaces w)" "\<lambda>e. Reason e = ''NotFound''" "(=)"
    "NamespaceConfigChanged semDeepEqual" "namespace_agrees semDeepEqual"
  by (rule managed_mem) (simp_all add: sem.namespace_drift sem.agrees_refl)

interpretation mem_cm: managed_kind "mem_kind m_configmaps m_configmaps_update cm_Meta" cm_Meta
    "\<lambda>w. lookup_obj cm_Meta (m_configmaps w)" "\<lambda>e. Reason e = ''NotFound''" "(=)"
    "cfgMapChanged semDeepEqual" "configmap_agrees semDeepEqual"
  by (rule managed_mem) (simp_all add: sem.configmap_drift sem.agrees_refl)

interpretation mem_dep: managed_kind "mem_kind m_deployments m_deployments_update dep_Meta" dep_Meta
    "\<lambda>w. lookup_obj dep_Meta (m_deployments w)" "\<lambda>e. Reason e = ''NotFound''" "(=)"
    "DeploymentConfigChanged semDeepEqual" "deployment_agrees semDeepEqual"
  by (rule managed_mem) (simp_all add: sem.deployment_drift sem.agrees_refl)

interpretation mem_ds: managed_kind "mem_kind m_daemonsets m_daemonsets_update dms_Meta" dms_Meta
    "\<lambda>w. lookup_obj dms_Meta (m_daemonsets w)" "\<lambda>e. Reason e = ''NotFound''" "(=)"
    "DaemonsetConfigChanged semDeepEqual" "daemonset_agrees semDeepEqual"
  by (rule managed_mem) (simp_all add: sem.daemonset_drift sem.agrees_refl)

interpretation mem_svc: managed_kind "mem_kind m_services m_services_update svc_Meta" svc_Meta
    "\<lambda>w. lookup_obj svc_Meta (m_services w)" "\<lambda>e. Reason e = ''NotFound''" "(=)"
    "clusterip_replace semDeepEqual" "clusterip_agrees semDeepEqual"
  by (rule managed_mem) (simp_all add: sem.clusterip_replace_drift sem.agrees_refl)

end
