(* ===== verification/Ownership.thy ===== *)
theory Ownership
  imports Ensure_Spec
begin

text \<open>
  What a reconciliation may touch. The locale \<open>guarded\<close> asks of an invariant \<open>I\<close> of the world that
  every read keeps it, that creating, updating or deleting an object keeps it when the object
  carries the owner labels of the request, and that the Sesame itself is only written under the
  key of the request. Then the whole of \<open>Reconcile\<close> keeps it. The interpretation is a client that
  writes a log of the mutating calls, around any client: the log only has calls of these forms.
\<close>

section \<open>Owner labels of a request\<close>

definition owned_key :: "NamespacedName \<Rightarrow> ObjectMeta \<Rightarrow> bool" where
  "owned_key req m \<longleftrightarrow> map_lookup (Labels m) OwningSesameNameLabel = Some (nn_Name req) \<and>
     map_lookup (Labels m) OwningSesameNsLabel = Some (nn_Namespace req)"

lemma owned_by_key: "owned_by s m \<longleftrightarrow> owned_key (nsname (Meta s)) m"
  by (simp add: owned_by_iff owned_key_def nsname_def)

definition guard_kind :: "('w \<Rightarrow> bool) \<Rightarrow> (ObjectMeta \<Rightarrow> bool) \<Rightarrow> ('o \<Rightarrow> ObjectMeta) \<Rightarrow>
    ('w, 'o) kind_client \<Rightarrow> bool" where
  "guard_kind I ok meta kc \<longleftrightarrow> (\<forall>k. keeps I (Get kc k)) \<and>
     (\<forall>x. ok (meta x) \<longrightarrow> keeps I (Create kc x) \<and> keeps I (Update kc x) \<and> keeps I (Delete kc x))"

lemma guard_kindD:
  "guard_kind I ok meta kc \<Longrightarrow> keeps I (Get kc k)"
  "guard_kind I ok meta kc \<Longrightarrow> ok (meta x) \<Longrightarrow> keeps I (Create kc x)"
  "guard_kind I ok meta kc \<Longrightarrow> ok (meta x) \<Longrightarrow> keeps I (Update kc x)"
  "guard_kind I ok meta kc \<Longrightarrow> ok (meta x) \<Longrightarrow> keeps I (Delete kc x)"
  by (simp_all add: guard_kind_def)

lemma keeps_ensure_obj:
  assumes "guard_kind I (\<lambda>m. Exist m labels) meta kc" and "Exist (meta desired) labels"
    and drift: "drift_check changed agrees meta"
  shows "keeps I (ensure_obj nf kc meta changed labels key desired)"
  unfolding ensure_obj_def using assms(1,2)
  by (auto intro!: keeps_intro intro: guard_kindD drift_check.changed_owned [OF drift])

lemma keeps_delete_owned:
  assumes "guard_kind I (\<lambda>m. Exist m labels) meta kc"
  shows "keeps I (delete_owned nf kc meta labels key)"
  unfolding delete_owned_def using assms by (auto intro!: keeps_intro intro: guard_kindD)

lemma keeps_refines:
  "(\<And>w. refines_at w m spec) \<Longrightarrow> keeps I spec \<Longrightarrow> keeps I m"
  by (simp add: refines_at_def keeps_def)

lemma keeps_result_of: "keeps I m \<Longrightarrow> keeps I (result_of L m)"
  unfolding result_of_def by (intro keeps_intro)

section \<open>The guard\<close>

text \<open>What the prerequisites of a Sesame and its status need: the namespace, RBAC and the reads.\<close>

locale guarded_core = lib: library L for L :: "'w lib" +
  fixes cli :: "'w client" and I :: "'w \<Rightarrow> bool" and req :: NamespacedName
  assumes g_namespaces: "guard_kind I (owned_key req) ns_Meta (namespaces cli)"
    and g_serviceaccounts: "guard_kind I (owned_key req) sa_Meta (serviceaccounts cli)"
    and g_clusterroles: "guard_kind I (owned_key req) cr_Meta (clusterroles cli)"
    and g_clusterrolebindings: "guard_kind I (owned_key req) crb_Meta (clusterrolebindings cli)"
    and g_roles: "guard_kind I (owned_key req) role_Meta (roles cli)"
    and g_rolebindings: "guard_kind I (owned_key req) rb_Meta (rolebindings cli)"
    and g_get: "keeps I (Get (sesames cli) k)"
    and g_list: "keeps I (list_sesames cli)"
    and g_key: "gives I (Get (sesames cli) k) (\<lambda>r. \<forall>x. r = Inr x \<longrightarrow> nsname (Meta x) = k)"
    and g_status: "nsname (Meta x) = req \<Longrightarrow> keeps I (status_update cli x)"
    and g_deployment: "keeps I (Get (deployments cli) k)"
    and g_daemonset: "keeps I (Get (daemonsets cli) k)"
begin

lemmas core_guards = g_namespaces g_serviceaccounts g_clusterroles g_clusterrolebindings g_roles
  g_rolebindings

lemma guard_owned:
  assumes "guard_kind I (owned_key req) meta kc" and "nsname (Meta s) = req"
  shows "guard_kind I (owned_by s) meta kc"
  using assms by (simp add: owned_by_key guard_kind_def)

text \<open>Reads, and writes of owned objects.\<close>

lemmas core_reads = core_guards [THEN guard_kindD(1)] g_get g_list g_deployment g_daemonset
  lib.keeps_now

lemmas core_deletes = core_guards [THEN guard_owned, THEN guard_kindD(4)]

lemmas core_ensures = core_guards [THEN guard_owned, THEN keeps_ensure_obj]

lemma keeps_core_handlers:
  assumes "nsname (Meta s) = req"
  shows "keeps I (EnsureNamespace L cli s)" "keeps I (EnsureServiceAccount L cli name s)"
    "keeps I (EnsureClusterRole L cli name s)"
    "keeps I (EnsureClusterRoleBinding L cli name ref acct s)"
    "keeps I (EnsureRole L cli name s)" "keeps I (EnsureRoleBinding L cli name acct ref s)"
  by (rule keeps_refines [OF EnsureNamespace_refines], rule core_ensures, rule assms, simp,
      rule lib.deq.namespace_drift)
    (rule keeps_refines [OF EnsureServiceAccount_refines], rule core_ensures, rule assms, simp,
      rule lib.deq.serviceaccount_drift,
      rule keeps_refines [OF EnsureClusterRole_refines], rule core_ensures, rule assms, simp,
      rule lib.deq.clusterrole_drift,
      rule keeps_refines [OF EnsureClusterRoleBinding_refines], rule core_ensures, rule assms, simp,
      rule lib.deq.clusterrolebinding_drift,
      rule keeps_refines [OF EnsureRole_refines], rule core_ensures, rule assms, simp,
      rule lib.deq.role_drift,
      rule keeps_refines [OF EnsureRoleBinding_refines], rule core_ensures, rule assms, simp,
      rule lib.deq.rolebinding_drift)

lemma keeps_ensure_accounts:
  "nsname (Meta s) = req \<Longrightarrow> keeps I (ensure_accounts L cli s names c)"
  by (induction names arbitrary: c) (auto intro!: keeps_intro keeps_core_handlers)

lemma keeps_EnsureRBAC:
  assumes "nsname (Meta s) = req"
  shows "keeps I (EnsureRBAC L cli s)"
  unfolding EnsureRBAC_def Let_def
  by (intro keeps_intro keeps_wrapped keeps_ensure_accounts keeps_core_handlers assms)

text \<open>The status is only written to the Sesame of the request.\<close>

lemma keeps_SyncSesame:
  "nsname (Meta s) = req \<Longrightarrow> keeps I (SyncSesame n L cli s)"
proof (induction n arbitrary: s)
  case 0
  then show ?case by (simp add: SyncSesame.simps keeps_return)
next
  case (Suc n)
  then have key: "\<lparr>nn_Namespace = sesame_namespace s, nn_Name = sesame_name s\<rparr> = req"
    by (simp add: nsname_def)
  show ?case
    unfolding SyncSesame.simps key CurrentDeployment_def CurrentDaemonSet_def Let_def
    by (rule keeps_bind_gives [OF g_get g_key])
      (auto intro!: keeps_intro core_reads g_status Suc.IH)
qed

lemma keeps_syncSesameStatus:
  "nsname (Meta s) = req \<Longrightarrow> keeps I (syncSesameStatus n L cli s errs)"
  unfolding syncSesameStatus_def by (intro keeps_intro keeps_SyncSesame)

lemma keeps_handleResult: "keeps I m \<Longrightarrow> keeps I (handleResult wrap resource m errs)"
  unfolding handleResult_def by (intro keeps_intro)

lemma keeps_ensure_prerequisites:
  assumes "nsname (Meta s) = req"
  shows "keeps I (ensure_prerequisites L cli s)"
  unfolding ensure_prerequisites_def
  by (intro keeps_intro keeps_handleResult keeps_EnsureRBAC keeps_core_handlers assms)

end

text \<open>What the whole reconciliation needs.\<close>

locale guarded = guarded_core +
  assumes g_configmaps: "guard_kind I (owned_key req) cm_Meta (configmaps cli)"
    and g_jobs: "guard_kind I (owned_key req) job_Meta (jobs cli)"
    and g_deployments: "guard_kind I (owned_key req) dep_Meta (deployments cli)"
    and g_daemonsets: "guard_kind I (owned_key req) dms_Meta (daemonsets cli)"
    and g_services: "guard_kind I (owned_key req) svc_Meta (services cli)"
    and g_update: "nsname (Meta x) = req \<Longrightarrow> keeps I (Update (sesames cli) x)"
begin

lemmas guards = core_guards g_configmaps g_jobs g_deployments g_daemonsets g_services

lemmas reads = guards [THEN guard_kindD(1)] g_get g_list lib.keeps_now

lemmas creates = guards [THEN guard_owned, THEN guard_kindD(2)]
lemmas updates = guards [THEN guard_owned, THEN guard_kindD(3)]
lemmas deletes = guards [THEN guard_owned, THEN guard_kindD(4)]

lemmas ensures = guards [THEN guard_owned, THEN keeps_ensure_obj]

lemma keeps_simple_handlers:
  assumes "nsname (Meta s) = req"
  shows "keeps I (EnsureConfigMap L cli s)" "keeps I (EnsureSesameService L cli s)"
  by (rule keeps_refines [OF EnsureConfigMap_refines], rule ensures, rule assms,
      simp add: desired_configmap_def, rule lib.deq.configmap_drift)
    (rule keeps_refines [OF EnsureSesameService_refines], rule ensures, rule assms, simp,
      rule lib.deq.clusterip_replace_drift)

lemma keeps_deletions:
  assumes "nsname (Meta s) = req"
  shows "keeps I (EnsureConfigMapDeleted L cli s)" "keeps I (EnsureDeploymentDeleted L cli s)"
    "keeps I (EnsureDaemonSetDeleted L cli s)" "keeps I (EnsureJobDeleted L cli s)"
    "keeps I (EnsureSesameServiceDeleted L cli s)" "keeps I (EnsureEnvoyServiceDeleted L cli s)"
  unfolding deletions_refine
  by (intro keeps_result_of keeps_delete_owned guards [THEN guard_owned] assms)+

lemma keeps_EnsureDeployment:
  assumes "nsname (Meta s) = req"
  shows "keeps I (EnsureDeployment L cli s img)"
  unfolding EnsureDeployment_def Let_def CurrentDeployment_def createDeployment_def
    updateDeploymentIfNeeded_def
  by (intro keeps_intro reads keeps_deletions assms)
    (rule creates [OF assms] updates [OF assms],
      (simp | erule lib.deq.dep.changed_owned, assumption, simp))+

lemma keeps_EnsureDaemonSet:
  assumes "nsname (Meta s) = req"
  shows "keeps I (EnsureDaemonSet L cli s c e)"
  unfolding EnsureDaemonSet_def Let_def CurrentDaemonSet_def createDaemonSet_def
    updateDaemonSetIfNeeded_def
  by (intro keeps_intro reads keeps_deletions assms)
    (rule creates [OF assms] updates [OF assms],
      (simp | erule lib.deq.ds.changed_owned, assumption, simp))+

lemma keeps_EnsureEnvoyService:
  assumes "nsname (Meta s) = req"
  shows "keeps I (EnsureEnvoyService L cli s)"
  unfolding EnsureEnvoyService_def Let_def currentEnvoyService_def createService_def
    updateEnvoyServiceIfNeeded_def DesiredEnvoyService_closed res.case
  by (intro keeps_intro reads)
    (rule creates [OF assms], simp, rule updates [OF assms],
      rule lib.deq.envoy_changed_owned, simp, assumption, simp)

lemma keeps_EnsureJob:
  assumes "nsname (Meta s) = req"
  shows "keeps I (EnsureJob L cli s img)"
proof -
  have owned: "owned_by s (job_Meta u)"
    if "JobConfigChanged (DeepEqual L) c (DesiredJob s img) = Some u" and "owned_by s (job_Meta c)"
    for c u
    by (rule lib.deq.job.changed_owned [OF that]) simp
  show ?thesis
    unfolding EnsureJob_def Let_def currentJob_def createJob_def recreateJobIfNeeded_def
      retryJobCreate_def tryJobCreate_def
    by (intro keeps_intro reads lib.poll.poll_keeps creates [OF assms] deletes [OF assms]
        DesiredJob_owned; rule owned; assumption)
qed

text \<open>The deletion of RBAC objects.\<close>

lemma keeps_others:
  "keeps I (OtherSesamesExist cli s)" "keeps I (OtherSesamesExistInSpecNs cli s)"
  unfolding OtherSesamesExistInSpecNs_def OtherSesamesExist_def by (intro keeps_intro reads)+

lemma keeps_collect:
  "keeps I get \<Longrightarrow> keeps I (collect_object L mk get objs)"
  unfolding collect_object_def by (intro keeps_intro)

lemma keeps_collect_accounts: "keeps I (collect_accounts L cli ns names objs)"
  by (induction names arbitrary: objs)
    (auto intro!: keeps_intro keeps_collect simp: CurrentServiceAccount_def reads)

lemma keeps_delete_object:
  "nsname (Meta s) = req \<Longrightarrow> owned_by s (object_meta x) \<Longrightarrow> keeps I (delete_object cli x)"
  by (cases x) (simp_all add: deletes)

lemma keeps_delete_objects:
  "nsname (Meta s) = req \<Longrightarrow> keeps I (delete_objects L cli s xs)"
  by (induction xs) (auto intro!: keeps_intro keeps_delete_object)

lemma keeps_EnsureRBACDeleted:
  assumes "nsname (Meta s) = req"
  shows "keeps I (EnsureRBACDeleted L cli s)"
  unfolding EnsureRBACDeleted_def collect_namespaced_def collect_cluster_def CurrentRole_def
    CurrentRoleBinding_def CurrentClusterRole_def CurrentClusterRoleBinding_def
  by (intro keeps_intro keeps_wrapped keeps_others keeps_collect keeps_collect_accounts
      keeps_delete_objects reads assms)

lemma keeps_EnsureNamespaceDeleted:
  assumes "nsname (Meta s) = req"
  shows "keeps I (EnsureNamespaceDeleted L cli s)"
  unfolding EnsureNamespaceDeleted_def Let_def currentSpecNsName_def
  by (intro keeps_intro keeps_others reads) (rule deletes [OF assms], assumption)

lemma keeps_finalizer:
  assumes "nsname (Meta s) = req"
  shows "keeps I (EnsureFinalizer cli s)" "keeps I (EnsureFinalizerRemoved cli s)"
  unfolding EnsureFinalizer_def EnsureFinalizerRemoved_def using assms
  by (auto intro!: keeps_intro g_update simp: nsname_def)

lemma keeps_ensure_workloads:
  assumes "nsname (Meta s) = req"
  shows "keeps I (ensure_workloads L cli cfg s errs)"
  unfolding ensure_workloads_def Let_def
  by (intro keeps_intro keeps_handleResult keeps_simple_handlers keeps_EnsureJob keeps_EnsureDeployment
      keeps_EnsureDaemonSet keeps_EnsureEnvoyService assms)

lemma keeps_ensureSesame:
  assumes "nsname (Meta s) = req"
  shows "keeps I (ensureSesame n L cli cfg s)"
  unfolding ensureSesame_def
  by (intro keeps_intro keeps_syncSesameStatus keeps_ensure_prerequisites keeps_ensure_workloads assms)

lemma keeps_ensureSesameDeleted:
  assumes "nsname (Meta s) = req"
  shows "keeps I (ensureSesameDeleted L cli s)"
  unfolding ensureSesameDeleted_def delete_resources_def Let_def
  by (intro keeps_intro keeps_handleResult keeps_deletions keeps_EnsureRBACDeleted
      keeps_EnsureNamespaceDeleted keeps_finalizer assms)

lemma keeps_Reconcile: "keeps I (Reconcile n L cli cfg req)"
  unfolding Reconcile_def validate_Sesame_def
  by (rule keeps_bind_gives [OF g_get g_key])
    (auto intro!: keeps_intro keeps_others keeps_finalizer keeps_ensureSesame
      keeps_ensureSesameDeleted)

end

section \<open>A client that logs the mutating calls\<close>

datatype verb = VCreate | VUpdate | VDelete

datatype resource = RSesame | RSesameStatus | RNamespace | RServiceAccount | RClusterRole |
  RClusterRoleBinding | RRole | RRoleBinding | RConfigMap | RJob | RDeployment | RDaemonSet | RService

record call =
  call_verb :: verb
  call_resource :: resource
  call_meta :: ObjectMeta

definition lift_world :: "('w, 'a) state \<Rightarrow> ('w \<times> call list, 'a) state" where
  "lift_world m = State (\<lambda>(w, l). case run_state m w of (x, w') \<Rightarrow> (x, (w', l)))"

definition log_call :: "call \<Rightarrow> ('w, 'a) state \<Rightarrow> ('w \<times> call list, 'a) state" where
  "log_call c m = State (\<lambda>(w, l). case run_state m w of (x, w') \<Rightarrow> (x, (w', l @ [c])))"

definition mk_call :: "verb \<Rightarrow> resource \<Rightarrow> ObjectMeta \<Rightarrow> call" where
  "mk_call v r m = \<lparr>call_verb = v, call_resource = r, call_meta = m\<rparr>"

definition logged_kind :: "resource \<Rightarrow> ('o \<Rightarrow> ObjectMeta) \<Rightarrow> ('w, 'o) kind_client \<Rightarrow>
    ('w \<times> call list, 'o) kind_client" where
  "logged_kind r meta kc = \<lparr>
     Get = (\<lambda>k. lift_world (Get kc k)),
     Create = (\<lambda>x. log_call (mk_call VCreate r (meta x)) (Create kc x)),
     Update = (\<lambda>x. log_call (mk_call VUpdate r (meta x)) (Update kc x)),
     Delete = (\<lambda>x. log_call (mk_call VDelete r (meta x)) (Delete kc x))\<rparr>"

definition logged :: "'w client \<Rightarrow> ('w \<times> call list) client" where
  "logged cli = \<lparr>
     sesames = logged_kind RSesame Meta (sesames cli),
     list_sesames = lift_world (list_sesames cli),
     status_update = (\<lambda>s. log_call (mk_call VUpdate RSesameStatus (Meta s)) (status_update cli s)),
     namespaces = logged_kind RNamespace ns_Meta (namespaces cli),
     serviceaccounts = logged_kind RServiceAccount sa_Meta (serviceaccounts cli),
     clusterroles = logged_kind RClusterRole cr_Meta (clusterroles cli),
     clusterrolebindings = logged_kind RClusterRoleBinding crb_Meta (clusterrolebindings cli),
     roles = logged_kind RRole role_Meta (roles cli),
     rolebindings = logged_kind RRoleBinding rb_Meta (rolebindings cli),
     configmaps = logged_kind RConfigMap cm_Meta (configmaps cli),
     jobs = logged_kind RJob job_Meta (jobs cli),
     deployments = logged_kind RDeployment dep_Meta (deployments cli),
     daemonsets = logged_kind RDaemonSet dms_Meta (daemonsets cli),
     services = logged_kind RService svc_Meta (services cli)\<rparr>"

text \<open>The calls a reconciliation of \<open>req\<close> may make: it writes the Sesame and its status only under
  the key of the request, never creates or deletes a Sesame, and writes other objects only when
  they carry the owner labels.\<close>

definition call_allowed :: "NamespacedName \<Rightarrow> call \<Rightarrow> bool" where
  "call_allowed req c \<longleftrightarrow>
     (if call_resource c = RSesame \<or> call_resource c = RSesameStatus
      then call_verb c = VUpdate \<and> nsname (call_meta c) = req
      else owned_key req (call_meta c))"

definition log_allowed :: "NamespacedName \<Rightarrow> 'w \<times> call list \<Rightarrow> bool" where
  "log_allowed req wl \<longleftrightarrow> list_all (call_allowed req) (snd wl)"

lemma keeps_lift_world: "keeps (log_allowed req) (lift_world m)"
  by (auto simp: keeps_def lift_world_def log_allowed_def split: prod.split)

lemma keeps_log_call: "call_allowed req c \<Longrightarrow> keeps (log_allowed req) (log_call c m)"
  by (auto simp: keeps_def log_call_def log_allowed_def split: prod.split)

lemma guard_logged:
  assumes "r \<noteq> RSesame" and "r \<noteq> RSesameStatus"
  shows "guard_kind (log_allowed req) (owned_key req) meta (logged_kind r meta kc)"
  using assms
  by (auto simp: guard_kind_def logged_kind_def call_allowed_def mk_call_def
      intro!: keeps_lift_world keeps_log_call)

text \<open>A client whose reads of Sesames return the object asked for.\<close>

definition get_keyed :: "'w client \<Rightarrow> bool" where
  "get_keyed cli \<longleftrightarrow>
     (\<forall>w k x. fst (run_state (Get (sesames cli) k) w) = Inr x \<longrightarrow> nsname (Meta x) = k)"

lemma logged_simps [simp]:
  "sesames (logged cli) = logged_kind RSesame Meta (sesames cli)"
  "namespaces (logged cli) = logged_kind RNamespace ns_Meta (namespaces cli)"
  "serviceaccounts (logged cli) = logged_kind RServiceAccount sa_Meta (serviceaccounts cli)"
  "clusterroles (logged cli) = logged_kind RClusterRole cr_Meta (clusterroles cli)"
  "clusterrolebindings (logged cli) = logged_kind RClusterRoleBinding crb_Meta (clusterrolebindings cli)"
  "roles (logged cli) = logged_kind RRole role_Meta (roles cli)"
  "rolebindings (logged cli) = logged_kind RRoleBinding rb_Meta (rolebindings cli)"
  "configmaps (logged cli) = logged_kind RConfigMap cm_Meta (configmaps cli)"
  "jobs (logged cli) = logged_kind RJob job_Meta (jobs cli)"
  "deployments (logged cli) = logged_kind RDeployment dep_Meta (deployments cli)"
  "daemonsets (logged cli) = logged_kind RDaemonSet dms_Meta (daemonsets cli)"
  "services (logged cli) = logged_kind RService svc_Meta (services cli)"
  "list_sesames (logged cli) = lift_world (list_sesames cli)"
  "status_update (logged cli) s =
     log_call (mk_call VUpdate RSesameStatus (Meta s)) (status_update cli s)"
  by (simp_all add: logged_def)

lemma logged_kind_simps [simp]:
  "Get (logged_kind r meta kc) k = lift_world (Get kc k)"
  "Create (logged_kind r meta kc) x = log_call (mk_call VCreate r (meta x)) (Create kc x)"
  "Update (logged_kind r meta kc) x = log_call (mk_call VUpdate r (meta x)) (Update kc x)"
  "Delete (logged_kind r meta kc) x = log_call (mk_call VDelete r (meta x)) (Delete kc x)"
  by (simp_all add: logged_kind_def)

lemma run_logged [simp]:
  "run_state (lift_world m) (w, l) = (case run_state m w of (x, w') \<Rightarrow> (x, (w', l)))"
  "run_state (log_call c m) (w, l) = (case run_state m w of (x, w') \<Rightarrow> (x, (w', l @ [c])))"
  by (simp_all add: lift_world_def log_call_def)

lemma lift_world_result: "fst (run_state (lift_world m) (w, l)) = fst (run_state m w)"
  by (simp split: prod.split)

lemma logged_keyed:
  assumes "get_keyed cli"
  shows "gives J (Get (sesames (logged cli)) k) (\<lambda>r. \<forall>x. r = Inr x \<longrightarrow> nsname (Meta x) = k)"
  using assms by (auto simp: gives_def get_keyed_def lift_world_result simp del: run_logged)

lemma guarded_logged:
  assumes "library L" and keyed: "get_keyed cli"
  shows "guarded L (logged cli) (log_allowed req) req"
  by (intro guarded.intro guarded_core.intro guarded_core_axioms.intro guarded_axioms.intro assms(1)
      logged_keyed [OF keyed])
    (simp_all add: guard_logged keeps_lift_world keeps_log_call call_allowed_def mk_call_def)

text \<open>The calls before the workloads: the namespace, RBAC and the status.\<close>

definition prerequisite_call :: "call \<Rightarrow> bool" where
  "prerequisite_call c \<longleftrightarrow> call_resource c \<in> {RNamespace, RServiceAccount, RClusterRole,
     RClusterRoleBinding, RRole, RRoleBinding, RSesameStatus}"

definition log_prerequisites :: "'w \<times> call list \<Rightarrow> bool" where
  "log_prerequisites wl \<longleftrightarrow> list_all prerequisite_call (snd wl)"

lemma keeps_prerequisite_log:
  "keeps log_prerequisites (lift_world m)"
  "prerequisite_call c \<Longrightarrow> keeps log_prerequisites (log_call c n)"
  by (auto simp: keeps_def lift_world_def log_call_def log_prerequisites_def split: prod.split)

lemma guarded_core_logged:
  assumes "library L" and keyed: "get_keyed cli"
  shows "guarded_core L (logged cli) log_prerequisites req"
  by (intro guarded_core.intro guarded_core_axioms.intro assms(1) logged_keyed [OF keyed])
    (auto simp: guard_kind_def keeps_prerequisite_log prerequisite_call_def mk_call_def
      intro!: keeps_prerequisite_log)

lemma mem_get_keyed: "get_keyed mem_client"
  by (auto simp: get_keyed_def mem_kind_def with_fault_def dest: lookup_key
      split: list.splits option.splits)

interpretation mem_core: guarded_core std_lib "logged mem_client" log_prerequisites req for req
  by (rule guarded_core_logged [OF std.library_axioms mem_get_keyed])

interpretation mem_guard: guarded std_lib "logged mem_client" "log_allowed req" req for req
  by (rule guarded_logged [OF std.library_axioms mem_get_keyed])

end
