(* ===== verification/Separation.thy ===== *)
theory Separation
  imports Ownership
begin

text \<open>
  Calls that do not interfere. \<open>only_kind r V cli\<close> says of a view \<open>V\<close> of the world that only calls on
  objects of kind \<open>r\<close> can change it. The lemmas push this through every handler: a handler that
  makes no call on kind \<open>r\<close> leaves \<open>V\<close> as it was.
\<close>

section \<open>Quiet kinds\<close>

definition quiet_kind :: "('w \<Rightarrow> 'v) \<Rightarrow> ('w, 'o) kind_client \<Rightarrow> bool" where
  "quiet_kind V kc \<longleftrightarrow> (\<forall>k w. V (snd (run_state (Get kc k) w)) = V w) \<and>
     (\<forall>x w. V (snd (run_state (Create kc x) w)) = V w) \<and>
     (\<forall>x w. V (snd (run_state (Update kc x) w)) = V w) \<and>
     (\<forall>x w. V (snd (run_state (Delete kc x) w)) = V w)"

definition only_kind :: "resource \<Rightarrow> ('w \<Rightarrow> 'v) \<Rightarrow> 'w client \<Rightarrow> bool" where
  "only_kind r V cli \<longleftrightarrow>
     quiet_kind V (sesames cli) \<and> (\<forall>w. V (snd (run_state (list_sesames cli) w)) = V w) \<and>
     (\<forall>s w. V (snd (run_state (status_update cli s) w)) = V w) \<and>
     (r \<noteq> RNamespace \<longrightarrow> quiet_kind V (namespaces cli)) \<and>
     (r \<noteq> RServiceAccount \<longrightarrow> quiet_kind V (serviceaccounts cli)) \<and>
     (r \<noteq> RClusterRole \<longrightarrow> quiet_kind V (clusterroles cli)) \<and>
     (r \<noteq> RClusterRoleBinding \<longrightarrow> quiet_kind V (clusterrolebindings cli)) \<and>
     (r \<noteq> RRole \<longrightarrow> quiet_kind V (roles cli)) \<and>
     (r \<noteq> RRoleBinding \<longrightarrow> quiet_kind V (rolebindings cli)) \<and>
     (r \<noteq> RConfigMap \<longrightarrow> quiet_kind V (configmaps cli)) \<and>
     (r \<noteq> RJob \<longrightarrow> quiet_kind V (jobs cli)) \<and>
     (r \<noteq> RDeployment \<longrightarrow> quiet_kind V (deployments cli)) \<and>
     (r \<noteq> RDaemonSet \<longrightarrow> quiet_kind V (daemonsets cli)) \<and>
     (r \<noteq> RService \<longrightarrow> quiet_kind V (services cli))"

text \<open>\<open>leaves V m\<close>: the computation does not change the view.\<close>

definition leaves :: "('w \<Rightarrow> 'v) \<Rightarrow> ('w, 'a) state \<Rightarrow> bool" where
  "leaves V m \<longleftrightarrow> (\<forall>w. V (snd (run_state m w)) = V w)"

lemma leavesD: "leaves V m \<Longrightarrow> run_state m w = (r, w') \<Longrightarrow> V w' = V w"
  unfolding leaves_def by (metis snd_conv)

lemma leaves_keeps: "leaves V m \<longleftrightarrow> (\<forall>v. keeps (\<lambda>w. V w = v) m)"
  by (auto simp: leaves_def keeps_def)

lemma quiet_kindD:
  "quiet_kind V kc \<Longrightarrow> keeps (\<lambda>w. V w = v) (Get kc k)"
  "quiet_kind V kc \<Longrightarrow> keeps (\<lambda>w. V w = v) (Create kc x)"
  "quiet_kind V kc \<Longrightarrow> keeps (\<lambda>w. V w = v) (Update kc x)"
  "quiet_kind V kc \<Longrightarrow> keeps (\<lambda>w. V w = v) (Delete kc x)"
  by (simp_all add: quiet_kind_def keeps_def)

lemma only_kindD:
  assumes "only_kind r V cli"
  shows "quiet_kind V (sesames cli)" "r \<noteq> RNamespace \<Longrightarrow> quiet_kind V (namespaces cli)"
    "r \<noteq> RServiceAccount \<Longrightarrow> quiet_kind V (serviceaccounts cli)"
    "r \<noteq> RClusterRole \<Longrightarrow> quiet_kind V (clusterroles cli)"
    "r \<noteq> RClusterRoleBinding \<Longrightarrow> quiet_kind V (clusterrolebindings cli)"
    "r \<noteq> RRole \<Longrightarrow> quiet_kind V (roles cli)" "r \<noteq> RRoleBinding \<Longrightarrow> quiet_kind V (rolebindings cli)"
    "r \<noteq> RConfigMap \<Longrightarrow> quiet_kind V (configmaps cli)" "r \<noteq> RJob \<Longrightarrow> quiet_kind V (jobs cli)"
    "r \<noteq> RDeployment \<Longrightarrow> quiet_kind V (deployments cli)"
    "r \<noteq> RDaemonSet \<Longrightarrow> quiet_kind V (daemonsets cli)" "r \<noteq> RService \<Longrightarrow> quiet_kind V (services cli)"
    "keeps (\<lambda>w. V w = v) (list_sesames cli)" "keeps (\<lambda>w. V w = v) (status_update cli s)"
  using assms by (simp_all add: only_kind_def keeps_def)

section \<open>The handlers of one kind\<close>

lemma quiet_ensure_obj:
  "quiet_kind V kc \<Longrightarrow> keeps (\<lambda>w. V w = v) (ensure_obj nf kc meta changed labels key desired)"
  unfolding ensure_obj_def by (intro keeps_intro quiet_kindD)

lemma quiet_delete_owned:
  "quiet_kind V kc \<Longrightarrow> keeps (\<lambda>w. V w = v) (result_of L (delete_owned nf kc meta labels key))"
  unfolding delete_owned_def by (intro keeps_result_of keeps_intro quiet_kindD)

lemma quiet_refines:
  assumes "\<And>w. refines_at w m (ensure_obj nf kc meta changed labels key desired)" and "quiet_kind V kc"
  shows "leaves V m"
  unfolding leaves_keeps using keeps_refines [OF assms(1) quiet_ensure_obj [OF assms(2)]] by blast

lemma leaves_simple:
  "quiet_kind V (namespaces cli) \<Longrightarrow> leaves V (EnsureNamespace L cli s)"
  "quiet_kind V (serviceaccounts cli) \<Longrightarrow> leaves V (EnsureServiceAccount L cli name s)"
  "quiet_kind V (clusterroles cli) \<Longrightarrow> leaves V (EnsureClusterRole L cli name s)"
  "quiet_kind V (clusterrolebindings cli) \<Longrightarrow> leaves V (EnsureClusterRoleBinding L cli name ref acct s)"
  "quiet_kind V (roles cli) \<Longrightarrow> leaves V (EnsureRole L cli name s)"
  "quiet_kind V (rolebindings cli) \<Longrightarrow> leaves V (EnsureRoleBinding L cli name acct ref s)"
  "quiet_kind V (configmaps cli) \<Longrightarrow> leaves V (EnsureConfigMap L cli s)"
  "quiet_kind V (services cli) \<Longrightarrow> leaves V (EnsureSesameService L cli s)"
  by (erule quiet_refines [OF EnsureNamespace_refines] quiet_refines [OF EnsureServiceAccount_refines]
      quiet_refines [OF EnsureClusterRole_refines] quiet_refines [OF EnsureClusterRoleBinding_refines]
      quiet_refines [OF EnsureRole_refines] quiet_refines [OF EnsureRoleBinding_refines]
      quiet_refines [OF EnsureConfigMap_refines] quiet_refines [OF EnsureSesameService_refines])+

lemma leaves_deletions:
  "quiet_kind V (configmaps cli) \<Longrightarrow> leaves V (EnsureConfigMapDeleted L cli s)"
  "quiet_kind V (deployments cli) \<Longrightarrow> leaves V (EnsureDeploymentDeleted L cli s)"
  "quiet_kind V (daemonsets cli) \<Longrightarrow> leaves V (EnsureDaemonSetDeleted L cli s)"
  "quiet_kind V (jobs cli) \<Longrightarrow> leaves V (EnsureJobDeleted L cli s)"
  "quiet_kind V (services cli) \<Longrightarrow> leaves V (EnsureSesameServiceDeleted L cli s)"
  "quiet_kind V (services cli) \<Longrightarrow> leaves V (EnsureEnvoyServiceDeleted L cli s)"
  unfolding deletions_refine leaves_keeps by (simp_all add: quiet_delete_owned)

lemma leaves_EnsureDeployment:
  assumes "quiet_kind V (deployments cli)"
  shows "leaves V (EnsureDeployment L cli s img)"
  unfolding leaves_keeps EnsureDeployment_def Let_def CurrentDeployment_def createDeployment_def
    updateDeploymentIfNeeded_def
  by (intro allI keeps_intro quiet_kindD [OF assms]
      leaves_deletions(2) [OF assms, unfolded leaves_keeps, THEN spec])

lemma leaves_EnsureDaemonSet:
  assumes "quiet_kind V (daemonsets cli)"
  shows "leaves V (EnsureDaemonSet L cli s c e)"
  unfolding leaves_keeps EnsureDaemonSet_def Let_def CurrentDaemonSet_def createDaemonSet_def
    updateDaemonSetIfNeeded_def
  by (intro allI keeps_intro quiet_kindD [OF assms]
      leaves_deletions(3) [OF assms, unfolded leaves_keeps, THEN spec])

lemma leaves_EnsureEnvoyService:
  assumes "quiet_kind V (services cli)"
  shows "leaves V (EnsureEnvoyService L cli s)"
  unfolding leaves_keeps EnsureEnvoyService_def Let_def currentEnvoyService_def createService_def
    updateEnvoyServiceIfNeeded_def DesiredEnvoyService_closed res.case
  by (intro allI keeps_intro quiet_kindD [OF assms])

lemma leaves_EnsureJob:
  assumes "library L" and "quiet_kind V (jobs cli)"
  shows "leaves V (EnsureJob L cli s img)"
proof -
  have poll: "polling (PollImmediate L)" using assms(1) by (simp add: library_def)
  show ?thesis
    unfolding leaves_keeps EnsureJob_def Let_def currentJob_def createJob_def recreateJobIfNeeded_def
      retryJobCreate_def tryJobCreate_def
    by (intro allI keeps_intro quiet_kindD [OF assms(2)] polling.poll_keeps [OF poll])
qed

section \<open>The handlers of several kinds\<close>

lemma leaves_others:
  assumes "only_kind r V cli"
  shows "leaves V (OtherSesamesExist cli s)" "leaves V (OtherSesamesExistInSpecNs cli s)"
  unfolding leaves_keeps OtherSesamesExistInSpecNs_def OtherSesamesExist_def
  by (intro allI keeps_intro only_kindD [OF assms])+

lemma leaves_get_sesame: "only_kind r V cli \<Longrightarrow> leaves V (Get (sesames cli) k)"
  by (simp add: only_kind_def quiet_kind_def leaves_def)

lemma leaves_validate:
  assumes "only_kind r V cli"
  shows "leaves V (validate_Sesame cli s)"
  unfolding leaves_keeps validate_Sesame_def
  by (intro allI keeps_intro leaves_others [OF assms, unfolded leaves_keeps, THEN spec])

lemma quiet_collect: "keeps I get \<Longrightarrow> keeps I (collect_object L mk get objs)"
  unfolding collect_object_def by (intro keeps_intro)

text \<open>A view that no call on an RBAC kind changes.\<close>

definition rbac_quiet :: "('w \<Rightarrow> 'v) \<Rightarrow> 'w client \<Rightarrow> bool" where
  "rbac_quiet V cli \<longleftrightarrow> quiet_kind V (serviceaccounts cli) \<and> quiet_kind V (clusterroles cli) \<and>
     quiet_kind V (clusterrolebindings cli) \<and> quiet_kind V (roles cli) \<and> quiet_kind V (rolebindings cli)"

lemma rbac_quietD:
  assumes "rbac_quiet V cli"
  shows "quiet_kind V (serviceaccounts cli)" "quiet_kind V (clusterroles cli)"
    "quiet_kind V (clusterrolebindings cli)" "quiet_kind V (roles cli)" "quiet_kind V (rolebindings cli)"
  using assms by (simp_all add: rbac_quiet_def)

lemma only_kind_rbac_quiet:
  assumes "only_kind r V cli"
    and "r \<notin> {RServiceAccount, RClusterRole, RClusterRoleBinding, RRole, RRoleBinding}"
  shows "rbac_quiet V cli"
  using assms(2) by (simp add: rbac_quiet_def only_kindD [OF assms(1)])

lemma leaves_EnsureRBAC:
  assumes "rbac_quiet V cli"
  shows "leaves V (EnsureRBAC L cli s)"
proof -
  note simple = leaves_simple [unfolded leaves_keeps, THEN spec]
  note quiet = rbac_quietD [OF assms]
  have accounts: "keeps (\<lambda>w. V w = v) (ensure_accounts L cli s names c)" for v names c
    by (induction names arbitrary: c) (auto intro!: keeps_intro simple(2) [OF quiet(1)])
  show ?thesis
    unfolding leaves_keeps EnsureRBAC_def Let_def
    by (intro allI keeps_intro keeps_wrapped accounts simple(3) [OF quiet(2)] simple(4) [OF quiet(3)]
        simple(5) [OF quiet(4)] simple(6) [OF quiet(5)])
qed

lemma leaves_EnsureRBACDeleted:
  assumes only: "only_kind r V cli" and "rbac_quiet V cli"
  shows "leaves V (EnsureRBACDeleted L cli s)"
proof -
  note quiet = rbac_quietD [OF assms(2), THEN quiet_kindD(1)]
  note others = leaves_others [OF only, unfolded leaves_keeps, THEN spec]
  have accounts: "keeps (\<lambda>w. V w = v) (collect_accounts L cli ns names objs)" for v ns names objs
    by (induction names arbitrary: objs)
      (auto intro!: keeps_intro quiet_collect quiet simp: CurrentServiceAccount_def)
  have one: "keeps (\<lambda>w. V w = v) (delete_object cli x)" for v x
    by (cases x) (simp_all add: rbac_quietD [OF assms(2)] quiet_kindD(4))
  have objects: "keeps (\<lambda>w. V w = v) (delete_objects L cli s xs)" for v xs
    by (induction xs) (auto intro!: keeps_intro one)
  show ?thesis
    unfolding leaves_keeps EnsureRBACDeleted_def collect_namespaced_def collect_cluster_def
      CurrentRole_def CurrentRoleBinding_def CurrentClusterRole_def CurrentClusterRoleBinding_def
    by (intro allI keeps_intro keeps_wrapped quiet_collect accounts objects others quiet)
qed

lemma leaves_EnsureNamespaceDeleted:
  assumes only: "only_kind r V cli" and "r \<noteq> RNamespace"
  shows "leaves V (EnsureNamespaceDeleted L cli s)"
  unfolding leaves_keeps EnsureNamespaceDeleted_def Let_def currentSpecNsName_def
  by (intro allI keeps_intro leaves_others [OF only, unfolded leaves_keeps, THEN spec]
      quiet_kindD only_kindD(2) [OF only] assms(2))

text \<open>The status is neither a workload nor a prerequisite, and the reads change no view.\<close>

definition reads_quiet :: "('w \<Rightarrow> 'v) \<Rightarrow> 'w lib \<Rightarrow> 'w client \<Rightarrow> bool" where
  "reads_quiet V L cli \<longleftrightarrow> (\<forall>k w. V (snd (run_state (Get (deployments cli) k) w)) = V w) \<and>
     (\<forall>k w. V (snd (run_state (Get (daemonsets cli) k) w)) = V w) \<and>
     (\<forall>w. V (snd (run_state (Now L) w)) = V w)"

lemma leaves_SyncSesame:
  assumes only: "only_kind r V cli" and reads: "reads_quiet V L cli"
  shows "leaves V (SyncSesame n L cli s)"
proof -
  have get: "keeps (\<lambda>w. V w = v) (Get (deployments cli) k)" "keeps (\<lambda>w. V w = v) (Get (daemonsets cli) k)"
    "keeps (\<lambda>w. V w = v) (Now L)" for v k
    using reads by (simp_all add: reads_quiet_def keeps_def)
  have "keeps (\<lambda>w. V w = v) (SyncSesame n L cli s)" for v
  proof (induction n arbitrary: s)
    case (Suc n)
    show ?case
      unfolding SyncSesame.simps CurrentDeployment_def CurrentDaemonSet_def Let_def
      by (intro keeps_intro get quiet_kindD(1) only_kindD(1,14) [OF only] Suc.IH)
  qed (simp add: SyncSesame.simps keeps_return)
  then show ?thesis by (simp add: leaves_keeps)
qed

lemma leaves_syncSesameStatus:
  assumes "only_kind r V cli" and "reads_quiet V L cli"
  shows "leaves V (syncSesameStatus n L cli s errs)"
  unfolding leaves_keeps syncSesameStatus_def
  by (intro allI keeps_intro leaves_SyncSesame [OF assms, unfolded leaves_keeps, THEN spec])

section \<open>The server in memory\<close>

lemma mem_quiet:
  assumes "\<And>f w. V (upd f w) = V w" and "\<And>g w. V (m_faults_update g w) = V w"
  shows "quiet_kind V (mem_kind sel upd meta)"
  using assms by (auto simp: quiet_kind_def mem_kind_def with_fault_def
      split: list.splits option.splits)

lemma mem_only_kind:
  assumes "\<And>g w. V (m_faults_update g w) = V w" and "\<And>f w. V (m_sesames_update f w) = V w"
    and "\<And>f w. r \<noteq> RNamespace \<Longrightarrow> V (m_namespaces_update f w) = V w"
    and "\<And>f w. r \<noteq> RServiceAccount \<Longrightarrow> V (m_serviceaccounts_update f w) = V w"
    and "\<And>f w. r \<noteq> RClusterRole \<Longrightarrow> V (m_clusterroles_update f w) = V w"
    and "\<And>f w. r \<noteq> RClusterRoleBinding \<Longrightarrow> V (m_clusterrolebindings_update f w) = V w"
    and "\<And>f w. r \<noteq> RRole \<Longrightarrow> V (m_roles_update f w) = V w"
    and "\<And>f w. r \<noteq> RRoleBinding \<Longrightarrow> V (m_rolebindings_update f w) = V w"
    and "\<And>f w. r \<noteq> RConfigMap \<Longrightarrow> V (m_configmaps_update f w) = V w"
    and "\<And>f w. r \<noteq> RJob \<Longrightarrow> V (m_jobs_update f w) = V w"
    and "\<And>f w. r \<noteq> RDeployment \<Longrightarrow> V (m_deployments_update f w) = V w"
    and "\<And>f w. r \<noteq> RDaemonSet \<Longrightarrow> V (m_daemonsets_update f w) = V w"
    and "\<And>f w. r \<noteq> RService \<Longrightarrow> V (m_services_update f w) = V w"
  shows "only_kind r V mem_client"
proof -
  have "V (snd (run_state (list_sesames mem_client) w)) = V w"
    "V (snd (run_state (status_update mem_client s) w)) = V w" for s w
    using assms(1,2) by (auto simp: mem_client_def with_fault_def split: list.splits option.splits)
  with assms show ?thesis by (simp add: only_kind_def mem_quiet)
qed

end
