(* ===== verification/Deletion.thy ===== *)
theory Deletion
  imports Separation
begin

text \<open>
  What the deletion of a Sesame leaves behind. \<open>gone\<close> is the effect of one deletion on the objects of
  its kind; the locale \<open>separate_kinds\<close> is an API server in which only calls on a workload kind
  change the objects of that kind, and in it the deletions of \<open>ensureSesameDeleted\<close>, run one
  after the other, leave nothing that belongs to the Sesame.
\<close>

section \<open>One deletion\<close>

text \<open>After a deletion the key holds nothing, an object on its way out, or an unchanged object of
  somebody else; other keys are untouched.\<close>

definition gone :: "('w \<Rightarrow> NamespacedName \<Rightarrow> 'o option) \<Rightarrow> ('o \<Rightarrow> ObjectMeta) \<Rightarrow> Sesame \<Rightarrow>
    NamespacedName \<Rightarrow> 'w \<Rightarrow> 'w \<Rightarrow> bool" where
  "gone view meta s key w w' \<longleftrightarrow>
     (\<forall>y. view w' key = Some y \<longrightarrow> DeletionTimestamp (meta y) \<noteq> None \<or>
        view w key = Some y \<and> \<not> owned_by s (meta y)) \<and>
     (\<forall>k. k \<noteq> key \<longrightarrow> view w' k = view w k)"

lemma delete_gone:
  assumes api: "api_kind kc meta view (IsNotFound L) adm"
    and run: "run_state (result_of L (delete_owned (IsNotFound L) kc meta (OwnerLabels s) key)) w =
      (Ok (), w')"
  shows "gone view meta s key w w'"
proof -
  have "drift_check (\<lambda>c d. None) (\<lambda>c d. True) meta" by unfold_locales auto
  then have kind: "managed_kind kc meta view (IsNotFound L) adm (\<lambda>c d. None) (\<lambda>c d. True)"
    by (intro managed_kindI api) auto
  obtain out where out: "run_state (delete_owned (IsNotFound L) kc meta (OwnerLabels s) key) w = (out, w')"
    and "deleted_res (IsNotFound L) out = Ok ()"
    using run by (auto simp: result_of_def split: prod.splits)
  then show ?thesis
    using managed_kind.delete_establishes [OF kind out]
      managed_kind.delete_frame_key [OF kind, of _ key "OwnerLabels s" w]
    by (auto simp: gone_def)
qed

section \<open>Nothing is left\<close>

text \<open>No object of the Sesame is left under the name, unless it is already on its way out.\<close>

definition released :: "('o \<Rightarrow> ObjectMeta) \<Rightarrow> Sesame \<Rightarrow> string \<Rightarrow> (NamespacedName \<Rightarrow> 'o option) \<Rightarrow> bool" where
  "released meta s name v \<longleftrightarrow>
     (\<forall>y. v \<lparr>nn_Namespace = spec_ns s, nn_Name = name\<rparr> = Some y \<longrightarrow>
        DeletionTimestamp (meta y) \<noteq> None \<or> \<not> owned_by s (meta y))"

lemma gone_released:
  "gone view meta s \<lparr>nn_Namespace = spec_ns s, nn_Name = name\<rparr> w w' \<Longrightarrow> released meta s name (view w')"
  by (auto simp: gone_def released_def)

text \<open>Nothing that belongs to the Sesame is left among the services, daemon sets, deployments, jobs and
  config maps given.\<close>

definition all_released :: "Sesame \<Rightarrow> (NamespacedName \<Rightarrow> Service option) \<Rightarrow>
    (NamespacedName \<Rightarrow> DaemonSet option) \<Rightarrow> (NamespacedName \<Rightarrow> Deployment option) \<Rightarrow>
    (NamespacedName \<Rightarrow> Job option) \<Rightarrow> (NamespacedName \<Rightarrow> ConfigMap option) \<Rightarrow> bool" where
  "all_released s vsvc vdms vdep vjob vcm \<longleftrightarrow>
     (has_envoy_service s \<longrightarrow> released svc_Meta s envoySvcName vsvc) \<and>
     released svc_Meta s SesameSvcName vsvc \<and> released dms_Meta s envoyDaemonSetName vdms \<and>
     released dep_Meta s SesameDeploymentName vdep \<and> released job_Meta s certgenJobName vjob \<and>
     released cm_Meta s SesameConfigMapName vcm"

text \<open>When the deletions end without an error, each of them succeeded.\<close>

lemma run_and_then_Ok:
  "run_state (and_then m f) w = (Ok y, w') \<longleftrightarrow>
     (\<exists>x w1. run_state m w = (Ok x, w1) \<and> run_state (f x) w1 = (Ok y, w'))"
  by (auto simp: run_and_then split: prod.splits res.splits)

lemma run_handleResult_nil:
  "run_state (handleResult wrap resource call errs) w = (Ok [], w') \<longleftrightarrow>
     errs = [] \<and> run_state call w = (Ok (), w')"
  by (auto simp: handleResult_def split: prod.splits res.splits)

lemma run_handleResult_errs:
  "run_state (handleResult wrap resource call errs) w = (Ok errs', w') \<Longrightarrow>
     errs' = errs \<and> run_state call w = (Ok (), w') \<or> errs' \<noteq> []"
  by (auto simp: handleResult_def split: prod.splits res.splits)

lemma delete_steps:
  assumes "run_state (delete_resources L cli s) w = (Ok [], w')"
  shows "\<exists>w1 w2 w3 w4 w5 w6 w7.
    (if has_envoy_service s then run_state (EnsureEnvoyServiceDeleted L cli s) w = (Ok (), w1) else w1 = w) \<and>
    run_state (EnsureSesameServiceDeleted L cli s) w1 = (Ok (), w2) \<and>
    run_state (EnsureDaemonSetDeleted L cli s) w2 = (Ok (), w3) \<and>
    run_state (EnsureDeploymentDeleted L cli s) w3 = (Ok (), w4) \<and>
    run_state (EnsureJobDeleted L cli s) w4 = (Ok (), w5) \<and>
    run_state (EnsureConfigMapDeleted L cli s) w5 = (Ok (), w6) \<and>
    run_state (EnsureRBACDeleted L cli s) w6 = (Ok (), w7) \<and>
    w' = snd (run_state (EnsureNamespaceDeleted L cli s) w7)"
proof -
  have last: "errs = [] \<and> w' = snd (run_state (EnsureNamespaceDeleted L cli s) v)"
    if "run_state (do { (e, r) \<leftarrow> EnsureNamespaceDeleted L cli s;
      if e then handleResult f rn (ret r) errs else ret (Ok errs) }) v = (Ok [], w')" for f rn v errs
    using that by (auto simp: run_handleResult_nil split: prod.splits if_splits)
  from assms show ?thesis
    unfolding delete_resources_def Let_def run_and_then_Ok
    by - (elim exE conjE, drule last, auto simp: run_handleResult_nil split: if_splits)
qed

locale separate_kinds =
  fixes L :: "'w lib" and cli :: "'w client"
    and vsvc :: "'w \<Rightarrow> NamespacedName \<Rightarrow> Service option" and asvc
    and vdms :: "'w \<Rightarrow> NamespacedName \<Rightarrow> DaemonSet option" and adms
    and vdep :: "'w \<Rightarrow> NamespacedName \<Rightarrow> Deployment option" and adep
    and vjob :: "'w \<Rightarrow> NamespacedName \<Rightarrow> Job option" and ajob
    and vcm :: "'w \<Rightarrow> NamespacedName \<Rightarrow> ConfigMap option" and acm
  assumes svc: "api_kind (services cli) svc_Meta vsvc (IsNotFound L) asvc"
    and dms: "api_kind (daemonsets cli) dms_Meta vdms (IsNotFound L) adms"
    and dep: "api_kind (deployments cli) dep_Meta vdep (IsNotFound L) adep"
    and job: "api_kind (jobs cli) job_Meta vjob (IsNotFound L) ajob"
    and cm: "api_kind (configmaps cli) cm_Meta vcm (IsNotFound L) acm"
    and only: "only_kind RService vsvc cli" "only_kind RDaemonSet vdms cli"
      "only_kind RDeployment vdep cli" "only_kind RJob vjob cli" "only_kind RConfigMap vcm cli"
begin

text \<open>The steps after a workload kind was dealt with leave it alone.\<close>

lemma leaves_rest:
  assumes "only_kind r V cli" and "r \<in> {RService, RDaemonSet, RDeployment, RJob, RConfigMap}"
  shows "leaves V (EnsureRBACDeleted L cli s)" "leaves V (EnsureNamespaceDeleted L cli s)"
  using assms leaves_EnsureRBACDeleted [OF assms(1) only_kind_rbac_quiet [OF assms(1)]]
    leaves_EnsureNamespaceDeleted [OF assms(1)] by auto

lemma deletions_release:
  assumes run: "run_state (delete_resources L cli s) w = (Ok [], w')"
  shows "all_released s (vsvc w') (vdms w') (vdep w') (vjob w') (vcm w')"
proof -
  from delete_steps [OF run] obtain w1 w2 w3 w4 w5 w6 w7 where
      s1: "if has_envoy_service s then run_state (EnsureEnvoyServiceDeleted L cli s) w = (Ok (), w1) else w1 = w"
    and s2: "run_state (EnsureSesameServiceDeleted L cli s) w1 = (Ok (), w2)"
    and s3: "run_state (EnsureDaemonSetDeleted L cli s) w2 = (Ok (), w3)"
    and s4: "run_state (EnsureDeploymentDeleted L cli s) w3 = (Ok (), w4)"
    and s5: "run_state (EnsureJobDeleted L cli s) w4 = (Ok (), w5)"
    and s6: "run_state (EnsureConfigMapDeleted L cli s) w5 = (Ok (), w6)"
    and s7: "run_state (EnsureRBACDeleted L cli s) w6 = (Ok (), w7)"
    and s8: "w' = snd (run_state (EnsureNamespaceDeleted L cli s) w7)"
    by blast
  have later: "r \<noteq> RDaemonSet \<Longrightarrow> V w3 = V w2" "r \<noteq> RDeployment \<Longrightarrow> V w4 = V w3" "r \<noteq> RJob \<Longrightarrow> V w5 = V w4"
      "r \<noteq> RConfigMap \<Longrightarrow> V w6 = V w5" "V w' = V w6"
    if V: "only_kind r V cli" "r \<in> {RService, RDaemonSet, RDeployment, RJob, RConfigMap}"
    for r and V :: "'w \<Rightarrow> 'z"
  proof -
    show "V w' = V w6"
      using leavesD [OF leaves_rest(1) [OF V] s7] leaves_rest(2) [OF V] s8 by (simp add: leaves_def)
  qed (use only_kindD [OF V(1)] in \<open>blast intro: leavesD [OF leaves_deletions(3) s3]
      leavesD [OF leaves_deletions(2) s4] leavesD [OF leaves_deletions(4) s5]
      leavesD [OF leaves_deletions(1) s6]\<close>)+
  note gones = delete_gone [OF svc] delete_gone [OF dms] delete_gone [OF dep] delete_gone [OF job]
    delete_gone [OF cm]
  have "gone vsvc svc_Meta s \<lparr>nn_Namespace = spec_ns s, nn_Name = SesameSvcName\<rparr> w1 w2"
    using s2 unfolding deletions_refine by (rule gones(1))
  moreover have "has_envoy_service s \<Longrightarrow>
      gone vsvc svc_Meta s \<lparr>nn_Namespace = spec_ns s, nn_Name = envoySvcName\<rparr> w w1"
    using s1 unfolding deletions_refine by (auto intro: gones(1))
  moreover have "gone vdms dms_Meta s \<lparr>nn_Namespace = spec_ns s, nn_Name = envoyDaemonSetName\<rparr> w2 w3"
    using s3 unfolding deletions_refine by (rule gones(2))
  moreover have "gone vdep dep_Meta s \<lparr>nn_Namespace = spec_ns s, nn_Name = SesameDeploymentName\<rparr> w3 w4"
    using s4 unfolding deletions_refine by (rule gones(3))
  moreover have "gone vjob job_Meta s \<lparr>nn_Namespace = spec_ns s, nn_Name = certgenJobName\<rparr> w4 w5"
    using s5 unfolding deletions_refine by (rule gones(4))
  moreover have "gone vcm cm_Meta s \<lparr>nn_Namespace = spec_ns s, nn_Name = SesameConfigMapName\<rparr> w5 w6"
    using s6 unfolding deletions_refine by (rule gones(5))
  moreover have "envoySvcName \<noteq> SesameSvcName" by (simp add: envoySvcName_def SesameSvcName_def)
  moreover have "vsvc w' = vsvc w2" "vdms w' = vdms w3" "vdep w' = vdep w4" "vjob w' = vjob w5"
      "vcm w' = vcm w6"
    using later [OF only(1)] later [OF only(2)] later [OF only(3)] later [OF only(4)] later [OF only(5)]
    by simp_all
  ultimately show ?thesis
    by (auto simp: all_released_def dest: gone_released) (auto simp: gone_def released_def)
qed

end

section \<open>The server in memory\<close>

lemma mem_separate_kinds:
  assumes "library L"
  shows "separate_kinds L mem_client
    (\<lambda>w. lookup_obj svc_Meta (m_services w)) (=) (\<lambda>w. lookup_obj dms_Meta (m_daemonsets w)) (=)
    (\<lambda>w. lookup_obj dep_Meta (m_deployments w)) (=) (\<lambda>w. lookup_obj job_Meta (m_jobs w)) (=)
    (\<lambda>w. lookup_obj cm_Meta (m_configmaps w)) (=)"
  by (rule separate_kinds.intro; (rule mem_only_kind)?) (simp_all add: mem_kind_library [OF assms])

interpretation mem_separate: separate_kinds std_lib mem_client
    "\<lambda>w. lookup_obj svc_Meta (m_services w)" "(=)" "\<lambda>w. lookup_obj dms_Meta (m_daemonsets w)" "(=)"
    "\<lambda>w. lookup_obj dep_Meta (m_deployments w)" "(=)" "\<lambda>w. lookup_obj job_Meta (m_jobs w)" "(=)"
    "\<lambda>w. lookup_obj cm_Meta (m_configmaps w)" "(=)"
  by (rule mem_separate_kinds [OF std.library_axioms])

end
