(* ===== verification/Ensured.thy ===== *)
theory Ensured
  imports Deletion
begin

text \<open>
  What a successful reconciliation establishes. Each handler, when it returns without an error, puts
  the object it wants into the server (\<open>reaches\<close>); in a server whose kinds do not interfere
  (the locale \<open>server\<close>) the later handlers leave it there, so that at the end of a reconciliation
  without an error every object of the Sesame is in place.
\<close>

section \<open>The handlers\<close>

lemma namespace_reaches:
  assumes lib: "library L" and api: "api_kind (namespaces cli) ns_Meta view (IsNotFound L) adm"
    and adm: "admission_keeps adm (namespace_agrees (DeepEqual L))"
    and run: "run_state (EnsureNamespace L cli s) w = (Ok (), w')"
  shows "reaches view ns_Meta (namespace_agrees (DeepEqual L)) s (DesiredNamespace s) w w'"
proof -
  note deq = library_deq [OF lib]
  show ?thesis
    by (rule managed_kind.refined_reaches [OF managed [OF api deep_equal.namespace_drift [OF deq] adm]
        EnsureNamespace_refines]) (use run in \<open>auto simp: deep_equal.agrees_refl [OF deq]\<close>)
qed

lemma serviceaccount_reaches:
  assumes lib: "library L" and api: "api_kind (serviceaccounts cli) sa_Meta view (IsNotFound L) adm"
    and adm: "admission_keeps adm (serviceaccount_agrees (DeepEqual L))"
    and run: "run_state (EnsureServiceAccount L cli name s) w = (Ok x, w')"
  shows "reaches view sa_Meta (serviceaccount_agrees (DeepEqual L)) s (DesiredServiceAccount name s) w w'"
proof -
  note deq = library_deq [OF lib]
  show ?thesis
    by (rule managed_kind.refined_reaches [OF managed [OF api deep_equal.serviceaccount_drift [OF deq] adm]
        EnsureServiceAccount_refines]) (use run in \<open>auto simp: deep_equal.agrees_refl [OF deq]\<close>)
qed

lemma clusterrole_reaches:
  assumes lib: "library L" and api: "api_kind (clusterroles cli) cr_Meta view (IsNotFound L) adm"
    and adm: "admission_keeps adm (clusterrole_agrees (DeepEqual L))"
    and run: "run_state (EnsureClusterRole L cli name s) w = (Ok x, w')"
  shows "reaches view cr_Meta (clusterrole_agrees (DeepEqual L)) s (desiredClusterRole name s) w w'"
proof -
  note deq = library_deq [OF lib]
  show ?thesis
    by (rule managed_kind.refined_reaches [OF managed [OF api deep_equal.clusterrole_drift [OF deq] adm]
        EnsureClusterRole_refines]) (use run in \<open>auto simp: deep_equal.agrees_refl [OF deq]\<close>)
qed

lemma clusterrolebinding_reaches:
  assumes lib: "library L" and api: "api_kind (clusterrolebindings cli) crb_Meta view (IsNotFound L) adm"
    and adm: "admission_keeps adm (clusterrolebinding_agrees (DeepEqual L))"
    and run: "run_state (EnsureClusterRoleBinding L cli name ref acct s) w = (Ok (), w')"
  shows "reaches view crb_Meta (clusterrolebinding_agrees (DeepEqual L)) s
    (desiredClusterRoleBinding name ref acct s) w w'"
proof -
  note deq = library_deq [OF lib]
  show ?thesis
    by (rule managed_kind.refined_reaches [OF managed [OF api deep_equal.clusterrolebinding_drift [OF deq] adm]
        EnsureClusterRoleBinding_refines]) (use run in \<open>auto simp: deep_equal.agrees_refl [OF deq]\<close>)
qed

lemma role_reaches:
  assumes lib: "library L" and api: "api_kind (roles cli) role_Meta view (IsNotFound L) adm"
    and adm: "admission_keeps adm (role_agrees (DeepEqual L))"
    and run: "run_state (EnsureRole L cli name s) w = (Ok x, w')"
  shows "reaches view role_Meta (role_agrees (DeepEqual L)) s (desiredRole name s) w w'"
proof -
  note deq = library_deq [OF lib]
  show ?thesis
    by (rule managed_kind.refined_reaches [OF managed [OF api deep_equal.role_drift [OF deq] adm]
        EnsureRole_refines]) (use run in \<open>auto simp: deep_equal.agrees_refl [OF deq]\<close>)
qed

lemma rolebinding_reaches:
  assumes lib: "library L" and api: "api_kind (rolebindings cli) rb_Meta view (IsNotFound L) adm"
    and adm: "admission_keeps adm (rolebinding_agrees (DeepEqual L))"
    and run: "run_state (EnsureRoleBinding L cli name acct ref s) w = (Ok (), w')"
  shows "reaches view rb_Meta (rolebinding_agrees (DeepEqual L)) s (desiredRoleBinding name acct ref s) w w'"
proof -
  note deq = library_deq [OF lib]
  show ?thesis
    by (rule managed_kind.refined_reaches [OF managed [OF api deep_equal.rolebinding_drift [OF deq] adm]
        EnsureRoleBinding_refines]) (use run in \<open>auto simp: deep_equal.agrees_refl [OF deq]\<close>)
qed

text \<open>The objects the RBAC handlers return carry the names they were asked for.\<close>

lemma stored_key:
  assumes api: "api_kind kc meta view nf adm"
  shows "run_state (Get kc k) w = (Inr x, w') \<Longrightarrow> nsname (meta x) = k"
    and "run_state (Create kc x) w = (Inr y, w') \<Longrightarrow> nsname (meta y) = nsname (meta x)"
    and "run_state (Update kc x) w = (Inr y, w') \<Longrightarrow> nsname (meta y) = nsname (meta x)"
  using api_kind.get_found [OF api, of k w x] api_kind.create_stores [OF api, of x w y]
    api_kind.update_stores [OF api, of x w y] api_kind.view_key [OF api] by auto

lemma EnsureServiceAccount_key:
  assumes api: "api_kind (serviceaccounts cli) sa_Meta view nf adm" and "library L"
    and run: "run_state (EnsureServiceAccount L cli name s) w = (Ok x, w')"
  shows "nsname (sa_Meta x) = \<lparr>nn_Namespace = spec_ns s, nn_Name = name\<rparr>"
proof -
  note changed = drift_check.changed_key [OF deep_equal.serviceaccount_drift [OF library_deq [OF assms(2)]]]
  show ?thesis
    using run
    by (auto simp: EnsureServiceAccount_def Let_def CurrentServiceAccount_def createServiceAccount_def
        updateSvcAcctIfNeeded_def stored_key [OF api] changed split: prod.splits sum.splits if_splits option.splits
        elim!: obj_res.elims)
qed

lemma EnsureClusterRole_key:
  assumes api: "api_kind (clusterroles cli) cr_Meta view nf adm" and "library L"
    and run: "run_state (EnsureClusterRole L cli name s) w = (Ok x, w')"
  shows "nsname (cr_Meta x) = \<lparr>nn_Namespace = [], nn_Name = name\<rparr>"
proof -
  note changed = drift_check.changed_key [OF deep_equal.clusterrole_drift [OF library_deq [OF assms(2)]]]
  show ?thesis
    using run
    by (auto simp: EnsureClusterRole_def Let_def CurrentClusterRole_def createClusterRole_def
        updateClusterRoleIfNeeded_def stored_key [OF api] changed split: prod.splits sum.splits if_splits option.splits
        elim!: obj_res.elims)
qed

lemma EnsureRole_key:
  assumes api: "api_kind (roles cli) role_Meta view nf adm" and "library L"
    and run: "run_state (EnsureRole L cli name s) w = (Ok x, w')"
  shows "nsname (role_Meta x) = \<lparr>nn_Namespace = spec_ns s, nn_Name = name\<rparr>"
proof -
  note changed = drift_check.changed_key [OF deep_equal.role_drift [OF library_deq [OF assms(2)]]]
  show ?thesis
    using run
    by (auto simp: EnsureRole_def Let_def CurrentRole_def createRole_def
        updateRoleIfNeeded_def stored_key [OF api] changed split: prod.splits sum.splits if_splits option.splits
        elim!: obj_res.elims)
qed
lemma desired_configmap_key [simp]:
  "nsname (cm_Meta (desired_configmap s)) = \<lparr>nn_Namespace = spec_ns s, nn_Name = SesameConfigMapName\<rparr>"
  by (simp add: desired_configmap_def nsname_def zero_ObjectMeta_def)

lemma configmap_reaches:
  assumes lib: "library L" and api: "api_kind (configmaps cli) cm_Meta view (IsNotFound L) adm"
    and adm: "admission_keeps adm (configmap_agrees (DeepEqual L))"
    and run: "run_state (EnsureConfigMap L cli s) w = (Ok (), w')"
  shows "reaches view cm_Meta (configmap_agrees (DeepEqual L)) s (desired_configmap s) w w'"
proof -
  note deq = library_deq [OF lib]
  show ?thesis
    by (rule managed_kind.refined_reaches [OF managed [OF api deep_equal.configmap_drift [OF deq] adm]
        EnsureConfigMap_refines]) (use run in \<open>auto simp: deep_equal.agrees_refl [OF deq]\<close>)
qed

lemma sesame_service_reaches:
  assumes lib: "library L" and api: "api_kind (services cli) svc_Meta view (IsNotFound L) adm"
    and adm: "\<And>x y. adm x y \<Longrightarrow> clusterip_agrees (DeepEqual L) x (DesiredSesameService s) \<Longrightarrow>
      clusterip_agrees (DeepEqual L) y (DesiredSesameService s)"
    and run: "run_state (EnsureSesameService L cli s) w = (Ok (), w')"
  shows "reaches view svc_Meta (clusterip_agrees (DeepEqual L)) s (DesiredSesameService s) w w'"
proof -
  note deq = library_deq [OF lib]
  let ?d = "DesiredSesameService s"
  have kind: "managed_kind (services cli) svc_Meta view (IsNotFound L) adm
      (\<lambda>c e. if e = ?d then clusterip_replace (DeepEqual L) c ?d else None) (\<lambda>c e. e = ?d \<longrightarrow> clusterip_agrees (DeepEqual L) c ?d)"
    by (rule managed_at [OF api deep_equal.clusterip_replace_drift [OF deq]])
      (auto intro: adm simp: deep_equal.agrees_refl [OF deq])
  have "reaches view svc_Meta (\<lambda>c e. e = DesiredSesameService s \<longrightarrow> clusterip_agrees (DeepEqual L) c (DesiredSesameService s))
      s (DesiredSesameService s) w w'"
    by (rule managed_kind.refined_reaches [OF kind]) (use run EnsureSesameService_refines in \<open>auto simp: ensure_obj_at\<close>)
  then show ?thesis by (simp add: reaches_def)
qed

text \<open>A deletion only reads when the stored object belongs to somebody else.\<close>

lemma foreign_delete_reads:
  assumes api: "api_kind kc meta view nf adm" and stored: "view w key = Some cur" and foreign: "\<not> owned_by s (meta cur)"
    and run: "run_state (result_of L (delete_owned nf kc meta (OwnerLabels s) key)) w = (r, w')"
  shows "view w' = view w"
proof -
  obtain g w1 where get: "run_state (Get kc key) w = (g, w1)" by fastforce
  with stored have "g = Inr x \<Longrightarrow> x = cur" for x using api_kind.get_found [OF api, of key w] by simp
  with run get foreign have "w' = w1"
    by (auto simp: result_of_def delete_owned_def split: sum.splits prod.splits if_splits)
  then show ?thesis using get api_kind.get_reads [OF api, of key w] by simp
qed

lemma deployment_reaches:
  assumes lib: "library L" and api: "api_kind (deployments cli) dep_Meta view (IsNotFound L) adm"
    and adm: "admission_keeps adm (deployment_agrees (DeepEqual L))"
    and sel: "\<And>cur. view w \<lparr>nn_Namespace = spec_ns s, nn_Name = SesameDeploymentName\<rparr> = Some cur \<Longrightarrow>
      owned_by s (dep_Meta cur) \<Longrightarrow> DeepEqual L (ILabelSelector (ds_Selector (dep_Spec cur)))
        (ILabelSelector (Some SesameDeploymentPodSelector))"
    and run: "run_state (EnsureDeployment L cli s img) w = (Ok (), w')"
  shows "reaches view dep_Meta (deployment_agrees (DeepEqual L)) s (DesiredDeployment s img) w w'"
proof -
  note deq = library_deq [OF lib]
  have found: "fst (run_state (CurrentDeployment cli s) w) = Inl e \<Longrightarrow> IsNotFound L e" for e
    using run by (cases "run_state (CurrentDeployment cli s) w")
      (auto simp: EnsureDeployment_def Let_def split: if_splits)
  show ?thesis
  proof (cases "\<exists>cur. fst (run_state (CurrentDeployment cli s) w) = Inr cur \<and>
      DeploymentSelectorsDiffer (DeepEqual L) cur (DesiredDeployment s img)")
    case False
    show ?thesis
      by (rule managed_kind.refined_reaches [OF managed [OF api deep_equal.deployment_drift [OF deq] adm
            deep_equal.agrees_refl(8) [OF deq]] EnsureDeployment_refines _ run])
        (use False in \<open>auto dest: found\<close>)
  next
    case True
    then obtain cur w1 where get: "run_state (CurrentDeployment cli s) w = (Inr cur, w1)"
      and differ: "DeploymentSelectorsDiffer (DeepEqual L) cur (DesiredDeployment s img)"
      by (metis prod.collapse)
    have view: "view w \<lparr>nn_Namespace = spec_ns s, nn_Name = SesameDeploymentName\<rparr> = Some cur" "view w1 = view w"
      using get api_kind.get_found [OF api] api_kind.get_reads [OF api]
      unfolding CurrentDeployment_def by (metis fst_conv, metis snd_conv)
    then have "\<not> owned_by s (dep_Meta cur)"
      using sel differ by (auto simp: DeploymentSelectorsDiffer_def DesiredDeployment_def)
    moreover have "run_state (EnsureDeploymentDeleted L cli s) w1 = (Ok (), w')"
      using run get differ by (simp add: EnsureDeployment_def Let_def)
    ultimately have "view w' = view w1"
      using view by (intro foreign_delete_reads [OF api]) (auto simp: deletions_refine)
    then show ?thesis using view \<open>\<not> owned_by s (dep_Meta cur)\<close> by (simp add: reaches_def)
  qed
qed

lemma daemonset_reaches:
  assumes lib: "library L" and api: "api_kind (daemonsets cli) dms_Meta view (IsNotFound L) adm"
    and adm: "admission_keeps adm (daemonset_agrees (DeepEqual L))"
    and sel: "\<And>cur. view w \<lparr>nn_Namespace = spec_ns s, nn_Name = envoyDaemonSetName\<rparr> = Some cur \<Longrightarrow>
      owned_by s (dms_Meta cur) \<Longrightarrow> DeepEqual L (ILabelSelector (dss_Selector (dms_Spec cur)))
        (ILabelSelector (Some EnvoyDaemonSetPodSelector))"
    and run: "run_state (EnsureDaemonSet L cli s c e) w = (Ok (), w')"
  shows "reaches view dms_Meta (daemonset_agrees (DeepEqual L)) s (DesiredDaemonSet s c e) w w'"
proof -
  note deq = library_deq [OF lib]
  show ?thesis
  proof (cases "\<exists>cur. fst (run_state (CurrentDaemonSet cli s) w) = Inr cur \<and>
      DaemonSetSelectorsDiffer (DeepEqual L) cur (DesiredDaemonSet s c e)")
    case False
    show ?thesis
      by (rule managed_kind.refined_reaches [OF managed [OF api deep_equal.daemonset_drift [OF deq] adm
            deep_equal.agrees_refl(9) [OF deq]] EnsureDaemonSet_refines _ run])
        (use False in auto)
  next
    case True
    then obtain cur w1 where get: "run_state (CurrentDaemonSet cli s) w = (Inr cur, w1)"
      and differ: "DaemonSetSelectorsDiffer (DeepEqual L) cur (DesiredDaemonSet s c e)"
      by (metis prod.collapse)
    have view: "view w \<lparr>nn_Namespace = spec_ns s, nn_Name = envoyDaemonSetName\<rparr> = Some cur" "view w1 = view w"
      using get api_kind.get_found [OF api] api_kind.get_reads [OF api]
      unfolding CurrentDaemonSet_def by (metis fst_conv, metis snd_conv)
    then have "\<not> owned_by s (dms_Meta cur)"
      using sel differ by (auto simp: DaemonSetSelectorsDiffer_def DesiredDaemonSet_def)
    moreover have "run_state (EnsureDaemonSetDeleted L cli s) w1 = (Ok (), w')"
      using run get differ by (simp add: EnsureDaemonSet_def Let_def)
    ultimately have "view w' = view w1"
      using view by (intro foreign_delete_reads [OF api]) (auto simp: deletions_refine)
    then show ?thesis using view \<open>\<not> owned_by s (dms_Meta cur)\<close> by (simp add: reaches_def)
  qed
qed

text \<open>How Envoy's Service is compared depends on its publishing type.\<close>

definition envoy_agrees :: "(iface \<Rightarrow> iface \<Rightarrow> bool) \<Rightarrow> Sesame \<Rightarrow> Service \<Rightarrow> Service \<Rightarrow> bool" where
  "envoy_agrees deq s =
     (if pub_Type (envoy_pub s) = NodePortServicePublishingType then nodeport_agrees deq
      else if pub_Type (envoy_pub s) = ClusterIPServicePublishingType then clusterip_agrees deq
      else loadbalancer_agrees deq)"

lemma nodeport_agrees_length:
  "nodeport_agrees deq c d \<Longrightarrow> length (svs_Ports (svc_Spec c)) = length (svs_Ports (svc_Spec d))"
  by (auto simp: nodeport_agrees_def dest: list_all2_lengthD)

lemma nodeport_Ok:
  assumes "NodePortServiceChanged deq c d = Ok u"
  shows "u = updated_if (\<not> nodeport_agrees deq c d, expose deq (nodeport_ports deq c d) c d)"
  using assms nodeport_panic_iff [of deq c d] nodeport_closed [of c d deq]
  by (cases "length (svs_Ports (svc_Spec c)) \<le> length (svs_Ports (svc_Spec d))") auto

lemma envoy_changed_None:
  assumes "deep_equal deq"
  shows "envoy_service_changed deq s c d = Ok None \<longleftrightarrow> envoy_agrees deq s c d"
  using nodeport_Ok [of deq c d None] nodeport_closed [of c d deq] nodeport_agrees_length [of deq c d]
    drift_check.changed_None [OF deep_equal.clusterip_drift [OF assms], of c d]
    drift_check.changed_None [OF deep_equal.loadbalancer_drift [OF assms], of c d]
  by (auto simp: envoy_service_changed_def envoy_agrees_def updated_if_def split: if_splits)

lemma envoy_changed_Some:
  assumes deq: "deep_equal deq" and u: "envoy_service_changed deq s c d = Ok (Some u)"
  shows "envoy_agrees deq s u d"
proof -
  have "NodePortServiceChanged deq c d = Ok (Some u) \<Longrightarrow> nodeport_agrees deq u d"
    using deep_equal.nodeport_settles [OF deq, of c d u] nodeport_Ok [of deq u d None]
    by (auto simp: updated_if_def split: if_splits)
  moreover note drift_check.changed_agrees [OF deep_equal.clusterip_drift [OF deq], of c d u]
    drift_check.changed_agrees [OF deep_equal.loadbalancer_drift [OF deq], of c d u]
  ultimately show ?thesis
    using u deep_equal.agrees_refl(10,11) [OF deq]
    by (auto simp: envoy_service_changed_def envoy_agrees_def split: if_splits)
qed

text \<open>Whatever its publishing type, only the key of Envoy's Service is touched.\<close>

lemma envoy_changed_key:
  assumes "envoy_service_changed deq s c d = Ok (Some u)"
    and "nsname (svc_Meta c) = nsname (svc_Meta d)" and "deep_equal deq"
  shows "nsname (svc_Meta u) = nsname (svc_Meta d)"
proof (cases "pub_Type (envoy_pub s) = NodePortServicePublishingType")
  case True
  with assms(1) have len: "length (svs_Ports (svc_Spec c)) \<le> length (svs_Ports (svc_Spec d))"
    and "NodePortServiceChanged deq c d = Ok (Some u)"
    using nodeport_panic_iff [of deq c d] by (force simp: envoy_service_changed_def)+
  then show ?thesis using assms(2)
    by (auto simp: nodeport_closed updated_if_def expose_def split: if_splits)
next
  case False
  with assms show ?thesis
    using drift_check.changed_key [OF deep_equal.clusterip_drift [OF assms(3)], of c d u]
      drift_check.changed_key [OF deep_equal.loadbalancer_drift [OF assms(3)], of c d u]
    by (auto simp: envoy_service_changed_def split: if_splits)
qed

lemma envoy_frame:
  assumes lib: "library L" and api: "api_kind (services cli) svc_Meta view (IsNotFound L) adm"
    and run: "run_state (EnsureEnvoyService L cli s) w = (r, w')"
    and k: "k \<noteq> \<lparr>nn_Namespace = spec_ns s, nn_Name = envoySvcName\<rparr>"
  shows "view w' k = view w k"
proof -
  let ?key = "\<lparr>nn_Namespace = spec_ns s, nn_Name = envoySvcName\<rparr>"
  obtain g w1 where get: "run_state (currentEnvoyService cli s) w = (g, w1)" by fastforce
  then have view1: "view w1 = view w"
    using api_kind.get_reads [OF api] by (metis currentEnvoyService_def snd_conv)
  show ?thesis
  proof (cases g)
    case (Inl e)
    with run get view1 k api_kind.create_frame [OF api, of k "envoy_service s" w1] show ?thesis
      by (auto simp: EnsureEnvoyService_def Let_def DesiredEnvoyService_closed createService_def
          split: if_splits prod.splits)
  next
    case (Inr cur)
    have "view w ?key = Some cur"
      using api_kind.get_found [OF api] get Inr by (metis currentEnvoyService_def fst_conv)
    then have cur: "nsname (svc_Meta cur) = nsname (svc_Meta (envoy_service s))"
      using api_kind.view_key [OF api] by simp
    have "view (snd (run_state (Update (services cli) u) w1)) k = view w k"
      if "envoy_service_changed (DeepEqual L) s cur (envoy_service s) = Ok (Some u)" for u
      using envoy_changed_key [OF that cur library_deq [OF lib]] k view1
        api_kind.update_frame [OF api, of k u w1] by simp
    with run get view1 Inr show ?thesis
      by (auto simp: EnsureEnvoyService_def Let_def DesiredEnvoyService_closed updateEnvoyServiceIfNeeded_def
          split: if_splits prod.splits res.splits option.splits)
  qed
qed

text \<open>\<open>E\<close> is what is known of a stored Service that agreed with the desired one when it was sent.\<close>

lemma envoy_update_reaches:
  assumes lib: "library L" and api: "api_kind (services cli) svc_Meta view (IsNotFound L) adm"
    and adm: "\<And>x y. adm x y \<Longrightarrow> envoy_agrees (DeepEqual L) s x (envoy_service s) \<Longrightarrow> E y (envoy_service s)"
    and weak: "\<And>x. envoy_agrees (DeepEqual L) s x (envoy_service s) \<Longrightarrow> E x (envoy_service s)"
    and cur: "view w \<lparr>nn_Namespace = spec_ns s, nn_Name = envoySvcName\<rparr> = Some cur"
    and run: "run_state (updateEnvoyServiceIfNeeded L cli s cur (envoy_service s)) w = (Ok (), w')"
  shows "\<exists>y. view w' \<lparr>nn_Namespace = spec_ns s, nn_Name = envoySvcName\<rparr> = Some y \<and>
    (E y (envoy_service s) \<or> y = cur \<and> \<not> owned_by s (svc_Meta y))"
proof (cases "owned_by s (svc_Meta cur)")
  case False
  with run cur show ?thesis by (simp add: updateEnvoyServiceIfNeeded_def)
next
  case owned: True
  note deq = library_deq [OF lib]
  from run owned obtain u where u: "envoy_service_changed (DeepEqual L) s cur (envoy_service s) = Ok u"
    by (auto simp: updateEnvoyServiceIfNeeded_def split: res.splits)
  show ?thesis
  proof (cases u)
    case None
    with u have none: "envoy_service_changed (DeepEqual L) s cur (envoy_service s) = Ok None" by simp
    then have "E cur (envoy_service s)" by (intro weak) (simp only: envoy_changed_None [OF deq])
    with none run owned cur show ?thesis by (simp add: updateEnvoyServiceIfNeeded_def)
  next
    case (Some x)
    with u have x: "envoy_service_changed (DeepEqual L) s cur (envoy_service s) = Ok (Some x)" by simp
    from run owned x obtain y where "run_state (Update (services cli) x) w = (Inr y, w')"
      by (auto simp: updateEnvoyServiceIfNeeded_def split: prod.splits sum.splits elim: call_res.elims)
    moreover have "nsname (svc_Meta x) = \<lparr>nn_Namespace = spec_ns s, nn_Name = envoySvcName\<rparr>"
      using envoy_changed_key [OF x _ deq] api_kind.view_key [OF api cur] by simp
    ultimately show ?thesis
      using api_kind.update_stores [OF api, of x w y] adm [OF _ envoy_changed_Some [OF deq x]] by auto
  qed
qed

lemma envoy_service_reaches:
  assumes lib: "library L" and api: "api_kind (services cli) svc_Meta view (IsNotFound L) adm"
    and adm: "\<And>x y. adm x y \<Longrightarrow> envoy_agrees (DeepEqual L) s x (envoy_service s) \<Longrightarrow> E y (envoy_service s)"
    and weak: "\<And>x. envoy_agrees (DeepEqual L) s x (envoy_service s) \<Longrightarrow> E x (envoy_service s)"
    and run: "run_state (EnsureEnvoyService L cli s) w = (Ok (), w')"
  shows "reaches view svc_Meta E s (envoy_service s) w w'"
proof -
  let ?d = "envoy_service s" and ?key = "\<lparr>nn_Namespace = spec_ns s, nn_Name = envoySvcName\<rparr>"
  have refl: "envoy_agrees (DeepEqual L) s ?d ?d"
    using deep_equal.agrees_refl(10,11,12) [OF library_deq [OF lib]] by (simp add: envoy_agrees_def)
  obtain g w1 where get: "run_state (currentEnvoyService cli s) w = (g, w1)" by fastforce
  then have view1: "view w1 = view w"
    using api_kind.get_reads [OF api] by (metis currentEnvoyService_def snd_conv)
  have "\<exists>y. view w' ?key = Some y \<and> (E y ?d \<or> view w ?key = Some y \<and> \<not> owned_by s (svc_Meta y))"
  proof (cases g)
    case (Inl e)
    with run get obtain y where "run_state (Create (services cli) ?d) w1 = (Inr y, w')"
      by (auto simp: EnsureEnvoyService_def Let_def DesiredEnvoyService_closed createService_def
          split: if_splits prod.splits sum.splits elim: call_res.elims)
    with api_kind.create_stores [OF api, of ?d w1 y] adm [OF _ refl] show ?thesis by auto
  next
    case (Inr cur)
    have cur: "view w1 ?key = Some cur"
      using api_kind.get_found [OF api] get Inr view1 by (metis currentEnvoyService_def fst_conv)
    have "run_state (updateEnvoyServiceIfNeeded L cli s cur ?d) w1 = (Ok (), w')"
      using run get Inr
      by (auto simp: EnsureEnvoyService_def Let_def DesiredEnvoyService_closed split: prod.splits)
    then have "\<exists>y. view w' ?key = Some y \<and> (E y ?d \<or> y = cur \<and> \<not> owned_by s (svc_Meta y))"
      using adm weak by (intro envoy_update_reaches [OF lib api _ _ cur])
    then show ?thesis using cur view1 by auto
  qed
  then show ?thesis using envoy_frame [OF lib api run] by (auto simp: reaches_def)
qed

text \<open>What the API server does to a complete Service it stores: the fields the comparisons read stay as
  they were sent, but a port of a NodePort or LoadBalancer Service that was sent without a node port is
  assigned one. (Of a ClusterIP Service only the fields that its comparison reads are mentioned.)\<close>

definition port_admitted :: "string \<Rightarrow> ServicePort \<Rightarrow> ServicePort \<Rightarrow> bool" where
  "port_admitted ty p q \<longleftrightarrow> q = p \<or> ty \<in> {''NodePort'', ''LoadBalancer''} \<and> q\<lparr>sp_NodePort := 0\<rparr> = p"

definition service_admission :: "Service \<Rightarrow> Service \<Rightarrow> bool" where
  "service_admission x y \<longleftrightarrow> (let a = svc_Spec x; b = svc_Spec y in
     list_all2 (port_admitted (svs_Type a)) (svs_Ports a) (svs_Ports b) \<and>
     svs_Selector b = svs_Selector a \<and> svs_SessionAffinity b = svs_SessionAffinity a \<and> svs_Type b = svs_Type a \<and>
     (svs_Type a \<noteq> ''ClusterIP'' \<longrightarrow> svs_ExternalTrafficPolicy b = svs_ExternalTrafficPolicy a \<and>
        svs_LoadBalancerIP b = svs_LoadBalancerIP a \<and> Annotations (svc_Meta y) = Annotations (svc_Meta x)))"

text \<open>The stored Envoy Service: it agrees with the desired one up to the node ports the API server
  assigned. Those of a load balancer are not compared anyway.\<close>

definition envoy_stored :: "(iface \<Rightarrow> iface \<Rightarrow> bool) \<Rightarrow> Sesame \<Rightarrow> Service \<Rightarrow> Service \<Rightarrow> bool" where
  "envoy_stored deq s y d =
     (if pub_Type (envoy_pub s) = NodePortServicePublishingType
      then list_all2 (\<lambda>q e. deq (IServicePort q) (IServicePort e) \<or>
             deq (IServicePort (q\<lparr>sp_NodePort := 0\<rparr>)) (IServicePort e)) (svs_Ports (svc_Spec y)) (svs_Ports (svc_Spec d)) \<and>
           exposed_agrees deq y d
      else envoy_agrees deq s y d)"

lemma envoy_agrees_stored: "envoy_agrees deq s x d \<Longrightarrow> envoy_stored deq s x d"
  by (auto simp: envoy_stored_def envoy_agrees_def nodeport_agrees_def elim: list_all2_mono)

lemma admitted_clusterip:
  assumes "service_admission x y" and "clusterip_agrees deq x d" and "deep_equal deq"
    and "svs_Type (svc_Spec d) = ''ClusterIP''"
  shows "clusterip_agrees deq y d"
proof -
  have "svs_Type (svc_Spec x) = ''ClusterIP''"
    using assms(2-4) by (simp add: clusterip_agrees_def deep_equal.deq_str)
  moreover have "list_all2 (port_admitted ''ClusterIP'') ps qs \<Longrightarrow> qs = ps" for ps qs
    by (induction rule: list_all2_induct) (auto simp: port_admitted_def)
  ultimately have "svs_Ports (svc_Spec y) = svs_Ports (svc_Spec x)"
    using assms(1) by (simp add: service_admission_def Let_def)
  then show ?thesis using assms(1,2) by (simp add: service_admission_def clusterip_agrees_def Let_def)
qed

lemma admitted_ports:
  assumes "list_all2 (port_admitted ty) ps qs" and "list_all2 R ps ds"
    and "\<And>p q d. port_admitted ty p q \<Longrightarrow> R p d \<Longrightarrow> R' q d"
  shows "list_all2 R' qs ds"
  using assms by (auto simp: list_all2_conv_all_nth)

lemma admitted_envoy:
  assumes adm: "service_admission x y" and agrees: "envoy_agrees deq s x (envoy_service s)"
    and deq: "deep_equal deq" and kind: "has_envoy_service s"
  shows "envoy_stored deq s y (envoy_service s)"
proof -
  have desired_type: "svs_Type (svc_Spec (envoy_service s)) = service_type s" by (simp add: envoy_service_def)
  consider (np) "pub_Type (envoy_pub s) = NodePortServicePublishingType"
    | (cip) "pub_Type (envoy_pub s) = ClusterIPServicePublishingType"
    | (lb) "pub_Type (envoy_pub s) = LoadBalancerServicePublishingType"
    using kind by (auto simp: has_envoy_service_def)
  then show ?thesis
  proof cases
    case np
    then have "svs_Type (svc_Spec x) = ''NodePort''"
      using agrees desired_type by (simp add: envoy_agrees_def nodeport_agrees_def exposed_agrees_def deep_equal.deq_str [OF deq]
          service_type_def const_defs)
    with np adm agrees show ?thesis
      by (auto simp: service_admission_def envoy_agrees_def envoy_stored_def nodeport_agrees_def exposed_agrees_def
          port_admitted_def Let_def elim!: admitted_ports)
  next
    case cip
    then have "svs_Type (svc_Spec (envoy_service s)) = ''ClusterIP''"
      using desired_type by (simp add: service_type_def const_defs)
    then show ?thesis
      using cip agrees admitted_clusterip [OF adm _ deq] by (simp add: envoy_stored_def envoy_agrees_def const_defs)
  next
    case lb
    then have "svs_Type (svc_Spec x) = ''LoadBalancer''"
      using agrees desired_type by (simp add: envoy_agrees_def loadbalancer_agrees_def exposed_agrees_def
          deep_equal.deq_str [OF deq] service_type_def const_defs)
    moreover have "port_agrees deq q e" if "port_admitted ty p q" "port_agrees deq p e" for ty p q e
      using that by (auto simp: port_admitted_def port_agrees_def)
    ultimately show ?thesis
      using lb adm agrees
      by (auto simp: service_admission_def envoy_agrees_def envoy_stored_def loadbalancer_agrees_def
          exposed_agrees_def const_defs Let_def elim!: admitted_ports)
  qed
qed

text \<open>The Job is deleted and created again when it drifted.\<close>

lemma JobConfigChanged_expected: "JobConfigChanged deq c d = Some u \<Longrightarrow> u = d"
  by (auto simp: JobConfigChanged_def updated_if_def set_if_def Let_def split: if_splits)

lemma job_agrees_desired:
  "deep_equal deq \<Longrightarrow> job_agrees deq (DesiredJob s img) (DesiredJob s img)"
  using DesiredJob_template_labels by (simp add: job_agrees_def deep_equal.deq_refl)

lemma job_retry_reaches:
  assumes lib: "library L" and api: "api_kind (jobs cli) job_Meta view (IsNotFound L) adm"
    and run: "run_state (retryJobCreate L cli d t) w = (Ok (), w')"
  shows "(\<exists>y. view w' (nsname (job_Meta d)) = Some y \<and> adm d y) \<and>
    (\<forall>k. k \<noteq> nsname (job_Meta d) \<longrightarrow> view w' k = view w k)"
proof -
  let ?same = "\<lambda>v. \<forall>k. k \<noteq> nsname (job_Meta d) \<longrightarrow> view v k = view w k"
  have poll: "polling (PollImmediate L)" using lib by (simp add: library_def)
  have ended: "fst (run_state (PollImmediate L 1 t (tryJobCreate cli d)) w) = None"
    "w' = snd (run_state (PollImmediate L 1 t (tryJobCreate cli d)) w)"
    using run by (auto simp: retryJobCreate_def split: prod.splits option.splits)
  have "keeps ?same (tryJobCreate cli d)"
    unfolding tryJobCreate_def by (intro keeps_intro) (auto simp: keeps_def api_kind.create_frame [OF api])
  then have "?same w'"
    using keepsD [OF polling.poll_keeps [OF poll, of ?same _ 1 t], of "tryJobCreate cli d" w] ended(2) by simp
  moreover from polling.poll_success [OF poll ended(1)] ended(2) obtain v where
    "run_state (tryJobCreate cli d) v = ((True, None), w')" by auto
  then obtain y where "run_state (Create (jobs cli) d) v = (Inr y, w')"
    by (auto simp: tryJobCreate_def split: prod.splits sum.splits)
  ultimately show ?thesis using api_kind.create_stores [OF api, of d v y] by auto
qed

lemma job_reaches:
  assumes lib: "library L" and api: "api_kind (jobs cli) job_Meta view (IsNotFound L) adm"
    and adm: "admission_keeps adm (job_agrees (DeepEqual L))"
    and run: "run_state (EnsureJob L cli s img) w = (Ok (), w')"
  shows "reaches view job_Meta (job_agrees (DeepEqual L)) s (DesiredJob s img) w w'"
proof -
  let ?d = "DesiredJob s img" and ?key = "\<lparr>nn_Namespace = spec_ns s, nn_Name = certgenJobName\<rparr>"
  have deq: "deep_equal (DeepEqual L)" using lib by (simp add: library_def)
  have self: "adm ?d y \<Longrightarrow> job_agrees (DeepEqual L) y ?d" for y
    using adm job_agrees_desired [OF deq] by (auto simp: admission_keeps_def)
  obtain r w1 where get: "run_state (currentJob cli s) w = (r, w1)" by fastforce
  then have view1: "view w1 = view w" using api_kind.get_reads [OF api] by (metis currentJob_def snd_conv)
  show ?thesis
  proof (cases r)
    case (Inl e)
    with run get obtain y where "run_state (Create (jobs cli) ?d) w1 = (Inr y, w')"
      by (auto simp: EnsureJob_def Let_def createJob_def split: if_splits prod.splits sum.splits
          elim: call_res.elims)
    with api_kind.create_stores [OF api, of ?d w1 y] api_kind.create_frame [OF api, of _ ?d w1] self view1
    show ?thesis by (auto simp: reaches_def)
  next
    case (Inr cur)
    have cur: "view w ?key = Some cur"
      using api_kind.get_found [OF api] get Inr by (metis currentJob_def fst_conv)
    have re: "run_state (recreateJobIfNeeded L cli s cur ?d) w1 = (Ok (), w')"
      using run get Inr by (auto simp: EnsureJob_def Let_def split: prod.splits)
    show ?thesis
    proof (cases "owned_by s (job_Meta cur) \<and> JobConfigChanged (DeepEqual L) cur ?d \<noteq> None")
      case False
      then have "w' = w1" "\<not> owned_by s (job_Meta cur) \<or> job_agrees (DeepEqual L) cur ?d"
        using re drift_check.changed_None [OF deep_equal.job_drift [OF deq], of cur ?d]
        by (auto simp: recreateJobIfNeeded_def split: if_splits)
      with view1 cur show ?thesis by (auto simp: reaches_def)
    next
      case True
      then have u: "JobConfigChanged (DeepEqual L) cur ?d = Some ?d" using JobConfigChanged_expected by blast
      obtain d w2 where del: "run_state (Delete (jobs cli) ?d) w1 = (d, w2)" by fastforce
      with re True u have "run_state (retryJobCreate L cli ?d 3) w2 = (Ok (), w')"
        by (auto simp: recreateJobIfNeeded_def split: res.splits)
      from job_retry_reaches [OF lib api this] self api_kind.delete_frame [OF api, of _ ?d w1] del view1
      show ?thesis by (auto simp: reaches_def)
    qed
  qed
qed

section \<open>The steps of a reconciliation without an error\<close>

lemma agg_res_nil:
  assumes "library L"
  shows "agg_res L es = Ok () \<longleftrightarrow> es = []"
  using aggregator.aggregate_errors [of "NewAggregate L" es] assms
  by (auto simp: agg_res_def library_def NewMaybeRetryableAggregate_def split: option.split)

lemma ensure_phases:
  assumes lib: "library L" and run: "run_state (ensureSesame n L cli cfg s) w = (Some (Ok ()), w')"
  shows "\<exists>v u. run_state (ensure_prerequisites L cli s) w = (Ok [], v) \<and>
    run_state (ensure_workloads L cli cfg s []) v = (Ok [], u) \<and>
    run_state (SyncSesame n L cli s) u = (Some (Ok ()), w')"
proof -
  have nil: "run_state (syncSesameStatus n L cli s errs) u = (Some (Ok ()), w') \<Longrightarrow>
      errs = [] \<and> run_state (SyncSesame n L cli s) u = (Some (Ok ()), w')" for errs u
    using agg_res_nil [OF lib] by (auto simp: syncSesameStatus_def split: prod.splits option.splits res.splits)
  obtain p v where p: "run_state (ensure_prerequisites L cli s) w = (p, v)" by fastforce
  obtain q u where q: "run_state (ensure_workloads L cli cfg s []) v = (q, u)" by fastforce
  from run p q show ?thesis
    by (auto simp: ensureSesame_def split: res.splits if_splits dest: nil)
qed

lemma prerequisite_steps:
  assumes "run_state (ensure_prerequisites L cli s) w = (Ok [], v)"
  shows "\<exists>w1. run_state (EnsureNamespace L cli s) w = (Ok (), w1) \<and> run_state (EnsureRBAC L cli s) w1 = (Ok (), v)"
  using assms unfolding ensure_prerequisites_def run_and_then_Ok by (auto simp: run_handleResult_nil)

lemma workload_steps:
  assumes "run_state (ensure_workloads L cli cfg s []) w = (Ok [], u)"
  shows "\<exists>w1 w2 w3 w4 w5. run_state (EnsureConfigMap L cli s) w = (Ok (), w1) \<and>
    run_state (EnsureJob L cli s (ctl_SesameImage cfg)) w1 = (Ok (), w2) \<and>
    run_state (EnsureDeployment L cli s (ctl_SesameImage cfg)) w2 = (Ok (), w3) \<and>
    run_state (EnsureDaemonSet L cli s (ctl_SesameImage cfg) (ctl_EnvoyImage cfg)) w3 = (Ok (), w4) \<and>
    run_state (EnsureSesameService L cli s) w4 = (Ok (), w5) \<and>
    (if has_envoy_service s then run_state (EnsureEnvoyService L cli s) w5 = (Ok (), u) else u = w5)"
  using assms unfolding ensure_workloads_def Let_def run_and_then_Ok
  by - (elim exE conjE, auto simp: run_handleResult_nil split: if_splits)

text \<open>The steps of the RBAC handler, with the names it passes on.\<close>

lemma run_wrapped_Ok: "run_state (wrapped f m) w = (Ok x, w') \<longleftrightarrow> run_state m w = (Ok x, w')"
  by (auto simp: wrapped_def split: prod.splits)

lemma ensure_accounts_step:
  "run_state (ensure_accounts L cli s (name # names) c) w = (Ok y, w') \<Longrightarrow>
   \<exists>a v. run_state (EnsureServiceAccount L cli name s) w = (Ok a, v) \<and>
     run_state (ensure_accounts L cli s names (if Name (sa_Meta a) = CertGenRbacName then a else c)) v = (Ok y, w')"
  by (auto split: prod.splits res.splits)

lemma rbac_steps:
  assumes lib: "library L"
    and sa: "api_kind (serviceaccounts cli) sa_Meta v1 nf1 a1" and cr: "api_kind (clusterroles cli) cr_Meta v2 nf2 a2"
    and role: "api_kind (roles cli) role_Meta v3 nf3 a3"
    and run: "run_state (EnsureRBAC L cli s) w = (Ok (), w')"
  shows "\<exists>b1 b2 b3 b4 b5 u1 u2 u3 u4 u5 u6.
    run_state (EnsureServiceAccount L cli SesameRbacName s) w = (Ok b1, u1) \<and>
    run_state (EnsureServiceAccount L cli EnvoyRbacName s) u1 = (Ok b2, u2) \<and>
    run_state (EnsureServiceAccount L cli CertGenRbacName s) u2 = (Ok b3, u3) \<and>
    run_state (EnsureClusterRole L cli (cluster_rbac_name s) s) u3 = (Ok b4, u4) \<and>
    run_state (EnsureClusterRoleBinding L cli (cluster_rbac_name s) (cluster_rbac_name s) SesameRbacName s) u4 =
      (Ok (), u5) \<and>
    run_state (EnsureRole L cli CertGenRbacName s) u5 = (Ok b5, u6) \<and>
    run_state (EnsureRoleBinding L cli SesameRbacName CertGenRbacName CertGenRbacName s) u6 = (Ok (), w')"
proof -
  have names: "run_state (EnsureServiceAccount L cli name s) v = (Ok a, v') \<Longrightarrow> Name (sa_Meta a) = name"
    "run_state (EnsureClusterRole L cli name s) v = (Ok b, v') \<Longrightarrow> Name (cr_Meta b) = name"
    "run_state (EnsureRole L cli name s) v = (Ok c, v') \<Longrightarrow> Name (role_Meta c) = name" for name v v' a b c
    using EnsureServiceAccount_key [OF sa lib, of name s v a v'] EnsureClusterRole_key [OF cr lib, of name s v b v']
      EnsureRole_key [OF role lib, of name s v c v'] by (auto simp: nsname_def)
  from run obtain b1 b2 b3 b4 b5 u1 u2 u3 u4 u5 u6 where
      s1: "run_state (EnsureServiceAccount L cli SesameRbacName s) w = (Ok b1, u1)"
    and s2: "run_state (EnsureServiceAccount L cli EnvoyRbacName s) u1 = (Ok b2, u2)"
    and s3: "run_state (EnsureServiceAccount L cli CertGenRbacName s) u2 = (Ok b3, u3)"
    and s4: "run_state (EnsureClusterRole L cli (cluster_rbac_name s) s) u3 = (Ok b4, u4)"
    and s5: "run_state (EnsureClusterRoleBinding L cli (cluster_rbac_name s) (Name (cr_Meta b4))
        SesameRbacName s) u4 = (Ok (), u5)"
    and s6: "run_state (EnsureRole L cli CertGenRbacName s) u5 = (Ok b5, u6)"
    and s7: "run_state (EnsureRoleBinding L cli SesameRbacName
        (Name (sa_Meta (if Name (sa_Meta b3) = CertGenRbacName then b3
          else if Name (sa_Meta b2) = CertGenRbacName then b2
          else if Name (sa_Meta b1) = CertGenRbacName then b1 else zero_ServiceAccount)))
        (Name (role_Meta b5)) s) u6 = (Ok (), w')"
    unfolding EnsureRBAC_def Let_def run_and_then_Ok run_wrapped_Ok rbac_names_def
    by (elim exE conjE) ((drule ensure_accounts_step, elim exE conjE)+, simp)
  with names(1) [OF s3] names(2) [OF s4] names(3) [OF s6] show ?thesis by auto
qed

end
