(* ===== verification/Reconciled.thy ===== *)
theory Reconciled
  imports Ensured
begin

text \<open>
  A server whose kinds do not interfere (the locale \<open>server\<close>): after a reconciliation without an
  error all objects of the Sesame are in place. If the server also answers reads (the locale
  \<open>responsive\<close>), a further reconciliation changes none of them.
\<close>

section \<open>Objects in place\<close>

text \<open>The key of the desired object holds an object that agrees with it, or one of somebody else.\<close>

definition in_place :: "('o \<Rightarrow> ObjectMeta) \<Rightarrow> ('o \<Rightarrow> 'o \<Rightarrow> bool) \<Rightarrow> Sesame \<Rightarrow> 'o \<Rightarrow>
    (NamespacedName \<Rightarrow> 'o option) \<Rightarrow> bool" where
  "in_place meta agrees s desired v \<longleftrightarrow>
     (\<exists>y. v (nsname (meta desired)) = Some y \<and> (agrees y desired \<or> \<not> owned_by s (meta y)))"

lemma reaches_in_place: "reaches view meta agrees s desired w w' \<Longrightarrow> in_place meta agrees s desired (view w')"
  by (auto simp: reaches_def in_place_def)

lemma reaches_still_in_place:
  assumes "reaches view meta agrees' s desired' w w'" and "nsname (meta desired) \<noteq> nsname (meta desired')"
  shows "in_place meta agrees s desired (view w') \<longleftrightarrow> in_place meta agrees s desired (view w)"
  using assms by (auto simp: reaches_def in_place_def)

text \<open>The RBAC objects, and the objects of the workloads, given the stored objects of each kind.\<close>

definition rbac_in_place :: "(iface \<Rightarrow> iface \<Rightarrow> bool) \<Rightarrow> Sesame \<Rightarrow> (NamespacedName \<Rightarrow> ServiceAccount option) \<Rightarrow>
    (NamespacedName \<Rightarrow> ClusterRole option) \<Rightarrow> (NamespacedName \<Rightarrow> ClusterRoleBinding option) \<Rightarrow>
    (NamespacedName \<Rightarrow> Role option) \<Rightarrow> (NamespacedName \<Rightarrow> RoleBinding option) \<Rightarrow> bool" where
  "rbac_in_place deq s sas crs crbs rs rbs \<longleftrightarrow>
     in_place sa_Meta (serviceaccount_agrees deq) s (DesiredServiceAccount SesameRbacName s) sas \<and>
     in_place sa_Meta (serviceaccount_agrees deq) s (DesiredServiceAccount EnvoyRbacName s) sas \<and>
     in_place sa_Meta (serviceaccount_agrees deq) s (DesiredServiceAccount CertGenRbacName s) sas \<and>
     in_place cr_Meta (clusterrole_agrees deq) s (desiredClusterRole (cluster_rbac_name s) s) crs \<and>
     in_place crb_Meta (clusterrolebinding_agrees deq) s
       (desiredClusterRoleBinding (cluster_rbac_name s) (cluster_rbac_name s) SesameRbacName s) crbs \<and>
     in_place role_Meta (role_agrees deq) s (desiredRole CertGenRbacName s) rs \<and>
     in_place rb_Meta (rolebinding_agrees deq) s
       (desiredRoleBinding SesameRbacName CertGenRbacName CertGenRbacName s) rbs"

text \<open>\<open>E\<close> is what is asked of Envoy's Service.\<close>

definition workloads_placed :: "(Service \<Rightarrow> Service \<Rightarrow> bool) \<Rightarrow> (iface \<Rightarrow> iface \<Rightarrow> bool) \<Rightarrow> Sesame \<Rightarrow> ControllerConfig \<Rightarrow>
    (NamespacedName \<Rightarrow> ConfigMap option) \<Rightarrow> (NamespacedName \<Rightarrow> Job option) \<Rightarrow>
    (NamespacedName \<Rightarrow> Deployment option) \<Rightarrow> (NamespacedName \<Rightarrow> DaemonSet option) \<Rightarrow>
    (NamespacedName \<Rightarrow> Service option) \<Rightarrow> bool" where
  "workloads_placed E deq s cfg cms js deps dss svcs \<longleftrightarrow>
     in_place cm_Meta (configmap_agrees deq) s (desired_configmap s) cms \<and>
     in_place job_Meta (job_agrees deq) s (DesiredJob s (ctl_SesameImage cfg)) js \<and>
     in_place dep_Meta (deployment_agrees deq) s (DesiredDeployment s (ctl_SesameImage cfg)) deps \<and>
     in_place dms_Meta (daemonset_agrees deq) s
       (DesiredDaemonSet s (ctl_SesameImage cfg) (ctl_EnvoyImage cfg)) dss \<and>
     in_place svc_Meta (clusterip_agrees deq) s (DesiredSesameService s) svcs \<and>
     (has_envoy_service s \<longrightarrow> in_place svc_Meta E s (envoy_service s) svcs)"

abbreviation workloads_in_place :: "(iface \<Rightarrow> iface \<Rightarrow> bool) \<Rightarrow> Sesame \<Rightarrow> ControllerConfig \<Rightarrow>
    (NamespacedName \<Rightarrow> ConfigMap option) \<Rightarrow> (NamespacedName \<Rightarrow> Job option) \<Rightarrow>
    (NamespacedName \<Rightarrow> Deployment option) \<Rightarrow> (NamespacedName \<Rightarrow> DaemonSet option) \<Rightarrow>
    (NamespacedName \<Rightarrow> Service option) \<Rightarrow> bool" where
  "workloads_in_place deq s \<equiv> workloads_placed (envoy_agrees deq s) deq s"

text \<open>The selectors of the Deployment and DaemonSet the Sesame owns, if any, are the desired ones.\<close>

definition same_selectors :: "(iface \<Rightarrow> iface \<Rightarrow> bool) \<Rightarrow> Sesame \<Rightarrow>
    (NamespacedName \<Rightarrow> Deployment option) \<Rightarrow> (NamespacedName \<Rightarrow> DaemonSet option) \<Rightarrow> bool" where
  "same_selectors deq s deps dss \<longleftrightarrow>
     (\<forall>d. deps \<lparr>nn_Namespace = spec_ns s, nn_Name = SesameDeploymentName\<rparr> = Some d \<longrightarrow>
        owned_by s (dep_Meta d) \<longrightarrow> deq (ILabelSelector (ds_Selector (dep_Spec d))) (ILabelSelector (Some SesameDeploymentPodSelector))) \<and>
     (\<forall>x. dss \<lparr>nn_Namespace = spec_ns s, nn_Name = envoyDaemonSetName\<rparr> = Some x \<longrightarrow>
        owned_by s (dms_Meta x) \<longrightarrow> deq (ILabelSelector (dss_Selector (dms_Spec x))) (ILabelSelector (Some EnvoyDaemonSetPodSelector)))"

section \<open>A server with separate kinds\<close>

text \<open>The kinds of the API server, with what admission keeps of each but the Services.\<close>

locale served_kinds = separate_kinds +
  fixes vns :: "'a \<Rightarrow> NamespacedName \<Rightarrow> KNamespace option" and ans
    and vsa :: "'a \<Rightarrow> NamespacedName \<Rightarrow> ServiceAccount option" and asa
    and vcr :: "'a \<Rightarrow> NamespacedName \<Rightarrow> ClusterRole option" and acr
    and vcrb :: "'a \<Rightarrow> NamespacedName \<Rightarrow> ClusterRoleBinding option" and acrb
    and vrole :: "'a \<Rightarrow> NamespacedName \<Rightarrow> Role option" and arole
    and vrb :: "'a \<Rightarrow> NamespacedName \<Rightarrow> RoleBinding option" and arb
  assumes lib: "library L"
    and ns: "api_kind (namespaces cli) ns_Meta vns (IsNotFound L) ans"
    and sa: "api_kind (serviceaccounts cli) sa_Meta vsa (IsNotFound L) asa"
    and cr: "api_kind (clusterroles cli) cr_Meta vcr (IsNotFound L) acr"
    and crb: "api_kind (clusterrolebindings cli) crb_Meta vcrb (IsNotFound L) acrb"
    and role: "api_kind (roles cli) role_Meta vrole (IsNotFound L) arole"
    and rb: "api_kind (rolebindings cli) rb_Meta vrb (IsNotFound L) arb"
    and core_only: "only_kind RNamespace vns cli" "only_kind RServiceAccount vsa cli"
      "only_kind RClusterRole vcr cli" "only_kind RClusterRoleBinding vcrb cli"
      "only_kind RRole vrole cli" "only_kind RRoleBinding vrb cli"
    and admits: "admission_keeps ans (namespace_agrees (DeepEqual L))"
      "admission_keeps acm (configmap_agrees (DeepEqual L))"
      "admission_keeps ajob (job_agrees (DeepEqual L))"
      "admission_keeps adep (deployment_agrees (DeepEqual L))"
      "admission_keeps adms (daemonset_agrees (DeepEqual L))"
    and rbac_admits: "admission_keeps asa (serviceaccount_agrees (DeepEqual L))"
      "admission_keeps acr (clusterrole_agrees (DeepEqual L))"
      "admission_keeps acrb (clusterrolebinding_agrees (DeepEqual L))"
      "admission_keeps arole (role_agrees (DeepEqual L))"
      "admission_keeps arb (rolebinding_agrees (DeepEqual L))"

text \<open>What admission does to Services is left open here: \<open>E\<close> is what it leaves of the agreement of Envoy's
  Service with the desired one.\<close>

locale open_server = served_kinds +
  fixes E :: "Sesame \<Rightarrow> Service \<Rightarrow> Service \<Rightarrow> bool"
  assumes sesame_service_admits: "asvc x y \<Longrightarrow> clusterip_agrees (DeepEqual L) x (DesiredSesameService s) \<Longrightarrow>
      clusterip_agrees (DeepEqual L) y (DesiredSesameService s)"
    and envoy_service_admits: "has_envoy_service s \<Longrightarrow> asvc x y \<Longrightarrow>
      envoy_agrees (DeepEqual L) s x (envoy_service s) \<Longrightarrow> E s y (envoy_service s)"
      "envoy_agrees (DeepEqual L) s x (envoy_service s) \<Longrightarrow> E s x (envoy_service s)"
begin

lemma reads_leave:
  assumes "only_kind r V cli" and "r \<noteq> RDeployment" and "r \<noteq> RDaemonSet"
  shows "reads_quiet V L cli"
  using only_kindD(10,11) [OF assms(1)] assms(2,3) library.now_reads [OF lib]
  by (simp add: reads_quiet_def quiet_kind_def)

lemma reads_leave_workloads: "reads_quiet vdep L cli" "reads_quiet vdms L cli"
  using only_kindD(11) [OF only(3)] only_kindD(10) [OF only(2)] library.now_reads [OF lib]
    api_kind.get_reads [OF dep] api_kind.get_reads [OF dms]
  by (simp_all add: reads_quiet_def quiet_kind_def)

lemma status_leaves:
  "leaves vns (syncSesameStatus n L cli s errs)" "leaves vcm (syncSesameStatus n L cli s errs)"
  "leaves vjob (syncSesameStatus n L cli s errs)" "leaves vdep (syncSesameStatus n L cli s errs)"
  "leaves vdms (syncSesameStatus n L cli s errs)" "leaves vsvc (syncSesameStatus n L cli s errs)"
  "leaves vsa (syncSesameStatus n L cli s errs)" "leaves vcr (syncSesameStatus n L cli s errs)"
  "leaves vcrb (syncSesameStatus n L cli s errs)" "leaves vrole (syncSesameStatus n L cli s errs)"
  "leaves vrb (syncSesameStatus n L cli s errs)"
  using core_only only reads_leave reads_leave_workloads by (auto intro: leaves_syncSesameStatus)

text \<open>The workload handlers and the view of a kind they do not work on.\<close>

lemma workloads_leave:
  assumes V: "only_kind r V cli" "r \<notin> {RConfigMap, RJob, RDeployment, RDaemonSet, RService}"
  shows "leaves V (EnsureConfigMap L cli s)" "leaves V (EnsureJob L cli s i)"
    "leaves V (EnsureDeployment L cli s i)" "leaves V (EnsureDaemonSet L cli s i j)"
    "leaves V (EnsureSesameService L cli s)" "leaves V (EnsureEnvoyService L cli s)"
  using V(2) only_kindD [OF V(1)]
  by (auto intro: leaves_simple leaves_EnsureJob [OF lib] leaves_EnsureDeployment leaves_EnsureDaemonSet
      leaves_EnsureEnvoyService)

lemma rbac_reached:
  assumes run: "run_state (EnsureRBAC L cli s) w = (Ok (), w')"
  shows "rbac_in_place (DeepEqual L) s (vsa w') (vcr w') (vcrb w') (vrole w') (vrb w')"
proof -
  from rbac_steps [OF lib sa cr role run] obtain b1 b2 b3 b4 b5 u1 u2 u3 u4 u5 u6 where
      s1: "run_state (EnsureServiceAccount L cli SesameRbacName s) w = (Ok b1, u1)"
    and s2: "run_state (EnsureServiceAccount L cli EnvoyRbacName s) u1 = (Ok b2, u2)"
    and s3: "run_state (EnsureServiceAccount L cli CertGenRbacName s) u2 = (Ok b3, u3)"
    and s4: "run_state (EnsureClusterRole L cli (cluster_rbac_name s) s) u3 = (Ok b4, u4)"
    and s5: "run_state (EnsureClusterRoleBinding L cli (cluster_rbac_name s) (cluster_rbac_name s)
        SesameRbacName s) u4 = (Ok (), u5)"
    and s6: "run_state (EnsureRole L cli CertGenRbacName s) u5 = (Ok b5, u6)"
    and s7: "run_state (EnsureRoleBinding L cli SesameRbacName CertGenRbacName CertGenRbacName s) u6 = (Ok (), w')"
    by blast
  have still: "r \<noteq> RClusterRole \<Longrightarrow> V u4 = V u3" "r \<noteq> RClusterRoleBinding \<Longrightarrow> V u5 = V u4"
      "r \<noteq> RRole \<Longrightarrow> V u6 = V u5" "r \<noteq> RRoleBinding \<Longrightarrow> V w' = V u6"
    if V: "only_kind r V cli" for r and V :: "'a \<Rightarrow> 'z"
    using only_kindD [OF V] by (auto intro: leavesD [OF leaves_simple(3) s4] leavesD [OF leaves_simple(4) s5]
        leavesD [OF leaves_simple(5) s6] leavesD [OF leaves_simple(6) s7])
  note quiet = still [OF core_only(2)] still [OF core_only(3)] still [OF core_only(4)] still [OF core_only(5)]
    still [OF core_only(6)]
  note accounts = serviceaccount_reaches [OF lib sa rbac_admits(1)]
  have names: "SesameRbacName \<noteq> EnvoyRbacName" "SesameRbacName \<noteq> CertGenRbacName" "EnvoyRbacName \<noteq> CertGenRbacName"
    by (simp_all add: SesameRbacName_def EnvoyRbacName_def CertGenRbacName_def)
  show ?thesis
    using reaches_in_place [OF accounts [OF s1]] reaches_in_place [OF accounts [OF s2]]
      reaches_in_place [OF accounts [OF s3]] reaches_still_in_place [OF accounts [OF s2]]
      reaches_still_in_place [OF accounts [OF s3]]
      reaches_in_place [OF clusterrole_reaches [OF lib cr rbac_admits(2) s4]]
      reaches_in_place [OF clusterrolebinding_reaches [OF lib crb rbac_admits(3) s5]]
      reaches_in_place [OF role_reaches [OF lib role rbac_admits(4) s6]]
      reaches_in_place [OF rolebinding_reaches [OF lib rb rbac_admits(5) s7]] names quiet
    by (simp add: rbac_in_place_def)
qed

lemma services_reached:
  assumes sesame: "run_state (EnsureSesameService L cli s) w = (Ok (), v)"
    and envoy: "if has_envoy_service s then run_state (EnsureEnvoyService L cli s) v = (Ok (), u) else u = v"
  shows "in_place svc_Meta (clusterip_agrees (DeepEqual L)) s (DesiredSesameService s) (vsvc u) \<and>
    (has_envoy_service s \<longrightarrow> in_place svc_Meta (E s) s (envoy_service s) (vsvc u))"
proof -
  have "reaches vsvc svc_Meta (clusterip_agrees (DeepEqual L)) s (DesiredSesameService s) w v"
    using sesame_service_admits by (rule sesame_service_reaches [OF lib svc _ sesame])
  moreover have "reaches vsvc svc_Meta (E s) s (envoy_service s) v u" if "has_envoy_service s"
    using envoy envoy_service_admits that by (intro envoy_service_reaches [OF lib svc]) auto
  ultimately show ?thesis
    using envoy reaches_in_place reaches_still_in_place [of vsvc svc_Meta "E s" s "envoy_service s" v u "DesiredSesameService s"]
    by (auto simp: envoySvcName_def SesameSvcName_def split: if_splits)
qed

text \<open>All objects of the workloads are in place after their handlers succeeded.\<close>

lemma workloads_reached:
  assumes run: "run_state (ensure_workloads L cli cfg s []) w = (Ok [], u)"
    and sel: "same_selectors (DeepEqual L) s (vdep w) (vdms w)"
  shows "workloads_placed (E s) (DeepEqual L) s cfg (vcm u) (vjob u) (vdep u) (vdms u) (vsvc u)"
proof -
  from workload_steps [OF run] obtain w1 w2 w3 w4 w5 where
      s1: "run_state (EnsureConfigMap L cli s) w = (Ok (), w1)"
    and s2: "run_state (EnsureJob L cli s (ctl_SesameImage cfg)) w1 = (Ok (), w2)"
    and s3: "run_state (EnsureDeployment L cli s (ctl_SesameImage cfg)) w2 = (Ok (), w3)"
    and s4: "run_state (EnsureDaemonSet L cli s (ctl_SesameImage cfg) (ctl_EnvoyImage cfg)) w3 = (Ok (), w4)"
    and s5: "run_state (EnsureSesameService L cli s) w4 = (Ok (), w5)"
    and s6: "if has_envoy_service s then run_state (EnsureEnvoyService L cli s) w5 = (Ok (), u) else u = w5"
    by blast
  have still: "r \<noteq> RConfigMap \<Longrightarrow> V w1 = V w" "r \<noteq> RJob \<Longrightarrow> V w2 = V w1" "r \<noteq> RDeployment \<Longrightarrow> V w3 = V w2"
      "r \<noteq> RDaemonSet \<Longrightarrow> V w4 = V w3" "r \<noteq> RService \<Longrightarrow> V w5 = V w4" "r \<noteq> RService \<Longrightarrow> V u = V w5"
    if V: "only_kind r V cli" for r and V :: "'a \<Rightarrow> 'z"
    using only_kindD [OF V] s6 leaves_EnsureEnvoyService [of V cli L s]
    by (auto intro: leavesD [OF leaves_simple(7) s1] leavesD [OF leaves_EnsureJob [OF lib] s2]
        leavesD [OF leaves_EnsureDeployment s3] leavesD [OF leaves_EnsureDaemonSet s4]
        leavesD [OF leaves_simple(8) s5] dest: leavesD split: if_splits)
  note quiet = still [OF only(1)] still [OF only(2)] still [OF only(3)] still [OF only(4)] still [OF only(5)]
  show ?thesis
    using reaches_in_place [OF configmap_reaches [OF lib cm admits(2) s1]]
      reaches_in_place [OF job_reaches [OF lib job admits(3) s2]]
      reaches_in_place [OF deployment_reaches [OF lib dep admits(4) _ s3]]
      reaches_in_place [OF daemonset_reaches [OF lib dms admits(5) _ s4]] services_reached [OF s5 s6] sel quiet
    by (simp add: workloads_placed_def same_selectors_def)
qed

lemma leaves_workloads:
  assumes "only_kind r V cli" and "r \<notin> {RConfigMap, RJob, RDeployment, RDaemonSet, RService}"
  shows "leaves V (ensure_workloads L cli cfg s errs)"
  unfolding leaves_keeps ensure_workloads_def handleResult_def Let_def
  by (intro allI keeps_intro workloads_leave [OF assms, unfolded leaves_keeps, rule_format])

text \<open>All objects of a Sesame are in place after a reconciliation without an error.\<close>

lemma reconciled:
  assumes run: "run_state (ensureSesame n L cli cfg s) w = (Some (Ok ()), w')"
    and sel: "same_selectors (DeepEqual L) s (vdep w) (vdms w)"
  shows "in_place ns_Meta (namespace_agrees (DeepEqual L)) s (DesiredNamespace s) (vns w')"
    "rbac_in_place (DeepEqual L) s (vsa w') (vcr w') (vcrb w') (vrole w') (vrb w')"
    "workloads_placed (E s) (DeepEqual L) s cfg (vcm w') (vjob w') (vdep w') (vdms w') (vsvc w')"
proof -
  from ensure_phases [OF lib run] obtain v u where
      p: "run_state (ensure_prerequisites L cli s) w = (Ok [], v)"
    and q: "run_state (ensure_workloads L cli cfg s []) v = (Ok [], u)"
    and "run_state (SyncSesame n L cli s) u = (Some (Ok ()), w')" by blast
  then have sync: "run_state (syncSesameStatus n L cli s []) u = (Some (Ok ()), w')"
    using agg_res_nil [OF lib, of "[]"] by (simp add: syncSesameStatus_def)
  from prerequisite_steps [OF p] obtain w1 where
      s1: "run_state (EnsureNamespace L cli s) w = (Ok (), w1)" and s2: "run_state (EnsureRBAC L cli s) w1 = (Ok (), v)"
    by blast
  note last = status_leaves [THEN leavesD, OF sync]
  note rest = core_only [THEN leaves_workloads, THEN leavesD, OF _ q, simplified]
  have kept: "vns v = vns w1"
    by (rule leavesD [OF leaves_EnsureRBAC [OF only_kind_rbac_quiet [OF core_only(1)]] s2]) simp
  show "in_place ns_Meta (namespace_agrees (DeepEqual L)) s (DesiredNamespace s) (vns w')"
    using reaches_in_place [OF namespace_reaches [OF lib ns admits(1) s1]] last kept rest by simp
  show "rbac_in_place (DeepEqual L) s (vsa w') (vcr w') (vcrb w') (vrole w') (vrb w')"
    using rbac_reached [OF s2] last rest by simp
  have "V v = V w" if V: "only_kind r V cli" "r \<in> {RDeployment, RDaemonSet}" for r and V :: "'a \<Rightarrow> 'z"
  proof -
    have "rbac_quiet V cli" using only_kind_rbac_quiet [OF V(1)] V(2) by auto
    then have "V v = V w1" by (rule leavesD [OF leaves_EnsureRBAC s2])
    also have "V w1 = V w" using leavesD [OF leaves_simple(1) s1] only_kindD(2) [OF V(1)] V(2) by auto
    finally show ?thesis .
  qed
  note before = this
  have "same_selectors (DeepEqual L) s (vdep v) (vdms v)"
    using sel before [OF only(2)] before [OF only(3)] by simp
  from workloads_reached [OF q this] last
  show "workloads_placed (E s) (DeepEqual L) s cfg (vcm w') (vjob w') (vdep w') (vdms w') (vsvc w')" by simp
qed

text \<open>The reads before \<open>ensureSesame\<close> change no view.\<close>

lemma Reconcile_ensures:
  assumes get: "fst (run_state (Get (sesames cli) req) w) = Inr s"
    and ready: "timestamp_is_zero (DeletionTimestamp (Meta s))" "IsFinalized s"
    and run: "run_state (Reconcile n L cli cfg req) w = (Some (Ok res), w')"
    and ok: "\<And>e v. fst (run_state (ensureSesame n L cli cfg s) v) = Some (Err e) \<Longrightarrow> retryable_After e = None"
  shows "\<exists>v. run_state (ensureSesame n L cli cfg s) v = (Some (Ok ()), w') \<and> vdep v = vdep w \<and> vdms v = vdms w"
proof -
  obtain w1 where g: "run_state (Get (sesames cli) req) w = (Inr s, w1)" using get by (metis prod.collapse)
  obtain x w2 where v: "run_state (validate_Sesame cli s) w1 = (x, w2)" by fastforce
  have still: "V w2 = V w" if "only_kind r V cli" for r and V :: "'a \<Rightarrow> 'z"
    using leavesD [OF leaves_validate [OF that] v] leavesD [OF leaves_get_sesame [OF that] g] by simp
  obtain r where r: "run_state (ensureSesame n L cli cfg s) w2 = (Some r, w')" "requeue_or_fail r = Ok res"
    using run g v ready by (auto simp: Reconcile_def split: res.splits prod.splits)
  then have "r = Ok ()"
    using ok [of w2] by (cases r) (auto simp: requeue_or_fail_def)
  with r(1) still [OF only(2)] still [OF only(3)] show ?thesis by blast
qed

end

section \<open>The API server\<close>

text \<open>Of a Service that agrees with one the operator wants, and so is complete, the API server keeps what
  the comparisons read, up to the node ports it assigns.\<close>

locale server = served_kinds +
  assumes service_admits: "asvc x y \<Longrightarrow> clusterip_agrees (DeepEqual L) x (DesiredSesameService s) \<or>
      has_envoy_service s \<and> envoy_agrees (DeepEqual L) s x (envoy_service s) \<Longrightarrow> service_admission x y"

lemma server_open:
  assumes "server L cli vsvc asvc vdms adms vdep adep vjob ajob vcm acm vns ans vsa asa vcr acr vcrb acrb
    vrole arole vrb arb"
  shows "open_server L cli vsvc asvc vdms adms vdep adep vjob ajob vcm acm vns ans vsa asa vcr acr vcrb acrb
    vrole arole vrb arb (envoy_stored (DeepEqual L))"
proof (intro open_server.intro open_server_axioms.intro)
  show kinds: "served_kinds L cli vsvc asvc vdms adms vdep adep vjob ajob vcm acm vns ans vsa asa vcr acr vcrb acrb
    vrole arole vrb arb" by (rule server.axioms(1) [OF assms])
  note deq = library_deq [OF served_kinds.lib [OF kinds]] and admits = server.service_admits [OF assms]
  show "clusterip_agrees (DeepEqual L) y (DesiredSesameService s)"
    if "asvc x y" "clusterip_agrees (DeepEqual L) x (DesiredSesameService s)" for x y s
    using admits [OF that(1)] that(2) deq by (intro admitted_clusterip [of x y]) (auto simp: DesiredSesameService_def)
  show "envoy_stored (DeepEqual L) s y (envoy_service s)"
    if "has_envoy_service s" "asvc x y" "envoy_agrees (DeepEqual L) s x (envoy_service s)" for s x y
    using admits [OF that(2)] that deq by (intro admitted_envoy) auto
qed (rule envoy_agrees_stored)

sublocale server \<subseteq> open_server L cli vsvc asvc vdms adms vdep adep vjob ajob vcm acm vns ans vsa asa
    vcr acr vcrb acrb vrole arole vrb arb "envoy_stored (DeepEqual L)"
  by (rule server_open [OF server_axioms])

section \<open>The server in memory\<close>

text \<open>It stores what it is sent and so assigns no node ports.\<close>

lemma mem_served_kinds:
  assumes "library L"
  shows "served_kinds L mem_client
    (\<lambda>w. lookup_obj svc_Meta (m_services w)) (=) (\<lambda>w. lookup_obj dms_Meta (m_daemonsets w)) (=)
    (\<lambda>w. lookup_obj dep_Meta (m_deployments w)) (=) (\<lambda>w. lookup_obj job_Meta (m_jobs w)) (=)
    (\<lambda>w. lookup_obj cm_Meta (m_configmaps w)) (=) (\<lambda>w. lookup_obj ns_Meta (m_namespaces w)) (=)
    (\<lambda>w. lookup_obj sa_Meta (m_serviceaccounts w)) (=) (\<lambda>w. lookup_obj cr_Meta (m_clusterroles w)) (=)
    (\<lambda>w. lookup_obj crb_Meta (m_clusterrolebindings w)) (=) (\<lambda>w. lookup_obj role_Meta (m_roles w)) (=)
    (\<lambda>w. lookup_obj rb_Meta (m_rolebindings w)) (=)"
  by (intro served_kinds.intro served_kinds_axioms.intro mem_separate_kinds assms; (rule mem_only_kind)?)
    (simp_all add: mem_kind_library [OF assms])

lemma mem_server_library:
  assumes "library L"
  shows "open_server L mem_client
    (\<lambda>w. lookup_obj svc_Meta (m_services w)) (=) (\<lambda>w. lookup_obj dms_Meta (m_daemonsets w)) (=)
    (\<lambda>w. lookup_obj dep_Meta (m_deployments w)) (=) (\<lambda>w. lookup_obj job_Meta (m_jobs w)) (=)
    (\<lambda>w. lookup_obj cm_Meta (m_configmaps w)) (=) (\<lambda>w. lookup_obj ns_Meta (m_namespaces w)) (=)
    (\<lambda>w. lookup_obj sa_Meta (m_serviceaccounts w)) (=) (\<lambda>w. lookup_obj cr_Meta (m_clusterroles w)) (=)
    (\<lambda>w. lookup_obj crb_Meta (m_clusterrolebindings w)) (=) (\<lambda>w. lookup_obj role_Meta (m_roles w)) (=)
    (\<lambda>w. lookup_obj rb_Meta (m_rolebindings w)) (=) (envoy_agrees (DeepEqual L))"
  by (intro open_server.intro open_server_axioms.intro mem_served_kinds assms) simp_all

lemma service_admission_refl: "service_admission x x"
  by (simp add: service_admission_def port_admitted_def list_all2_refl Let_def)

lemma mem_server_strict:
  assumes "library L"
  shows "server L mem_client
    (\<lambda>w. lookup_obj svc_Meta (m_services w)) (=) (\<lambda>w. lookup_obj dms_Meta (m_daemonsets w)) (=)
    (\<lambda>w. lookup_obj dep_Meta (m_deployments w)) (=) (\<lambda>w. lookup_obj job_Meta (m_jobs w)) (=)
    (\<lambda>w. lookup_obj cm_Meta (m_configmaps w)) (=) (\<lambda>w. lookup_obj ns_Meta (m_namespaces w)) (=)
    (\<lambda>w. lookup_obj sa_Meta (m_serviceaccounts w)) (=) (\<lambda>w. lookup_obj cr_Meta (m_clusterroles w)) (=)
    (\<lambda>w. lookup_obj crb_Meta (m_clusterrolebindings w)) (=) (\<lambda>w. lookup_obj role_Meta (m_roles w)) (=)
    (\<lambda>w. lookup_obj rb_Meta (m_rolebindings w)) (=)"
  by (intro server.intro server_axioms.intro mem_served_kinds assms) (simp add: service_admission_refl)

interpretation mem_server: open_server std_lib mem_client
    "\<lambda>w. lookup_obj svc_Meta (m_services w)" "(=)" "\<lambda>w. lookup_obj dms_Meta (m_daemonsets w)" "(=)"
    "\<lambda>w. lookup_obj dep_Meta (m_deployments w)" "(=)" "\<lambda>w. lookup_obj job_Meta (m_jobs w)" "(=)"
    "\<lambda>w. lookup_obj cm_Meta (m_configmaps w)" "(=)" "\<lambda>w. lookup_obj ns_Meta (m_namespaces w)" "(=)"
    "\<lambda>w. lookup_obj sa_Meta (m_serviceaccounts w)" "(=)" "\<lambda>w. lookup_obj cr_Meta (m_clusterroles w)" "(=)"
    "\<lambda>w. lookup_obj crb_Meta (m_clusterrolebindings w)" "(=)" "\<lambda>w. lookup_obj role_Meta (m_roles w)" "(=)"
    "\<lambda>w. lookup_obj rb_Meta (m_rolebindings w)" "(=)" "envoy_agrees semDeepEqual"
  by (rule mem_server_library [OF std.library_axioms, simplified])

end
