(* ===== verification/Convergence.thy ===== *)
theory Convergence
  imports Reconciled
begin

text \<open>
  A server that answers reads (the locale \<open>responsive\<close>). When the objects of a Sesame are in place,
  every handler only reads, so that a further reconciliation does nothing but synchronise the status.
\<close>

section \<open>A handler whose object is in place\<close>

lemma in_place_quiet:
  assumes kind: "managed_kind kc meta view nf adm changed agrees"
    and refines: "refines_at w m (ensure_obj nf kc meta changed (OwnerLabels s) key desired)"
    and key: "nsname (meta desired) = key" and place: "in_place meta agrees s desired (view w)"
    and read: "\<And>y. view w key = Some y \<Longrightarrow> run_state (Get kc key) w = (Inr y, w)"
  shows "is_ok (fst (run_state m w)) \<and> snd (run_state m w) = w"
proof -
  from place key obtain y where y: "view w key = Some y" "\<not> owned_by s (meta y) \<or> agrees y desired"
    by (auto simp: in_place_def)
  from managed_kind.ensure_quiet [OF kind y, of y] read [OF y(1)]
  show ?thesis using refines by (simp add: refines_at_def)
qed

lemma is_ok_unit: "is_ok (r :: unit res) \<longleftrightarrow> r = Ok ()"
  by (cases r) auto

lemma is_ok_iff: "is_ok r \<longleftrightarrow> (\<exists>x. r = Ok x)"
  by (cases r) auto

lemma quiet_unit:
  assumes "is_ok (fst (run_state (m :: ('w, unit res) state) w)) \<and> snd (run_state m w) = w"
  shows "run_state m w = (Ok (), w)"
  using assms by (cases "run_state m w") (auto simp: is_ok_unit)

lemma quiet_value:
  assumes "is_ok (fst (run_state m w)) \<and> snd (run_state m w) = w"
  shows "\<exists>x. run_state m w = (Ok x, w)"
  using assms by (cases "run_state m w") (auto simp: is_ok_iff)

section \<open>A server that answers\<close>

locale responsive = open_server +
  fixes Q :: "'a \<Rightarrow> bool"
  assumes answers: "Q w \<Longrightarrow> vns w k = Some x1 \<Longrightarrow> run_state (Get (namespaces cli) k) w = (Inr x1, w)"
    "Q w \<Longrightarrow> vsa w k = Some x2 \<Longrightarrow> run_state (Get (serviceaccounts cli) k) w = (Inr x2, w)"
    "Q w \<Longrightarrow> vcr w k = Some x3 \<Longrightarrow> run_state (Get (clusterroles cli) k) w = (Inr x3, w)"
    "Q w \<Longrightarrow> vcrb w k = Some x4 \<Longrightarrow> run_state (Get (clusterrolebindings cli) k) w = (Inr x4, w)"
    "Q w \<Longrightarrow> vrole w k = Some x5 \<Longrightarrow> run_state (Get (roles cli) k) w = (Inr x5, w)"
    "Q w \<Longrightarrow> vrb w k = Some x6 \<Longrightarrow> run_state (Get (rolebindings cli) k) w = (Inr x6, w)"
    "Q w \<Longrightarrow> vcm w k = Some x7 \<Longrightarrow> run_state (Get (configmaps cli) k) w = (Inr x7, w)"
    "Q w \<Longrightarrow> vjob w k = Some x8 \<Longrightarrow> run_state (Get (jobs cli) k) w = (Inr x8, w)"
    "Q w \<Longrightarrow> vdep w k = Some x9 \<Longrightarrow> run_state (Get (deployments cli) k) w = (Inr x9, w)"
    "Q w \<Longrightarrow> vdms w k = Some x10 \<Longrightarrow> run_state (Get (daemonsets cli) k) w = (Inr x10, w)"
    "Q w \<Longrightarrow> vsvc w k = Some x11 \<Longrightarrow> run_state (Get (services cli) k) w = (Inr x11, w)"
begin

lemma deq: "deep_equal (DeepEqual L)"
  using lib by (rule library_deq)

lemmas refls = deep_equal.agrees_refl [OF deq]

lemma namespace_settled:
  assumes "Q w" and "in_place ns_Meta (namespace_agrees (DeepEqual L)) s (DesiredNamespace s) (vns w)"
  shows "run_state (EnsureNamespace L cli s) w = (Ok (), w)"
  by (rule quiet_unit [OF in_place_quiet [OF managed [OF ns deep_equal.namespace_drift [OF deq] admits(1)
        refls(1)] EnsureNamespace_refines _ assms(2)]]) (simp_all add: answers(1) [OF assms(1)])

lemma accounts_settled:
  assumes "Q w"
    and "in_place sa_Meta (serviceaccount_agrees (DeepEqual L)) s (DesiredServiceAccount name s) (vsa w)"
  shows "\<exists>x. run_state (EnsureServiceAccount L cli name s) w = (Ok x, w) \<and> Name (sa_Meta x) = name"
proof -
  have "\<exists>x. run_state (EnsureServiceAccount L cli name s) w = (Ok x, w)"
    by (rule quiet_value [OF in_place_quiet [OF managed [OF sa deep_equal.serviceaccount_drift [OF deq]
          rbac_admits(1) refls(2)] EnsureServiceAccount_refines _ assms(2)]])
      (simp_all add: answers(2) [OF assms(1)])
  then show ?thesis using EnsureServiceAccount_key [OF sa lib] by (fastforce simp: nsname_def)
qed

lemma rbac_settled:
  assumes Q: "Q w" and place: "rbac_in_place (DeepEqual L) s (vsa w) (vcr w) (vcrb w) (vrole w) (vrb w)"
  shows "run_state (EnsureRBAC L cli s) w = (Ok (), w)"
proof -
  note place = place [unfolded rbac_in_place_def]
  obtain b1 b2 b3 where accounts: "run_state (EnsureServiceAccount L cli SesameRbacName s) w = (Ok b1, w)"
    "run_state (EnsureServiceAccount L cli EnvoyRbacName s) w = (Ok b2, w)"
    "run_state (EnsureServiceAccount L cli CertGenRbacName s) w = (Ok b3, w)" "Name (sa_Meta b3) = CertGenRbacName"
    using accounts_settled [OF Q] place by metis
  have "\<exists>x. run_state (EnsureClusterRole L cli (cluster_rbac_name s) s) w = (Ok x, w)"
    by (rule quiet_value [OF in_place_quiet [OF managed [OF cr deep_equal.clusterrole_drift [OF deq]
          rbac_admits(2) refls(3)] EnsureClusterRole_refines]])
      (simp_all add: answers(3) [OF Q] place)
  then obtain x where x: "run_state (EnsureClusterRole L cli (cluster_rbac_name s) s) w = (Ok x, w)"
    "Name (cr_Meta x) = cluster_rbac_name s"
    using EnsureClusterRole_key [OF cr lib] by (fastforce simp: nsname_def)
  have y: "run_state (EnsureClusterRoleBinding L cli (cluster_rbac_name s) (cluster_rbac_name s) SesameRbacName s) w =
      (Ok (), w)"
    by (rule quiet_unit [OF in_place_quiet [OF managed [OF crb deep_equal.clusterrolebinding_drift [OF deq]
          rbac_admits(3) refls(4)] EnsureClusterRoleBinding_refines]])
      (simp_all add: answers(4) [OF Q] place)
  have "\<exists>x. run_state (EnsureRole L cli CertGenRbacName s) w = (Ok x, w)"
    by (rule quiet_value [OF in_place_quiet [OF managed [OF role deep_equal.role_drift [OF deq]
          rbac_admits(4) refls(5)] EnsureRole_refines]])
      (simp_all add: answers(5) [OF Q] place)
  then obtain z where z: "run_state (EnsureRole L cli CertGenRbacName s) w = (Ok z, w)"
    "Name (role_Meta z) = CertGenRbacName"
    using EnsureRole_key [OF role lib] by (fastforce simp: nsname_def)
  have "run_state (EnsureRoleBinding L cli SesameRbacName CertGenRbacName CertGenRbacName s) w = (Ok (), w)"
    by (rule quiet_unit [OF in_place_quiet [OF managed [OF rb deep_equal.rolebinding_drift [OF deq]
          rbac_admits(5) refls(6)] EnsureRoleBinding_refines]])
      (simp_all add: answers(6) [OF Q] place)
  with accounts x y z show ?thesis
    by (simp add: EnsureRBAC_def Let_def run_and_then rbac_names_def wrapped_def)
qed

lemma configmap_settled:
  assumes "Q w" and "in_place cm_Meta (configmap_agrees (DeepEqual L)) s (desired_configmap s) (vcm w)"
  shows "run_state (EnsureConfigMap L cli s) w = (Ok (), w)"
  by (rule quiet_unit [OF in_place_quiet [OF managed [OF cm deep_equal.configmap_drift [OF deq] admits(2)
        refls(7)] EnsureConfigMap_refines _ assms(2)]]) (simp_all add: answers(7) [OF assms(1)])

lemma sesame_service_settled:
  assumes Q: "Q w" and place: "in_place svc_Meta (clusterip_agrees (DeepEqual L)) s (DesiredSesameService s) (vsvc w)"
  shows "run_state (EnsureSesameService L cli s) w = (Ok (), w)"
proof -
  let ?d = "DesiredSesameService s"
  have kind: "managed_kind (services cli) svc_Meta vsvc (IsNotFound L) asvc
      (\<lambda>c e. if e = ?d then clusterip_replace (DeepEqual L) c ?d else None) (\<lambda>c e. e = ?d \<longrightarrow> clusterip_agrees (DeepEqual L) c ?d)"
    by (rule managed_at [OF svc deep_equal.clusterip_replace_drift [OF deq]]) (auto intro: sesame_service_admits simp: refls)
  have refines: "refines_at w (EnsureSesameService L cli s) (ensure_obj (IsNotFound L) (services cli) svc_Meta
      (\<lambda>c e. if e = ?d then clusterip_replace (DeepEqual L) c ?d else None) (OwnerLabels s)
      \<lparr>nn_Namespace = spec_ns s, nn_Name = SesameSvcName\<rparr> ?d)"
    using EnsureSesameService_refines by (simp add: ensure_obj_at)
  show ?thesis
    by (rule quiet_unit [OF in_place_quiet [OF kind refines]]) (use place in \<open>simp_all add: in_place_def answers(11) [OF Q]\<close>)
qed

lemma job_settled:
  assumes Q: "Q w" and "in_place job_Meta (job_agrees (DeepEqual L)) s (DesiredJob s img) (vjob w)"
  shows "run_state (EnsureJob L cli s img) w = (Ok (), w)"
proof -
  from assms(2) obtain y where y: "vjob w \<lparr>nn_Namespace = spec_ns s, nn_Name = certgenJobName\<rparr> = Some y"
    "\<not> owned_by s (job_Meta y) \<or> JobConfigChanged (DeepEqual L) y (DesiredJob s img) = None"
    using drift_check.changed_None [OF deep_equal.job_drift [OF deq]] by (auto simp: in_place_def)
  then show ?thesis
    using answers(8) [OF Q y(1)]
    by (auto simp: EnsureJob_def Let_def currentJob_def recreateJobIfNeeded_def)
qed

lemma envoy_settled:
  assumes Q: "Q w" and "in_place svc_Meta (envoy_agrees (DeepEqual L) s) s (envoy_service s) (vsvc w)"
  shows "run_state (EnsureEnvoyService L cli s) w = (Ok (), w)"
proof -
  from assms(2) obtain y where y: "vsvc w \<lparr>nn_Namespace = spec_ns s, nn_Name = envoySvcName\<rparr> = Some y"
    "\<not> owned_by s (svc_Meta y) \<or> envoy_service_changed (DeepEqual L) s y (envoy_service s) = Ok None"
    using envoy_changed_None [OF deq] by (auto simp: in_place_def)
  then show ?thesis
    using answers(11) [OF Q y(1)]
    by (auto simp: EnsureEnvoyService_def Let_def currentEnvoyService_def DesiredEnvoyService_closed
        updateEnvoyServiceIfNeeded_def)
qed

lemma deployment_settled:
  assumes Q: "Q w"
    and place: "in_place dep_Meta (deployment_agrees (DeepEqual L)) s (DesiredDeployment s img) (vdep w)"
  shows "run_state (EnsureDeployment L cli s img) w = (Ok (), w)"
proof -
  from place obtain y where y: "vdep w \<lparr>nn_Namespace = spec_ns s, nn_Name = SesameDeploymentName\<rparr> = Some y"
    "\<not> owned_by s (dep_Meta y) \<or> deployment_agrees (DeepEqual L) y (DesiredDeployment s img)"
    by (auto simp: in_place_def)
  note read = answers(9) [OF Q y(1)]
  have "\<not> DeploymentSelectorsDiffer (DeepEqual L) y (DesiredDeployment s img) \<and>
      DeploymentConfigChanged (DeepEqual L) y (DesiredDeployment s img) = None"
    if "deployment_agrees (DeepEqual L) y (DesiredDeployment s img)"
    using that deep_equal.deq_deployment_selector [OF deq]
      drift_check.changed_None [OF deep_equal.deployment_drift [OF deq]]
    by (auto simp: DeploymentSelectorsDiffer_def deployment_agrees_def)
  then show ?thesis
    using y(2) read
    by (auto simp: EnsureDeployment_def Let_def CurrentDeployment_def updateDeploymentIfNeeded_def
        EnsureDeploymentDeleted_def)
qed

lemma daemonset_settled:
  assumes Q: "Q w"
    and place: "in_place dms_Meta (daemonset_agrees (DeepEqual L)) s (DesiredDaemonSet s c e) (vdms w)"
  shows "run_state (EnsureDaemonSet L cli s c e) w = (Ok (), w)"
proof -
  from place obtain y where y: "vdms w \<lparr>nn_Namespace = spec_ns s, nn_Name = envoyDaemonSetName\<rparr> = Some y"
    "\<not> owned_by s (dms_Meta y) \<or> daemonset_agrees (DeepEqual L) y (DesiredDaemonSet s c e)"
    by (auto simp: in_place_def)
  note read = answers(10) [OF Q y(1)]
  have "\<not> DaemonSetSelectorsDiffer (DeepEqual L) y (DesiredDaemonSet s c e) \<and>
      DaemonsetConfigChanged (DeepEqual L) y (DesiredDaemonSet s c e) = None"
    if "daemonset_agrees (DeepEqual L) y (DesiredDaemonSet s c e)"
    using that deep_equal.deq_daemonset_selector [OF deq]
      drift_check.changed_None [OF deep_equal.daemonset_drift [OF deq]]
    by (auto simp: DaemonSetSelectorsDiffer_def daemonset_agrees_def)
  then show ?thesis
    using y(2) read
    by (auto simp: EnsureDaemonSet_def Let_def CurrentDaemonSet_def updateDaemonSetIfNeeded_def
        EnsureDaemonSetDeleted_def)
qed

text \<open>Nothing is left to do but the status.\<close>

lemma settled:
  assumes Q: "Q w" and "in_place ns_Meta (namespace_agrees (DeepEqual L)) s (DesiredNamespace s) (vns w)"
    and "rbac_in_place (DeepEqual L) s (vsa w) (vcr w) (vcrb w) (vrole w) (vrb w)"
    and work: "workloads_in_place (DeepEqual L) s cfg (vcm w) (vjob w) (vdep w) (vdms w) (vsvc w)"
  shows "run_state (ensureSesame n L cli cfg s) w = run_state (syncSesameStatus n L cli s []) w"
proof -
  have "run_state (ensure_prerequisites L cli s) w = (Ok [], w)"
    using namespace_settled [OF Q assms(2)] rbac_settled [OF Q assms(3)]
    by (simp add: ensure_prerequisites_def handleResult_def run_and_then)
  moreover have "run_state (ensure_workloads L cli cfg s []) w = (Ok [], w)"
    using work configmap_settled [OF Q] job_settled [OF Q] deployment_settled [OF Q] daemonset_settled [OF Q]
      sesame_service_settled [OF Q] envoy_settled [OF Q]
    by (simp add: workloads_placed_def ensure_workloads_def Let_def handleResult_def run_and_then)
  ultimately show ?thesis by (simp add: ensureSesame_def)
qed

end

section \<open>The server in memory\<close>

lemma mem_answers:
  "m_faults w = [] \<Longrightarrow> lookup_obj meta (sel w) k = Some x \<Longrightarrow>
   run_state (Get (mem_kind sel upd meta) k) w = (Inr x, w)"
  by (simp add: mem_kind_def with_fault_def)

lemma mem_responsive_library:
  assumes "library L"
  shows "responsive L mem_client
    (\<lambda>w. lookup_obj svc_Meta (m_services w)) (=) (\<lambda>w. lookup_obj dms_Meta (m_daemonsets w)) (=)
    (\<lambda>w. lookup_obj dep_Meta (m_deployments w)) (=) (\<lambda>w. lookup_obj job_Meta (m_jobs w)) (=)
    (\<lambda>w. lookup_obj cm_Meta (m_configmaps w)) (=) (\<lambda>w. lookup_obj ns_Meta (m_namespaces w)) (=)
    (\<lambda>w. lookup_obj sa_Meta (m_serviceaccounts w)) (=) (\<lambda>w. lookup_obj cr_Meta (m_clusterroles w)) (=)
    (\<lambda>w. lookup_obj crb_Meta (m_clusterrolebindings w)) (=) (\<lambda>w. lookup_obj role_Meta (m_roles w)) (=)
    (\<lambda>w. lookup_obj rb_Meta (m_rolebindings w)) (=) (envoy_agrees (DeepEqual L)) (\<lambda>w. m_faults w = [])"
  by (intro responsive.intro responsive_axioms.intro mem_server_library assms) (simp_all add: mem_answers)

interpretation mem_responsive: responsive std_lib mem_client
    "\<lambda>w. lookup_obj svc_Meta (m_services w)" "(=)" "\<lambda>w. lookup_obj dms_Meta (m_daemonsets w)" "(=)"
    "\<lambda>w. lookup_obj dep_Meta (m_deployments w)" "(=)" "\<lambda>w. lookup_obj job_Meta (m_jobs w)" "(=)"
    "\<lambda>w. lookup_obj cm_Meta (m_configmaps w)" "(=)" "\<lambda>w. lookup_obj ns_Meta (m_namespaces w)" "(=)"
    "\<lambda>w. lookup_obj sa_Meta (m_serviceaccounts w)" "(=)" "\<lambda>w. lookup_obj cr_Meta (m_clusterroles w)" "(=)"
    "\<lambda>w. lookup_obj crb_Meta (m_clusterrolebindings w)" "(=)" "\<lambda>w. lookup_obj role_Meta (m_roles w)" "(=)"
    "\<lambda>w. lookup_obj rb_Meta (m_rolebindings w)" "(=)" "envoy_agrees semDeepEqual" "\<lambda>w. m_faults w = []"
  by (rule mem_responsive_library [OF std.library_axioms, simplified])

end
