(* ===== verification/Samples.thy ===== *)
theory Samples
  imports Convergence
begin

text \<open>Concrete values the witnesses evaluate on: a Sesame with a load balancer, one that publishes
  node ports, requests, configurations and worlds of the server in memory.\<close>

definition sample_cfg :: Config where
  "sample_cfg = \<lparr>cfg_Name = ''c'', cfg_Namespace = ''op'', cfg_SpecNs = ''ns'', cfg_RemoveNs = True,
     cfg_Replicas = 2, cfg_NetworkType = LoadBalancerServicePublishingType, cfg_NodePorts = None,
     cfg_GatewayControllerName = None, cfg_EnableExternalNameService = None\<rparr>"

definition sample :: Sesame where
  "sample = New sample_cfg"

definition sample_np :: Sesame where
  "sample_np = New (sample_cfg\<lparr>cfg_NetworkType := NodePortServicePublishingType,
     cfg_NodePorts := Some (MakeNodePorts 0 [(''http'', 30080), (''https'', 30443)])\<rparr>)"

definition sample_req :: NamespacedName where
  "sample_req = \<lparr>nn_Namespace = ''op'', nn_Name = ''c''\<rparr>"

definition sample_images :: ControllerConfig where
  "sample_images = \<lparr>ctl_SesameImage = ''sesame:main'', ctl_EnvoyImage = ''envoy:v1''\<rparr>"

definition sample_mem :: mem where
  "sample_mem = empty_mem\<lparr>m_sesames := [sample]\<rparr>"

lemma empty_mem_simps [simp]:
  "m_faults empty_mem = []" "m_sesames empty_mem = []" "m_namespaces empty_mem = []"
  "m_serviceaccounts empty_mem = []" "m_clusterroles empty_mem = []"
  "m_clusterrolebindings empty_mem = []" "m_roles empty_mem = []" "m_rolebindings empty_mem = []"
  "m_configmaps empty_mem = []" "m_jobs empty_mem = []" "m_deployments empty_mem = []"
  "m_daemonsets empty_mem = []" "m_services empty_mem = []"
  by (simp_all add: empty_mem_def)

lemma zero_ObjectMeta_simps [simp]:
  "Name zero_ObjectMeta = []" "Namespace zero_ObjectMeta = []" "Labels zero_ObjectMeta = None"
  "Annotations zero_ObjectMeta = None" "Finalizers zero_ObjectMeta = []"
  "DeletionTimestamp zero_ObjectMeta = None" "ResourceVersion zero_ObjectMeta = []"
  by (simp_all add: zero_ObjectMeta_def)

lemma sample_simps [simp]:
  "sesame_name sample = ''c''" "sesame_namespace sample = ''op''" "spec_ns sample = ''ns''"
  "Finalizers (Meta sample) = []" "DeletionTimestamp (Meta sample) = None"
  "RemoveOnDeletion (SpecNamespace (Spec sample)) = True"
  "pub_Type (envoy_pub sample) = LoadBalancerServicePublishingType"
  "ContainerPorts (envoy_pub sample) = [\<lparr>ecp_Name = ''http'', ecp_PortNumber = 8080\<rparr>,
     \<lparr>ecp_Name = ''https'', ecp_PortNumber = 8443\<rparr>]"
  "lb_params sample = zero_ProviderLoadBalancerParameters"
  "Scope (LoadBalancer (envoy_pub sample)) = []"
  by (simp_all add: sample_def sample_cfg_def New_def Let_def)

lemma sample_key [simp]: "nsname (Meta sample) = sample_req"
  by (simp add: nsname_def sample_req_def)

lemma sample_mem_simps [simp]:
  "m_faults sample_mem = []" "m_sesames sample_mem = [sample]" "m_namespaces sample_mem = []"
  "m_configmaps sample_mem = []" "m_deployments sample_mem = []" "m_services sample_mem = []"
  by (simp_all add: sample_mem_def)

end
