(* ===== verification/Compare_Theorems.thy ===== *)
theory Compare_Theorems
  imports Samples
begin

text \<open>
  Properties of the comparisons of \<open>internal/equality\<close> and of the small packages: an update
  settles the comparison that asked for it, the load balancer's node ports survive, the node port
  comparison panics on extra ports, the owner labels identify the owner, finalizers round trip.
\<close>

section \<open>Comparisons\<close>

text \<open>The object a comparison returns needs no further update.\<close>

definition stable_after_update :: "('o \<Rightarrow> 'o \<Rightarrow> 'o option) \<Rightarrow> bool" where
  "stable_after_update changed \<longleftrightarrow> (\<forall>c d u. changed c d = Some u \<longrightarrow> changed u d = None)"

lemma stable_drift:
  "drift_check changed agrees meta \<Longrightarrow> (\<And>d. agrees d d) \<Longrightarrow> stable_after_update changed"
  unfolding stable_after_update_def by (blast intro: drift_check.fixed_point)

text \<open>C25: For every comparison of the equality package except the node port one, the object it
  returns as the needed update compares as unchanged, so one update settles it; the certgen Job is
  compared with the desired Job, whose template carries the owner labels.\<close>

theorem comparisons_settle:
  assumes "deep_equal deq"
  shows "stable_after_update (DaemonsetConfigChanged deq) \<and>
    stable_after_update (DeploymentConfigChanged deq) \<and>
    stable_after_update (NamespaceConfigChanged deq) \<and>
    stable_after_update (ServiceAccountConfigChanged deq) \<and>
    stable_after_update (ClusterRoleConfigChanged deq) \<and>
    stable_after_update (ClusterRoleBindingConfigChanged deq) \<and>
    stable_after_update (RoleConfigChanged deq) \<and>
    stable_after_update (RoleBindingConfigChanged deq) \<and>
    stable_after_update (ClusterIPServiceChanged deq) \<and>
    stable_after_update (LoadBalancerServiceChanged deq) \<and>
    (\<forall>c u s img. JobConfigChanged deq c (DesiredJob s img) = Some u \<longrightarrow>
       JobConfigChanged deq u (DesiredJob s img) = None)"
proof -
  note facts = deep_equal.agrees_refl [OF assms]
  have "job_agrees deq (DesiredJob s img) (DesiredJob s img)" for s img
    using DesiredJob_template_labels by (simp add: job_agrees_def deep_equal.deq_refl [OF assms])
  note this [THEN drift_check.fixed_point [OF deep_equal.job_drift [OF assms], rotated]]
  then show ?thesis
    using stable_drift [OF deep_equal.daemonset_drift [OF assms]]
      stable_drift [OF deep_equal.deployment_drift [OF assms]]
      stable_drift [OF deep_equal.namespace_drift [OF assms]]
      stable_drift [OF deep_equal.serviceaccount_drift [OF assms]]
      stable_drift [OF deep_equal.clusterrole_drift [OF assms]]
      stable_drift [OF deep_equal.clusterrolebinding_drift [OF assms]]
      stable_drift [OF deep_equal.role_drift [OF assms]]
      stable_drift [OF deep_equal.rolebinding_drift [OF assms]]
      stable_drift [OF deep_equal.clusterip_drift [OF assms]]
      stable_drift [OF deep_equal.loadbalancer_drift [OF assms]] facts
    by simp
qed

theorem comparisons_settle_witness:
  "stable_after_update (RoleConfigChanged semDeepEqual) \<and>
   RoleConfigChanged semDeepEqual ((desiredRole ''r'' sample)\<lparr>role_Rules := []\<rparr>)
     (desiredRole ''r'' sample) \<noteq> None"
  using comparisons_settle [OF sem.deep_equal_axioms]
  by (simp add: RoleConfigChanged_def set_if_def updated_if_def Let_def desiredRole_def)

text \<open>When the number of ports is unchanged, an update of a load balancer Service keeps the
  node ports the cluster allocated, because they are not compared.\<close>

theorem lb_update_keeps_node_ports:
  assumes "LoadBalancerServiceChanged deq c d = Some u"
    and "length (svs_Ports (svc_Spec c)) = length (svs_Ports (svc_Spec d))"
  shows "map sp_NodePort (svs_Ports (svc_Spec u)) = map sp_NodePort (svs_Ports (svc_Spec c))"
  using assms
  by (auto simp: loadbalancer_closed updated_if_def expose_def loadbalancer_ports_def pick_def
      lb_ports_NodePort split: if_splits)

text \<open>A load balancer Service whose port is renamed, and its node port.\<close>

definition lb_service :: "string \<Rightarrow> int32 \<Rightarrow> Service" where
  "lb_service name np = \<lparr>svc_Meta = zero_ObjectMeta, svc_Spec = zero_ServiceSpec\<lparr>
     svs_Ports := [\<lparr>sp_Name = name, sp_Protocol = ''TCP'', sp_AppProtocol = None, sp_Port = 80,
       sp_TargetPort = IntVal 8080, sp_NodePort = np\<rparr>]\<rparr>\<rparr>"

lemma lb_service_ports [simp]:
  "svs_Ports (svc_Spec (lb_service name np)) = [\<lparr>sp_Name = name, sp_Protocol = ''TCP'',
     sp_AppProtocol = None, sp_Port = 80, sp_TargetPort = IntVal 8080, sp_NodePort = np\<rparr>]"
  by (simp add: lb_service_def)

theorem lb_update_keeps_node_ports_witness:
  "\<exists>u. LoadBalancerServiceChanged semDeepEqual (lb_service ''a'' 31000) (lb_service ''b'' 0) = Some u \<and>
     map sp_NodePort (svs_Ports (svc_Spec u)) = [31000]"
proof -
  have "LoadBalancerServiceChanged semDeepEqual (lb_service ''a'' 31000) (lb_service ''b'' 0) \<noteq> None"
    by (simp add: sem.lb.changed_None loadbalancer_agrees_def port_agrees_def)
  then obtain u where u: "LoadBalancerServiceChanged semDeepEqual (lb_service ''a'' 31000)
      (lb_service ''b'' 0) = Some u" by blast
  with lb_update_keeps_node_ports [OF u] show ?thesis by simp
qed

text \<open>C39: The node port comparison panics exactly when the current Service has more ports than the
  desired one, and otherwise one update settles it.\<close>

theorem nodeport_comparison:
  assumes "deep_equal deq"
  shows "(NodePortServiceChanged deq c d = Panic \<longleftrightarrow>
      length (svs_Ports (svc_Spec d)) < length (svs_Ports (svc_Spec c))) \<and>
    (\<forall>u. NodePortServiceChanged deq c d = Ok (Some u) \<longrightarrow> NodePortServiceChanged deq u d = Ok None)"
  using nodeport_panic_iff deep_equal.nodeport_settles [OF assms] by blast

theorem nodeport_comparison_witness:
  "NodePortServiceChanged semDeepEqual (lb_service ''a'' 31000)
     ((lb_service ''b'' 0)\<lparr>svc_Spec := zero_ServiceSpec\<rparr>) = Panic \<and>
   NodePortServiceChanged semDeepEqual (lb_service ''a'' 31000) (lb_service ''b'' 0) \<noteq> Panic"
  using nodeport_comparison [OF sem.deep_equal_axioms, of "lb_service ''a'' 31000"]
  by (simp add: zero_ServiceSpec_def)

section \<open>Owner labels and finalizers\<close>

text \<open>The label check succeeds exactly when the object has labels and every required entry is
  among them with its value; it does not depend on the order the map is iterated in.\<close>

theorem Exist_is_submap:
  "(Exist obj m \<longleftrightarrow> Labels obj \<noteq> None \<and>
     list_all (\<lambda>(k, v). map_lookup (Labels obj) k = Some v) (map_entries m)) \<and>
   Exist obj (Some (rev (map_entries m))) = Exist obj m"
  by (auto simp: Exist_iff list_all_iff)

text \<open>An event on a watched object is queued for exactly one Sesame when the object carries
  its owner labels, and that is the Sesame whose handlers accept the object as theirs.\<close>

theorem events_reach_the_owner:
  "enqueueRequestForOwningSesame (Labels m) = [nsname (Meta s)] \<longleftrightarrow> Exist m (OwnerLabels s)"
  by (auto simp: enqueueRequestForOwningSesame_def owned_by_iff nsname_def split: option.splits)

text \<open>Adding the finalizer marks the Sesame as finalized, removing it gives back the finalizers
  it had before, in order, and removal always leaves it unfinalized.\<close>

theorem finalizer_roundtrip:
  assumes "\<not> IsFinalized s"
  shows "IsFinalized (s\<lparr>Meta := (Meta s)\<lparr>Finalizers := Finalizers (Meta s) @ [SesameFinalizer]\<rparr>\<rparr>) \<and>
    RemoveString (Finalizers (Meta s) @ [SesameFinalizer]) SesameFinalizer = Finalizers (Meta s) \<and>
    \<not> IsFinalized (t\<lparr>Meta := (Meta t)\<lparr>Finalizers :=
        RemoveString (Finalizers (Meta t)) SesameFinalizer\<rparr>\<rparr>)"
  using assms by (auto simp: IsFinalized_iff RemoveString_filter filter_id_conv)

theorem finalizer_roundtrip_witness:
  "RemoveString [SesameFinalizer] SesameFinalizer = []"
  using finalizer_roundtrip [of sample sample] by (simp add: IsFinalized_iff)

text \<open>While the Sesame itself is among the listed ones, the check for others in its spec
  namespace is exact: it answers whether a Sesame with another name or namespace has the same spec
  namespace.\<close>

theorem others_in_spec_ns_exact:
  assumes "run_state (list_sesames cli) w = (Inr items, w')"
    and "c \<in> set items" and "nsname (Meta c) = nsname (Meta s)"
  shows "run_state (OtherSesamesExistInSpecNs cli s) w =
    (Ok (\<exists>x \<in> set items. nsname (Meta x) \<noteq> nsname (Meta s) \<and> spec_ns x = spec_ns s), w')"
proof -
  have "sesame_name c = sesame_name s" "sesame_namespace c = sesame_namespace s"
    using assms(3) by (simp_all add: nsname_def)
  note exact = single_item_exact [OF assms(2) this]
  have "fst (run_state (OtherSesamesExistInSpecNs cli s) w) = Ok (other_in_spec_ns s items)"
    unfolding OtherSesamesExistInSpecNs_result using assms(1) exact by simp
  moreover have "snd (run_state (OtherSesamesExistInSpecNs cli s) w) = w'"
    using run_list_based(2) [of cli s w] assms(1) by simp
  moreover have "other_in_spec_ns s items \<longleftrightarrow>
      (\<exists>x \<in> set items. nsname (Meta x) \<noteq> nsname (Meta s) \<and> spec_ns x = spec_ns s)"
    by (auto simp: other_in_spec_ns_iff nsname_def)
  ultimately show ?thesis by (cases "run_state (OtherSesamesExistInSpecNs cli s) w") simp
qed

theorem others_in_spec_ns_exact_witness:
  "run_state (OtherSesamesExistInSpecNs mem_client sample) sample_mem = (Ok False, sample_mem)"
  using others_in_spec_ns_exact [of mem_client sample_mem "[sample]" sample_mem sample sample]
  by (simp add: mem_client_def with_fault_def)

end
