(* ===== verification/Validation_Theorems.thy ===== *)
theory Validation_Theorems
  imports Samples
begin

text \<open>
  Properties of \<open>pkg/validation\<close>: what each check accepts, which panics the API server's own
  validation excludes, and what the whole validation of a Sesame means.
\<close>

section \<open>Ports\<close>

text \<open>The container ports are accepted exactly when their numbers and their names are pairwise
  distinct and both http and https are among them; the check never panics.\<close>

theorem container_ports_accepted:
  "(validate_ContainerPorts s = Ok () \<longleftrightarrow>
      distinct (map ecp_PortNumber (ContainerPorts (envoy_pub s))) \<and>
      distinct (map ecp_Name (ContainerPorts (envoy_pub s))) \<and>
      {''http'', ''https''} \<subseteq> set (map ecp_Name (ContainerPorts (envoy_pub s)))) \<and>
   validate_ContainerPorts s \<noteq> Panic"
  using container_ports_loop_no_panic [of "ContainerPorts (envoy_pub s)" "[]" "[]" False False]
  by (auto simp: validate_ContainerPorts_def container_ports_loop_ok)

text \<open>When the node port check panics, and that the API server's own validation excludes it.\<close>

lemma node_ports_panic_iff:
  "validate_NodePorts s = Panic \<longleftrightarrow>
     (\<exists>ports. NodePorts (envoy_pub s) = Some ports \<and> length ports < 2 \<and>
       list_all (\<lambda>p. np_Name p = ''http'' \<or> np_Name p = ''https'') ports)"
proof (cases "NodePorts (envoy_pub s)")
  case (Some ports)
  obtain e where "node_port_names ports =
      (if list_all (\<lambda>p. np_Name p = ''http'' \<or> np_Name p = ''https'') ports then Ok () else Err e)"
    using node_port_names_cases by blast
  with Some show ?thesis by (simp add: validate_NodePorts_def)
qed (simp add: validate_NodePorts_def)

lemma admitted_node_ports_total:
  "node_ports_admitted (NodePorts (envoy_pub s)) \<Longrightarrow> validate_NodePorts s \<noteq> Panic"
  by (auto simp: node_ports_panic_iff node_ports_admitted_def)

lemma validate_spec_total:
  assumes "node_ports_admitted (NodePorts (envoy_pub s))"
  shows "validate_spec s \<noteq> Panic"
proof -
  have "validate_LoadBalancerAddress s \<noteq> Panic" "validate_LoadBalancerProvider s \<noteq> Panic"
    by (auto simp: validate_LoadBalancerAddress_def validate_LoadBalancerProvider_def Let_def
        split: option.split)
  moreover have "validate_ContainerPorts s \<noteq> Panic"
    by (simp add: validate_ContainerPorts_def container_ports_loop_no_panic)
  ultimately show ?thesis
    using admitted_node_ports_total [OF assms] by (simp add: validate_spec_def)
qed

text \<open>C38: The node port check panics exactly when the list is present, has only the allowed names,
  and has fewer than two entries; a list the API server admits never makes it panic.\<close>

theorem node_ports_panic:
  "(validate_NodePorts s = Panic \<longleftrightarrow>
      (\<exists>ports. NodePorts (envoy_pub s) = Some ports \<and> length ports < 2 \<and>
        list_all (\<lambda>p. np_Name p = ''http'' \<or> np_Name p = ''https'') ports)) \<and>
   \<not> (crd_valid s \<and> validate_NodePorts s = Panic)"
proof -
  have "crd_valid s \<Longrightarrow> validate_NodePorts s \<noteq> Panic"
    by (rule admitted_node_ports_total) (simp add: crd_valid_def)
  with node_ports_panic_iff [of s] show ?thesis by blast
qed

text \<open>The check for duplicate node port numbers compares pointers: for two ports whose numbers
  are stored at different addresses, as all decoded ones are, it accepts them whatever the numbers
  are, so equal numbers pass.\<close>

theorem duplicate_node_port_numbers_pass:
  assumes "NodePorts (envoy_pub s) = Some [\<lparr>np_Name = ''http'', np_PortNumber = Some p\<rparr>,
      \<lparr>np_Name = ''https'', np_PortNumber = Some q\<rparr>]"
    and "addr p \<noteq> addr q"
  shows "validate_NodePorts s = Ok ()"
  using assms by (simp add: validate_NodePorts_def)

theorem duplicate_node_port_numbers_pass_witness:
  "validate_NodePorts (New (sample_cfg\<lparr>cfg_NetworkType := NodePortServicePublishingType,
     cfg_NodePorts := Some (MakeNodePorts 0 [(''http'', 30080), (''https'', 30080)])\<rparr>)) = Ok ()"
  by (rule duplicate_node_port_numbers_pass [where p = "Ptr 0 30080" and q = "Ptr 1 30080"])
    (simp_all add: New_def sample_cfg_def Let_def)

section \<open>Load balancers\<close>

text \<open>The address the chosen provider has, if any.\<close>

definition chosen_address :: "Sesame \<Rightarrow> string option" where
  "chosen_address s =
     (if prov_Type (lb_params s) = AzureLoadBalancerProvider then azure_address s
      else if prov_Type (lb_params s) = GCPLoadBalancerProvider then gcp_address s else None)"

lemma LoadBalancerAddress_ok:
  "validate_LoadBalancerAddress s = Ok () \<longleftrightarrow>
     (case chosen_address s of None \<Rightarrow> True | Some a \<Rightarrow> ParseIP a \<noteq> None)"
  by (auto simp: validate_LoadBalancerAddress_def chosen_address_def split: option.splits)

text \<open>The address of the chosen provider is accepted when it is a dotted quad with octets up to
  255 and rejected when it has neither a dot nor a colon; without an address the check passes.\<close>

theorem load_balancer_address:
  assumes "a \<le> 255" and "b \<le> 255" and "c \<le> 255" and "d \<le> 255"
    and "CHR ''.'' \<notin> set junk" and "CHR '':'' \<notin> set junk"
  shows "(chosen_address s = Some (dotted a b c d) \<or> chosen_address s = None \<longrightarrow>
       validate_LoadBalancerAddress s = Ok ()) \<and>
    (chosen_address s = Some junk \<longrightarrow> validate_LoadBalancerAddress s = Err wrong_address)"
proof -
  have "ParseIP junk = None" using assms(5,6) by (rule ParseIP_plain)
  moreover have "chosen_address s = Some junk \<Longrightarrow>
      validate_LoadBalancerAddress s = (if ParseIP junk = None then Err wrong_address else Ok ())"
    by (auto simp: chosen_address_def validate_LoadBalancerAddress_def split: if_splits)
  ultimately show ?thesis
    using ParseIP_dotted [OF assms(1-4)] by (auto simp: LoadBalancerAddress_ok)
qed

definition sample_gcp :: "string \<Rightarrow> Sesame" where
  "sample_gcp a = sample\<lparr>Spec := (Spec sample)\<lparr>SpecNetworkPublishing := \<lparr>Envoy = (envoy_pub sample)\<lparr>
     LoadBalancer := \<lparr>Scope = InternalLoadBalancer, ProviderParameters =
       \<lparr>prov_Type = GCPLoadBalancerProvider, prov_AWS = None, prov_Azure = None,
        prov_GCP = Some \<lparr>gcp_Address = Some a, gcp_Subnet = Some ''net''\<rparr>\<rparr>\<rparr>\<rparr>\<rparr>\<rparr>\<rparr>"

lemma sample_gcp_address [simp]: "chosen_address (sample_gcp a) = Some a"
  by (simp add: chosen_address_def sample_gcp_def gcp_address_def)

theorem load_balancer_address_witness:
  "validate_LoadBalancerAddress (sample_gcp (dotted 10 0 0 255)) = Ok () \<and>
   validate_LoadBalancerAddress (sample_gcp ''localhost'') = Err wrong_address"
  using load_balancer_address [of 10 0 0 255 "''localhost''" "sample_gcp (dotted 10 0 0 255)"]
    load_balancer_address [of 10 0 0 255 "''localhost''" "sample_gcp ''localhost''"]
  by simp

section \<open>The whole validation\<close>

text \<open>What the check asks of the node ports: the two first have different names and do not share the
  variable their number is in.\<close>

definition node_ports_accepted :: "NodePort list option \<Rightarrow> bool" where
  "node_ports_accepted nps \<longleftrightarrow> (case nps of None \<Rightarrow> True | Some ports \<Rightarrow>
     (\<forall>p \<in> set ports. np_Name p \<in> {''http'', ''https''}) \<and> 2 \<le> length ports \<and>
     np_Name (ports ! 0) \<noteq> np_Name (ports ! 1) \<and>
     (case (np_PortNumber (ports ! 0), np_PortNumber (ports ! 1)) of
        (Some a, Some b) \<Rightarrow> addr a \<noteq> addr b | _ \<Rightarrow> True))"

text \<open>What the API documentation asks of them: two ports, one named http and one named https, with
  unique numbers.\<close>

definition node_port_numbers :: "NodePort list option \<Rightarrow> int32 list" where
  "node_port_numbers nps = (case nps of None \<Rightarrow> [] | Some ports \<Rightarrow> map deref (List.map_filter np_PortNumber ports))"

definition node_ports_documented :: "NodePort list option \<Rightarrow> bool" where
  "node_ports_documented nps \<longleftrightarrow> (case nps of None \<Rightarrow> True | Some ports \<Rightarrow>
     length ports = 2 \<and> set (map np_Name ports) = {''http'', ''https''}) \<and> distinct (node_port_numbers nps)"

text \<open>What the spec must satisfy, field by field, given the rule for node ports.\<close>

definition spec_rules :: "(NodePort list option \<Rightarrow> bool) \<Rightarrow> Sesame \<Rightarrow> bool" where
  "spec_rules node_ports s \<longleftrightarrow>
     (let ports = ContainerPorts (envoy_pub s); kind = pub_Type (envoy_pub s); pr = lb_params s in
      distinct (map ecp_PortNumber ports) \<and> distinct (map ecp_Name ports) \<and>
      {''http'', ''https''} \<subseteq> set (map ecp_Name ports) \<and>
      (kind = NodePortServicePublishingType \<longrightarrow> node_ports (NodePorts (envoy_pub s))) \<and>
      (kind = LoadBalancerServicePublishingType \<longrightarrow>
         (case chosen_address s of None \<Rightarrow> True | Some a \<Rightarrow> ParseIP a \<noteq> None) \<and>
         (prov_Type pr = AWSLoadBalancerProvider \<longrightarrow> prov_Azure pr = None \<and> prov_GCP pr = None) \<and>
         (prov_Type pr = AzureLoadBalancerProvider \<longrightarrow> prov_AWS pr = None \<and> prov_GCP pr = None) \<and>
         (prov_Type pr = GCPLoadBalancerProvider \<longrightarrow> prov_AWS pr = None \<and> prov_Azure pr = None)))"

abbreviation spec_accepted :: "Sesame \<Rightarrow> bool" where
  "spec_accepted \<equiv> spec_rules node_ports_accepted"

abbreviation spec_documented :: "Sesame \<Rightarrow> bool" where
  "spec_documented \<equiv> spec_rules node_ports_documented"

lemma NodePorts_ok: "validate_NodePorts s = Ok () \<longleftrightarrow> node_ports_accepted (NodePorts (envoy_pub s))"
proof (cases "NodePorts (envoy_pub s)")
  case (Some ports)
  then show ?thesis
    using node_port_names_ok [of ports] node_port_names_no_panic [of ports]
    by (auto simp: validate_NodePorts_def node_ports_accepted_def split: res.splits option.splits)
qed (simp add: validate_NodePorts_def node_ports_accepted_def)

text \<open>A variable holds one number.\<close>

definition one_number :: "NodePort list option \<Rightarrow> bool" where
  "one_number nps \<longleftrightarrow> (\<forall>ports. nps = Some ports \<longrightarrow> (\<forall>p \<in> set ports. \<forall>q \<in> set ports. \<forall>a b.
     np_PortNumber p = Some a \<longrightarrow> np_PortNumber q = Some b \<longrightarrow> addr a = addr b \<longrightarrow> deref a = deref b))"

lemma node_ports_gap:
  assumes "node_ports_admitted nps" and one: "one_number nps"
  shows "node_ports_documented nps \<longleftrightarrow> node_ports_accepted nps \<and> distinct (node_port_numbers nps)"
proof (cases nps)
  case (Some ports)
  then obtain p q where ports: "ports = [p, q]"
    using assms(1) by (auto simp: node_ports_admitted_def numeral_2_eq_2 length_Suc_conv)
  have "set (map np_Name ports) = {''http'', ''https''} \<longleftrightarrow>
      (\<forall>p \<in> set ports. np_Name p \<in> {''http'', ''https''}) \<and> np_Name p \<noteq> np_Name q"
    by (auto simp: ports doubleton_eq_iff)
  moreover have "addr a \<noteq> addr b"
    if "distinct (node_port_numbers nps)" "np_PortNumber p = Some a" "np_PortNumber q = Some b" for a b
    using that one by (fastforce simp: one_number_def Some ports node_port_numbers_def List.map_filter_simps)
  ultimately show ?thesis
    by (auto simp: node_ports_documented_def node_ports_accepted_def Some ports split: option.split)
qed (simp add: node_ports_documented_def node_ports_accepted_def)

lemma LoadBalancerProvider_ok:
  "validate_LoadBalancerProvider s = Ok () \<longleftrightarrow> (let pr = lb_params s in
     (prov_Type pr = AWSLoadBalancerProvider \<longrightarrow> prov_Azure pr = None \<and> prov_GCP pr = None) \<and>
     (prov_Type pr = AzureLoadBalancerProvider \<longrightarrow> prov_AWS pr = None \<and> prov_GCP pr = None) \<and>
     (prov_Type pr = GCPLoadBalancerProvider \<longrightarrow> prov_AWS pr = None \<and> prov_Azure pr = None))"
  by (auto simp: validate_LoadBalancerProvider_def Let_def)

lemma validate_spec_ok: "validate_spec s = Ok () \<longleftrightarrow> spec_accepted s"
proof -
  have "validate_ContainerPorts s = Ok () \<longleftrightarrow>
      distinct (map ecp_PortNumber (ContainerPorts (envoy_pub s))) \<and>
      distinct (map ecp_Name (ContainerPorts (envoy_pub s))) \<and>
      {''http'', ''https''} \<subseteq> set (map ecp_Name (ContainerPorts (envoy_pub s)))"
    by (auto simp: validate_ContainerPorts_def container_ports_loop_ok)
  then show ?thesis
    by (auto simp: validate_spec_def spec_rules_def Let_def LoadBalancerAddress_ok LoadBalancerProvider_ok NodePorts_ok)
qed

lemma validate_exact:
  assumes "run_state (list_sesames cli) w = (Inr items, w')"
    and "c \<in> set items" and "nsname (Meta c) = nsname (Meta s)"
  shows "snd (run_state (validate_Sesame cli s) w) = w' \<and>
    (fst (run_state (validate_Sesame cli s) w) = Ok () \<longleftrightarrow>
       (\<forall>x \<in> set items. spec_ns x = spec_ns s \<longrightarrow> nsname (Meta x) = nsname (Meta s)) \<and>
       spec_accepted s)"
proof -
  have key: "sesame_name c = sesame_name s" "sesame_namespace c = sesame_namespace s"
    using assms(3) by (simp_all add: nsname_def)
  note exact = single_item_exact [OF assms(2) key]
  have "fst (run_state (OtherSesamesExistInSpecNs cli s) w) = Ok (other_in_spec_ns s items)"
    unfolding OtherSesamesExistInSpecNs_result using assms(1) exact by simp
  moreover have "snd (run_state (OtherSesamesExistInSpecNs cli s) w) = w'"
    using run_list_based(2) [of cli s w] assms(1) by simp
  ultimately have others: "run_state (OtherSesamesExistInSpecNs cli s) w =
      (Ok (other_in_spec_ns s items), w')"
    by (cases "run_state (OtherSesamesExistInSpecNs cli s) w") simp
  have "\<not> other_in_spec_ns s items \<longleftrightarrow>
      (\<forall>x \<in> set items. spec_ns x = spec_ns s \<longrightarrow> nsname (Meta x) = nsname (Meta s))"
    by (auto simp: other_in_spec_ns_iff nsname_def)
  with others show ?thesis by (auto simp: validate_Sesame_def validate_spec_ok)
qed

lemma spec_gap:
  assumes "crd_valid s" and "one_number (NodePorts (envoy_pub s))"
  shows "spec_documented s \<longleftrightarrow> spec_accepted s \<and> (pub_Type (envoy_pub s) = NodePortServicePublishingType \<longrightarrow>
    distinct (node_port_numbers (NodePorts (envoy_pub s))))"
proof -
  have "node_ports_admitted (NodePorts (envoy_pub s))" using assms(1) by (simp add: crd_valid_def)
  from node_ports_gap [OF this assms(2)] show ?thesis unfolding spec_rules_def Let_def by argo
qed


lemma sample_provider [simp]: "prov_Type zero_ProviderLoadBalancerParameters = []"
  by (simp add: zero_ProviderLoadBalancerParameters_def)

lemma provider_constants_nonempty [simp]:
  "[] \<noteq> AWSLoadBalancerProvider" "[] \<noteq> AzureLoadBalancerProvider" "[] \<noteq> GCPLoadBalancerProvider"
  by (simp_all add: const_defs)

lemma sample_acceptable: "spec_accepted sample"
  by (simp add: spec_rules_def chosen_address_def Let_def)

text \<open>A Sesame with the same node port twice.\<close>

definition sample_twice :: Sesame where
  "sample_twice = New (sample_cfg\<lparr>cfg_NetworkType := NodePortServicePublishingType,
     cfg_NodePorts := Some (MakeNodePorts 0 [(''http'', 30080), (''https'', 30080)])\<rparr>)"

lemma sample_twice_rules: "spec_accepted sample_twice" "\<not> spec_documented sample_twice"
  by (simp_all add: spec_rules_def node_ports_accepted_def node_ports_documented_def node_port_numbers_def
      List.map_filter_simps sample_twice_def New_def sample_cfg_def Let_def const_defs)


lemma sample_valid: "run_state (validate_Sesame mem_client sample) sample_mem = (Ok (), sample_mem)"
  using sample_acceptable
  by (simp add: validate_Sesame_def validate_spec_ok OtherSesamesExistInSpecNs_def
      OtherSesamesExist_def mem_client_def with_fault_def)

end
