(* ===== verification/Object_Theorems.thy ===== *)
theory Object_Theorems
  imports Samples
begin

text \<open>
  Properties of the objects the operator builds: they are owned, consistent with each other, and
  carry what the spec of the Sesame asks for.
\<close>

section \<open>All objects\<close>

lemma deployment_podspec_fields [simp]:
  "ps_Containers (deployment_podspec s img) = [sesame_container s img]"
  "ps_InitContainers (deployment_podspec s img) = []"
  "map v_Name (ps_Volumes (deployment_podspec s img)) = [SesameCertsVolName, SesameCfgVolName]"
  by (simp_all add: deployment_podspec_def Let_def zero_PodSpec_def split: option.splits)

lemma deployment_mounts_ok: "mounts_ok (deployment_podspec s img)"
  by (simp add: mounts_ok_def sesame_container_def del: set_map)

text \<open>Every object the operator creates for a Sesame carries its owner labels, so that the same
  Sesame's handlers accept it later, and the namespaced ones are in its spec namespace.\<close>

theorem desired_objects_owned:
  "list_all (\<lambda>m. Exist m (OwnerLabels s))
     [ns_Meta (DesiredNamespace s), sa_Meta (DesiredServiceAccount name s),
      cr_Meta (desiredClusterRole name s), crb_Meta (desiredClusterRoleBinding name r a s),
      role_Meta (desiredRole name s), rb_Meta (desiredRoleBinding name a r s),
      cm_Meta (desired_configmap s), job_Meta (DesiredJob s img),
      dep_Meta (DesiredDeployment s img), dms_Meta (DesiredDaemonSet s img envoy),
      svc_Meta (DesiredSesameService s), svc_Meta (envoy_service s)] \<and>
   list_all (\<lambda>m. Namespace m = spec_ns s)
     [sa_Meta (DesiredServiceAccount name s), role_Meta (desiredRole name s),
      rb_Meta (desiredRoleBinding name a r s), cm_Meta (desired_configmap s),
      job_Meta (DesiredJob s img), dep_Meta (DesiredDeployment s img),
      dms_Meta (DesiredDaemonSet s img envoy), svc_Meta (DesiredSesameService s),
      svc_Meta (envoy_service s)]"
proof
  have "owned_by s (cm_Meta (desired_configmap s))" by (simp add: desired_configmap_def)
  then show "list_all (\<lambda>m. Exist m (OwnerLabels s))
     [ns_Meta (DesiredNamespace s), sa_Meta (DesiredServiceAccount name s),
      cr_Meta (desiredClusterRole name s), crb_Meta (desiredClusterRoleBinding name r a s),
      role_Meta (desiredRole name s), rb_Meta (desiredRoleBinding name a r s),
      cm_Meta (desired_configmap s), job_Meta (DesiredJob s img),
      dep_Meta (DesiredDeployment s img), dms_Meta (DesiredDaemonSet s img envoy),
      svc_Meta (DesiredSesameService s), svc_Meta (envoy_service s)]"
    by simp
qed (simp add: desired_configmap_def DesiredServiceAccount_def desiredRole_def
    desiredRoleBinding_def DesiredJob_def DesiredDeployment_def DesiredDaemonSet_def
    DesiredSesameService_def envoy_service_def)

text \<open>C35: The workloads and the Services fit together: each workload selects exactly the labels of
  its own pods, each Service selects the pods of its workload, Envoy's init container and Sesame's
  Service agree on the xDS port, and every volume mount of a pod names a volume of that pod.\<close>

theorem workloads_fit_together:
  "MatchLabels (the (ds_Selector (dep_Spec (DesiredDeployment s img)))) =
     pt_Labels (ds_Template (dep_Spec (DesiredDeployment s img))) \<and>
   MatchLabels (the (dss_Selector (dms_Spec (DesiredDaemonSet s img envoy)))) =
     pt_Labels (dss_Template (dms_Spec (DesiredDaemonSet s img envoy))) \<and>
   svs_Selector (svc_Spec (DesiredSesameService s)) =
     pt_Labels (ds_Template (dep_Spec (DesiredDeployment s img))) \<and>
   svs_Selector (svc_Spec (envoy_service s)) =
     pt_Labels (dss_Template (dms_Spec (DesiredDaemonSet s img envoy))) \<and>
   map sp_Port (svs_Ports (svc_Spec (DesiredSesameService s))) = [XDSPort] \<and>
   ''--xds-port=8001'' \<in> set (c_Args (init_container img)) \<and>
   ''--xds-port=8001'' \<in> set (c_Args (sesame_container s img)) \<and>
   mounts_ok (pt_Spec (ds_Template (dep_Spec (DesiredDeployment s img)))) \<and>
   mounts_ok (pt_Spec (dss_Template (dms_Spec (DesiredDaemonSet s img envoy))))"
proof -
  have "''--xds-port=8001'' \<in> set (c_Args (sesame_container s img))"
    by (simp add: sesame_container_def deployment_args_closed)
  moreover have "''--xds-port=8001'' \<in> set (c_Args (init_container img))"
    by (simp add: init_container_def XDSPort_str)
  ultimately show ?thesis
    by (simp add: DesiredDeployment_def DesiredDaemonSet_def DesiredSesameService_def
        envoy_service_def EnvoyDaemonSetPodSelector_def daemonset_mounts_ok deployment_mounts_ok)
qed

section \<open>Envoy's Service\<close>

text \<open>C36: Building Envoy's Service never dereferences a nil pointer, and the result is the Service of
  the table: its annotations are the entries of \<open>annotation_table\<close> whose condition holds, its type,
  ports, traffic policy and load balancer address those of the publishing type.\<close>

theorem envoy_service_built:
  "DesiredEnvoyService s = Ok (envoy_service s)"
  by (rule DesiredEnvoyService_closed)

lemma envoy_ports_filter:
  "envoy_ports cps acc = acc @ map (\<lambda>c. \<lparr>sp_Name = ecp_Name c, sp_Protocol = ''TCP'',
      sp_AppProtocol = None, sp_Port = (if ecp_Name c = ''http'' then 80 else 443),
      sp_TargetPort = IntVal (ecp_PortNumber c), sp_NodePort = 0\<rparr>)
     (filter (\<lambda>c. ecp_Name c = ''http'' \<or> ecp_Name c = ''https'') cps)"
  by (induction cps arbitrary: acc)
    (auto simp: Let_def EnvoyServiceHTTPPort_def EnvoyServiceHTTPSPort_def)

lemma two_elements: "a \<noteq> b \<Longrightarrow> {a, b} \<subseteq> {x, y} \<Longrightarrow> (x, y) \<in> {(a, b), (b, a)}"
  by auto

lemma two_names:
  assumes "length cps = 2" and "distinct (map ecp_Name cps)"
    and "{''http'', ''https''} \<subseteq> set (map ecp_Name cps)"
  obtains x y where "cps = [x, y]"
    and "(ecp_Name x, ecp_Name y) \<in> {(''http'', ''https''), (''https'', ''http'')}"
proof -
  from assms(1) obtain x y where xy: "cps = [x, y]"
    by (auto simp: length_Suc_conv numeral_2_eq_2)
  have "(ecp_Name x, ecp_Name y) \<in> {(''http'', ''https''), (''https'', ''http'')}"
    using assms(3) by (intro two_elements) (simp_all add: xy)
  with xy show thesis by (rule that)
qed

text \<open>For a Sesame that passed the port checks of the API server and of the operator, Envoy's
  Service has exactly two ports: 80 named http and 443 named https, each sent to the container port
  of its name.\<close>

theorem envoy_service_ports_validated:
  assumes "container_ports_admitted (ContainerPorts (envoy_pub s))"
    and "validate_ContainerPorts s = Ok ()"
    and "pub_Type (envoy_pub s) \<noteq> NodePortServicePublishingType"
    and "DesiredEnvoyService s = Ok svc"
  shows "length (svs_Ports (svc_Spec svc)) = 2 \<and>
    set (map (\<lambda>p. (sp_Name p, sp_Port p, sp_TargetPort p)) (svs_Ports (svc_Spec svc))) =
      set (map (\<lambda>c. (ecp_Name c, if ecp_Name c = ''http'' then 80 else 443, IntVal (ecp_PortNumber c)))
        (ContainerPorts (envoy_pub s))) \<and>
    set (map (\<lambda>p. (sp_Name p, sp_Port p)) (svs_Ports (svc_Spec svc))) =
      {(''http'', 80), (''https'', 443)}"
proof -
  have "length (ContainerPorts (envoy_pub s)) = 2"
    using assms(1) by (simp add: container_ports_admitted_def)
  moreover have "distinct (map ecp_Name (ContainerPorts (envoy_pub s)))"
    and "{''http'', ''https''} \<subseteq> set (map ecp_Name (ContainerPorts (envoy_pub s)))"
    using assms(2) by (auto simp: validate_ContainerPorts_def container_ports_loop_ok)
  ultimately obtain x y where "ContainerPorts (envoy_pub s) = [x, y]"
    and "(ecp_Name x, ecp_Name y) \<in> {(''http'', ''https''), (''https'', ''http'')}"
    by (rule two_names)
  moreover have "svs_Ports (svc_Spec svc) = envoy_ports (ContainerPorts (envoy_pub s)) []"
    using assms(3,4)
    by (auto simp: DesiredEnvoyService_closed envoy_service_def envoy_service_ports_def)
  ultimately show ?thesis by (auto simp: envoy_ports_filter)
qed

theorem envoy_service_ports_validated_witness:
  "length (svs_Ports (svc_Spec (envoy_service sample))) = 2"
  using envoy_service_ports_validated [of sample "envoy_service sample"]
  by (simp add: DesiredEnvoyService_closed container_ports_admitted_def name_length_ok_def
      port_in_range_def validate_ContainerPorts_def)

lemma set_node_ports_port:
  "p \<in> set (set_node_ports nps ports) \<Longrightarrow> \<exists>q \<in> set ports. p = q\<lparr>sp_NodePort := sp_NodePort p\<rparr> \<and>
     (sp_NodePort p = sp_NodePort q \<or>
      (\<exists>np \<in> set nps. np_Name np = sp_Name q \<and> map_option deref (np_PortNumber np) = Some (sp_NodePort p)))"
proof (induction nps ports rule: set_node_ports.induct)
  case (2 np nps ports)
  let ?ports = "case np_PortNumber np of None \<Rightarrow> ports
    | Some n \<Rightarrow> map (\<lambda>q. if sp_Name q = np_Name np then q\<lparr>sp_NodePort := deref n\<rparr> else q) ports"
  from 2 obtain q where q: "q \<in> set ?ports" "p = q\<lparr>sp_NodePort := sp_NodePort p\<rparr>"
    "sp_NodePort p = sp_NodePort q \<or> (\<exists>x \<in> set nps. np_Name x = sp_Name q \<and>
       map_option deref (np_PortNumber x) = Some (sp_NodePort p))"
    by auto
  show ?case
  proof (cases "np_PortNumber np")
    case None
    with q show ?thesis by auto
  next
    case (Some n)
    with q(1) obtain r where r: "r \<in> set ports"
      "q = (if sp_Name r = np_Name np then r\<lparr>sp_NodePort := deref n\<rparr> else r)" by auto
    then have "p = r\<lparr>sp_NodePort := sp_NodePort p\<rparr>" using q(2)
      by (metis (no_types) ServicePort.surjective ServicePort.update_convs(6))
    with r q(3) Some show ?thesis by (intro bexI [of _ r]) (auto split: if_splits)
  qed
qed (auto intro!: bexI)

text \<open>With the node port publishing type, a port of Envoy's Service has a node port other than
  the automatic one only if the spec has a node port of that name with that number.\<close>

theorem envoy_node_ports_from_spec:
  assumes "pub_Type (envoy_pub s) = NodePortServicePublishingType"
    and "p \<in> set (svs_Ports (svc_Spec (envoy_service s)))" and "sp_NodePort p \<noteq> 0"
  shows "\<exists>nps. NodePorts (envoy_pub s) = Some nps \<and> (\<exists>np \<in> set nps. np_Name np = sp_Name p \<and>
    map_option deref (np_PortNumber np) = Some (sp_NodePort p))"
proof -
  let ?nps = "case NodePorts (envoy_pub s) of None \<Rightarrow> [] | Some l \<Rightarrow> l"
  have "p \<in> set (set_node_ports ?nps (envoy_ports (ContainerPorts (envoy_pub s)) []))"
    using assms(1,2) by (simp add: envoy_service_def envoy_service_ports_def zero_ServiceSpec_def Let_def)
  from set_node_ports_port [OF this] obtain q where
    q: "q \<in> set (envoy_ports (ContainerPorts (envoy_pub s)) [])" "p = q\<lparr>sp_NodePort := sp_NodePort p\<rparr>"
    "sp_NodePort p = sp_NodePort q \<or> (\<exists>np \<in> set ?nps. np_Name np = sp_Name q \<and>
       map_option deref (np_PortNumber np) = Some (sp_NodePort p))" by blast
  have "sp_NodePort q = 0" using q(1) by (auto simp: envoy_ports_filter)
  moreover have "sp_Name p = sp_Name q" using q(2) by (metis ServicePort.select_convs(1)
      ServicePort.surjective ServicePort.update_convs(6))
  ultimately show ?thesis using q(3) assms(3) by (cases "NodePorts (envoy_pub s)") auto
qed

lemma sample_np_simps [simp]:
  "pub_Type (envoy_pub sample_np) = NodePortServicePublishingType"
  "ContainerPorts (envoy_pub sample_np) = [\<lparr>ecp_Name = ''http'', ecp_PortNumber = 8080\<rparr>,
     \<lparr>ecp_Name = ''https'', ecp_PortNumber = 8443\<rparr>]"
  "NodePorts (envoy_pub sample_np) = Some [\<lparr>np_Name = ''http'', np_PortNumber = Some (Ptr 0 30080)\<rparr>,
     \<lparr>np_Name = ''https'', np_PortNumber = Some (Ptr 1 30443)\<rparr>]"
  by (simp_all add: sample_np_def sample_cfg_def New_def Let_def)

theorem envoy_node_ports_from_spec_witness:
  "\<exists>p \<in> set (svs_Ports (svc_Spec (envoy_service sample_np))). sp_NodePort p = 30080 \<and>
     (\<exists>nps. NodePorts (envoy_pub sample_np) = Some nps \<and> (\<exists>np \<in> set nps. np_Name np = sp_Name p))"
proof -
  let ?p = "\<lparr>sp_Name = ''http'', sp_Protocol = ''TCP'', sp_AppProtocol = None, sp_Port = 80,
    sp_TargetPort = IntVal 8080, sp_NodePort = 30080\<rparr>"
  have "?p \<in> set (svs_Ports (svc_Spec (envoy_service sample_np)))"
    by (simp add: envoy_service_def envoy_service_ports_def envoy_ports_filter)
  moreover from envoy_node_ports_from_spec [OF _ this] have
    "\<exists>nps. NodePorts (envoy_pub sample_np) = Some nps \<and> (\<exists>np \<in> set nps. np_Name np = sp_Name ?p)"
    by auto
  ultimately show ?thesis by (metis ServicePort.select_convs(6))
qed

section \<open>Workloads\<close>

text \<open>Sesame's container is started with the fixed flags, then one flag for each port named http
  or https whose number is not the default, in the order of the spec, then the ingress class when it
  is set; Envoy's container exposes the ports of the spec, in order.\<close>

theorem container_arguments:
  "c_Args (sesame_container s img) =
     [''serve'', ''--incluster'', ''--xds-address=0.0.0.0'', ''--xds-port=8001'',
      ''--sesame-cafile=/certs/ca.crt'', ''--sesame-cert-file=/certs/tls.crt'',
      ''--sesame-key-file=/certs/tls.key'', ''--config-path=/config/sesame.yaml''] @
     concat (map port_flag (ContainerPorts (envoy_pub s))) @
     (case IngressClassName (Spec s) of None \<Rightarrow> [] | Some n \<Rightarrow> [''--ingress-class-name='' @ n]) \<and>
   map cp_ContainerPort (c_Ports (envoy_container s envoy)) =
     map ecp_PortNumber (ContainerPorts (envoy_pub s))"
  by (simp add: sesame_container_def deployment_args_closed envoy_container_def daemonset_ports_map
      comp_def)

section \<open>The configuration file\<close>

text \<open>C37: The settings of the rendered configuration file, that is its lines that are neither empty
  nor comments, are for every controller name and every choice of ExternalName support the fixed ones,
  the gateway section exactly when a controller name is given, and the ExternalName setting exactly when
  it is enabled. The name is inserted as it is: its first line is the value of the setting, and any
  further lines of it are settings of their own (the CRD bounds only the length of the name).\<close>

theorem configuration_settings:
  "settings (render c) =
     (if sc_GatewayControllerName c \<noteq> []
      then ''gateway:'' # (''  controllerName: '' @ hd (split_on nl (sc_GatewayControllerName c))) #
        filter is_setting (tl (split_on nl (sc_GatewayControllerName c))) else []) @
     [''disablePermitInsecure: false'', ''tls:'', ''  fallback-certificate:'',
      ''  envoy-client-certificate:''] @
     (if sc_EnableExternalNameService c then [''enableExternalNameService: true''] else []) @
     [''accesslog-format: envoy'']"
  by (rule render_settings)

text \<open>So a controller name can switch on what the Sesame leaves switched off.\<close>

lemma controller_name_injects:
  "''enableExternalNameService: true'' \<in> set (settings (render
     \<lparr>sc_GatewayControllerName = ''example.com/c'' @ nl # ''enableExternalNameService: true'',
      sc_EnableExternalNameService = False\<rparr>))"
  by (simp add: render_settings is_setting_def)

section \<open>Image tags\<close>

text \<open>The tag of an image is what follows the colon when there is one colon; with a registry port
  before the tag, the function returns the part between the two colons instead of the tag.\<close>

theorem tag_of_image:
  assumes "CHR '':'' \<notin> set a" and "CHR '':'' \<notin> set b" and "CHR '':'' \<notin> set c"
  shows "TagFromImage a = [] \<and> TagFromImage (a @ '':'' @ b) = b \<and>
    TagFromImage (a @ '':'' @ b @ '':'' @ c) = b"
  using assms TagFromImage_no_colon [of a] TagFromImage_colon [of a b]
    TagFromImage_colon [of a "b @ '':'' @ c"]
  by (simp add: split_on_absent split_on_append)

theorem tag_of_image_witness:
  "TagFromImage ''ghcr.io/sesame:main'' = ''main'' \<and>
   TagFromImage ''localhost:5000/sesame:main'' = ''5000/sesame''"
  using tag_of_image [of "''ghcr.io/sesame''" "''main''" "[]"]
    tag_of_image [of "''localhost''" "''5000/sesame''" "''main''"] by simp

end
