(* ===== verification/Node_Ports.thy ===== *)
theory Node_Ports
  imports Reconciled
begin

text \<open>
  A server that assigns node ports: the server in memory, except that a port of a NodePort or
  LoadBalancer Service that arrives without a node port gets one. It meets the contract \<open>server\<close>, with
  an admission that changes what is sent. What the comparison for NodePort Services makes of the
  assigned ports: drift, at every pass.
\<close>

section \<open>The server\<close>

definition assign_ports :: "Service \<Rightarrow> Service" where
  "assign_ports x = (if svs_Type (svc_Spec x) \<in> {''NodePort'', ''LoadBalancer''}
     then x\<lparr>svc_Spec := (svc_Spec x)\<lparr>svs_Ports := map (\<lambda>p. if sp_NodePort p = 0
       then p\<lparr>sp_NodePort := sp_Port p + 30000\<rparr> else p) (svs_Ports (svc_Spec x))\<rparr>\<rparr>
     else x)"

definition assigning_kind :: "('w, Service) kind_client \<Rightarrow> ('w, Service) kind_client" where
  "assigning_kind kc = kc\<lparr>Create := (\<lambda>x. Create kc (assign_ports x)), Update := (\<lambda>x. Update kc (assign_ports x))\<rparr>"

definition assigning_client :: "mem client" where
  "assigning_client = mem_client\<lparr>services := assigning_kind (services mem_client)\<rparr>"

lemma assign_ports_meta [simp]: "svc_Meta (assign_ports x) = svc_Meta x"
  by (simp add: assign_ports_def)

lemma assign_ports_admission: "service_admission x (assign_ports x)"
  by (auto simp: service_admission_def assign_ports_def port_admitted_def list_all2_conv_all_nth Let_def)

lemma assigning_api:
  assumes "api_kind kc svc_Meta view nf (=)"
  shows "api_kind (assigning_kind kc) svc_Meta view nf (\<lambda>x y. y = assign_ports x)"
proof (rule api_kind.intro)
  fix x y w
  show "fst (run_state (Create (assigning_kind kc) x) w) = Inr y \<Longrightarrow>
      view (snd (run_state (Create (assigning_kind kc) x) w)) (nsname (svc_Meta x)) = Some y \<and> y = assign_ports x"
    and "fst (run_state (Update (assigning_kind kc) x) w) = Inr y \<Longrightarrow>
      view (snd (run_state (Update (assigning_kind kc) x) w)) (nsname (svc_Meta x)) = Some y \<and> y = assign_ports x"
    using api_kind.create_stores [OF assms, of "assign_ports x" w y] api_kind.update_stores [OF assms, of "assign_ports x" w y]
    by (auto simp: assigning_kind_def)
next
  fix x k w
  show "k \<noteq> nsname (svc_Meta x) \<Longrightarrow> view (snd (run_state (Create (assigning_kind kc) x) w)) k = view w k"
    and "k \<noteq> nsname (svc_Meta x) \<Longrightarrow> view (snd (run_state (Update (assigning_kind kc) x) w)) k = view w k"
    using api_kind.create_frame [OF assms, of k "assign_ports x" w] api_kind.update_frame [OF assms, of k "assign_ports x" w]
    by (simp_all add: assigning_kind_def)
qed (simp_all add: assigning_kind_def api_kind.get_reads [OF assms] api_kind.get_found [OF assms]
  api_kind.get_missing [OF assms] api_kind.view_key [OF assms] api_kind.delete_frame [OF assms]
  api_kind.delete_removes [OF assms])

lemma assigning_quiet: "quiet_kind V kc \<Longrightarrow> quiet_kind V (assigning_kind kc)"
  by (simp add: quiet_kind_def assigning_kind_def)

lemma assigning_only: "only_kind r V mem_client \<Longrightarrow> only_kind r V assigning_client"
  by (auto simp: only_kind_def assigning_client_def assigning_quiet)

interpretation assigning: server std_lib assigning_client
    "\<lambda>w. lookup_obj svc_Meta (m_services w)" "\<lambda>x y. y = assign_ports x" "\<lambda>w. lookup_obj dms_Meta (m_daemonsets w)" "(=)"
    "\<lambda>w. lookup_obj dep_Meta (m_deployments w)" "(=)" "\<lambda>w. lookup_obj job_Meta (m_jobs w)" "(=)"
    "\<lambda>w. lookup_obj cm_Meta (m_configmaps w)" "(=)" "\<lambda>w. lookup_obj ns_Meta (m_namespaces w)" "(=)"
    "\<lambda>w. lookup_obj sa_Meta (m_serviceaccounts w)" "(=)" "\<lambda>w. lookup_obj cr_Meta (m_clusterroles w)" "(=)"
    "\<lambda>w. lookup_obj crb_Meta (m_clusterrolebindings w)" "(=)" "\<lambda>w. lookup_obj role_Meta (m_roles w)" "(=)"
    "\<lambda>w. lookup_obj rb_Meta (m_rolebindings w)" "(=)"
proof -
  have others: "only_kind r V assigning_client" if "only_kind r V mem_client" for r and V :: "mem \<Rightarrow> 'v"
    by (rule assigning_only [OF that])
  have svc: "api_kind (services assigning_client) svc_Meta (\<lambda>w. lookup_obj svc_Meta (m_services w)) (IsNotFound std_lib)
      (\<lambda>x y. y = assign_ports x)"
    using assigning_api [OF mem_kind_library [OF std.library_axioms], of m_services m_services_update]
    by (simp add: assigning_client_def)
  have kinds: "namespaces assigning_client = namespaces mem_client" "configmaps assigning_client = configmaps mem_client"
    "jobs assigning_client = jobs mem_client" "deployments assigning_client = deployments mem_client"
    "daemonsets assigning_client = daemonsets mem_client" "serviceaccounts assigning_client = serviceaccounts mem_client"
    "clusterroles assigning_client = clusterroles mem_client" "roles assigning_client = roles mem_client"
    "clusterrolebindings assigning_client = clusterrolebindings mem_client"
    "rolebindings assigning_client = rolebindings mem_client"
    by (simp_all add: assigning_client_def)
  show "server std_lib assigning_client
    (\<lambda>w. lookup_obj svc_Meta (m_services w)) (\<lambda>x y. y = assign_ports x) (\<lambda>w. lookup_obj dms_Meta (m_daemonsets w)) (=)
    (\<lambda>w. lookup_obj dep_Meta (m_deployments w)) (=) (\<lambda>w. lookup_obj job_Meta (m_jobs w)) (=)
    (\<lambda>w. lookup_obj cm_Meta (m_configmaps w)) (=) (\<lambda>w. lookup_obj ns_Meta (m_namespaces w)) (=)
    (\<lambda>w. lookup_obj sa_Meta (m_serviceaccounts w)) (=) (\<lambda>w. lookup_obj cr_Meta (m_clusterroles w)) (=)
    (\<lambda>w. lookup_obj crb_Meta (m_clusterrolebindings w)) (=) (\<lambda>w. lookup_obj role_Meta (m_roles w)) (=)
    (\<lambda>w. lookup_obj rb_Meta (m_rolebindings w)) (=)"
    by (intro server.intro server_axioms.intro served_kinds.intro served_kinds_axioms.intro separate_kinds.intro svc;
        (rule others, rule mem_only_kind)?)
      (simp_all only: kinds, simp_all add: mem_kind_library [OF std.library_axioms] std.library_axioms assign_ports_admission)
qed

section \<open>Assigned ports are drift\<close>

text \<open>The comparison for NodePort Services reads the node ports: where the spec asks for none, an assigned
  one differs from the desired one, and the Service is updated at every pass.\<close>

lemma assigned_node_port_is_drift:
  assumes "pub_Type (envoy_pub s) = NodePortServicePublishingType"
    and "i < length (svs_Ports (svc_Spec y))"
    and "sp_NodePort (svs_Ports (svc_Spec y) ! i) \<noteq> sp_NodePort (svs_Ports (svc_Spec (envoy_service s)) ! i)"
  shows "envoy_service_changed semDeepEqual s y (envoy_service s) \<noteq> Ok None"
  using assms unfolding envoy_changed_None [OF sem.deep_equal_axioms]
  by (auto simp: envoy_agrees_def nodeport_agrees_def list_all2_conv_all_nth)

end
