(* ===== verification/Handler_Theorems.thy ===== *)
theory Handler_Theorems
  imports Samples Node_Ports
begin

text \<open>
  Properties of the handlers of single kinds, for any client that meets the contract of its kind:
  what a successful handler leaves in the API server, what a deletion leaves, and the guards of
  the deletions that reach beyond one object.
\<close>

section \<open>The server in memory\<close>

lemma mem_api [simp]:
  "table_lens sel upd \<Longrightarrow>
   api_kind (mem_kind sel upd meta) meta (\<lambda>w. lookup_obj meta (sel w)) (IsNotFound std_lib) (=)"
  using mem_kind_api [of sel upd meta] by (simp add: std_lib_def)

lemma std_library: "library std_lib"
  by (rule std.library_axioms)

lemma lookup_nil [simp]: "lookup_obj meta [] k = None"
  by (simp add: lookup_obj_def)

lemmas mem_run = mem_kind_def with_fault_def api_fail_def

section \<open>Ensuring\<close>

text \<open>When ensuring the namespace succeeds, the API server holds the namespace of the spec with
  the owner labels, or an unchanged namespace of somebody else, and no other namespace changed.\<close>

theorem namespace_ensured:
  assumes lib: "library L" and api: "api_kind (namespaces cli) ns_Meta view (IsNotFound L) adm"
    and adm: "admission_keeps adm (namespace_agrees (DeepEqual L))"
    and run: "run_state (EnsureNamespace L cli s) w = (Ok (), w')"
  shows "reaches view ns_Meta (namespace_agrees (DeepEqual L)) s (DesiredNamespace s) w w'"
  using assms by (rule namespace_reaches)

lemma sample_namespace_run:
  "run_state (EnsureNamespace std_lib mem_client sample) sample_mem =
     (Ok (), sample_mem\<lparr>m_namespaces := [DesiredNamespace sample]\<rparr>)"
  by (simp add: EnsureNamespace_def Let_def currentSpecNsName_def createNamespace_def mem_run
      put_obj_def del_obj_def)

theorem namespace_ensured_witness:
  "reaches (\<lambda>w. lookup_obj ns_Meta (m_namespaces w)) ns_Meta (namespace_agrees semDeepEqual) sample
     (DesiredNamespace sample) sample_mem (sample_mem\<lparr>m_namespaces := [DesiredNamespace sample]\<rparr>)"
  using namespace_ensured [OF std_library _ _ sample_namespace_run,
      of "\<lambda>w. lookup_obj ns_Meta (m_namespaces w)" "(=)"] by simp

text \<open>When the five RBAC handlers succeed, each leaves the object it wants, or an unchanged
  object of somebody else, under its key, and touches no other key.\<close>

theorem rbac_objects_ensured:
  assumes lib: "library L"
    and sa: "api_kind (serviceaccounts cli) sa_Meta view1 (IsNotFound L) adm1"
      "admission_keeps adm1 (serviceaccount_agrees (DeepEqual L))"
      "run_state (EnsureServiceAccount L cli name s) w1 = (Ok x1, w1')"
    and cr: "api_kind (clusterroles cli) cr_Meta view2 (IsNotFound L) adm2"
      "admission_keeps adm2 (clusterrole_agrees (DeepEqual L))"
      "run_state (EnsureClusterRole L cli name s) w2 = (Ok x2, w2')"
    and crb: "api_kind (clusterrolebindings cli) crb_Meta view3 (IsNotFound L) adm3"
      "admission_keeps adm3 (clusterrolebinding_agrees (DeepEqual L))"
      "run_state (EnsureClusterRoleBinding L cli name ref acct s) w3 = (Ok (), w3')"
    and role: "api_kind (roles cli) role_Meta view4 (IsNotFound L) adm4"
      "admission_keeps adm4 (role_agrees (DeepEqual L))"
      "run_state (EnsureRole L cli name s) w4 = (Ok x4, w4')"
    and rb: "api_kind (rolebindings cli) rb_Meta view5 (IsNotFound L) adm5"
      "admission_keeps adm5 (rolebinding_agrees (DeepEqual L))"
      "run_state (EnsureRoleBinding L cli name acct ref s) w5 = (Ok (), w5')"
  shows "reaches view1 sa_Meta (serviceaccount_agrees (DeepEqual L)) s (DesiredServiceAccount name s) w1 w1' \<and>
    reaches view2 cr_Meta (clusterrole_agrees (DeepEqual L)) s (desiredClusterRole name s) w2 w2' \<and>
    reaches view3 crb_Meta (clusterrolebinding_agrees (DeepEqual L)) s
      (desiredClusterRoleBinding name ref acct s) w3 w3' \<and>
    reaches view4 role_Meta (role_agrees (DeepEqual L)) s (desiredRole name s) w4 w4' \<and>
    reaches view5 rb_Meta (rolebinding_agrees (DeepEqual L)) s (desiredRoleBinding name acct ref s) w5 w5'"
  using serviceaccount_reaches [OF lib sa] clusterrole_reaches [OF lib cr]
    clusterrolebinding_reaches [OF lib crb] role_reaches [OF lib role] rolebinding_reaches [OF lib rb]
  by blast

lemma sample_rbac_runs:
  "run_state (EnsureServiceAccount std_lib mem_client ''n'' sample) empty_mem =
     (Ok (DesiredServiceAccount ''n'' sample),
      empty_mem\<lparr>m_serviceaccounts := [DesiredServiceAccount ''n'' sample]\<rparr>)"
  "run_state (EnsureClusterRole std_lib mem_client ''n'' sample) empty_mem =
     (Ok (desiredClusterRole ''n'' sample),
      empty_mem\<lparr>m_clusterroles := [desiredClusterRole ''n'' sample]\<rparr>)"
  "run_state (EnsureClusterRoleBinding std_lib mem_client ''n'' ''r'' ''a'' sample) empty_mem =
     (Ok (), empty_mem\<lparr>m_clusterrolebindings := [desiredClusterRoleBinding ''n'' ''r'' ''a'' sample]\<rparr>)"
  "run_state (EnsureRole std_lib mem_client ''n'' sample) empty_mem =
     (Ok (desiredRole ''n'' sample), empty_mem\<lparr>m_roles := [desiredRole ''n'' sample]\<rparr>)"
  "run_state (EnsureRoleBinding std_lib mem_client ''n'' ''a'' ''r'' sample) empty_mem =
     (Ok (), empty_mem\<lparr>m_rolebindings := [desiredRoleBinding ''n'' ''a'' ''r'' sample]\<rparr>)"
  by (simp_all add: EnsureServiceAccount_def EnsureClusterRole_def EnsureClusterRoleBinding_def
      EnsureRole_def EnsureRoleBinding_def CurrentServiceAccount_def CurrentClusterRole_def
      CurrentClusterRoleBinding_def CurrentRole_def CurrentRoleBinding_def createServiceAccount_def
      createClusterRole_def createClusterRoleBinding_def createRole_def createRoleBinding_def
      Let_def mem_run put_obj_def del_obj_def)

theorem rbac_objects_ensured_witness:
  "reaches (\<lambda>w. lookup_obj role_Meta (m_roles w)) role_Meta (role_agrees semDeepEqual) sample
     (desiredRole ''n'' sample) empty_mem (empty_mem\<lparr>m_roles := [desiredRole ''n'' sample]\<rparr>)"
  using rbac_objects_ensured [OF std_library _ _ sample_rbac_runs(1) _ _ sample_rbac_runs(2)
      _ _ sample_rbac_runs(3) _ _ sample_rbac_runs(4) _ _ sample_rbac_runs(5),
      of "\<lambda>w. lookup_obj sa_Meta (m_serviceaccounts w)" "(=)"
        "\<lambda>w. lookup_obj cr_Meta (m_clusterroles w)" "(=)"
        "\<lambda>w. lookup_obj crb_Meta (m_clusterrolebindings w)" "(=)"
        "\<lambda>w. lookup_obj role_Meta (m_roles w)" "(=)"
        "\<lambda>w. lookup_obj rb_Meta (m_rolebindings w)" "(=)"] by simp

text \<open>When ensuring the ConfigMap succeeds, the ConfigMap holds the rendered configuration or
  belongs to somebody else; running the handler again then succeeds and only reads.\<close>

theorem configmap_ensured_once:
  assumes lib: "library L" and api: "api_kind (configmaps cli) cm_Meta view (IsNotFound L) adm"
    and adm: "admission_keeps adm (configmap_agrees (DeepEqual L))"
    and run: "run_state (EnsureConfigMap L cli s) w = (Ok (), w')"
    and read: "fst (run_state (Get (configmaps cli)
      \<lparr>nn_Namespace = spec_ns s, nn_Name = SesameConfigMapName\<rparr>) w') = Inr cm"
  shows "reaches view cm_Meta (configmap_agrees (DeepEqual L)) s (desired_configmap s) w w' \<and>
    is_ok (fst (run_state (EnsureConfigMap L cli s) w')) \<and>
    snd (run_state (EnsureConfigMap L cli s) w') = snd (run_state (Get (configmaps cli)
      \<lparr>nn_Namespace = spec_ns s, nn_Name = SesameConfigMapName\<rparr>) w')"
proof -
  note deq = library_deq [OF lib]
  note kind = managed [OF api deep_equal.configmap_drift [OF deq] adm deep_equal.agrees_refl(7) [OF deq]]
  have key: "nsname (cm_Meta (desired_configmap s)) =
      \<lparr>nn_Namespace = spec_ns s, nn_Name = SesameConfigMapName\<rparr>"
    by (simp add: desired_configmap_def nsname_def)
  have goal: "reaches view cm_Meta (configmap_agrees (DeepEqual L)) s (desired_configmap s) w w'"
    by (rule managed_kind.refined_reaches [OF kind EnsureConfigMap_refines key run]) simp
  from goal managed_kind.refined_again [OF kind EnsureConfigMap_refines key goal read]
  show ?thesis by blast
qed

lemma sample_configmap_run:
  "run_state (EnsureConfigMap std_lib mem_client sample) empty_mem =
     (Ok (), empty_mem\<lparr>m_configmaps := [desired_configmap sample]\<rparr>)"
  by (simp add: EnsureConfigMap_def Let_def configmap_desired_eq configmap_current_def
      configmap_create_def mem_run put_obj_def del_obj_def)

theorem configmap_ensured_once_witness:
  "is_ok (fst (run_state (EnsureConfigMap std_lib mem_client sample)
     (empty_mem\<lparr>m_configmaps := [desired_configmap sample]\<rparr>)))"
proof -
  have "fst (run_state (Get (configmaps mem_client) \<lparr>nn_Namespace = spec_ns sample,
      nn_Name = SesameConfigMapName\<rparr>) (empty_mem\<lparr>m_configmaps := [desired_configmap sample]\<rparr>)) =
      Inr (desired_configmap sample)"
    by (simp add: mem_run lookup_obj_def)
  from configmap_ensured_once [OF std_library _ _ sample_configmap_run this,
      of "\<lambda>w. lookup_obj cm_Meta (m_configmaps w)" "(=)"]
  show ?thesis by simp
qed

text \<open>When ensuring the Deployment succeeds and the Sesame does not own one with another
  selector, the API server holds a Deployment that agrees with the desired one in labels and spec, or an
  unchanged one of somebody else, and no other Deployment changed.\<close>

theorem deployment_ensured:
  assumes lib: "library L" and api: "api_kind (deployments cli) dep_Meta view (IsNotFound L) adm"
    and adm: "admission_keeps adm (deployment_agrees (DeepEqual L))"
    and sel: "\<And>cur. view w \<lparr>nn_Namespace = spec_ns s, nn_Name = SesameDeploymentName\<rparr> = Some cur \<Longrightarrow>
      owned_by s (dep_Meta cur) \<Longrightarrow> DeepEqual L (ILabelSelector (ds_Selector (dep_Spec cur)))
        (ILabelSelector (Some SesameDeploymentPodSelector))"
    and run: "run_state (EnsureDeployment L cli s img) w = (Ok (), w')"
  shows "reaches view dep_Meta (deployment_agrees (DeepEqual L)) s (DesiredDeployment s img) w w'"
  using assms by (rule deployment_reaches)

lemma sample_deployment_run:
  "run_state (EnsureDeployment std_lib mem_client sample ''img'') empty_mem =
     (Ok (), empty_mem\<lparr>m_deployments := [DesiredDeployment sample ''img'']\<rparr>)"
  by (simp add: EnsureDeployment_def Let_def CurrentDeployment_def createDeployment_def mem_run
      put_obj_def del_obj_def)

theorem deployment_ensured_witness:
  "reaches (\<lambda>w. lookup_obj dep_Meta (m_deployments w)) dep_Meta (deployment_agrees semDeepEqual) sample
     (DesiredDeployment sample ''img'') empty_mem
     (empty_mem\<lparr>m_deployments := [DesiredDeployment sample ''img'']\<rparr>)"
  using deployment_ensured [OF std_library _ _ _ sample_deployment_run,
      of "\<lambda>w. lookup_obj dep_Meta (m_deployments w)" "(=)"] by simp

text \<open>C30: When the read of the Deployment fails with anything but not-found, ensuring the Deployment
  dereferences the nil result and panics instead of returning the error.\<close>

theorem deployment_read_error_panics:
  assumes "run_state (CurrentDeployment cli s) w = (Inl e, w')" and "\<not> IsNotFound L e"
  shows "run_state (EnsureDeployment L cli s img) w = (Panic, w')"
  using assms by (simp add: EnsureDeployment_def Let_def)

theorem deployment_read_error_panics_witness:
  "fst (run_state (EnsureDeployment std_lib mem_client sample ''img'')
     (empty_mem\<lparr>m_faults := [Some ''timeout'']\<rparr>)) = Panic"
  using deployment_read_error_panics [of mem_client sample "empty_mem\<lparr>m_faults := [Some ''timeout'']\<rparr>"
      "api_fail ''InternalError'' ''timeout''" "empty_mem" std_lib "''img''"]
  by (simp add: CurrentDeployment_def mem_run empty_mem_def)

text \<open>A Deployment or DaemonSet with another selector is not updated: the handler is then the
  deletion of that object, which creates nothing, so that the next reconciliation recreates it.\<close>

theorem other_selector_is_deleted:
  assumes "run_state (CurrentDeployment cli s) w = (Inr cur, w1)"
    and "DeploymentSelectorsDiffer (DeepEqual L) cur (DesiredDeployment s img)"
    and "run_state (CurrentDaemonSet cli s) v = (Inr ds, v1)"
    and "DaemonSetSelectorsDiffer (DeepEqual L) ds (DesiredDaemonSet s img envoy)"
  shows "run_state (EnsureDeployment L cli s img) w = run_state (EnsureDeploymentDeleted L cli s) w1 \<and>
    run_state (EnsureDaemonSet L cli s img envoy) v = run_state (EnsureDaemonSetDeleted L cli s) v1"
  using assms by (simp add: EnsureDeployment_def EnsureDaemonSet_def Let_def)

definition old_deployment :: Deployment where
  "old_deployment = (DesiredDeployment sample ''img'')\<lparr>dep_Spec :=
     (dep_Spec (DesiredDeployment sample ''img''))\<lparr>ds_Selector := None\<rparr>\<rparr>"

definition old_daemonset :: DaemonSet where
  "old_daemonset = (DesiredDaemonSet sample ''img'' ''envoy'')\<lparr>dms_Spec :=
     (dms_Spec (DesiredDaemonSet sample ''img'' ''envoy''))\<lparr>dss_Selector := None\<rparr>\<rparr>"

lemma old_keys [simp]:
  "nsname (dep_Meta old_deployment) = \<lparr>nn_Namespace = ''ns'', nn_Name = SesameDeploymentName\<rparr>"
  "nsname (dms_Meta old_daemonset) = \<lparr>nn_Namespace = ''ns'', nn_Name = envoyDaemonSetName\<rparr>"
  by (simp_all add: old_deployment_def old_daemonset_def)

theorem other_selector_is_deleted_witness:
  "snd (run_state (EnsureDeployment std_lib mem_client sample ''img'')
     (empty_mem\<lparr>m_deployments := [old_deployment]\<rparr>)) = empty_mem\<lparr>m_deployments := []\<rparr>"
proof -
  have "owned_by sample (dep_Meta old_deployment)" by (simp add: old_deployment_def)
  moreover have "run_state (CurrentDeployment mem_client sample)
      (empty_mem\<lparr>m_deployments := [old_deployment]\<rparr>) =
      (Inr old_deployment, empty_mem\<lparr>m_deployments := [old_deployment]\<rparr>)"
    by (simp add: CurrentDeployment_def mem_run lookup_obj_def)
  moreover have "run_state (CurrentDaemonSet mem_client sample)
      (empty_mem\<lparr>m_daemonsets := [old_daemonset]\<rparr>) =
      (Inr old_daemonset, empty_mem\<lparr>m_daemonsets := [old_daemonset]\<rparr>)"
    by (simp add: CurrentDaemonSet_def mem_run lookup_obj_def)
  moreover have "DeploymentSelectorsDiffer semDeepEqual old_deployment (DesiredDeployment sample ''img'')"
    "DaemonSetSelectorsDiffer semDeepEqual old_daemonset (DesiredDaemonSet sample ''img'' ''envoy'')"
    by (simp_all add: DeploymentSelectorsDiffer_def old_deployment_def DesiredDeployment_def
        DaemonSetSelectorsDiffer_def old_daemonset_def DesiredDaemonSet_def)
  ultimately show ?thesis
    using other_selector_is_deleted [of mem_client sample
        "empty_mem\<lparr>m_deployments := [old_deployment]\<rparr>" old_deployment
        "empty_mem\<lparr>m_deployments := [old_deployment]\<rparr>" std_lib "''img''"
        "empty_mem\<lparr>m_daemonsets := [old_daemonset]\<rparr>" old_daemonset
        "empty_mem\<lparr>m_daemonsets := [old_daemonset]\<rparr>" "''envoy''"]
    by (simp add: EnsureDeploymentDeleted_def mem_run lookup_obj_def del_obj_def)
qed

text \<open>C26: When ensuring Envoy's Service succeeds, for each of the three publishing types, the stored Service
  agrees with the desired one in every field the comparison of that type reads, or belongs to somebody
  else, and no other Service changed. The API server may assign a node port where the Service was sent
  without one; up to such ports the agreement is meant.\<close>

theorem envoy_service_ensured:
  assumes lib: "library L" and api: "api_kind (services cli) svc_Meta view (IsNotFound L) adm"
    and adm: "\<And>x y. adm x y \<Longrightarrow> envoy_agrees (DeepEqual L) s x (envoy_service s) \<Longrightarrow> service_admission x y"
    and kind: "has_envoy_service s"
    and run: "run_state (EnsureEnvoyService L cli s) w = (Ok (), w')"
  shows "reaches view svc_Meta (envoy_stored (DeepEqual L) s) s (envoy_service s) w w'"
  using admitted_envoy [OF adm _ library_deq [OF lib] kind] envoy_agrees_stored
  by (intro envoy_service_reaches [OF lib api _ _ run]) blast+

text \<open>A Sesame published on node ports that the API server is to choose.\<close>

definition sample_assigned :: Sesame where
  "sample_assigned = New (sample_cfg\<lparr>cfg_NetworkType := NodePortServicePublishingType, cfg_NodePorts := None\<rparr>)"

lemma sample_assigned_run:
  "run_state (EnsureEnvoyService std_lib assigning_client sample_assigned) empty_mem =
     (Ok (), empty_mem\<lparr>m_services := [assign_ports (envoy_service sample_assigned)]\<rparr>)"
  by (simp add: EnsureEnvoyService_def Let_def DesiredEnvoyService_closed currentEnvoyService_def
      createService_def assigning_client_def assigning_kind_def mem_run put_obj_def del_obj_def)

theorem envoy_service_ensured_witness:
  "reaches (\<lambda>w. lookup_obj svc_Meta (m_services w)) svc_Meta (envoy_stored semDeepEqual sample_assigned) sample_assigned
     (envoy_service sample_assigned) empty_mem (empty_mem\<lparr>m_services := [assign_ports (envoy_service sample_assigned)]\<rparr>) \<and>
   assign_ports (envoy_service sample_assigned) \<noteq> envoy_service sample_assigned"
proof -
  have kind: "pub_Type (envoy_pub sample_assigned) = NodePortServicePublishingType"
    by (simp add: sample_assigned_def New_def sample_cfg_def Let_def)
  then have "has_envoy_service sample_assigned" by (simp add: has_envoy_service_def)
  moreover have "map sp_NodePort (svs_Ports (svc_Spec (envoy_service sample_assigned))) = [0, 0]"
    "map sp_Port (svs_Ports (svc_Spec (envoy_service sample_assigned))) = [80, 443]"
    "svs_Type (svc_Spec (envoy_service sample_assigned)) = ''NodePort''"
    by (simp_all add: envoy_service_def envoy_service_ports_def service_type_def kind sample_assigned_def New_def
        sample_cfg_def Let_def const_defs EnvoyServiceHTTPPort_def EnvoyServiceHTTPSPort_def)
  then have "assign_ports (envoy_service sample_assigned) \<noteq> envoy_service sample_assigned"
    by (auto simp: assign_ports_def dest!: arg_cong [where f = "\<lambda>x. map sp_NodePort (svs_Ports (svc_Spec x))"])
  ultimately show ?thesis
    using envoy_service_ensured [OF std_library assigning.svc _ _ sample_assigned_run] assign_ports_admission by simp
qed

section \<open>Deleting\<close>

text \<open>When the deletion of the ConfigMap, the Deployment, the DaemonSet, the Job or one of the
  two Services succeeds, its key holds nothing, an object on its way out, or an unchanged object of
  somebody else, and no other object of the kind is touched.\<close>

theorem plain_deletions_done:
  assumes "api_kind (configmaps cli) cm_Meta view1 (IsNotFound L) adm1"
    and "api_kind (deployments cli) dep_Meta view2 (IsNotFound L) adm2"
    and "api_kind (daemonsets cli) dms_Meta view3 (IsNotFound L) adm3"
    and "api_kind (jobs cli) job_Meta view4 (IsNotFound L) adm4"
    and "api_kind (services cli) svc_Meta view5 (IsNotFound L) adm5"
  shows "(run_state (EnsureConfigMapDeleted L cli s) w = (Ok (), w') \<longrightarrow>
      gone view1 cm_Meta s \<lparr>nn_Namespace = spec_ns s, nn_Name = SesameConfigMapName\<rparr> w w') \<and>
    (run_state (EnsureDeploymentDeleted L cli s) w = (Ok (), w') \<longrightarrow>
      gone view2 dep_Meta s \<lparr>nn_Namespace = spec_ns s, nn_Name = SesameDeploymentName\<rparr> w w') \<and>
    (run_state (EnsureDaemonSetDeleted L cli s) w = (Ok (), w') \<longrightarrow>
      gone view3 dms_Meta s \<lparr>nn_Namespace = spec_ns s, nn_Name = envoyDaemonSetName\<rparr> w w') \<and>
    (run_state (EnsureJobDeleted L cli s) w = (Ok (), w') \<longrightarrow>
      gone view4 job_Meta s \<lparr>nn_Namespace = spec_ns s, nn_Name = certgenJobName\<rparr> w w') \<and>
    (run_state (EnsureSesameServiceDeleted L cli s) w = (Ok (), w') \<longrightarrow>
      gone view5 svc_Meta s \<lparr>nn_Namespace = spec_ns s, nn_Name = SesameSvcName\<rparr> w w') \<and>
    (run_state (EnsureEnvoyServiceDeleted L cli s) w = (Ok (), w') \<longrightarrow>
      gone view5 svc_Meta s \<lparr>nn_Namespace = spec_ns s, nn_Name = envoySvcName\<rparr> w w')"
  unfolding deletions_refine
  using delete_gone [OF assms(1)] delete_gone [OF assms(2)] delete_gone [OF assms(3)]
    delete_gone [OF assms(4)] delete_gone [OF assms(5)] by blast

theorem plain_deletions_done_witness:
  "gone (\<lambda>w. lookup_obj dep_Meta (m_deployments w)) dep_Meta sample
     \<lparr>nn_Namespace = ''ns'', nn_Name = SesameDeploymentName\<rparr>
     (empty_mem\<lparr>m_deployments := [DesiredDeployment sample ''img'']\<rparr>) empty_mem"
proof -
  have "run_state (EnsureDeploymentDeleted std_lib mem_client sample)
      (empty_mem\<lparr>m_deployments := [DesiredDeployment sample ''img'']\<rparr>) = (Ok (), empty_mem)"
    by (simp add: EnsureDeploymentDeleted_def CurrentDeployment_def mem_run lookup_obj_def
        del_obj_def empty_mem_def)
  then show ?thesis
    using plain_deletions_done [of mem_client "\<lambda>w. lookup_obj cm_Meta (m_configmaps w)" std_lib "(=)"
        "\<lambda>w. lookup_obj dep_Meta (m_deployments w)" "(=)" "\<lambda>w. lookup_obj dms_Meta (m_daemonsets w)"
        "(=)" "\<lambda>w. lookup_obj job_Meta (m_jobs w)" "(=)" "\<lambda>w. lookup_obj svc_Meta (m_services w)" "(=)"
        sample] by simp
qed

text \<open>C27: The namespace is deleted only when the spec asks for it, it is none of the core namespaces,
  the namespace found carries the owner labels, and the check for other Sesames in it just answered
  no; the only mutating call is that deletion.\<close>

theorem namespace_deleted_only_if:
  assumes run: "run_state (EnsureNamespaceDeleted L (logged cli) s) (w, []) = (r, (w', log))"
    and call: "log \<noteq> []"
  shows "RemoveOnDeletion (SpecNamespace (Spec s)) \<and>
    spec_ns s \<notin> {''sesame-operator'', ''default'', ''kube-system''} \<and>
    (\<exists>ns w1. run_state (Get (namespaces cli) \<lparr>nn_Namespace = [], nn_Name = spec_ns s\<rparr>) w = (Inr ns, w1) \<and>
       owned_by s (ns_Meta ns) \<and> log = [mk_call VDelete RNamespace (ns_Meta ns)] \<and>
       fst (run_state (OtherSesamesExistInSpecNs cli s) w1) = Ok False)"
proof -
  have others: "run_state (OtherSesamesExistInSpecNs (logged cli) s) (v, l) =
      (case run_state (OtherSesamesExistInSpecNs cli s) v of (x, v') \<Rightarrow> (x, (v', l)))" for v l
    by (simp add: OtherSesamesExistInSpecNs_def OtherSesamesExist_def
        split: prod.split)
  show ?thesis
    using run call
    by (auto simp: EnsureNamespaceDeleted_def Let_def currentSpecNsName_def others in_core_list_iff namespaceCoreList_def
        split: if_splits prod.splits sum.splits res.splits)
qed

theorem namespace_deleted_only_if_witness:
  "RemoveOnDeletion (SpecNamespace (Spec sample)) \<and>
   snd (snd (run_state (EnsureNamespaceDeleted std_lib (logged mem_client) sample)
     (sample_mem\<lparr>m_namespaces := [DesiredNamespace sample]\<rparr>, []))) =
   [mk_call VDelete RNamespace (ns_Meta (DesiredNamespace sample))]"
proof -
  let ?w = "sample_mem\<lparr>m_namespaces := [DesiredNamespace sample]\<rparr>"
  have log: "snd (snd (run_state (EnsureNamespaceDeleted std_lib (logged mem_client) sample) (?w, []))) =
      [mk_call VDelete RNamespace (ns_Meta (DesiredNamespace sample))]"
    by (simp add: EnsureNamespaceDeleted_def Let_def currentSpecNsName_def in_core_list_iff
        namespaceCoreList_def OtherSesamesExistInSpecNs_def OtherSesamesExist_def
        mem_run lookup_obj_def) (simp add: mem_client_def with_fault_def mem_kind_def lookup_obj_def)
  obtain r w' l where run: "run_state (EnsureNamespaceDeleted std_lib (logged mem_client) sample)
      (?w, []) = (r, (w', l))" by (metis prod.collapse)
  with log have "l \<noteq> []" by auto
  from namespace_deleted_only_if [OF run this] log show ?thesis by simp
qed

text \<open>The collected objects that are namespaced.\<close>

fun namespaced_object :: "rbac_object \<Rightarrow> bool" where
  "namespaced_object (ORoleBinding x) = True"
| "namespaced_object (ORole x) = True"
| "namespaced_object (OServiceAccount x) = True"
| "namespaced_object (OClusterRoleBinding x) = False"
| "namespaced_object (OClusterRole x) = False"

definition no_cluster_calls :: "'w \<times> call list \<Rightarrow> bool" where
  "no_cluster_calls wl \<longleftrightarrow>
     list_all (\<lambda>c. call_resource c \<noteq> RClusterRole \<and> call_resource c \<noteq> RClusterRoleBinding) (snd wl)"

lemma keeps_read_log: "keeps no_cluster_calls (lift_world m)"
  by (auto simp: keeps_def no_cluster_calls_def split: prod.split)

lemma gives_collect_object:
  "list_all namespaced_object objs \<Longrightarrow> (\<And>x. namespaced_object (mk x)) \<Longrightarrow>
   gives I (collect_object L mk get objs) (\<lambda>r. \<forall>x. r = Ok x \<longrightarrow> list_all namespaced_object x)"
  by (auto simp: gives_def collect_object_def split: prod.splits sum.splits)

lemma keeps_read_object: "keeps I get \<Longrightarrow> keeps I (collect_object L mk get objs)"
  unfolding collect_object_def by (intro keeps_intro)

lemma gives_collect_accounts:
  "list_all namespaced_object objs \<Longrightarrow>
   gives no_cluster_calls (collect_accounts L (logged cli) ns names objs)
     (\<lambda>r. \<forall>x. r = Ok x \<longrightarrow> list_all namespaced_object x)"
proof (induction names arbitrary: objs)
  case (Cons name names)
  then show ?case
    by (auto intro!: gives_and_then [where P = "list_all namespaced_object"] gives_collect_object
        keeps_read_object keeps_read_log simp: CurrentServiceAccount_def)
qed (simp add: gives_def)

lemma keeps_read_accounts:
  "keeps no_cluster_calls (collect_accounts L (logged cli) ns names objs)"
  by (induction names arbitrary: objs)
    (auto intro!: keeps_intro keeps_read_object keeps_read_log simp: CurrentServiceAccount_def)

lemma collect_namespaced_only:
  "gives no_cluster_calls (collect_namespaced L (logged cli) ns [])
     (\<lambda>r. \<forall>x. r = Ok x \<longrightarrow> list_all namespaced_object x)"
  "keeps no_cluster_calls (collect_namespaced L (logged cli) ns [])"
  unfolding collect_namespaced_def CurrentRoleBinding_def CurrentRole_def
  by (auto intro!: gives_and_then [where P = "list_all namespaced_object"] gives_collect_object
      gives_collect_accounts keeps_intro keeps_read_object keeps_read_accounts keeps_read_log)

lemma keeps_delete_namespaced:
  "list_all namespaced_object xs \<Longrightarrow> keeps no_cluster_calls (delete_objects L (logged cli) s xs)"
proof (induction xs)
  case (Cons x xs)
  have "keeps no_cluster_calls (delete_object (logged cli) x)"
    using Cons.prems
    by (cases x) (auto simp: keeps_def no_cluster_calls_def mk_call_def split: prod.split)
  with Cons show ?case by (auto intro!: keeps_intro)
qed (simp add: keeps_return)

text \<open>The check whether any Sesame is left, and what follows it.\<close>

lemma crowd_exists:
  assumes others: "\<And>w. \<exists>items. fst (run_state (list_sesames cli) w) = Inr items \<and> length items \<ge> 2"
  shows "gives no_cluster_calls (wrapped f (OtherSesamesExist (logged cli) s)) (\<lambda>r. \<forall>x. r = Ok x \<longrightarrow> fst x)"
proof (unfold gives_def, intro allI impI)
  fix wl :: "'a \<times> call list" and x
  assume "fst (run_state (wrapped f (OtherSesamesExist (logged cli) s)) wl) = Ok x"
  then have "fst (run_state (OtherSesamesExist (logged cli) s) wl) = Ok x"
    by (simp add: wrapped_def split: prod.splits)
  moreover obtain items where "fst (run_state (list_sesames cli) (fst wl)) = Inr items" "length items \<ge> 2"
    using others by blast
  moreover have "fst (run_state (list_sesames (logged cli)) wl) = fst (run_state (list_sesames cli) (fst wl))"
    by (cases wl) (simp split: prod.split)
  ultimately show "fst x" by (auto simp: OtherSesamesExist_result split: if_splits)
qed

lemma keeps_checks:
  "keeps no_cluster_calls (OtherSesamesExist (logged cli) s)"
  "keeps no_cluster_calls (OtherSesamesExistInSpecNs (logged cli) s)"
  unfolding OtherSesamesExistInSpecNs_def OtherSesamesExist_def
  by (auto intro!: keeps_intro keeps_read_log)

lemma keeps_delete_collected:
  assumes "list_all namespaced_object objs"
  shows "keeps no_cluster_calls (and_then (ret (Ok objs)) (\<lambda>objs.
    and_then (delete_objects L (logged cli) s objs) (\<lambda>_. ret r)))"
  by (rule keeps_and_then_gives [where Q = "list_all namespaced_object"])
    (use assms in \<open>auto intro!: keeps_intro keeps_delete_namespaced gives_ret\<close>)

text \<open>C28: While the check finds other Sesames anywhere, deleting the RBAC resources of a Sesame never
  deletes the ClusterRole and the ClusterRoleBinding made for its namespace, although their names are
  used by no other Sesame.\<close>

theorem cluster_rbac_kept:
  assumes others: "\<And>w. \<exists>items. fst (run_state (list_sesames cli) w) = Inr items \<and> length items \<ge> 2"
    and run: "run_state (EnsureRBACDeleted L (logged cli) s) (w, []) = (r, (w', log))"
  shows "list_all (\<lambda>c. call_resource c \<noteq> RClusterRole \<and> call_resource c \<noteq> RClusterRoleBinding) log"
proof -
  have "keeps no_cluster_calls (EnsureRBACDeleted L (logged cli) s)"
    unfolding EnsureRBACDeleted_def
  proof (rule keeps_and_then [OF keeps_wrapped [OF keeps_checks(2)]],
      rule keeps_and_then_gives [where Q = "list_all namespaced_object"])
    fix objs
    assume "list_all namespaced_object objs"
    note delete = keeps_delete_collected [OF this]
    show "keeps no_cluster_calls (and_then
        (wrapped (Wrapf ''failed to verify if Sesames exist in any namespace: %w'' [])
          (OtherSesamesExist (logged cli) s)) (\<lambda>(anywhere, _).
        and_then (if \<not> anywhere then collect_cluster L (logged cli) (cluster_rbac_name s) objs
                  else ret (Ok objs)) (\<lambda>objs.
        and_then (delete_objects L (logged cli) s objs) (\<lambda>_.
        ret (case NewAggregate L [] of None \<Rightarrow> Ok () | Some es \<Rightarrow> Err (Aggregate es))))))"
      by (rule keeps_and_then_gives [OF keeps_wrapped [OF keeps_checks(1)] crowd_exists [OF others]])
        (use delete in \<open>auto split: prod.split\<close>)
  qed (auto intro!: keeps_intro collect_namespaced_only gives_ret)
  from keepsD [OF this, of "(w, [])"] show ?thesis using run by (simp add: no_cluster_calls_def)
qed

text \<open>A client that always lists two Sesames.\<close>

definition crowded_client :: "mem client" where
  "crowded_client = mem_client\<lparr>list_sesames := ret (Inr [sample,
     sample\<lparr>Meta := (Meta sample)\<lparr>Name := ''other''\<rparr>, Spec := (Spec sample)\<lparr>SpecNamespace :=
       \<lparr>nsp_Name = ''elsewhere'', RemoveOnDeletion = False\<rparr>\<rparr>\<rparr>])\<rparr>"

theorem cluster_rbac_kept_witness:
  "list_all (\<lambda>c. call_resource c \<noteq> RClusterRole \<and> call_resource c \<noteq> RClusterRoleBinding)
     (snd (snd (run_state (EnsureRBACDeleted std_lib (logged crowded_client) sample)
       (empty_mem\<lparr>m_clusterroles := [desiredClusterRole ''sesame-ns'' sample]\<rparr>, []))))"
proof -
  have "\<exists>items. fst (run_state (list_sesames crowded_client) w) = Inr items \<and> length items \<ge> 2" for w
    by (simp add: crowded_client_def)
  moreover obtain r w' log where "run_state (EnsureRBACDeleted std_lib (logged crowded_client) sample)
      (empty_mem\<lparr>m_clusterroles := [desiredClusterRole ''sesame-ns'' sample]\<rparr>, []) = (r, (w', log))"
    by (metis prod.collapse)
  ultimately show ?thesis using cluster_rbac_kept [of crowded_client] by simp
qed

section \<open>Recreating the Job\<close>

text \<open>The world after \<open>j\<close> attempts at a condition, none of which met it.\<close>

fun unmet :: "('w, bool \<times> error option) state \<Rightarrow> nat \<Rightarrow> 'w \<Rightarrow> 'w option" where
  "unmet c 0 w = Some w"
| "unmet c (Suc j) w = (case run_state c w of
      ((met, err), w') \<Rightarrow> (if \<not> met \<and> err = None then unmet c j w' else None))"

text \<open>A poller that has the time for \<open>k\<close> attempts goes on while the condition is not met.\<close>

definition makes_attempts :: "(nat \<Rightarrow> nat \<Rightarrow> ('w, bool \<times> error option) state \<Rightarrow> ('w, error option) state) \<Rightarrow>
    nat \<Rightarrow> nat \<Rightarrow> nat \<Rightarrow> bool" where
  "makes_attempts poll i t k \<longleftrightarrow> (\<forall>c w j w1 w2. j < k \<longrightarrow> unmet c j w = Some w1 \<longrightarrow>
     run_state c w1 = ((True, None), w2) \<longrightarrow> run_state (poll i t c) w = (None, w2))"

lemma poll_loop_attempts:
  "j < k \<Longrightarrow> unmet c j w = Some w1 \<Longrightarrow> run_state c w1 = ((True, None), w2) \<Longrightarrow> run_state (poll_loop k c) w = (None, w2)"
proof (induction c j w arbitrary: k rule: unmet.induct)
  case (1 c w)
  then show ?case by (cases k) auto
next
  case (2 c j w)
  then show ?case by (cases k) (auto split: prod.splits if_splits)
qed

lemma poll_n_attempts: "makes_attempts poll_n 1 t (Suc t)"
  by (auto simp: makes_attempts_def poll_n_def simp del: poll_loop.simps intro: poll_loop_attempts)

text \<open>The same for attempts to create a Job.\<close>

fun failed_creates :: "'w client \<Rightarrow> Job \<Rightarrow> nat \<Rightarrow> 'w \<Rightarrow> 'w option" where
  "failed_creates cli job 0 w = Some w"
| "failed_creates cli job (Suc j) w = (case run_state (Create (jobs cli) job) w of
      (Inl e, w') \<Rightarrow> failed_creates cli job j w' | (Inr y, w') \<Rightarrow> None)"

lemma unmet_tryJobCreate: "unmet (tryJobCreate cli job) j w = failed_creates cli job j w"
  by (induction cli job j w rule: failed_creates.induct) (auto simp: tryJobCreate_def split: prod.split sum.split)

lemma retry_succeeds:
  assumes "makes_attempts (PollImmediate L) 1 t k" and "j < k" and "failed_creates cli job j w = Some w1"
    and "run_state (Create (jobs cli) job) w1 = (Inr y, w2)"
  shows "run_state (retryJobCreate L cli job t) w = (Ok (), w2)"
proof -
  have "run_state (tryJobCreate cli job) w1 = ((True, None), w2)" using assms(4) by (simp add: tryJobCreate_def)
  moreover have "unmet (tryJobCreate cli job) j w = Some w1" using assms(3) by (simp add: unmet_tryJobCreate)
  ultimately have "run_state (PollImmediate L 1 t (tryJobCreate cli job)) w = (None, w2)"
    using assms(1,2) unfolding makes_attempts_def by blast
  then show ?thesis by (simp add: retryJobCreate_def)
qed

lemma retry_only_after_create:
  assumes "library L" and "run_state (retryJobCreate L cli job t) w = (Ok (), w')"
  shows "\<exists>v y. run_state (Create (jobs cli) job) v = (Inr y, w')"
proof -
  have poll: "polling (PollImmediate L)" using assms(1) by (simp add: library_def)
  have "fst (run_state (PollImmediate L 1 t (tryJobCreate cli job)) w) = None"
    and w': "w' = snd (run_state (PollImmediate L 1 t (tryJobCreate cli job)) w)"
    using assms(2) by (auto simp: retryJobCreate_def split: prod.splits option.splits)
  from polling.poll_success [OF poll this(1)] w' obtain v where
    "run_state (tryJobCreate cli job) v = ((True, None), w')" by auto
  then show ?thesis by (auto simp: tryJobCreate_def split: prod.splits sum.splits)
qed

lemma retry_fails:
  assumes "library L" and fail: "\<And>v. \<exists>e. fst (run_state (Create (jobs cli) job) v) = Inl e"
  shows "\<exists>e. fst (run_state (retryJobCreate L cli job t) w) = Err e"
proof -
  have "fst (run_state (tryJobCreate cli job) v) = (False, None)" for v
    using fail [of v] by (auto simp: tryJobCreate_def split: prod.split)
  then have "fst (run_state (PollImmediate L 1 t (tryJobCreate cli job)) w) \<noteq> None"
    using assms(1) by (intro polling.poll_timeout) (simp_all add: library_def)
  then show ?thesis by (auto simp: retryJobCreate_def split: prod.splits option.splits)
qed

lemma recreate_run:
  assumes "Exist (job_Meta current) (OwnerLabels s)" and "JobConfigChanged (DeepEqual L) current desired = Some u"
    and "run_state (Delete (jobs cli) u) w = (d, w1)"
  shows "run_state (recreateJobIfNeeded L cli s current desired) w =
    (if d = None \<or> IsNotFound L (the d) then run_state (retryJobCreate L cli u 3) w1 else (Err (ApiErr (the d)), w1))"
  using assms by (cases d) (auto simp: recreateJobIfNeeded_def)

text \<open>C29: A drifted Job of this Sesame is deleted and then created anew. If the deletion fails, other than
  because the Job is gone, that error is returned and nothing is created. Otherwise the creation is tried
  again while it fails, as often as the poller has time for, and the first that succeeds ends the handler
  with success; the handler succeeds only after such a creation, and it reports an error when every
  creation fails.\<close>

theorem job_recreation_retried:
  assumes lib: "library L" and poller: "makes_attempts (PollImmediate L) 1 3 k"
    and owned: "Exist (job_Meta current) (OwnerLabels s)"
    and drift: "JobConfigChanged (DeepEqual L) current desired = Some u"
    and del: "run_state (Delete (jobs cli) u) w = (d, w1)"
    and run: "run_state (recreateJobIfNeeded L cli s current desired) w = (r, w')"
  shows "(\<forall>e. d = Some e \<and> \<not> IsNotFound L e \<longrightarrow> r = Err (ApiErr e) \<and> w' = w1) \<and>
    (d = None \<or> IsNotFound L (the d) \<longrightarrow>
      (\<forall>j w2 y w3. j < k \<and> failed_creates cli u j w1 = Some w2 \<and>
         run_state (Create (jobs cli) u) w2 = (Inr y, w3) \<longrightarrow> r = Ok () \<and> w' = w3) \<and>
      (r = Ok () \<longrightarrow> (\<exists>v y. run_state (Create (jobs cli) u) v = (Inr y, w'))) \<and>
      ((\<forall>v. \<exists>e. fst (run_state (Create (jobs cli) u) v) = Inl e) \<longrightarrow> (\<exists>e. r = Err e)))"
proof (cases "d = None \<or> IsNotFound L (the d)")
  case True
  have r: "run_state (retryJobCreate L cli u 3) w1 = (r, w')"
    using recreate_run [OF owned drift del] run True by simp
  have "r = Ok () \<and> w' = w3"
    if "j < k" "failed_creates cli u j w1 = Some w2" "run_state (Create (jobs cli) u) w2 = (Inr y, w3)" for j w2 y w3
    using retry_succeeds [OF poller that] r by simp
  moreover have "\<exists>v y. run_state (Create (jobs cli) u) v = (Inr y, w')" if "r = Ok ()"
    using retry_only_after_create [OF lib] r that by blast
  moreover have "\<exists>e. r = Err e" if "\<forall>v. \<exists>e. fst (run_state (Create (jobs cli) u) v) = Inl e"
    using retry_fails [OF lib, of cli u 3 w1] that r by auto
  ultimately show ?thesis using True by auto
next
  case False
  then show ?thesis using recreate_run [OF owned drift del] run by (cases d) auto
qed

definition old_job :: Job where
  "old_job = (DesiredJob sample ''img'')\<lparr>job_Spec := (job_Spec (DesiredJob sample ''img''))\<lparr>
     js_Parallelism := None\<rparr>\<rparr>"

text \<open>The deletion succeeds, two creations fail, the third succeeds.\<close>

theorem job_recreation_retried_witness:
  "run_state (recreateJobIfNeeded std_lib mem_client sample old_job (DesiredJob sample ''img''))
     (empty_mem\<lparr>m_jobs := [old_job], m_faults := [None, Some ''Conflict'', Some ''Conflict'']\<rparr>) =
   (Ok (), empty_mem\<lparr>m_jobs := [DesiredJob sample ''img'']\<rparr>)"
proof -
  let ?d = "DesiredJob sample ''img''"
    and ?w = "empty_mem\<lparr>m_jobs := [old_job], m_faults := [None, Some ''Conflict'', Some ''Conflict'']\<rparr>"
  let ?w1 = "empty_mem\<lparr>m_jobs := [], m_faults := [Some ''Conflict'', Some ''Conflict'']\<rparr>"
    and ?w2 = "empty_mem\<lparr>m_jobs := [], m_faults := []\<rparr>" and ?w3 = "empty_mem\<lparr>m_jobs := [?d], m_faults := []\<rparr>"
  obtain r w' where run: "run_state (recreateJobIfNeeded std_lib mem_client sample old_job ?d) ?w = (r, w')" by fastforce
  have owned: "Exist (job_Meta old_job) (OwnerLabels sample)" by (simp add: old_job_def)
  have drift: "JobConfigChanged (DeepEqual std_lib) old_job ?d = Some ?d"
    by (simp add: JobConfigChanged_def Let_def set_if_def updated_if_def old_job_def DesiredJob_def
        OwningSelector_def owner_labels_missing_def)
  have "nsname (job_Meta old_job) = nsname (job_Meta ?d)" by (simp add: old_job_def)
  then have del: "run_state (Delete (jobs mem_client) ?d) ?w = (None, ?w1)"
    by (simp add: mem_kind_def with_fault_def lookup_obj_def del_obj_def)
  have fails: "failed_creates mem_client ?d 2 ?w1 = Some ?w2"
    by (simp add: mem_kind_def with_fault_def numeral_2_eq_2)
  have create: "run_state (Create (jobs mem_client) ?d) ?w2 = (Inr ?d, ?w3)"
    by (simp add: mem_kind_def with_fault_def lookup_obj_def put_obj_def del_obj_def)
  have poller: "makes_attempts (PollImmediate std_lib) 1 3 4" using poll_n_attempts [of 3] by simp
  have "r = Ok () \<and> w' = ?w3"
    using job_recreation_retried [OF std_library poller owned drift del run] fails create
    by (metis numeral_less_iff semiring_norm(76,78))
  moreover have "?w3 = empty_mem\<lparr>m_jobs := [?d]\<rparr>" by (simp add: empty_mem_def)
  ultimately show ?thesis using run by simp
qed

end
