(* ===== verification/Status_Theorems.thy ===== *)
theory Status_Theorems
  imports Samples
begin

text \<open>
  Properties of the status: when a Sesame is reported available, how a condition is merged, how the
  errors of a reconciliation are aggregated, and when the unbounded retries of \<open>SyncSesame\<close> end.
\<close>

section \<open>Conditions\<close>

text \<open>C32: A Sesame is reported available exactly when both workloads exist, at least one Envoy pod is
  available, and the first Available condition of the Deployment with a known status is true; it is
  reported unavailable when a workload is missing, and the reported condition is always of type
  Available.\<close>

theorem available_exactly_when:
  "(cond_Status (computeSesameAvailableCondition d x) = ConditionTrue \<longleftrightarrow>
      (\<exists>dep ds. d = Some dep \<and> x = Some ds \<and> sint (dms_NumberAvailable ds) > 0 \<and>
         has_available ConditionTrue (dep_Conditions dep))) \<and>
   (cond_Status (computeSesameAvailableCondition None x) = ConditionFalse \<and>
    cond_Status (computeSesameAvailableCondition d None) = ConditionFalse) \<and>
   cond_Type (computeSesameAvailableCondition d x) = SesameAvailableConditionType"
  by (cases d; cases x)
    (auto simp: computeSesameAvailableCondition_def available_loop_status available_cond_def)

text \<open>The condition of the type of the update, when the list has one.\<close>

lemma one_of_type:
  assumes "conditions_ok cs" and "find (\<lambda>c. cond_Type c = k) cs = Some x"
    and "\<And>c. cond_Type (f c) = cond_Type c"
  shows "filter (\<lambda>c. cond_Type c = k) (map f cs) = [f x]"
  using assms(1,2)
proof (induction cs)
  case (Cons y ys)
  show ?case
  proof (cases "cond_Type y = k")
    case True
    then have "filter (\<lambda>c. cond_Type c = k) (map f ys) = []"
      using Cons.prems(1) assms(3) by (auto simp: conditions_ok_def filter_empty_conv image_iff)
    with True Cons.prems(2) assms(3) show ?thesis by simp
  next
    case False
    with Cons assms(3) show ?thesis by (simp add: conditions_ok_def)
  qed
qed simp

lemma merge_absent:
  assumes "conditions_ok cs" and "cond_Type u \<notin> set (map cond_Type cs)"
  shows "filter (\<lambda>c. cond_Type c \<noteq> cond_Type u) (mergeConditions now cs [u]) =
      filter (\<lambda>c. cond_Type c \<noteq> cond_Type u) cs"
    "filter (\<lambda>c. cond_Type c = cond_Type u) (mergeConditions now cs [u]) = [u\<lparr>cond_LastTransitionTime := now\<rparr>]"
    "find (\<lambda>c. cond_Type c = cond_Type u) cs = None"
  using assms(2) by (auto simp: mergeConditions_one [OF assms(1)] filter_empty_conv find_None_iff image_iff)

lemma merge_present:
  assumes ok: "conditions_ok cs" and c: "find (\<lambda>c. cond_Type c = cond_Type u) cs = Some x"
  shows "filter (\<lambda>c. cond_Type c \<noteq> cond_Type u) (mergeConditions now cs [u]) =
      filter (\<lambda>c. cond_Type c \<noteq> cond_Type u) cs"
    "filter (\<lambda>c. cond_Type c = cond_Type u) (mergeConditions now cs [u]) = [merged_cond now u x]"
proof -
  let ?f = "\<lambda>c. if cond_Type c = cond_Type u then merged_cond now u c else c"
  have x: "x \<in> set cs" "cond_Type x = cond_Type u" using c by (auto simp: find_Some_iff)
  then have "cond_Type u \<in> set (map cond_Type cs)" by (metis image_eqI set_map)
  then have merged: "mergeConditions now cs [u] = map ?f cs" by (simp add: mergeConditions_one [OF ok])
  have "filter (\<lambda>c. cond_Type c \<noteq> cond_Type u) (map ?f l) = filter (\<lambda>c. cond_Type c \<noteq> cond_Type u) l" for l
    by (induction l) (auto simp: merged_cond_def)
  then show "filter (\<lambda>c. cond_Type c \<noteq> cond_Type u) (mergeConditions now cs [u]) =
      filter (\<lambda>c. cond_Type c \<noteq> cond_Type u) cs" by (simp only: merged)
  show "filter (\<lambda>c. cond_Type c = cond_Type u) (mergeConditions now cs [u]) = [merged_cond now u x]"
    using one_of_type [OF ok c, of ?f] x(2) by (simp add: merged merged_cond_def)
qed

text \<open>C31: Merging a condition into a list with one condition per type keeps that property and the
  conditions of other types; the condition of its type gets the new details, with the old transition
  time when the status is the same and the current time otherwise; merging it again, at whatever
  later time, changes nothing. (So the transition time stays when only the reason or the message
  changes, as the Kubernetes API defines it; the comment above the function promises an update
  whenever any detail has changed.)\<close>

theorem merge_one_condition:
  assumes ok: "conditions_ok cs"
  shows "conditions_ok (mergeConditions now cs [u]) \<and>
    filter (\<lambda>c. cond_Type c \<noteq> cond_Type u) (mergeConditions now cs [u]) =
      filter (\<lambda>c. cond_Type c \<noteq> cond_Type u) cs \<and>
    filter (\<lambda>c. cond_Type c = cond_Type u) (mergeConditions now cs [u]) =
      [u\<lparr>cond_LastTransitionTime := (case find (\<lambda>c. cond_Type c = cond_Type u) cs of
          None \<Rightarrow> now
        | Some c \<Rightarrow> (if cond_Status c = cond_Status u then cond_LastTransitionTime c else now))\<rparr>] \<and>
    mergeConditions later (mergeConditions now cs [u]) [u] = mergeConditions now cs [u]"
proof (cases "find (\<lambda>c. cond_Type c = cond_Type u) cs")
  case None
  then have "cond_Type u \<notin> set (map cond_Type cs)" by (auto simp: find_None_iff)
  from merge_absent [OF ok this] show ?thesis
    using mergeConditions_ok [OF ok] mergeConditions_again [OF ok] by simp
next
  case (Some x)
  from merge_present [OF ok Some] show ?thesis
    using Some mergeConditions_ok [OF ok] mergeConditions_again [OF ok] by (simp add: merged_cond_def)
qed

definition old_condition :: Condition where
  "old_condition = (available_cond ConditionFalse ''SesameUnavailable'' ''x'')\<lparr>cond_LastTransitionTime := 5\<rparr>"

theorem merge_one_condition_witness:
  "map cond_LastTransitionTime (mergeConditions 9 [old_condition]
     [available_cond ConditionFalse ''SesameUnavailable'' ''y'']) = [5] \<and>
   map cond_LastTransitionTime (mergeConditions 9 [old_condition]
     [available_cond ConditionTrue ''SesameAvailable'' ''y'']) = [9] \<and>
   conditions_ok (mergeConditions 9 [old_condition] [available_cond ConditionTrue ''SesameAvailable'' ''y''])"
  using merge_one_condition [of "[old_condition]" 9 "available_cond ConditionTrue ''SesameAvailable'' ''y''" 9]
  by (simp add: old_condition_def available_cond_def mergeConditions_def conditionChanged_def
      conditions_ok_def)

section \<open>Aggregated errors\<close>

text \<open>C33: The aggregate of errors is nil exactly when no error is left after dropping the nil ones;
  if all that are left are retryable it is retryable after the smallest of their delays, and otherwise
  it is the plain aggregate.\<close>

theorem maybe_retryable_aggregate:
  assumes agg: "aggregator newAggregate" and es: "es = map the (filter (\<lambda>e. e \<noteq> None) errs)"
  shows "NewMaybeRetryableAggregate newAggregate errs =
    (if es = [] then None
     else if list_all (\<lambda>e. retryable_After e \<noteq> None) es
     then Some (RetryableErr (Aggregate es) (Min (set (map (the \<circ> retryable_After) es))))
     else Some (Aggregate es))"
proof -
  have new: "newAggregate errs = (if es = [] then None else Some es)"
    using aggregator.aggregate_filter [OF agg, of errs] by (simp add: es Let_def)
  show ?thesis
  proof (cases "after_loop es False 0")
    case None
    then have "\<exists>e \<in> set es. retryable_After e = None" by (simp only: after_loop_None)
    with None new show ?thesis
      by (auto simp: NewMaybeRetryableAggregate_def list_all_iff)
  next
    case (Some d)
    then have all: "list_all (\<lambda>e. retryable_After e \<noteq> None) es"
      using after_loop_None [of es False 0] by (auto simp: list_all_iff)
    have "es \<noteq> [] \<Longrightarrow> d = Min (set (map (the \<circ> retryable_After) es))"
      using Some by (cases es) (auto dest: after_loop_first simp: image_comp simp del: after_loop.simps)
    with Some all new show ?thesis
      by (simp add: NewMaybeRetryableAggregate_def NewRetryable_def)
  qed
qed

theorem maybe_retryable_aggregate_witness:
  "NewMaybeRetryableAggregate aggregate_std [Some (RetryableErr wrong_address 7), None,
     Some (RetryableErr wrong_address 3)] =
   Some (RetryableErr (Aggregate [RetryableErr wrong_address 7, RetryableErr wrong_address 3]) 3)"
  using maybe_retryable_aggregate [OF agg.aggregator_axioms refl, of
      "[Some (RetryableErr wrong_address 7), None, Some (RetryableErr wrong_address 3)]"]
  by simp

end
