(* ===== verification/Sync_Theorems.thy ===== *)
theory Sync_Theorems
  imports Samples
begin

text \<open>
  Properties of \<open>SyncSesame\<close>: its retries end when the server's conflicts do, never end against a
  server that always reports a conflict, and otherwise one call writes the computed status, after
  which a second call has nothing to write.
\<close>

section \<open>The server in memory as a provider\<close>

lemma conflict_fault: "contains_str ''not found'' conflict_text = False"
  by (simp add: conflict_text_def)

interpretation mem_conflicts: finite_conflicts std_lib mem_client "\<lambda>w. length (m_faults w)"
  by unfold_locales
    (auto simp: mem_kind_def mem_client_def with_fault_def api_fail_def conflict_fault
      simp del: contains_str.simps split: list.splits option.splits)

lemma sample_conditions: "Conditions (Status sample) = []"
  by (simp add: sample_def New_def Let_def)

lemma sample_stored: "lookup_obj Meta (m_sesames sample_mem) (nsname (Meta sample)) = Some sample"
  by (simp add: lookup_obj_def)

section \<open>Termination\<close>

text \<open>C21: \<open>SyncSesame\<close> calls itself at every conflict without a bound. If only finitely many
  conflicts can still come from the server, it returns, with as many calls as conflicts and one
  more, and the outcome is the same for every larger bound.\<close>

theorem sync_returns:
  assumes bound: "finite_conflicts L cli \<mu>" and fuel: "\<mu> w < n"
  shows "\<exists>r w'. run_state (SyncSesame n L cli s) w = (Some r, w') \<and>
    run_state (SyncSesame (n + k) L cli s) w = (Some r, w')"
  using finite_conflicts.sync_ends [OF bound fuel, of s] SyncSesame_more [of n L cli s w k]
  by (cases "run_state (SyncSesame n L cli s) w") auto

theorem sync_returns_witness:
  "\<exists>r w'. run_state (SyncSesame 2 std_lib mem_client sample)
      (sample_mem\<lparr>m_faults := [Some conflict_text]\<rparr>) = (Some r, w') \<and>
    run_state (SyncSesame (2 + 5) std_lib mem_client sample)
      (sample_mem\<lparr>m_faults := [Some conflict_text]\<rparr>) = (Some r, w')"
  by (rule sync_returns [OF mem_conflicts.finite_conflicts_axioms]) simp

text \<open>A server that answers every update of a status with a conflict.\<close>

definition always_conflict :: "'w client \<Rightarrow> 'w client" where
  "always_conflict cli = cli\<lparr>status_update := (\<lambda>s. ret (Some (api_fail ''Conflict'' conflict_text)))\<rparr>"

lemma always_conflict_simps [simp]:
  "sesames (always_conflict cli) = sesames cli" "deployments (always_conflict cli) = deployments cli"
  "daemonsets (always_conflict cli) = daemonsets cli"
  "status_update (always_conflict cli) s = ret (Some (api_fail ''Conflict'' conflict_text))"
  by (simp_all add: always_conflict_def)

lemma mem_reads:
  "m_faults w = [] \<Longrightarrow> snd (run_state (Get (mem_kind sel upd meta) k) w) = w"
  "m_faults w = [] \<Longrightarrow> lookup_obj meta (sel w) k = Some x \<Longrightarrow>
     run_state (Get (mem_kind sel upd meta) k) w = (Inr x, w)"
  by (auto simp: mem_kind_def with_fault_def split: option.split)

lemma merge_not_nil: "mergeConditions now cs [u] \<noteq> []" if "cs = []"
  using that by (simp add: mergeConditions_def)

lemma contains_itself: "contains_str s s"
  by (auto simp: contains_str_iff intro: exI [of _ "[]"])

text \<open>C23: Against a server that answers every update of a status with a conflict, a Sesame without
  conditions is never synchronised: no bound on the number of calls is enough.\<close>

theorem sync_diverges:
  assumes quiet: "m_faults w = []"
    and stored: "lookup_obj Meta (m_sesames w) (nsname (Meta s)) = Some t"
    and fresh: "Conditions (Status t) = []"
  shows "run_state (SyncSesame n std_lib (always_conflict mem_client) s) w = (None, w)"
  using stored
proof (induction n arbitrary: s)
  case (Suc n)
  have key: "nsname (Meta t) = nsname (Meta s)" by (rule lookup_key [OF Suc.prems])
  have again: "run_state (SyncSesame n std_lib (always_conflict mem_client) (t\<lparr>Status := st\<rparr>)) w = (None, w)" for st
    using Suc.IH [of "t\<lparr>Status := st\<rparr>"] Suc.prems key by simp
  have changed: "SesameStatusChanged semDeepEqual (Status t) (new_status now t d x)" for now d x
    using merge_not_nil [OF refl, THEN not_sym]
    by (auto simp: SesameStatusChanged_def new_status_def fresh Let_def split: option.split)
  have "snd (run_state (CurrentDeployment (always_conflict mem_client) t) w) = w"
    "snd (run_state (CurrentDaemonSet (always_conflict mem_client) t) w) = w"
    by (simp_all add: CurrentDeployment_def CurrentDaemonSet_def mem_reads(1) [OF quiet])
  then obtain d x where d: "run_state (CurrentDeployment (always_conflict mem_client) t) w = (d, w)"
    and x: "run_state (CurrentDaemonSet (always_conflict mem_client) t) w = (x, w)"
    by (metis prod.collapse)
  have g: "run_state (Get (mem_kind m_sesames m_sesames_update Meta)
      \<lparr>nn_Namespace = sesame_namespace s, nn_Name = sesame_name s\<rparr>) w = (Inr t, w)"
    using mem_reads(2) [OF quiet, where sel = m_sesames, OF Suc.prems] by (simp add: nsname_def)
  show ?case
    by (simp add: SyncSesame.simps g d x Let_def changed again api_fail_def contains_itself)
qed (simp add: SyncSesame.simps)

theorem sync_diverges_witness:
  "run_state (SyncSesame 100 std_lib (always_conflict mem_client) sample) sample_mem = (None, sample_mem)"
  by (rule sync_diverges [of _ _ sample])
    (simp_all add: sample_stored [simplified] sample_conditions)

section \<open>The status written\<close>

text \<open>The Deployment and the DaemonSet the status of a Sesame is computed from.\<close>

definition stored_deployment :: "mem \<Rightarrow> Sesame \<Rightarrow> Deployment option" where
  "stored_deployment w s = lookup_obj dep_Meta (m_deployments w)
     \<lparr>nn_Namespace = spec_ns s, nn_Name = SesameDeploymentName\<rparr>"

definition stored_daemonset :: "mem \<Rightarrow> Sesame \<Rightarrow> DaemonSet option" where
  "stored_daemonset w s = lookup_obj dms_Meta (m_daemonsets w)
     \<lparr>nn_Namespace = spec_ns s, nn_Name = envoyDaemonSetName\<rparr>"

lemma workload_reads:
  assumes "m_faults w = []"
  shows "\<exists>d x. run_state (CurrentDeployment mem_client s) w = (d, w) \<and>
    run_state (CurrentDaemonSet mem_client s) w = (x, w) \<and>
    read_value d = stored_deployment w s \<and> read_value x = stored_daemonset w s \<and>
    (read_errs wrap d = [] \<longleftrightarrow> stored_deployment w s \<noteq> None) \<and>
    (read_errs wrap' x = [] \<longleftrightarrow> stored_daemonset w s \<noteq> None)"
  using assms
  by (auto simp: CurrentDeployment_def CurrentDaemonSet_def stored_deployment_def
      stored_daemonset_def mem_kind_def with_fault_def split: option.split)

text \<open>One call on the server in memory, for a stored Sesame.\<close>

lemma sync_mem:
  assumes lib: "library L" and quiet: "m_faults w = []"
    and stored: "lookup_obj Meta (m_sesames w) (nsname (Meta s)) = Some t"
  defines "new \<equiv> new_status (fst (run_state (Now L) w)) t (stored_deployment w t) (stored_daemonset w t)"
  shows "\<exists>r. run_state (SyncSesame (Suc n) L mem_client s) w = (Some r,
      if SesameStatusChanged (DeepEqual L) (Status t) new
      then w\<lparr>m_sesames := put_obj Meta (t\<lparr>Status := new\<rparr>) (m_sesames w)\<rparr> else w) \<and>
    (r = Ok () \<longleftrightarrow> stored_deployment w t \<noteq> None \<and> stored_daemonset w t \<noteq> None)"
proof -
  have agg: "agg_res L es = Ok () \<longleftrightarrow> es = []" for es
    using aggregator.aggregate_errors [of "NewAggregate L" es] lib
    by (auto simp: agg_res_def library_def NewMaybeRetryableAggregate_def split: option.split)
  have key: "nsname (Meta t) = nsname (Meta s)" by (rule lookup_key [OF stored])
  have g: "run_state (Get (mem_kind m_sesames m_sesames_update Meta)
      \<lparr>nn_Namespace = sesame_namespace s, nn_Name = sesame_name s\<rparr>) w = (Inr t, w)"
    using mem_reads(2) [OF quiet, where sel = m_sesames, OF stored] by (simp add: nsname_def)
  obtain now where now: "run_state (Now L) w = (now, w)"
    using library.now_reads [OF lib, of w] by (metis prod.collapse)
  have put: "run_state (status_update mem_client (t\<lparr>Status := st\<rparr>)) w =
      (None, w\<lparr>m_sesames := put_obj Meta (t\<lparr>Status := st\<rparr>) (m_sesames w)\<rparr>)" for st
    using quiet stored key by (simp add: mem_client_def with_fault_def)
  let ?args = "[sesame_namespace t, sesame_name t]"
  obtain d x where "run_state (CurrentDeployment mem_client t) w = (d, w)"
    "run_state (CurrentDaemonSet mem_client t) w = (x, w)"
    "read_value d = stored_deployment w t" "read_value x = stored_daemonset w t"
    "read_errs (Wrapf ''failed to get deployment for sesame %s/%s status: %w'' ?args) d = [] \<longleftrightarrow>
       stored_deployment w t \<noteq> None"
    "read_errs (Wrapf ''failed to get daemonset for sesame %s/%s status: %w'' ?args) x = [] \<longleftrightarrow>
       stored_daemonset w t \<noteq> None"
    using workload_reads [OF quiet] by metis
  then show ?thesis
    by (subst SyncSesame.simps) (simp add: g now put Let_def agg new_def)
qed

text \<open>The status computed again from the same workloads, at another time, is the same.\<close>

lemma new_status_again:
  assumes "conditions_ok (Conditions (Status t))"
  shows "new_status later (t\<lparr>Status := new_status now t d x\<rparr>) d x = new_status now t d x"
  using mergeConditions_again [OF assms]
  by (simp add: new_status_def Let_def split: option.split)

text \<open>C22: When the server answers, \<open>SyncSesame\<close> leaves the Sesame in the server with the status
  computed from its Deployment and its DaemonSet, every other object as it was, and reports an error
  exactly when one of the two is missing; a second call, whatever the clock then says, leaves the
  server as it is.\<close>

theorem sync_settles:
  assumes lib: "library L" "library L'" and quiet: "m_faults w = []"
    and exact: "\<And>a b. DeepEqual L (IConditions a) (IConditions b) \<longleftrightarrow> a = b"
      "\<And>a b. DeepEqual L' (IConditions a) (IConditions b) \<longleftrightarrow> a = b"
    and stored: "lookup_obj Meta (m_sesames w) (nsname (Meta s)) = Some t"
    and ok: "conditions_ok (Conditions (Status t))"
    and run: "run_state (SyncSesame (Suc n) L mem_client s) w = (r, w')"
  shows "lookup_obj Meta (m_sesames w') (nsname (Meta s)) = Some (t\<lparr>Status :=
      new_status (fst (run_state (Now L) w)) t (stored_deployment w t) (stored_daemonset w t)\<rparr>) \<and>
    w'\<lparr>m_sesames := []\<rparr> = w\<lparr>m_sesames := []\<rparr> \<and>
    (k \<noteq> nsname (Meta s) \<longrightarrow> lookup_obj Meta (m_sesames w') k = lookup_obj Meta (m_sesames w) k) \<and>
    (r = Some (Ok ()) \<longleftrightarrow> stored_deployment w t \<noteq> None \<and> stored_daemonset w t \<noteq> None) \<and>
    snd (run_state (SyncSesame (Suc n) L' mem_client s) w') = w'"
proof -
  let ?new = "\<lambda>now t. new_status now t (stored_deployment w t) (stored_daemonset w t)"
  let ?now = "fst (run_state (Now L) w)"
  let ?t = "t\<lparr>Status := ?new ?now t\<rparr>"
  have key: "nsname (Meta t) = nsname (Meta s)" by (rule lookup_key [OF stored])
  have same: "?new now ?t = ?new ?now t" for now
    using new_status_again [OF ok] by (simp add: stored_deployment_def stored_daemonset_def)
  have unchanged: "SesameStatusChanged (DeepEqual L) (Status t) st \<or> st = Status t" for st
    using exact(1) by (auto simp: SesameStatusChanged_def)
  have w': "w' = (if SesameStatusChanged (DeepEqual L) (Status t) (?new ?now t)
      then w\<lparr>m_sesames := put_obj Meta ?t (m_sesames w)\<rparr> else w)"
    and r: "r = Some (Ok ()) \<longleftrightarrow> stored_deployment w t \<noteq> None \<and> stored_daemonset w t \<noteq> None"
    using sync_mem [OF lib(1) quiet stored, of n] run by auto
  have stored': "lookup_obj Meta (m_sesames w') (nsname (Meta s)) = Some ?t"
    using unchanged [of "?new ?now t"] key stored by (auto simp: w')
  have others: "w'\<lparr>m_sesames := []\<rparr> = w\<lparr>m_sesames := []\<rparr>" by (simp add: w')
  then have frame: "m_faults w' = []" "stored_deployment w' ?t = stored_deployment w ?t"
    "stored_daemonset w' ?t = stored_daemonset w ?t"
    using quiet by (auto simp: w' stored_deployment_def stored_daemonset_def)
  have "snd (run_state (SyncSesame (Suc n) L' mem_client s) w') = w'"
    using sync_mem [OF lib(2) frame(1) stored', of n]
    by (auto simp: frame same SesameStatusChanged_def exact(2))
  with stored' others r key show ?thesis by (simp add: w')
qed

lemma library_at: "library (std_lib\<lparr>Now := ret t\<rparr>)"
  using std.library_axioms by (simp add: library_def library_axioms_def)

theorem sync_settles_witness:
  "let w = snd (run_state (SyncSesame 1 std_lib mem_client sample) sample_mem)
   in snd (run_state (SyncSesame 1 (std_lib\<lparr>Now := ret 1800000000\<rparr>) mem_client sample) w) = w \<and>
     lookup_obj Meta (m_sesames w) sample_req =
       Some (sample\<lparr>Status := new_status 1700000000 sample None None\<rparr>)"
  using sync_settles [OF std.library_axioms library_at [of 1800000000],
      where w = sample_mem and s = sample and t = sample and n = 0 and k = sample_req]
  by (cases "run_state (SyncSesame 1 std_lib mem_client sample) sample_mem")
    (simp add: lookup_obj_def [where t = "[x]" for x] lookup_obj_def [where t = "[]"]
      sample_conditions conditions_ok_def stored_deployment_def stored_daemonset_def sample_mem_def)

end
