(* ===== verification/Reconcile_Theorems.thy ===== *)
theory Reconcile_Theorems
  imports Handler_Theorems Validation_Theorems
begin

text \<open>
  Properties of \<open>Reconcile\<close>, the whole reaction to one request: what it may write, when the finalizer
  comes and goes, what must succeed first, and what it answers to the work queue.
\<close>

section \<open>What it may write\<close>

lemma pairs: "run_state m (w, []) =
    (fst (run_state m (w, [])), (fst (snd (run_state m (w, []))), snd (snd (run_state m (w, [])))))"
  by simp

text \<open>C1: Whatever the API server answers, the only mutating calls a reconciliation makes are updates
  of the requested Sesame or its status, and creations, updates and deletions of objects that carry
  the owner labels of the requested Sesame.\<close>

theorem Reconcile_only_touches_owned:
  assumes "library L" and "get_keyed cli"
    and run: "run_state (Reconcile n L (logged cli) cfg req) (w, []) = (r, (w', log))"
  shows "list_all (call_allowed req) log"
  using keepsD [OF guarded.keeps_Reconcile [OF guarded_logged [OF assms(1,2)]], of req "(w, [])" n cfg] run
  by (simp add: log_allowed_def)

theorem Reconcile_only_touches_owned_witness:
  "list_all (call_allowed sample_req)
     (snd (snd (run_state (Reconcile 3 std_lib (logged mem_client) sample_images sample_req)
        (sample_mem\<lparr>m_sesames := [sample\<lparr>Meta := (Meta sample)\<lparr>Finalizers := [SesameFinalizer]\<rparr>\<rparr>]\<rparr>, []))))"
  by (rule Reconcile_only_touches_owned [OF std.library_axioms mem_get_keyed, OF pairs])

section \<open>The finalizer\<close>

lemma logged_validate [simp]:
  "run_state (validate_Sesame (logged cli) s) (w, l) =
     (case run_state (validate_Sesame cli s) w of (x, w') \<Rightarrow> (x, (w', l)))"
  by (simp add: validate_Sesame_def OtherSesamesExistInSpecNs_def OtherSesamesExist_def
      split: prod.split)

text \<open>C19: A reconciliation of a Sesame that cannot be read makes no mutating call. Of a Sesame that is
  not being deleted, a reconciliation makes none either when it is not valid, and when it is valid but lacks the finalizer it
  makes exactly one, the update that adds the finalizer. (Deletion neither validates the Sesame nor asks
  for the finalizer.)\<close>

theorem finalizer_comes_first:
  assumes get: "run_state (Get (sesames cli) req) w = (g, w1)"
    and early: "\<And>s. g = Inr s \<Longrightarrow> timestamp_is_zero (DeletionTimestamp (Meta s)) \<and>
      (\<not> IsFinalized s \<or> fst (run_state (validate_Sesame cli s) w1) \<noteq> Ok ())"
    and run: "run_state (Reconcile n L (logged cli) cfg req) (w, []) = (r, (w', log))"
  shows "log = (case g of
      Inl e \<Rightarrow> []
    | Inr s \<Rightarrow> (if fst (run_state (validate_Sesame cli s) w1) = Ok ()
        then [mk_call VUpdate RSesame ((Meta s)\<lparr>Finalizers := Finalizers (Meta s) @ [SesameFinalizer]\<rparr>)]
        else []))"
proof (cases g)
  case (Inl e)
  then show ?thesis using get run by (simp add: Reconcile_def)
next
  case (Inr s)
  obtain v w2 where v: "run_state (validate_Sesame cli s) w1 = (v, w2)" by fastforce
  show ?thesis
    using get run early [OF Inr] Inr v
    by (cases v) (auto simp: Reconcile_def EnsureFinalizer_def IsFinalized_iff split: prod.splits)
qed

theorem finalizer_comes_first_witness:
  "snd (snd (run_state (Reconcile 3 std_lib (logged mem_client) sample_images sample_req) (sample_mem, []))) =
     [mk_call VUpdate RSesame ((Meta sample)\<lparr>Finalizers := [SesameFinalizer]\<rparr>)]"
proof -
  have get: "run_state (Get (sesames mem_client) sample_req) sample_mem = (Inr sample, sample_mem)"
    by (simp add: mem_run lookup_obj_def)
  obtain r w' log where run: "run_state (Reconcile 3 std_lib (logged mem_client) sample_images sample_req)
      (sample_mem, []) = (r, (w', log))" by (metis prod.collapse)
  show ?thesis
    using finalizer_comes_first [OF get _ run] run
    by (simp add: timestamp_is_zero_def IsFinalized_iff sample_valid)
qed

text \<open>C9: The finalizer of a Sesame that is being deleted is only removed after all deletions
  succeeded, and then none of its workloads, Services and its ConfigMap is left, except for those
  already on their way out; if a deletion fails the deletion of the Sesame fails, and the world is
  the one the deletions left.\<close>

theorem finalizer_removed_last:
  assumes lib: "library L"
    and sep: "separate_kinds L cli vsvc asvc vdms adms vdep adep vjob ajob vcm acm"
    and run: "run_state (ensureSesameDeleted L cli s) w = (r, w')"
  shows "\<exists>p w1. run_state (delete_resources L cli s) w = (p, w1) \<and>
    (p = Ok [] \<and> all_released s (vsvc w1) (vdms w1) (vdep w1) (vjob w1) (vcm w1) \<and>
       w' = snd (run_state (EnsureFinalizerRemoved cli s) w1) \<or>
     p \<noteq> Ok [] \<and> r \<noteq> Ok () \<and> w' = w1)"
proof -
  obtain p w1 where p: "run_state (delete_resources L cli s) w = (p, w1)" by fastforce
  have agg: "NewAggregate L (map Some es) = (if es = [] then None else Some es)" for es
    using lib by (simp add: library_def aggregator.aggregate_errors)
  show ?thesis
  proof (cases "p = Ok []")
    case True
    with p separate_kinds.deletions_release [OF sep] run show ?thesis
      by (auto simp: ensureSesameDeleted_def run_and_then split: prod.splits)
  next
    case False
    with p run agg show ?thesis
      by (cases p) (auto simp: ensureSesameDeleted_def run_and_then)
  qed
qed

definition sample_deleted :: Sesame where
  "sample_deleted = sample\<lparr>Meta := (Meta sample)\<lparr>Finalizers := [SesameFinalizer],
     DeletionTimestamp := Some 7\<rparr>\<rparr>"

theorem finalizer_removed_last_witness:
  "\<exists>p w1. run_state (delete_resources std_lib mem_client sample_deleted)
      (empty_mem\<lparr>m_sesames := [sample_deleted], m_deployments := [DesiredDeployment sample ''img'']\<rparr>) = (p, w1) \<and>
    (p = Ok [] \<and> all_released sample_deleted (lookup_obj svc_Meta (m_services w1))
       (lookup_obj dms_Meta (m_daemonsets w1)) (lookup_obj dep_Meta (m_deployments w1))
       (lookup_obj job_Meta (m_jobs w1)) (lookup_obj cm_Meta (m_configmaps w1)) \<or>
     p \<noteq> Ok [])"
  using finalizer_removed_last [OF std.library_axioms mem_separate.separate_kinds_axioms, of sample_deleted
      "empty_mem\<lparr>m_sesames := [sample_deleted], m_deployments := [DesiredDeployment sample ''img'']\<rparr>"]
  by (metis prod.collapse)

section \<open>Prerequisites\<close>

text \<open>C20: When the namespace or the RBAC objects cannot be ensured, no workload, Service, Job or
  ConfigMap is created, updated or deleted: beyond the prerequisites only the status is written, and
  the reconciliation does not succeed.\<close>

theorem prerequisites_come_first:
  assumes lib: "library L" and keyed: "get_keyed cli"
    and pre: "fst (run_state (ensure_prerequisites L (logged cli) s) (w, [])) = Ok errs" "errs \<noteq> []"
    and run: "run_state (ensureSesame n L (logged cli) cfg s) (w, []) = (r, (w', log))"
  shows "list_all prerequisite_call log \<and> r \<noteq> Some (Ok ())"
proof -
  note core = guarded_core_logged [OF lib keyed]
  obtain v where v: "run_state (ensure_prerequisites L (logged cli) s) (w, []) = (Ok errs, v)"
    using pre(1) by (metis prod.collapse)
  then have "log_prerequisites v"
    using keepsD [OF guarded_core.keeps_ensure_prerequisites [OF core refl], of "(w, [])" s]
    by (simp add: log_prerequisites_def)
  moreover have sync: "run_state (syncSesameStatus n L (logged cli) s errs) v = (r, (w', log))"
    using run v pre(2) by (simp add: ensureSesame_def)
  ultimately have "log_prerequisites (w', log)"
    using keepsD [OF guarded_core.keeps_syncSesameStatus [OF core refl, where s = s and n = n and errs = errs], of v]
    by simp
  moreover have "r \<noteq> Some (Ok ())"
    using sync pre(2) agg_res_nil [OF lib]
    by (auto simp: syncSesameStatus_def split: prod.splits option.splits res.splits)
  ultimately show ?thesis by (simp add: log_prerequisites_def)
qed

theorem prerequisites_come_first_witness:
  "list_all prerequisite_call (snd (snd (run_state (ensureSesame 3 std_lib (logged mem_client) sample_images sample)
     (sample_mem\<lparr>m_faults := [Some ''boom'', Some ''boom'']\<rparr>, []))))"
proof -
  have "\<exists>errs. fst (run_state (ensure_prerequisites std_lib (logged mem_client) sample)
      (sample_mem\<lparr>m_faults := [Some ''boom'', Some ''boom'']\<rparr>, [])) = Ok errs \<and> errs \<noteq> []"
    by (simp add: ensure_prerequisites_def handleResult_def run_and_then EnsureNamespace_def Let_def
        currentSpecNsName_def mem_run EnsureRBAC_def wrapped_def ensure_accounts.simps
        EnsureServiceAccount_def CurrentServiceAccount_def rbac_names_def)
  then show ?thesis
    using prerequisites_come_first [OF std.library_axioms mem_get_keyed _ _ pairs] by blast
qed

section \<open>The answer to the work queue\<close>

definition not_retryable :: "error \<Rightarrow> bool" where
  "not_retryable e \<longleftrightarrow> retryable_After e = None"

lemma agg_res_not_retryable:
  assumes "library L" and "list_all not_retryable es"
  shows "agg_res L es = Ok () \<or> (\<exists>e. agg_res L es = Err e \<and> not_retryable e)"
  using assms aggregator.aggregate_errors [of "NewAggregate L" es] after_loop_None [of es False 0]
  by (cases es) (auto simp: agg_res_def library_def NewMaybeRetryableAggregate_def not_retryable_def
      list_all_iff split: option.split)

definition calm :: "error list res \<Rightarrow> bool" where
  "calm r \<longleftrightarrow> (case r of Ok es \<Rightarrow> list_all not_retryable es | Err e \<Rightarrow> False | Panic \<Rightarrow> True)"

lemma calm_handleResult:
  assumes "list_all not_retryable errs"
  shows "calm (fst (run_state (handleResult (ensure_err s) resource m errs) w))"
    "calm (fst (run_state (handleResult (delete_err s) resource m errs) w))"
  using assms
  by (auto simp: handleResult_def calm_def ensure_err_def delete_err_def not_retryable_def
      split: prod.split res.split)

lemma calm_and_then:
  assumes "\<And>w. calm (fst (run_state m w))"
    and "\<And>es w. list_all not_retryable es \<Longrightarrow> calm (fst (run_state (f es) w))"
  shows "calm (fst (run_state (and_then m f) w))"
proof -
  obtain r w1 where m: "run_state m w = (r, w1)" by fastforce
  with assms(1) [of w] have "calm r" by simp
  then show ?thesis using m assms(2) [of _ w1] by (cases r) (simp_all add: run_and_then calm_def)
qed

lemma calm_ensure:
  "calm (fst (run_state (ensure_prerequisites L cli s) w))"
  "list_all not_retryable errs \<Longrightarrow> calm (fst (run_state (ensure_workloads L cli cfg s errs) w))"
  unfolding ensure_prerequisites_def ensure_workloads_def Let_def
  by (auto intro!: calm_and_then calm_handleResult) (simp add: calm_def)

lemma calm_delete: "calm (fst (run_state (delete_resources L cli s) w))"
proof -
  have last: "calm (fst (run_state (do { (e, r) \<leftarrow> EnsureNamespaceDeleted L cli s;
      if e then handleResult (delete_err s) rn (ret r) errs else ret (Ok errs) }) v))"
    if "list_all not_retryable errs" for rn errs v
    using calm_handleResult(2) [OF that] that
    by (auto simp: calm_def split: prod.split)
  show ?thesis
    unfolding delete_resources_def Let_def
    by (auto intro!: calm_and_then calm_handleResult last) (simp add: calm_def)
qed

lemma syncSesameStatus_not_retryable:
  assumes "library L" and "list_all not_retryable errs"
    and "fst (run_state (syncSesameStatus n L cli s errs) w) = Some (Err e)"
  shows "not_retryable e"
proof -
  have "list_all not_retryable (errs @ [Wrapf f args x])" for f args x
    using assms(2) by (simp add: not_retryable_def)
  from agg_res_not_retryable [OF assms(1) this]
  have "agg_res L (errs @ [Wrapf f args x]) = Err e \<Longrightarrow> not_retryable e" for f args x
    by (metis res.distinct(1) res.inject(2))
  moreover have "agg_res L errs = Err e \<Longrightarrow> not_retryable e"
    using agg_res_not_retryable [OF assms(1,2)] by (metis res.distinct(1) res.inject(2))
  ultimately show ?thesis
    using assms(3) by (auto simp: syncSesameStatus_def split: prod.splits option.splits res.splits)
qed

lemma ensureSesame_not_retryable:
  assumes lib: "library L" and run: "fst (run_state (ensureSesame n L cli cfg s) w) = Some (Err e)"
  shows "not_retryable e"
proof -
  obtain p v where p: "run_state (ensure_prerequisites L cli s) w = (p, v)" by fastforce
  with calm_ensure(1) [of L cli s w] have p': "calm p" by simp
  then obtain errs where "p = Ok errs" "list_all not_retryable errs"
    using run p by (cases p) (auto simp: ensureSesame_def calm_def)
  moreover obtain q u where q: "run_state (ensure_workloads L cli cfg s errs) v = (q, u)" by fastforce
  moreover have "list_all not_retryable errs \<Longrightarrow> calm q"
    using calm_ensure(2) [of errs L cli cfg s v] q by simp
  ultimately show ?thesis
    using run p by (auto simp: ensureSesame_def calm_def split: if_splits res.splits
        intro: syncSesameStatus_not_retryable [OF lib])
qed

lemma ensureSesameDeleted_not_retryable:
  assumes "fst (run_state (ensureSesameDeleted L cli s) w) = Err e"
  shows "not_retryable e"
  using assms calm_delete [of L cli s w]
  by (auto simp: ensureSesameDeleted_def run_and_then not_retryable_def calm_def
      split: prod.splits res.splits option.splits if_splits)

text \<open>C34: A reconciliation that returns no error always returns the zero result: the branches that
  ask the work queue for a retry after a delay are never taken, since every error that reaches them
  has been wrapped or aggregated.\<close>

theorem Reconcile_never_asks_for_delay:
  assumes lib: "library L" and run: "run_state (Reconcile n L cli cfg req) w = (Some (Ok res), w')"
  shows "res = zero_Result"
proof -
  have zero: "requeue_or_fail x = Ok res \<Longrightarrow> (\<And>e. x = Err e \<Longrightarrow> not_retryable e) \<Longrightarrow> res = zero_Result" for x
    by (cases x) (auto simp: requeue_or_fail_def not_retryable_def)
  have "run_state (ensureSesame n L cli cfg s) v = (Some x, v') \<Longrightarrow> requeue_or_fail x = Ok res \<Longrightarrow>
      res = zero_Result" for s v v' x
    using ensureSesame_not_retryable [OF lib, of n cli cfg s v] zero [of x] by simp
  moreover have "run_state (ensureSesameDeleted L cli s) v = (x, v') \<Longrightarrow> requeue_or_fail x = Ok res \<Longrightarrow>
      res = zero_Result" for s v v' x
    using ensureSesameDeleted_not_retryable [of L cli s v] zero [of x] by simp
  ultimately show ?thesis
    using run unfolding Reconcile_def
    by (auto split: sum.splits prod.splits if_splits res.splits)
qed

theorem Reconcile_never_asks_for_delay_witness:
  "fst (run_state (Reconcile 0 std_lib mem_client sample_images sample_req) sample_mem) =
     Some (Ok zero_Result)"
proof -
  have "\<exists>res. fst (run_state (Reconcile 0 std_lib mem_client sample_images sample_req) sample_mem) =
      Some (Ok res)"
    using sample_valid
    by (simp add: Reconcile_def mem_run lookup_obj_def timestamp_is_zero_def IsFinalized_iff
        EnsureFinalizer_def Let_def nsname_def sample_req_def)
  then show ?thesis
    using Reconcile_never_asks_for_delay [OF std.library_axioms] by (metis prod.collapse)
qed

end
