(* ===== verification/Fresh.thy ===== *)
theory Fresh
  imports Sync_Theorems
begin

text \<open>
  The first reconciliation on a server in memory that holds none of the objects yet: every handler
  finds its object missing and creates it.
\<close>

section \<open>Creating what is missing\<close>

lemma mem_missing:
  assumes "m_faults w = []" and "lookup_obj meta (sel w) k = None"
  shows "run_state (Get (mem_kind sel upd meta) k) w = (Inl (api_fail ''NotFound'' ''not found''), w)"
  using assms by (simp add: mem_kind_def with_fault_def)

lemma mem_creates:
  assumes "m_faults w = []" and "lookup_obj meta (sel w) (nsname (meta x)) = None"
  shows "run_state (Create (mem_kind sel upd meta) x) w = (Inr x, upd (put_obj meta x) w)"
  using assms by (simp add: mem_kind_def with_fault_def)

lemma missing_is_not_found: "library L \<Longrightarrow> IsNotFound L (api_fail ''NotFound'' msg)"
  by (simp add: library.not_found api_fail_def)

lemmas fresh_run = mem_missing mem_creates missing_is_not_found Let_def

lemma fresh_namespace:
  assumes "library L" "m_faults w = []"
    and "lookup_obj ns_Meta (m_namespaces w) \<lparr>nn_Namespace = [], nn_Name = spec_ns s\<rparr> = None"
  shows "run_state (EnsureNamespace L mem_client s) w =
    (Ok (), m_namespaces_update (put_obj ns_Meta (DesiredNamespace s)) w)"
  using assms by (simp add: EnsureNamespace_def currentSpecNsName_def createNamespace_def fresh_run)

lemma fresh_account:
  assumes "library L" "m_faults w = []"
    and "lookup_obj sa_Meta (m_serviceaccounts w) \<lparr>nn_Namespace = spec_ns s, nn_Name = name\<rparr> = None"
  shows "run_state (EnsureServiceAccount L mem_client name s) w =
    (Ok (DesiredServiceAccount name s), m_serviceaccounts_update (put_obj sa_Meta (DesiredServiceAccount name s)) w)"
  using assms by (simp add: EnsureServiceAccount_def CurrentServiceAccount_def createServiceAccount_def fresh_run)

lemma fresh_clusterrole:
  assumes "library L" "m_faults w = []"
    and "lookup_obj cr_Meta (m_clusterroles w) \<lparr>nn_Namespace = [], nn_Name = name\<rparr> = None"
  shows "run_state (EnsureClusterRole L mem_client name s) w =
    (Ok (desiredClusterRole name s), m_clusterroles_update (put_obj cr_Meta (desiredClusterRole name s)) w)"
  using assms by (simp add: EnsureClusterRole_def CurrentClusterRole_def createClusterRole_def fresh_run)

lemma fresh_clusterrolebinding:
  assumes "library L" "m_faults w = []"
    and "lookup_obj crb_Meta (m_clusterrolebindings w) \<lparr>nn_Namespace = [], nn_Name = name\<rparr> = None"
  shows "run_state (EnsureClusterRoleBinding L mem_client name ref acct s) w =
    (Ok (), m_clusterrolebindings_update (put_obj crb_Meta (desiredClusterRoleBinding name ref acct s)) w)"
  using assms by (simp add: EnsureClusterRoleBinding_def CurrentClusterRoleBinding_def
      createClusterRoleBinding_def fresh_run)

lemma fresh_role:
  assumes "library L" "m_faults w = []"
    and "lookup_obj role_Meta (m_roles w) \<lparr>nn_Namespace = spec_ns s, nn_Name = name\<rparr> = None"
  shows "run_state (EnsureRole L mem_client name s) w =
    (Ok (desiredRole name s), m_roles_update (put_obj role_Meta (desiredRole name s)) w)"
  using assms by (simp add: EnsureRole_def CurrentRole_def createRole_def fresh_run)

lemma fresh_rolebinding:
  assumes "library L" "m_faults w = []"
    and "lookup_obj rb_Meta (m_rolebindings w) \<lparr>nn_Namespace = spec_ns s, nn_Name = name\<rparr> = None"
  shows "run_state (EnsureRoleBinding L mem_client name acct ref s) w =
    (Ok (), m_rolebindings_update (put_obj rb_Meta (desiredRoleBinding name acct ref s)) w)"
  using assms by (simp add: EnsureRoleBinding_def CurrentRoleBinding_def createRoleBinding_def fresh_run)

lemma fresh_configmap:
  assumes "library L" "m_faults w = []"
    and "lookup_obj cm_Meta (m_configmaps w) \<lparr>nn_Namespace = spec_ns s, nn_Name = SesameConfigMapName\<rparr> = None"
  shows "run_state (EnsureConfigMap L mem_client s) w =
    (Ok (), m_configmaps_update (put_obj cm_Meta (desired_configmap s)) w)"
  using assms by (simp add: EnsureConfigMap_def configmap_desired_eq configmap_current_def configmap_create_def fresh_run)

lemma fresh_job:
  assumes "library L" "m_faults w = []"
    and "lookup_obj job_Meta (m_jobs w) \<lparr>nn_Namespace = spec_ns s, nn_Name = certgenJobName\<rparr> = None"
  shows "run_state (EnsureJob L mem_client s img) w =
    (Ok (), m_jobs_update (put_obj job_Meta (DesiredJob s img)) w)"
  using assms by (simp add: EnsureJob_def currentJob_def createJob_def fresh_run)

lemma fresh_deployment:
  assumes "library L" "m_faults w = []"
    and "lookup_obj dep_Meta (m_deployments w) \<lparr>nn_Namespace = spec_ns s, nn_Name = SesameDeploymentName\<rparr> = None"
  shows "run_state (EnsureDeployment L mem_client s img) w =
    (Ok (), m_deployments_update (put_obj dep_Meta (DesiredDeployment s img)) w)"
  using assms by (simp add: EnsureDeployment_def CurrentDeployment_def createDeployment_def fresh_run)

lemma fresh_daemonset:
  assumes "library L" "m_faults w = []"
    and "lookup_obj dms_Meta (m_daemonsets w) \<lparr>nn_Namespace = spec_ns s, nn_Name = envoyDaemonSetName\<rparr> = None"
  shows "run_state (EnsureDaemonSet L mem_client s c e) w =
    (Ok (), m_daemonsets_update (put_obj dms_Meta (DesiredDaemonSet s c e)) w)"
  using assms by (simp add: EnsureDaemonSet_def CurrentDaemonSet_def createDaemonSet_def fresh_run)

lemma fresh_sesame_service:
  assumes "library L" "m_faults w = []"
    and "lookup_obj svc_Meta (m_services w) \<lparr>nn_Namespace = spec_ns s, nn_Name = SesameSvcName\<rparr> = None"
  shows "run_state (EnsureSesameService L mem_client s) w =
    (Ok (), m_services_update (put_obj svc_Meta (DesiredSesameService s)) w)"
  using assms by (simp add: EnsureSesameService_def currentSesameService_def createService_def fresh_run)

lemma fresh_envoy_service:
  assumes "library L" "m_faults w = []"
    and "lookup_obj svc_Meta (m_services w) \<lparr>nn_Namespace = spec_ns s, nn_Name = envoySvcName\<rparr> = None"
  shows "run_state (EnsureEnvoyService L mem_client s) w =
    (Ok (), m_services_update (put_obj svc_Meta (envoy_service s)) w)"
  using assms by (simp add: EnsureEnvoyService_def currentEnvoyService_def createService_def
      DesiredEnvoyService_closed fresh_run)

lemmas fresh_handlers = fresh_namespace fresh_account fresh_clusterrole fresh_clusterrolebinding
  fresh_role fresh_rolebinding fresh_configmap fresh_job fresh_deployment fresh_daemonset
  fresh_sesame_service fresh_envoy_service

section \<open>The whole reconciliation\<close>

text \<open>None of the objects the operator would create for the Sesame exists.\<close>

definition fresh_core :: "Sesame \<Rightarrow> mem \<Rightarrow> bool" where
  "fresh_core s w \<longleftrightarrow> (let key = \<lambda>n. \<lparr>nn_Namespace = spec_ns s, nn_Name = n\<rparr>;
       cluster = \<lambda>n. \<lparr>nn_Namespace = [], nn_Name = n\<rparr> in
     lookup_obj ns_Meta (m_namespaces w) (cluster (spec_ns s)) = None \<and>
     lookup_obj sa_Meta (m_serviceaccounts w) (key SesameRbacName) = None \<and>
     lookup_obj sa_Meta (m_serviceaccounts w) (key EnvoyRbacName) = None \<and>
     lookup_obj sa_Meta (m_serviceaccounts w) (key CertGenRbacName) = None \<and>
     lookup_obj cr_Meta (m_clusterroles w) (cluster (cluster_rbac_name s)) = None \<and>
     lookup_obj crb_Meta (m_clusterrolebindings w) (cluster (cluster_rbac_name s)) = None \<and>
     lookup_obj role_Meta (m_roles w) (key CertGenRbacName) = None \<and>
     lookup_obj rb_Meta (m_rolebindings w) (key SesameRbacName) = None)"

definition fresh_workloads :: "Sesame \<Rightarrow> mem \<Rightarrow> bool" where
  "fresh_workloads s w \<longleftrightarrow> (let key = \<lambda>n. \<lparr>nn_Namespace = spec_ns s, nn_Name = n\<rparr> in
     lookup_obj cm_Meta (m_configmaps w) (key SesameConfigMapName) = None \<and>
     lookup_obj job_Meta (m_jobs w) (key certgenJobName) = None \<and>
     lookup_obj dep_Meta (m_deployments w) (key SesameDeploymentName) = None \<and>
     lookup_obj dms_Meta (m_daemonsets w) (key envoyDaemonSetName) = None \<and>
     lookup_obj svc_Meta (m_services w) (key SesameSvcName) = None \<and>
     lookup_obj svc_Meta (m_services w) (key envoySvcName) = None)"

definition fresh :: "Sesame \<Rightarrow> mem \<Rightarrow> bool" where
  "fresh s w \<longleftrightarrow> fresh_core s w \<and> fresh_workloads s w"

lemma object_names_distinct [simp]:
  "SesameRbacName \<noteq> EnvoyRbacName" "SesameRbacName \<noteq> CertGenRbacName" "EnvoyRbacName \<noteq> CertGenRbacName"
  "EnvoyRbacName \<noteq> SesameRbacName" "CertGenRbacName \<noteq> SesameRbacName" "CertGenRbacName \<noteq> EnvoyRbacName"
  "SesameSvcName \<noteq> envoySvcName" "envoySvcName \<noteq> SesameSvcName"
  by (simp_all add: SesameRbacName_def EnvoyRbacName_def CertGenRbacName_def SesameSvcName_def envoySvcName_def)

lemma desired_names [simp]:
  "Name (sa_Meta (DesiredServiceAccount name s)) = name" "Name (cr_Meta (desiredClusterRole name s)) = name"
  "Name (role_Meta (desiredRole name s)) = name"
  by (simp_all add: DesiredServiceAccount_def desiredClusterRole_def desiredRole_def Let_def)

lemma fresh_prerequisites:
  assumes lib: "library L" and quiet: "m_faults w = []" and fresh: "fresh s w"
  shows "\<exists>w'. run_state (ensure_prerequisites L mem_client s) w = (Ok [], w') \<and>
    m_faults w' = [] \<and> m_sesames w' = m_sesames w \<and> fresh_workloads s w'"
  using fresh quiet lib
  by (simp add: ensure_prerequisites_def handleResult_def run_and_then EnsureRBAC_def wrapped_def rbac_names_def
      fresh_def fresh_core_def fresh_workloads_def Let_def fresh_handlers)

lemma fresh_workloads_created:
  assumes lib: "library L" and quiet: "m_faults w = []" and fresh: "fresh_workloads s w"
  shows "\<exists>w'. run_state (ensure_workloads L mem_client cfg s []) w = (Ok [], w') \<and>
    m_faults w' = [] \<and> m_sesames w' = m_sesames w \<and>
    stored_deployment w' s \<noteq> None \<and> stored_daemonset w' s \<noteq> None"
  using fresh quiet lib
  by (simp add: ensure_workloads_def handleResult_def run_and_then fresh_workloads_def Let_def fresh_handlers
      stored_deployment_def stored_daemonset_def)

lemma fresh_ensures:
  assumes lib: "library L" and quiet: "m_faults w = []" and fresh: "fresh s w"
    and stored: "lookup_obj Meta (m_sesames w) (nsname (Meta s)) = Some s"
  shows "\<exists>w'. run_state (ensureSesame (Suc n) L mem_client cfg s) w = (Some (Ok ()), w') \<and> m_faults w' = []"
proof -
  obtain w1 where w1: "run_state (ensure_prerequisites L mem_client s) w = (Ok [], w1)"
    "m_faults w1 = []" "m_sesames w1 = m_sesames w" "fresh_workloads s w1"
    using fresh_prerequisites [OF lib quiet fresh] by blast
  obtain w2 where w2: "run_state (ensure_workloads L mem_client cfg s []) w1 = (Ok [], w2)"
    "m_faults w2 = []" "m_sesames w2 = m_sesames w1"
    "stored_deployment w2 s \<noteq> None" "stored_daemonset w2 s \<noteq> None"
    using fresh_workloads_created [OF lib w1(2,4)] by blast
  have stored2: "lookup_obj Meta (m_sesames w2) (nsname (Meta s)) = Some s"
    using stored w1(3) w2(3) by simp
  from sync_mem [OF lib w2(2) stored2, of n] w2(4,5) obtain w3 where
    "run_state (SyncSesame (Suc n) L mem_client s) w2 = (Some (Ok ()), w3)" "m_faults w3 = []"
    using w2(2) by (auto split: if_splits)
  with w1(1) w2(1) agg_res_nil [OF lib, of "[]"] show ?thesis
    by (simp add: ensureSesame_def syncSesameStatus_def)
qed

end
