(* ===== verification/Fixed_Point.thy ===== *)
theory Fixed_Point
  imports Fresh Reconcile_Theorems
begin

text \<open>
  A reconciliation that succeeded on the server in memory is a fixed point: the next one reads the
  Sesame with its new status, finds every object in place and the status up to date, and writes
  nothing.
\<close>

section \<open>Nothing but the metadata and the spec of a Sesame is read\<close>

lemma desired_status_free [simp]:
  fixes s :: Sesame
  shows "OwnerLabels (s\<lparr>Status := st\<rparr>) = OwnerLabels s"
    "DesiredNamespace (s\<lparr>Status := st\<rparr>) = DesiredNamespace s"
    "DesiredServiceAccount name (s\<lparr>Status := st\<rparr>) = DesiredServiceAccount name s"
    "desiredClusterRole name (s\<lparr>Status := st\<rparr>) = desiredClusterRole name s"
    "desiredClusterRoleBinding name ref acct (s\<lparr>Status := st\<rparr>) = desiredClusterRoleBinding name ref acct s"
    "desiredRole name (s\<lparr>Status := st\<rparr>) = desiredRole name s"
    "desiredRoleBinding name acct ref (s\<lparr>Status := st\<rparr>) = desiredRoleBinding name acct ref s"
    "cluster_rbac_name (s\<lparr>Status := st\<rparr>) = cluster_rbac_name s"
    "DesiredSesameService (s\<lparr>Status := st\<rparr>) = DesiredSesameService s"
    "has_envoy_service (s\<lparr>Status := st\<rparr>) = has_envoy_service s"
    "envoy_agrees deq (s\<lparr>Status := st\<rparr>) = envoy_agrees deq s"
  by (simp_all add: OwnerLabels_def DesiredNamespace_def DesiredServiceAccount_def desiredClusterRole_def
      desiredClusterRoleBinding_def desiredRole_def desiredRoleBinding_def cluster_rbac_name_def
      DesiredSesameService_def has_envoy_service_def envoy_agrees_def fun_eq_iff Let_def)

lemma configmap_status_free [simp]: "desired_configmap (s\<lparr>Status := st\<rparr>) = desired_configmap s"
  by (simp add: desired_configmap_def configForSesame_def Let_def)

lemma job_status_free [simp]: "DesiredJob (s\<lparr>Status := st\<rparr>) img = DesiredJob s img"
  by (simp add: DesiredJob_def job_labels_def OwningSelector_def)

lemma envoy_status_free [simp]: "envoy_service (s\<lparr>Status := st\<rparr>) = envoy_service s"
  by (simp add: envoy_service_def annotation_table_def service_type_def lb_ip_def envoy_service_ports_def)

lemma placement_status_free [simp]:
  fixes s :: Sesame
  shows "sesame_placement (s\<lparr>Status := st\<rparr>) = sesame_placement s"
    "envoy_placement (s\<lparr>Status := st\<rparr>) = envoy_placement s"
    "SesameNodeSelectorExists (s\<lparr>Status := st\<rparr>) = SesameNodeSelectorExists s"
    "SesameTolerationsExist (s\<lparr>Status := st\<rparr>) = SesameTolerationsExist s"
    "EnvoyNodeSelectorExists (s\<lparr>Status := st\<rparr>) = EnvoyNodeSelectorExists s"
    "EnvoyTolerationsExist (s\<lparr>Status := st\<rparr>) = EnvoyTolerationsExist s"
  by (simp_all add: sesame_placement_def envoy_placement_def SesameNodeSelectorExists_def
      SesameTolerationsExist_def EnvoyNodeSelectorExists_def EnvoyTolerationsExist_def)

lemma container_status_free [simp]:
  fixes s :: Sesame
  shows "deployment_args (s\<lparr>Status := st\<rparr>) = deployment_args s"
    "envoy_container (s\<lparr>Status := st\<rparr>) img = envoy_container s img"
    "makeDeploymentLabels (s\<lparr>Status := st\<rparr>) = makeDeploymentLabels s"
    "daemonset_labels (s\<lparr>Status := st\<rparr>) = daemonset_labels s"
  by (simp_all add: deployment_args_def envoy_container_def makeDeploymentLabels_def daemonset_labels_def Let_def)

lemma podspec_status_free [simp]:
  fixes s :: Sesame
  shows "sesame_container (s\<lparr>Status := st\<rparr>) img = sesame_container s img"
    "deployment_podspec (s\<lparr>Status := st\<rparr>) img = deployment_podspec s img"
    "daemonset_podspec (s\<lparr>Status := st\<rparr>) img img' = daemonset_podspec s img img'"
  by (simp_all only: sesame_container_def deployment_podspec_def daemonset_podspec_def
      placement_status_free container_status_free)

lemma workload_status_free [simp]:
  fixes s :: Sesame
  shows "DesiredDeployment (s\<lparr>Status := st\<rparr>) img = DesiredDeployment s img"
    "DesiredDaemonSet (s\<lparr>Status := st\<rparr>) img img' = DesiredDaemonSet s img img'"
  by (simp_all add: DesiredDeployment_def DesiredDaemonSet_def)

lemma spec_status_free [simp]: "validate_spec (s\<lparr>Status := st\<rparr>) = validate_spec s"
  by (simp add: validate_spec_def validate_ContainerPorts_def validate_NodePorts_def
      validate_LoadBalancerAddress_def validate_LoadBalancerProvider_def azure_address_def gcp_address_def)

lemma in_place_status_free [simp]:
  "in_place meta agrees (s\<lparr>Status := st\<rparr>) d v = in_place meta agrees s d v"
  by (simp add: in_place_def)

lemma all_in_place_status_free [simp]:
  "rbac_in_place deq (s\<lparr>Status := st\<rparr>) sas crs crbs rs rbs = rbac_in_place deq s sas crs crbs rs rbs"
  "workloads_placed E deq (s\<lparr>Status := st\<rparr>) cfg cms js deps dss svcs =
     workloads_placed E deq s cfg cms js deps dss svcs"
  by (simp_all add: rbac_in_place_def workloads_placed_def)

section \<open>A server in memory without faults\<close>

lemma quiet_kind_faults:
  assumes "\<And>f w. m_faults (upd f w) = m_faults w"
  shows "guard_kind (\<lambda>w. m_faults w = []) ok meta (mem_kind sel upd meta)"
  using assms by (simp add: guard_kind_def keeps_def mem_kind_def with_fault_def split: option.split)

lemma mem_faultless:
  assumes "library L"
  shows "guarded L mem_client (\<lambda>w. m_faults w = []) req"
  by (intro guarded.intro guarded_core.intro guarded_core_axioms.intro guarded_axioms.intro assms
      quiet_kind_faults [THEN guard_kindD(1)])
    (simp_all add: quiet_kind_faults,
     auto simp: quiet_kind_faults keeps_def gives_def mem_client_def mem_kind_def with_fault_def
      split: option.splits dest: lookup_key)

text \<open>The handlers before the status leave the table of the Sesames alone.\<close>

lemma mem_sesames_quiet:
  "quiet_kind m_sesames (namespaces mem_client)" "quiet_kind m_sesames (serviceaccounts mem_client)"
  "quiet_kind m_sesames (clusterroles mem_client)" "quiet_kind m_sesames (clusterrolebindings mem_client)"
  "quiet_kind m_sesames (roles mem_client)" "quiet_kind m_sesames (rolebindings mem_client)"
  "quiet_kind m_sesames (configmaps mem_client)" "quiet_kind m_sesames (jobs mem_client)"
  "quiet_kind m_sesames (deployments mem_client)" "quiet_kind m_sesames (daemonsets mem_client)"
  "quiet_kind m_sesames (services mem_client)"
  by (simp_all add: mem_quiet)

lemma mem_sesames_kept:
  assumes lib: "library L"
  shows "leaves m_sesames (ensure_prerequisites L mem_client s)"
    "leaves m_sesames (ensure_workloads L mem_client cfg s errs)"
proof -
  have rbac: "rbac_quiet m_sesames mem_client" by (simp add: rbac_quiet_def mem_quiet)
  note steps = leaves_simple(1) [OF mem_sesames_quiet(1)] leaves_EnsureRBAC [OF rbac]
    leaves_simple(7) [OF mem_sesames_quiet(7)] leaves_simple(8) [OF mem_sesames_quiet(11)]
    leaves_EnsureJob [OF lib mem_sesames_quiet(8)] leaves_EnsureDeployment [OF mem_sesames_quiet(9)]
    leaves_EnsureDaemonSet [OF mem_sesames_quiet(10)] leaves_EnsureEnvoyService [OF mem_sesames_quiet(11)]
  show "leaves m_sesames (ensure_prerequisites L mem_client s)"
    "leaves m_sesames (ensure_workloads L mem_client cfg s errs)"
    unfolding leaves_keeps ensure_prerequisites_def ensure_workloads_def handleResult_def Let_def
    by (intro allI keeps_intro steps [unfolded leaves_keeps, rule_format])+
qed

text \<open>Validation reads the listed Sesames, of which only the status of the Sesame itself changed.\<close>

lemma mem_list:
  "m_faults w = [] \<Longrightarrow> run_state (list_sesames mem_client) w = (Inr (m_sesames w), w)"
  by (simp add: mem_client_def with_fault_def)

lemma stored_in_table: "lookup_obj meta t k = Some x \<Longrightarrow> x \<in> set t"
  by (auto simp: lookup_obj_def find_Some_iff)

lemma validate_again:
  assumes quiet: "m_faults w = []" "m_faults w' = []"
    and stored: "lookup_obj Meta (m_sesames w) (nsname (Meta s)) = Some s"
    and table: "m_sesames w' = m_sesames w \<and> st = Status s \<or>
      m_sesames w' = put_obj Meta (s\<lparr>Status := st\<rparr>) (m_sesames w)"
    and valid: "fst (run_state (validate_Sesame mem_client s) w) = Ok ()"
  shows "run_state (validate_Sesame mem_client (s\<lparr>Status := st\<rparr>)) w' = (Ok (), w')"
proof -
  let ?s = "s\<lparr>Status := st\<rparr>"
  have "lookup_obj Meta (m_sesames w') (nsname (Meta ?s)) = Some ?s"
    using stored table by auto
  from validate_exact [OF mem_list [OF quiet(2)] stored_in_table [OF this], of ?s]
  have exact: "snd (run_state (validate_Sesame mem_client ?s) w') = w'"
    "fst (run_state (validate_Sesame mem_client ?s) w') = Ok () \<longleftrightarrow>
      (\<forall>x \<in> set (m_sesames w'). spec_ns x = spec_ns s \<longrightarrow> nsname (Meta x) = nsname (Meta s)) \<and>
      validate_spec s = Ok ()"
    by (simp_all add: validate_spec_ok [symmetric])
  from validate_exact [OF mem_list [OF quiet(1)] stored_in_table [OF stored], of s] valid
  have "\<forall>x \<in> set (m_sesames w). spec_ns x = spec_ns s \<longrightarrow> nsname (Meta x) = nsname (Meta s)"
    "validate_spec s = Ok ()"
    by (simp_all add: validate_spec_ok)
  with table have "fst (run_state (validate_Sesame mem_client ?s) w') = Ok ()"
    unfolding exact(2) by (auto simp: put_obj_def del_obj_def)
  with exact(1) show ?thesis by (metis prod.collapse)
qed

section \<open>The second pass\<close>

text \<open>The world a successful first pass leaves: the table of the Sesames has at most a new status.\<close>

lemma first_pass:
  assumes lib: "library L" and quiet: "m_faults w = []"
    and stored: "lookup_obj Meta (m_sesames w) (nsname (Meta s)) = Some s"
    and exact: "\<And>a b. DeepEqual L (IConditions a) (IConditions b) \<longleftrightarrow> a = b"
    and run: "run_state (ensureSesame (Suc n) L mem_client cfg s) w = (Some (Ok ()), w')"
  shows "\<exists>now. let new = new_status now s (stored_deployment w' s) (stored_daemonset w' s) in
    m_faults w' = [] \<and> stored_deployment w' s \<noteq> None \<and> stored_daemonset w' s \<noteq> None \<and>
    (m_sesames w' = m_sesames w \<and> new = Status s \<or> m_sesames w' = put_obj Meta (s\<lparr>Status := new\<rparr>) (m_sesames w))"
proof -
  note faultless = mem_faultless [OF lib, of "nsname (Meta s)"]
  obtain v u where v: "run_state (ensure_prerequisites L mem_client s) w = (Ok [], v)"
    and u: "run_state (ensure_workloads L mem_client cfg s []) v = (Ok [], u)"
    and sync: "run_state (SyncSesame (Suc n) L mem_client s) u = (Some (Ok ()), w')"
    using ensure_phases [OF lib run] by blast
  have "m_faults v = []"
    using keepsD [OF guarded_core.keeps_ensure_prerequisites [OF guarded.axioms(1) [OF faultless] refl], of w] quiet v
    by simp
  then have quiet_u: "m_faults u = []"
    using keepsD [OF guarded.keeps_ensure_workloads [OF faultless refl], of v cfg "[]"] u by simp
  have table: "m_sesames u = m_sesames w"
    using leavesD [OF mem_sesames_kept(1) [OF lib] v] leavesD [OF mem_sesames_kept(2) [OF lib] u] by simp
  then have stored_u: "lookup_obj Meta (m_sesames u) (nsname (Meta s)) = Some s" using stored by simp
  from sync_mem [OF lib quiet_u stored_u, of n] sync
  have w': "w' = (if SesameStatusChanged (DeepEqual L) (Status s)
        (new_status (fst (run_state (Now L) u)) s (stored_deployment u s) (stored_daemonset u s))
      then u\<lparr>m_sesames := put_obj Meta (s\<lparr>Status := new_status (fst (run_state (Now L) u)) s
        (stored_deployment u s) (stored_daemonset u s)\<rparr>) (m_sesames u)\<rparr> else u)"
    "stored_deployment u s \<noteq> None" "stored_daemonset u s \<noteq> None" by auto
  have "SesameStatusChanged (DeepEqual L) (Status s) st \<or> st = Status s" for st
    using exact by (auto simp: SesameStatusChanged_def)
  moreover have "stored_deployment w' s = stored_deployment u s" "stored_daemonset w' s = stored_daemonset u s"
    by (simp_all add: w'(1) stored_deployment_def stored_daemonset_def)
  ultimately show ?thesis
    using w' quiet_u table by (intro exI [of _ "fst (run_state (Now L) u)"]) (auto simp: Let_def)
qed

lemma library_later: "library L \<Longrightarrow> library (L\<lparr>Now := ret t\<rparr>)"
  by (simp add: library_def library_axioms_def)

text \<open>With every object in place and the status up to date, a pass changes nothing.\<close>

lemma second_pass:
  assumes lib: "library L" and quiet: "m_faults w = []"
    and exact: "\<And>a b. DeepEqual L (IConditions a) (IConditions b) \<longleftrightarrow> a = b"
    and stored: "lookup_obj Meta (m_sesames w) (nsname (Meta s)) = Some s"
    and status: "new_status (fst (run_state (Now L) w)) s (stored_deployment w s) (stored_daemonset w s) = Status s"
    and workloads: "stored_deployment w s \<noteq> None" "stored_daemonset w s \<noteq> None"
    and place: "in_place ns_Meta (namespace_agrees (DeepEqual L)) s (DesiredNamespace s)
        (lookup_obj ns_Meta (m_namespaces w))"
      "rbac_in_place (DeepEqual L) s (lookup_obj sa_Meta (m_serviceaccounts w))
        (lookup_obj cr_Meta (m_clusterroles w)) (lookup_obj crb_Meta (m_clusterrolebindings w))
        (lookup_obj role_Meta (m_roles w)) (lookup_obj rb_Meta (m_rolebindings w))"
      "workloads_in_place (DeepEqual L) s cfg (lookup_obj cm_Meta (m_configmaps w))
        (lookup_obj job_Meta (m_jobs w)) (lookup_obj dep_Meta (m_deployments w))
        (lookup_obj dms_Meta (m_daemonsets w)) (lookup_obj svc_Meta (m_services w))"
  shows "run_state (ensureSesame (Suc n) L mem_client cfg s) w = (Some (Ok ()), w)"
proof -
  have "run_state (ensureSesame (Suc n) L mem_client cfg s) w =
      run_state (syncSesameStatus (Suc n) L mem_client s []) w"
    by (rule responsive.settled [OF mem_responsive_library [OF lib] quiet place])
  moreover have "run_state (SyncSesame (Suc n) L mem_client s) w = (Some (Ok ()), w)"
    using sync_mem [OF lib quiet stored, of n] workloads exact by (simp add: status SesameStatusChanged_def)
  ultimately show ?thesis using agg_res_nil [OF lib, of "[]"] by (simp add: syncSesameStatus_def)
qed

lemma pass_is_fixed_point:
  assumes lib: "library L" and quiet: "m_faults w = []"
    and exact: "\<And>a b. DeepEqual L (IConditions a) (IConditions b) \<longleftrightarrow> a = b"
    and stored: "lookup_obj Meta (m_sesames w) req = Some s"
    and ready: "timestamp_is_zero (DeletionTimestamp (Meta s))" "IsFinalized s"
    and ok: "conditions_ok (Conditions (Status s))"
    and sel: "same_selectors (DeepEqual L) s (lookup_obj dep_Meta (m_deployments w)) (lookup_obj dms_Meta (m_daemonsets w))"
    and run: "run_state (Reconcile (Suc n) L mem_client cfg req) w = (Some (Ok res), w')"
  shows "run_state (Reconcile (Suc k) (L\<lparr>Now := ret later\<rparr>) mem_client cfg req) w' = (Some (Ok zero_Result), w')"
proof -
  let ?L = "L\<lparr>Now := ret later\<rparr>"
  have key: "nsname (Meta s) = req" by (rule lookup_key [OF stored])
  have get: "run_state (Get (sesames mem_client) req) w = (Inr s, w)"
    using mem_reads(2) [OF quiet, where sel = m_sesames, OF stored] by simp
  have at: "snd (run_state (validate_Sesame mem_client s) w) = w"
    using validate_exact [OF mem_list [OF quiet] stored_in_table [OF stored] refl] by blast
  obtain x r where v: "run_state (validate_Sesame mem_client s) w = (x, w)" "x = Ok ()"
    and r: "run_state (ensureSesame (Suc n) L mem_client cfg s) w = (Some r, w')" "requeue_or_fail r = Ok res"
    using run get ready at by (auto simp: Reconcile_def split: res.splits prod.splits)
  have first: "run_state (ensureSesame (Suc n) L mem_client cfg s) w = (Some (Ok ()), w')"
    using r ensureSesame_not_retryable [OF lib, of "Suc n" mem_client cfg s w]
    by (cases r) (auto simp: requeue_or_fail_def not_retryable_def)
  from first_pass [OF lib quiet stored [folded key] exact first] obtain now where
    now: "m_faults w' = []" "stored_deployment w' s \<noteq> None" "stored_daemonset w' s \<noteq> None"
    and table: "m_sesames w' = m_sesames w \<and> new_status now s (stored_deployment w' s) (stored_daemonset w' s) = Status s \<or>
      m_sesames w' = put_obj Meta (s\<lparr>Status := new_status now s (stored_deployment w' s) (stored_daemonset w' s)\<rparr>)
        (m_sesames w)"
    by (auto simp: Let_def)
  define st where "st = new_status now s (stored_deployment w' s) (stored_daemonset w' s)"
  let ?s = "s\<lparr>Status := st\<rparr>"
  have same: "stored_deployment w' ?s = stored_deployment w' s" "stored_daemonset w' ?s = stored_daemonset w' s"
    by (simp_all add: stored_deployment_def stored_daemonset_def)
  have stored': "lookup_obj Meta (m_sesames w') (nsname (Meta ?s)) = Some ?s"
    using table stored key by (auto simp: st_def [symmetric])
  have "run_state (validate_Sesame mem_client ?s) w' = (Ok (), w')"
    using validate_again [OF quiet now(1) stored [folded key], of st] table v by (simp add: st_def)
  moreover have "run_state (Get (sesames mem_client) req) w' = (Inr ?s, w')"
    using mem_reads(2) [OF now(1), where sel = m_sesames, OF stored'] key by simp
  moreover have "run_state (ensureSesame (Suc k) ?L mem_client cfg ?s) w' = (Some (Ok ()), w')"
  proof (rule second_pass [OF library_later [OF lib] now(1) _ stored'])
    show "new_status (fst (run_state (Now ?L) w')) ?s (stored_deployment w' ?s) (stored_daemonset w' ?s) = Status ?s"
      unfolding same using new_status_again [OF ok] by (simp add: st_def)
  qed (use now same exact open_server.reconciled [OF mem_server_library [OF lib] first sel] in simp_all)
  ultimately show ?thesis
    using ready by (simp add: Reconcile_def requeue_or_fail_def IsFinalized_iff)
qed

end
