(* ===== verification/Convergence_Theorems.thy ===== *)
theory Convergence_Theorems
  imports Fixed_Point
begin

text \<open>
  What a reconciliation achieves: after a success every object of the Sesame is in place; with every
  object in place a further pass only writes the status; and on a server that holds none of the
  objects the very first pass succeeds.
\<close>

definition sample_ready :: Sesame where
  "sample_ready = sample\<lparr>Meta := (Meta sample)\<lparr>Finalizers := [SesameFinalizer]\<rparr>\<rparr>"

definition ready_mem :: mem where
  "ready_mem = empty_mem\<lparr>m_sesames := [sample_ready]\<rparr>"

lemma sample_ready_simps [simp]:
  "nsname (Meta sample_ready) = sample_req" "DeletionTimestamp (Meta sample_ready) = None"
  "Finalizers (Meta sample_ready) = [SesameFinalizer]" "Spec sample_ready = Spec sample"
  "Status sample_ready = Status sample"
  by (simp_all add: sample_ready_def nsname_def sample_req_def)

lemma ready_mem_simps [simp]:
  "m_faults ready_mem = []" "m_sesames ready_mem = [sample_ready]" "m_deployments ready_mem = []"
  "m_daemonsets ready_mem = []"
  by (simp_all add: ready_mem_def)

lemma ready_fresh: "fresh sample_ready ready_mem"
  by (simp add: fresh_def fresh_core_def fresh_workloads_def ready_mem_def lookup_obj_def Let_def)

lemma ready_stored: "lookup_obj Meta (m_sesames ready_mem) (nsname (Meta sample_ready)) = Some sample_ready"
  by (simp add: lookup_obj_def)

lemma ready_valid: "run_state (validate_Sesame mem_client sample_ready) ready_mem = (Ok (), ready_mem)"
proof -
  have "spec_accepted sample_ready \<longleftrightarrow> spec_accepted sample"
    by (simp add: spec_rules_def chosen_address_def)
  then have "validate_spec sample_ready = Ok ()" using sample_acceptable by (simp add: validate_spec_ok)
  then show ?thesis
    by (simp add: validate_Sesame_def OtherSesamesExistInSpecNs_def OtherSesamesExist_def
        mem_client_def with_fault_def)
qed

section \<open>After a success\<close>

lemma fresh_pass:
  assumes lib: "library L" and quiet: "m_faults w = []" and fresh: "fresh s w"
    and stored: "lookup_obj Meta (m_sesames w) req = Some s"
    and valid: "run_state (validate_Sesame mem_client s) w = (Ok (), w)"
    and ready: "timestamp_is_zero (DeletionTimestamp (Meta s))" "IsFinalized s"
  shows "\<exists>w'. run_state (Reconcile (Suc n) L mem_client cfg req) w = (Some (Ok zero_Result), w') \<and>
    m_faults w' = []"
proof -
  have get: "run_state (Get (sesames mem_client) req) w = (Inr s, w)"
    using mem_reads(2) [OF quiet, where sel = m_sesames, OF stored] by simp
  have "lookup_obj Meta (m_sesames w) (nsname (Meta s)) = Some s"
    using stored lookup_key [OF stored] by simp
  from fresh_ensures [OF lib quiet fresh this, of n cfg] show ?thesis
    using ready get valid by (auto simp: Reconcile_def requeue_or_fail_def)
qed

lemma pass_places:
  assumes srv: "open_server L cli vsvc asvc vdms adms vdep adep vjob ajob vcm acm vns ans vsa asa vcr acr
      vcrb acrb vrole arole vrb arb E"
    and get: "fst (run_state (Get (sesames cli) req) w) = Inr s"
    and ready: "timestamp_is_zero (DeletionTimestamp (Meta s))" "IsFinalized s"
    and sel: "same_selectors (DeepEqual L) s (vdep w) (vdms w)"
    and run: "run_state (Reconcile n L cli cfg req) w = (Some (Ok res), w')"
  shows "in_place ns_Meta (namespace_agrees (DeepEqual L)) s (DesiredNamespace s) (vns w') \<and>
    rbac_in_place (DeepEqual L) s (vsa w') (vcr w') (vcrb w') (vrole w') (vrb w') \<and>
    workloads_placed (E s) (DeepEqual L) s cfg (vcm w') (vjob w') (vdep w') (vdms w') (vsvc w')"
proof -
  have kinds: "served_kinds L cli vsvc asvc vdms adms vdep adep vjob ajob vcm acm vns ans vsa asa vcr acr
      vcrb acrb vrole arole vrb arb" by (rule open_server.axioms(1) [OF srv])
  have calm: "fst (run_state (ensureSesame n L cli cfg s) v) = Some (Err e) \<Longrightarrow> retryable_After e = None" for e v
    using ensureSesame_not_retryable [OF served_kinds.lib [OF kinds]] by (simp add: not_retryable_def)
  obtain v where
    "run_state (ensureSesame n L cli cfg s) v = (Some (Ok ()), w')" "vdep v = vdep w" "vdms v = vdms w"
    using open_server.Reconcile_ensures [OF srv get ready run] calm by blast
  with open_server.reconciled [OF srv, of n cfg s v w'] sel show ?thesis by simp
qed

lemmas pass_establishes = pass_places [OF mem_server_library]

definition ready_after :: mem where
  "ready_after = snd (run_state (Reconcile 1 std_lib mem_client sample_images sample_req) ready_mem)"

lemma ready_run:
  "run_state (Reconcile 1 std_lib mem_client sample_images sample_req) ready_mem =
     (Some (Ok zero_Result), ready_after)"
  using fresh_pass [OF std.library_axioms _ ready_fresh _ ready_valid, of sample_req 0 sample_images]
  by (auto simp: ready_after_def lookup_obj_def timestamp_is_zero_def IsFinalized_iff)



text \<open>On any server that answers reads, a pass with all objects in place only synchronises the status.\<close>

lemma settled_pass_only_syncs:
  assumes resp: "responsive L cli vsvc asvc vdms adms vdep adep vjob ajob vcm acm vns ans vsa asa vcr acr
      vcrb acrb vrole arole vrb arb (envoy_agrees (DeepEqual L)) Q"
    and sel: "same_selectors (DeepEqual L) s (vdep w) (vdms w)"
    and first: "run_state (ensureSesame n L cli cfg s) w = (Some (Ok ()), w')" and Q: "Q w'"
  shows "run_state (ensureSesame k L cli cfg s) w' = run_state (syncSesameStatus k L cli s []) w'"
  by (rule responsive.settled [OF resp Q open_server.reconciled [OF responsive.axioms(1) [OF resp] first sel]])

text \<open>C8: The result of ensuring is a fixed point: take a Sesame that has its finalizer, is not being
  deleted and has at most one condition of each type, on the server in memory without faults (which
  assigns no node ports), whose own stored Deployment and DaemonSet, if any, have the desired selectors.
  When a reconciliation of it succeeds, the next one, at whatever later time, succeeds as well and changes
  nothing at all. (The successful reconciliation that only adds the finalizer is not one of these; a
  workload with another selector is deleted first and takes a reconciliation more.)\<close>

theorem reconcile_is_fixed_point:
  assumes "library L" and "m_faults w = []"
    and "\<And>a b. DeepEqual L (IConditions a) (IConditions b) \<longleftrightarrow> a = b"
    and "lookup_obj Meta (m_sesames w) req = Some s"
    and "timestamp_is_zero (DeletionTimestamp (Meta s))" and "IsFinalized s"
    and "conditions_ok (Conditions (Status s))"
    and "same_selectors (DeepEqual L) s (lookup_obj dep_Meta (m_deployments w)) (lookup_obj dms_Meta (m_daemonsets w))"
    and "run_state (Reconcile (Suc n) L mem_client cfg req) w = (Some (Ok res), w')"
  shows "run_state (Reconcile (Suc k) (L\<lparr>Now := ret later\<rparr>) mem_client cfg req) w' = (Some (Ok zero_Result), w')"
  by (rule pass_is_fixed_point [OF assms])

theorem reconcile_is_fixed_point_witness:
  "run_state (Reconcile 3 (std_lib\<lparr>Now := ret 1800000000\<rparr>) mem_client sample_images sample_req) ready_after =
     (Some (Ok zero_Result), ready_after)"
proof -
  have "run_state (Reconcile (Suc 0) std_lib mem_client sample_images sample_req) ready_mem =
      (Some (Ok zero_Result), ready_after)" using ready_run by simp
  from reconcile_is_fixed_point [OF std.library_axioms _ _ _ _ _ _ _ this, of sample_ready 2 1800000000]
  show ?thesis
    by (simp add: lookup_obj_def timestamp_is_zero_def IsFinalized_iff same_selectors_def conditions_ok_def
        sample_conditions)
qed

section \<open>A server that holds nothing yet\<close>

text \<open>On a server in memory that answers every call and holds none of the objects, the first
  reconciliation of a valid, finalized Sesame succeeds and leaves all its objects in place.\<close>

theorem fresh_server_deploys:
  assumes lib: "library L" and quiet: "m_faults w = []" and fresh: "fresh s w"
    and stored: "lookup_obj Meta (m_sesames w) req = Some s"
    and valid: "run_state (validate_Sesame mem_client s) w = (Ok (), w)"
    and ready: "timestamp_is_zero (DeletionTimestamp (Meta s))" "IsFinalized s"
  shows "\<exists>w'. run_state (Reconcile (Suc n) L mem_client cfg req) w = (Some (Ok zero_Result), w') \<and>
    in_place ns_Meta (namespace_agrees (DeepEqual L)) s (DesiredNamespace s)
      (lookup_obj ns_Meta (m_namespaces w')) \<and>
    rbac_in_place (DeepEqual L) s (lookup_obj sa_Meta (m_serviceaccounts w'))
      (lookup_obj cr_Meta (m_clusterroles w')) (lookup_obj crb_Meta (m_clusterrolebindings w'))
      (lookup_obj role_Meta (m_roles w')) (lookup_obj rb_Meta (m_rolebindings w')) \<and>
    workloads_in_place (DeepEqual L) s cfg (lookup_obj cm_Meta (m_configmaps w'))
      (lookup_obj job_Meta (m_jobs w')) (lookup_obj dep_Meta (m_deployments w'))
      (lookup_obj dms_Meta (m_daemonsets w')) (lookup_obj svc_Meta (m_services w'))"
proof -
  from fresh_pass [OF lib quiet fresh stored valid ready] obtain w' where
    run: "run_state (Reconcile (Suc n) L mem_client cfg req) w = (Some (Ok zero_Result), w')" by blast
  have "fst (run_state (Get (sesames mem_client) req) w) = Inr s"
    using mem_reads(2) [OF quiet, where sel = m_sesames, OF stored] by simp
  moreover have "same_selectors (DeepEqual L) s (lookup_obj dep_Meta (m_deployments w))
      (lookup_obj dms_Meta (m_daemonsets w))"
    using fresh by (simp add: same_selectors_def fresh_def fresh_workloads_def Let_def)
  ultimately show ?thesis
    using pass_establishes [OF lib _ ready _ run] run by simp
qed

theorem fresh_server_deploys_witness:
  "\<exists>w'. run_state (Reconcile (Suc 2) std_lib mem_client sample_images sample_req) ready_mem =
      (Some (Ok zero_Result), w') \<and>
    in_place ns_Meta (namespace_agrees semDeepEqual) sample_ready (DesiredNamespace sample_ready)
      (lookup_obj ns_Meta (m_namespaces w'))"
  using fresh_server_deploys [OF std.library_axioms _ ready_fresh _ ready_valid, of sample_req 2 sample_images]
  by (auto simp: lookup_obj_def timestamp_is_zero_def IsFinalized_iff)

end
