(* ===== verification/Panic_Theorems.thy ===== *)
theory Panic_Theorems
  imports Convergence_Theorems Object_Theorems
begin

text \<open>
  Where the operator can panic: a nil Deployment after a failed read, an Envoy Service with more
  ports than desired, and a short list of node ports. Without these, no reconciliation panics.
\<close>

section \<open>Computations that do not panic\<close>

definition sound :: "('w, 'a res) state \<Rightarrow> bool" where
  "sound m \<longleftrightarrow> (\<forall>w. fst (run_state m w) \<noteq> Panic)"

named_theorems sound_intro

lemma soundD: "sound m \<Longrightarrow> run_state m w = (r, w') \<Longrightarrow> r \<noteq> Panic"
  unfolding sound_def by (metis fst_conv)

lemma sound_run:
  assumes "sound m"
  shows "fst (run_state m w) \<noteq> Panic" "run_state m w \<noteq> (Panic, w')"
  using assms unfolding sound_def by (simp, metis fst_conv)

lemma sound_ret [sound_intro]: "r \<noteq> Panic \<Longrightarrow> sound (ret r)"
  by (simp add: sound_def)

lemma sound_bind: "(\<And>x. sound (f x)) \<Longrightarrow> sound (State_Monad.bind m f)"
  by (simp add: sound_def split: prod.split)

text \<open>After a call of the client.\<close>

lemma sound_call [sound_intro]:
  "(\<And>x. sound (f1 x)) \<Longrightarrow> sound (State_Monad.bind (Get kc1 k1) f1)"
  "(\<And>x. sound (f2 x)) \<Longrightarrow> sound (State_Monad.bind (Create kc2 k2) f2)"
  "(\<And>x. sound (f3 x)) \<Longrightarrow> sound (State_Monad.bind (Update kc3 k3) f3)"
  "(\<And>x. sound (f4 x)) \<Longrightarrow> sound (State_Monad.bind (Delete kc4 k4) f4)"
  "(\<And>x. sound (f5 x)) \<Longrightarrow> sound (State_Monad.bind (list_sesames cli5) f5)"
  by (rule sound_bind; assumption)+

lemma sound_bind_res: "sound m \<Longrightarrow> (\<And>r. r \<noteq> Panic \<Longrightarrow> sound (f r)) \<Longrightarrow> sound (State_Monad.bind m f)"
  unfolding sound_def by (simp split: prod.splits) (metis fst_conv)

lemma sound_and_then [sound_intro]: "sound m \<Longrightarrow> (\<And>x. sound (f x)) \<Longrightarrow> sound (and_then m f)"
  unfolding sound_def by (auto simp: run_and_then split: prod.splits res.splits) (metis fst_conv)+

lemma sound_cases [sound_intro]:
  "(b \<Longrightarrow> sound m) \<Longrightarrow> (\<not> b \<Longrightarrow> sound m') \<Longrightarrow> sound (if b then m else m')"
  "(x = None \<Longrightarrow> sound m) \<Longrightarrow> (\<And>y. x = Some y \<Longrightarrow> sound (g y)) \<Longrightarrow> sound (case x of None \<Rightarrow> m | Some y \<Rightarrow> g y)"
  "(\<And>a. z = Inl a \<Longrightarrow> sound (h a)) \<Longrightarrow> (\<And>c. z = Inr c \<Longrightarrow> sound (k c)) \<Longrightarrow>
     sound (case z of Inl a \<Rightarrow> h a | Inr c \<Rightarrow> k c)"
  by (auto split: option.split sum.split)

lemma sound_wrapped [sound_intro]: "sound m \<Longrightarrow> sound (wrapped f m)"
  unfolding sound_def wrapped_def by (simp split: prod.splits) (metis fst_conv)

lemma sound_handleResult [sound_intro]: "sound m \<Longrightarrow> sound (handleResult wrap resource m errs)"
  unfolding sound_def handleResult_def by (auto split: prod.splits res.splits) (metis fst_conv)

lemma map_err_Panic [simp]: "map_err f r = Panic \<longleftrightarrow> r = Panic" "Panic = map_err f r \<longleftrightarrow> r = Panic"
  by (cases r; simp)+

lemma call_results_total [simp]: "call_res wrap x \<noteq> Panic"
  by (cases x) simp_all

lemma obj_res_total [simp]: "obj_res wrap x \<noteq> Panic"
  by (cases x) simp_all

lemma delete_res_total [simp]: "delete_res nf wrap d \<noteq> Panic"
  by (cases d) simp_all

text \<open>\<open>r, err := m(); ...; return wrap(err)\<close>.\<close>

lemma sound_map_err [sound_intro]:
  "sound m \<Longrightarrow> sound (State_Monad.bind m (\<lambda>r. ret (map_err f r)))"
  by (rule sound_bind_res) (auto intro: sound_ret)

section \<open>The handlers\<close>

lemma sound_creates:
  "sound (createNamespace cli x1)" "sound (createServiceAccount cli x2)" "sound (createClusterRole cli x3)"
  "sound (createClusterRoleBinding cli x4)" "sound (createRole cli x5)" "sound (createRoleBinding cli x6)"
  "sound (configmap_create cli x7)" "sound (createJob cli x8)" "sound (createDeployment cli x9)"
  "sound (createDaemonSet cli x10)" "sound (createService cli x11)"
  unfolding createNamespace_def createServiceAccount_def createClusterRole_def createClusterRoleBinding_def
    createRole_def createRoleBinding_def configmap_create_def createJob_def createDeployment_def
    createDaemonSet_def createService_def
  by (intro sound_intro; simp)+

lemma sound_updates:
  "sound (updateNamespaceIfNeeded L cli s c1 d1)" "sound (updateSvcAcctIfNeeded L cli s c2 d2)"
  "sound (updateClusterRoleIfNeeded L cli s c3 d3)" "sound (updateClusterRoleBindingIfNeeded L cli s c4 d4)"
  "sound (updateRoleIfNeeded L cli s c5 d5)" "sound (updateRoleBindingIfNeeded L cli s c6 d6)"
  "sound (configmap_updateIfNeeded L cli cfg c7 d7)" "sound (updateDeploymentIfNeeded L cli s c8 d8)"
  "sound (updateDaemonSetIfNeeded L cli s c9 d9)" "sound (updateSesameServiceIfNeeded L cli s c10 d10)"
  unfolding updateNamespaceIfNeeded_def updateSvcAcctIfNeeded_def updateClusterRoleIfNeeded_def
    updateClusterRoleBindingIfNeeded_def updateRoleIfNeeded_def updateRoleBindingIfNeeded_def
    configmap_updateIfNeeded_def updateDeploymentIfNeeded_def updateDaemonSetIfNeeded_def
    updateSesameServiceIfNeeded_def
  by (intro sound_intro; simp)+

lemma sound_deletions:
  "sound (EnsureConfigMapDeleted L cli s)" "sound (EnsureDeploymentDeleted L cli s)"
  "sound (EnsureDaemonSetDeleted L cli s)" "sound (EnsureJobDeleted L cli s)"
  "sound (EnsureSesameServiceDeleted L cli s)" "sound (EnsureEnvoyServiceDeleted L cli s)"
  unfolding EnsureConfigMapDeleted_def EnsureDeploymentDeleted_def EnsureDaemonSetDeleted_def
    EnsureJobDeleted_def EnsureSesameServiceDeleted_def EnsureEnvoyServiceDeleted_def Let_def
    configmap_current_def CurrentDeployment_def CurrentDaemonSet_def currentJob_def
    currentSesameService_def currentEnvoyService_def
  by (intro sound_intro; simp)+

lemma sound_ensures:
  "sound (EnsureNamespace L cli s)" "sound (EnsureServiceAccount L cli name s)"
  "sound (EnsureClusterRole L cli name s)" "sound (EnsureClusterRoleBinding L cli name ref acct s)"
  "sound (EnsureRole L cli name s)" "sound (EnsureRoleBinding L cli name acct ref s)"
  "sound (EnsureConfigMap L cli s)" "sound (EnsureDaemonSet L cli s i j)" "sound (EnsureSesameService L cli s)"
  unfolding EnsureNamespace_def EnsureServiceAccount_def EnsureClusterRole_def EnsureClusterRoleBinding_def
    EnsureRole_def EnsureRoleBinding_def EnsureConfigMap_def EnsureDaemonSet_def EnsureSesameService_def
    currentSpecNsName_def CurrentServiceAccount_def CurrentClusterRole_def CurrentClusterRoleBinding_def
    CurrentRole_def CurrentRoleBinding_def configmap_current_def CurrentDaemonSet_def
    currentSesameService_def Let_def configmap_desired_eq res.case
  by ((intro sound_intro sound_creates sound_updates sound_deletions; simp)+)

lemma sound_case_res [sound_intro]:
  "r \<noteq> Panic \<Longrightarrow> (\<And>x. r = Ok x \<Longrightarrow> sound (f x)) \<Longrightarrow> (\<And>e. r = Err e \<Longrightarrow> sound (g e)) \<Longrightarrow>
   sound (case r of Ok x \<Rightarrow> f x | Err e \<Rightarrow> g e | Panic \<Rightarrow> h)"
  by (cases r) auto

lemma sound_EnsureJob: "sound (EnsureJob L cli s img)"
proof -
  have retry: "sound (retryJobCreate L cli job t)" for job t
    unfolding retryJobCreate_def by (rule sound_bind, intro sound_intro) (simp split: option.split)
  have "sound (recreateJobIfNeeded L cli s current desired)" for current desired
    unfolding recreateJobIfNeeded_def by (intro sound_intro retry; simp)
  then show ?thesis
    unfolding EnsureJob_def currentJob_def Let_def by (intro sound_intro sound_creates; simp)
qed

lemma sound_finalizer: "sound (EnsureFinalizer cli s)" "sound (EnsureFinalizerRemoved cli s)"
  unfolding EnsureFinalizer_def EnsureFinalizerRemoved_def Let_def by (intro sound_intro; simp)+

lemma sound_ensure_accounts: "sound (ensure_accounts L cli s names acct)"
proof (induction names arbitrary: acct)
  case (Cons name names)
  show ?case
    unfolding ensure_accounts.simps
    by (rule sound_bind_res [OF sound_ensures(2)]; intro sound_intro Cons.IH; simp)
qed (simp add: sound_def)

lemma sound_EnsureRBAC: "sound (EnsureRBAC L cli s)"
  unfolding EnsureRBAC_def Let_def by (intro sound_intro sound_ensure_accounts sound_ensures)

lemma sound_others: "sound (OtherSesamesExist cli s)" "sound (OtherSesamesExistInSpecNs cli s)"
proof -
  show exist: "sound (OtherSesamesExist cli s)"
    unfolding OtherSesamesExist_def by (intro sound_intro) (simp split: sum.split)
  show "sound (OtherSesamesExistInSpecNs cli s)"
    unfolding OtherSesamesExistInSpecNs_def
    by (rule sound_bind_res [OF exist], intro sound_intro) (auto split: res.split prod.split)
qed

lemma sound_collect: "sound (collect_object L mk get objs)"
  unfolding collect_object_def by (rule sound_bind, intro sound_intro) (simp split: sum.split)

lemma sound_collect_accounts: "sound (collect_accounts L cli ns names objs)"
  by (induction names arbitrary: objs) (auto intro!: sound_intro sound_collect)

lemma sound_delete_objects: "sound (delete_objects L cli s xs)"
proof (induction xs)
  case (Cons x xs)
  then show ?case by (auto intro!: sound_intro sound_bind [where m = "delete_object cli x"])
qed (simp add: sound_def)

lemma sound_EnsureRBACDeleted: "sound (EnsureRBACDeleted L cli s)"
  unfolding EnsureRBACDeleted_def collect_namespaced_def collect_cluster_def
  by (auto intro!: sound_intro sound_others sound_collect sound_collect_accounts sound_delete_objects
      split: prod.split option.split)

lemma namespace_deletion_total: "snd (fst (run_state (EnsureNamespaceDeleted L cli s) w)) \<noteq> Panic"
  by (auto simp: sound_run [OF sound_others(2)] EnsureNamespaceDeleted_def Let_def split: prod.splits sum.splits res.splits)

section \<open>The three hazards\<close>

text \<open>The reads of the Deployment fail only with not-found, a stored Envoy Service has at most the
  two ports of the desired one, and the node ports are a list the API server admits.\<close>

lemma sound_EnsureDeployment:
  assumes "\<And>k w e. fst (run_state (Get (deployments cli) k) w) = Inl e \<Longrightarrow> IsNotFound L e"
  shows "sound (EnsureDeployment L cli s img)"
  unfolding sound_def
proof
  fix w
  obtain g w1 where g: "run_state (CurrentDeployment cli s) w = (g, w1)" by fastforce
  note pieces = sound_run [OF sound_creates(9)] sound_run [OF sound_updates(8)] sound_run [OF sound_deletions(2)]
  have "g = Inl e \<Longrightarrow> IsNotFound L e" for e
    using assms g unfolding CurrentDeployment_def by (metis fst_conv)
  then show "fst (run_state (EnsureDeployment L cli s img) w) \<noteq> Panic"
    by (auto simp: EnsureDeployment_def Let_def g pieces split: sum.split prod.split)
qed

lemma validated_two_ports:
  assumes "validate_ContainerPorts s = Ok ()"
  shows "length (svs_Ports (svc_Spec (envoy_service s))) = 2"
proof -
  let ?cps = "ContainerPorts (envoy_pub s)"
  let ?f = "filter (\<lambda>c. ecp_Name c = ''http'' \<or> ecp_Name c = ''https'') ?cps"
  have names: "distinct (map ecp_Name ?cps)" "{''http'', ''https''} \<subseteq> set (map ecp_Name ?cps)"
    using assms by (auto simp: validate_ContainerPorts_def container_ports_loop_ok)
  have "set (map ecp_Name ?f) = {''http'', ''https''}" using names(2) by (auto simp: image_iff)
  then have "card (set (map ecp_Name ?f)) = 2" by simp
  moreover have "card (set (map ecp_Name ?f)) = length ?f"
    using distinct_card [OF distinct_map_filter [OF names(1)]] by (metis length_map)
  moreover have "length (envoy_ports ?cps []) = length ?f" by (simp add: envoy_ports_filter)
  ultimately have "length (envoy_ports ?cps []) = 2" by simp
  moreover have "length (set_node_ports nps l) = length l" for nps l
    by (induction nps l rule: set_node_ports.induct) (simp_all split: option.split)
  ultimately show ?thesis by (simp add: envoy_service_def envoy_service_ports_def Let_def)
qed

lemma sound_EnsureEnvoyService:
  assumes ports: "\<And>w x k. nn_Name k = envoySvcName \<Longrightarrow> fst (run_state (Get (services cli) k) w) = Inr x \<Longrightarrow>
      length (svs_Ports (svc_Spec x)) \<le> 2"
    and two: "length (svs_Ports (svc_Spec (envoy_service s))) = 2"
  shows "sound (EnsureEnvoyService L cli s)"
  unfolding sound_def
proof
  fix w
  obtain g w1 where g: "run_state (currentEnvoyService cli s) w = (g, w1)" by fastforce
  have few: "g = Inr x \<Longrightarrow> length (svs_Ports (svc_Spec x)) \<le> 2" for x
    using ports [of "\<lparr>nn_Namespace = spec_ns s, nn_Name = envoySvcName\<rparr>" w x] g
    by (simp add: currentEnvoyService_def)
  have "run_state (updateEnvoyServiceIfNeeded L cli s x (envoy_service s)) v \<noteq> (Panic, v')"
    if "g = Inr x" for x v v'
    using few [OF that] two nodeport_panic_iff [of "DeepEqual L" x "envoy_service s"]
    by (auto simp: updateEnvoyServiceIfNeeded_def envoy_service_changed_def split: res.splits option.splits prod.splits)
  then show "fst (run_state (EnsureEnvoyService L cli s) w) \<noteq> Panic"
    by (auto simp: EnsureEnvoyService_def Let_def g DesiredEnvoyService_closed sound_run [OF sound_creates(11)]
        split: sum.split prod.split)
qed

section \<open>Whole reconciliations\<close>

lemma agg_res_no_panic [simp]: "agg_res L es \<noteq> Panic"
  by (simp add: agg_res_def split: option.split)

lemma SyncSesame_total: "fst (run_state (SyncSesame n L cli s) w) \<noteq> Some Panic"
proof (induction n arbitrary: s w)
  case (Suc n)
  have again: "run_state (SyncSesame n L cli x) v \<noteq> (Some Panic, v')" for x v v'
    using Suc.IH [of x v] by auto
  show ?case
    by (auto simp: SyncSesame.simps Let_def again split: prod.splits sum.splits option.splits res.splits)
qed (simp add: SyncSesame.simps)

lemma syncSesameStatus_total: "fst (run_state (syncSesameStatus n L cli s errs) w) \<noteq> Some Panic"
proof -
  have "run_state (SyncSesame n L cli s) w \<noteq> (Some Panic, w')" for w'
    using SyncSesame_total [of n L cli s w] by auto
  then show ?thesis
    by (auto simp: syncSesameStatus_def split: prod.splits option.splits res.splits)
qed

lemma sound_prerequisites: "sound (ensure_prerequisites L cli s)"
  unfolding ensure_prerequisites_def
  by (intro sound_intro sound_ensures sound_EnsureRBAC)

lemma sound_workloads:
  assumes "sound (EnsureDeployment L cli s (ctl_SesameImage cfg))" and "sound (EnsureEnvoyService L cli s)"
  shows "sound (ensure_workloads L cli cfg s errs)"
  unfolding ensure_workloads_def Let_def
  by (intro sound_intro sound_ensures sound_EnsureJob assms; simp)

lemma sound_delete_resources: "sound (delete_resources L cli s)"
proof -
  have last: "sound (State_Monad.bind (EnsureNamespaceDeleted L cli s)
      (\<lambda>(e, r). if e then handleResult f name (ret r) errs else ret (Ok errs)))" for f name errs
    using namespace_deletion_total [of L cli s]
    by (auto simp: sound_def handleResult_def split: prod.splits res.splits) (metis fst_conv snd_conv)
  show ?thesis
    unfolding delete_resources_def Let_def
    by (intro sound_intro sound_deletions sound_EnsureRBACDeleted last; simp)
qed

lemma sound_ensureSesameDeleted: "sound (ensureSesameDeleted L cli s)"
  unfolding ensureSesameDeleted_def
proof (rule sound_and_then [OF sound_delete_resources], rule sound_bind_res)
  fix errs :: "error list"
  show "sound (if length errs = 0 then EnsureFinalizerRemoved cli s else ret (Ok ()))"
    by (intro sound_intro sound_finalizer) simp
qed (auto intro!: sound_ret simp: Let_def split: res.splits option.splits)

lemma sound_validate:
  assumes "node_ports_admitted (NodePorts (envoy_pub s))"
  shows "sound (validate_Sesame cli s)"
  unfolding validate_Sesame_def
  by (rule sound_bind_res [OF sound_others(2)])
    (auto intro!: sound_ret simp: validate_spec_total [OF assms] split: res.splits)

lemma validated_ports:
  assumes "run_state (validate_Sesame cli s) w = (Ok (), w')"
  shows "length (svs_Ports (svc_Spec (envoy_service s))) = 2"
proof -
  have "validate_spec s = Ok ()"
    using assms by (auto simp: validate_Sesame_def split: prod.splits res.splits if_splits)
  then show ?thesis by (simp add: validate_spec_def validated_two_ports)
qed

lemma ensureSesame_total:
  assumes "sound (ensure_workloads L cli cfg s [])"
  shows "fst (run_state (ensureSesame n L cli cfg s) w) \<noteq> Some Panic"
  using sound_run [OF sound_prerequisites [of L cli s]] sound_run [OF assms]
  by (auto simp: ensureSesame_def syncSesameStatus_total split: prod.splits res.splits)

text \<open>C12: Without three hazards no reconciliation panics: the reads of Deployments fail only with
  not-found (any other failure is followed by a nil dereference), a stored Service with the name of
  the Envoy Service has at most two ports (the comparison indexes the desired ones by its positions),
  and the node ports of the Sesame are a list the API server admits.\<close>

theorem Reconcile_never_panics:
  assumes reads: "\<And>k w e. fst (run_state (Get (deployments cli) k) w) = Inl e \<Longrightarrow> IsNotFound L e"
    and ports: "\<And>k w x. nn_Name k = envoySvcName \<Longrightarrow> fst (run_state (Get (services cli) k) w) = Inr x \<Longrightarrow>
      length (svs_Ports (svc_Spec x)) \<le> 2"
    and admitted: "\<And>w s. fst (run_state (Get (sesames cli) req) w) = Inr s \<Longrightarrow>
      node_ports_admitted (NodePorts (envoy_pub s))"
  shows "fst (run_state (Reconcile n L cli cfg req) w) \<noteq> Some Panic"
proof (cases "run_state (Get (sesames cli) req) w")
  case (Pair g w1)
  have admitted: "node_ports_admitted (NodePorts (envoy_pub s))" if "g = Inr s" for s
    using admitted [of w s] Pair that by simp
  have ensured: "run_state (ensureSesame n L cli cfg s) v' \<noteq> (Some Panic, v'')"
    if "run_state (validate_Sesame cli s) v = (Ok (), v')" for s v v' v''
  proof -
    have "fst (run_state (ensureSesame n L cli cfg s) v') \<noteq> Some Panic"
      by (intro ensureSesame_total sound_workloads sound_EnsureDeployment sound_EnsureEnvoyService
          validated_ports [OF that]) (use reads ports in blast)+
    then show ?thesis by auto
  qed
  have final: "requeue_or_fail r = Panic \<longleftrightarrow> r = Panic" for r
    by (simp add: requeue_or_fail_def split: res.split option.split)
  show ?thesis
  proof (cases g)
    case (Inr s)
    have "run_state (validate_Sesame cli s) w1 \<noteq> (Panic, v)" for v
      by (rule sound_run(2) [OF sound_validate [OF admitted [OF Inr]]])
    with Inr Pair show ?thesis
      using sound_run [OF sound_ensureSesameDeleted [of L cli s]] sound_run(2) [OF sound_finalizer(1) [of cli s]]
      by (auto simp: Reconcile_def final split: prod.split res.split dest: ensured)
  qed (use Pair in \<open>simp add: Reconcile_def\<close>)
qed

lemma sample_node_ports: "NodePorts (envoy_pub sample) = None"
  by (simp add: sample_def sample_cfg_def New_def Let_def)

text \<open>A client without Deployments and Services, and a Sesame to reconcile.\<close>

definition bare_client :: "mem client" where
  "bare_client = mem_client
     \<lparr>sesames := (sesames mem_client)\<lparr>Get := \<lambda>k. ret (Inr sample_ready)\<rparr>,
      deployments := (deployments mem_client)\<lparr>Get := \<lambda>k. ret (Inl (api_fail ''NotFound'' ''not found''))\<rparr>,
      services := (services mem_client)\<lparr>Get := \<lambda>k. ret (Inl (api_fail ''NotFound'' ''not found''))\<rparr>\<rparr>"

theorem Reconcile_never_panics_witness:
  "fst (run_state (Reconcile 1 std_lib bare_client sample_images sample_req) ready_mem) \<noteq> Some Panic"
  by (rule Reconcile_never_panics) (auto simp: bare_client_def node_ports_admitted_def api_fail_def sample_node_ports)

end
