(* ===== verification/Stabilization.thy ===== *)
theory Stabilization
  imports Panic_Theorems
begin

text \<open>
  Recovery from drift. On a server in memory that answers every call, whatever objects it holds under
  the names the operator uses (missing, drifted, recreated with another selector, or foreign), two
  reconciliations are enough: the first may only delete a workload whose selector differs, the second
  puts everything in place.
\<close>

section \<open>Computations that cannot fail\<close>

text \<open>\<open>yields P m x Q\<close>: from every world with \<open>P\<close> the computation returns \<open>x\<close>, and \<open>Q\<close> holds then.\<close>

definition yields :: "('w \<Rightarrow> bool) \<Rightarrow> ('w, 'a res) state \<Rightarrow> 'a \<Rightarrow> ('w \<Rightarrow> bool) \<Rightarrow> bool" where
  "yields P m x Q \<longleftrightarrow> (\<forall>w. P w \<longrightarrow> (\<exists>w'. run_state m w = (Ok x, w') \<and> Q w'))"

text \<open>\<open>certain P m\<close>: it returns without an error, whatever the value, and keeps \<open>P\<close>.\<close>

definition certain :: "('w \<Rightarrow> bool) \<Rightarrow> ('w, 'a res) state \<Rightarrow> bool" where
  "certain P m \<longleftrightarrow> (\<forall>w. P w \<longrightarrow> is_ok (fst (run_state m w)) \<and> P (snd (run_state m w)))"

lemma yieldsD: "yields P m x Q \<Longrightarrow> P w \<Longrightarrow> \<exists>w'. run_state m w = (Ok x, w') \<and> Q w'"
  by (simp add: yields_def)

lemma yields_and_then: "yields P m x Q \<Longrightarrow> yields Q (f x) y R \<Longrightarrow> yields P (and_then m f) y R"
  unfolding yields_def by (fastforce simp: run_and_then)

lemma certain_step:
  assumes "certain P m" and "\<And>x. certain P (f x)"
  shows "certain P (State_Monad.bind m (\<lambda>r. case r of Ok x \<Rightarrow> f x | Err e \<Rightarrow> g e | Panic \<Rightarrow> h))"
  using assms unfolding certain_def by (auto split: prod.splits res.splits)

lemma certain_and_then: "certain P m \<Longrightarrow> (\<And>x. certain P (f x)) \<Longrightarrow> certain P (and_then m f)"
  unfolding and_then_def by (rule certain_step)

lemma certain_ret: "certain P (ret (Ok x))"
  by (simp add: certain_def)

lemma certain_wrapped: "certain P m \<Longrightarrow> certain P (wrapped f m)"
  unfolding certain_def wrapped_def by (simp split: prod.splits) (metis fst_conv snd_conv)

lemma yields_ret: "P w \<Longrightarrow> yields P (ret (Ok x)) x P"
  by (simp add: yields_def)

lemma certain_yields: "certain P m \<Longrightarrow> yields P (handleResult wrap resource m errs) errs P"
  unfolding certain_def yields_def handleResult_def
  by (fastforce split: prod.splits res.splits elim: is_ok.elims)

lemma certainI:
  assumes "\<And>w. m_faults w = [] \<Longrightarrow> is_ok (fst (run_state m w))"
    and "keeps (\<lambda>w. m_faults w = []) m" and "leaves V m"
  shows "certain (\<lambda>w. m_faults w = [] \<and> V w = v) m"
  using assms by (simp add: certain_def keeps_def leaves_def)

section \<open>Each handler on a server in memory\<close>

lemma mem_ensure_ok:
  assumes quiet: "m_faults w = []" and nf: "nf (api_fail ''NotFound'' ''not found'')"
    and drift: "drift_check changed agrees meta" and key: "nsname (meta desired) = key"
  shows "ensured_ok (fst (run_state (ensure_obj nf (mem_kind sel upd meta) meta changed labels key desired) w))"
proof (cases "lookup_obj meta (sel w) key")
  case None
  with quiet nf key show ?thesis by (simp add: ensure_obj_def mem_missing mem_creates)
next
  case (Some cur)
  have "run_state (Update (mem_kind sel upd meta) u) w = (Inr u, upd (put_obj meta u) w)"
    if "changed cur desired = Some u" for u
    using drift_check.changed_key [OF drift that] lookup_key [OF Some] Some quiet key
    by (simp add: mem_kind_def with_fault_def)
  with Some quiet show ?thesis
    by (auto simp: ensure_obj_def mem_reads(2) split: option.split)
qed

lemma refined_ok: "refines_at w m spec \<Longrightarrow> ensured_ok (fst (run_state spec w)) \<Longrightarrow> is_ok (fst (run_state m w))"
  by (simp add: refines_at_def)

lemma mem_handlers_ok:
  assumes lib: "library L" and quiet: "m_faults w = []"
  shows "is_ok (fst (run_state (EnsureNamespace L mem_client s) w))"
    "is_ok (fst (run_state (EnsureServiceAccount L mem_client name s) w))"
    "is_ok (fst (run_state (EnsureClusterRole L mem_client name s) w))"
    "is_ok (fst (run_state (EnsureClusterRoleBinding L mem_client name ref acct s) w))"
    "is_ok (fst (run_state (EnsureRole L mem_client name s) w))"
    "is_ok (fst (run_state (EnsureRoleBinding L mem_client name acct ref s) w))"
    "is_ok (fst (run_state (EnsureConfigMap L mem_client s) w))"
    "is_ok (fst (run_state (EnsureSesameService L mem_client s) w))"
proof -
  note deq = library_deq [OF lib]
  have cm_key [simp]: "nsname (cm_Meta (desired_configmap s)) =
      \<lparr>nn_Namespace = spec_ns s, nn_Name = SesameConfigMapName\<rparr>"
    by (simp add: desired_configmap_def nsname_def)
  note ok = mem_ensure_ok [where nf = "IsNotFound L", OF quiet missing_is_not_found [OF lib]]
  show "is_ok (fst (run_state (EnsureNamespace L mem_client s) w))"
    "is_ok (fst (run_state (EnsureServiceAccount L mem_client name s) w))"
    "is_ok (fst (run_state (EnsureClusterRole L mem_client name s) w))"
    "is_ok (fst (run_state (EnsureClusterRoleBinding L mem_client name ref acct s) w))"
    using ok [OF deep_equal.namespace_drift [OF deq]] ok [OF deep_equal.serviceaccount_drift [OF deq]]
      ok [OF deep_equal.clusterrole_drift [OF deq]] ok [OF deep_equal.clusterrolebinding_drift [OF deq]]
    by (auto intro!: refined_ok [OF EnsureNamespace_refines] refined_ok [OF EnsureServiceAccount_refines]
        refined_ok [OF EnsureClusterRole_refines] refined_ok [OF EnsureClusterRoleBinding_refines])
  show "is_ok (fst (run_state (EnsureRole L mem_client name s) w))"
    "is_ok (fst (run_state (EnsureRoleBinding L mem_client name acct ref s) w))"
    "is_ok (fst (run_state (EnsureConfigMap L mem_client s) w))"
    "is_ok (fst (run_state (EnsureSesameService L mem_client s) w))"
    using ok [OF deep_equal.role_drift [OF deq]] ok [OF deep_equal.rolebinding_drift [OF deq]]
      ok [OF deep_equal.configmap_drift [OF deq]] ok [OF deep_equal.clusterip_replace_drift [OF deq]]
    by (auto intro!: refined_ok [OF EnsureRole_refines] refined_ok [OF EnsureRoleBinding_refines]
        refined_ok [OF EnsureConfigMap_refines] refined_ok [OF EnsureSesameService_refines])
qed

lemma mem_delete_ok:
  assumes "m_faults w = []" and "nf = IsNotFound L" and "nf (api_fail ''NotFound'' ''not found'')"
  shows "is_ok (fst (run_state (result_of L (delete_owned nf (mem_kind sel upd meta) meta labels key)) w))"
  using assms
  by (auto simp: result_of_def delete_owned_def mem_kind_def with_fault_def split: option.split)

lemma mem_workload_deletions_ok:
  assumes "library L" and "m_faults w = []"
  shows "is_ok (fst (run_state (EnsureDeploymentDeleted L mem_client s) w))"
    "is_ok (fst (run_state (EnsureDaemonSetDeleted L mem_client s) w))"
  using assms by (simp_all add: deletions_refine mem_delete_ok missing_is_not_found)

text \<open>The Job is deleted and created again at the first attempt of the poller.\<close>

lemma mem_job_ok:
  assumes lib: "library L" and quiet: "m_faults w = []"
  shows "is_ok (fst (run_state (EnsureJob L mem_client s img) w))"
proof (cases "lookup_obj job_Meta (m_jobs w) \<lparr>nn_Namespace = spec_ns s, nn_Name = certgenJobName\<rparr>")
  case None
  with fresh_job [OF lib quiet] show ?thesis by simp
next
  case (Some cur)
  let ?d = "DesiredJob s img"
  define v where "v = m_jobs_update (del_obj job_Meta (nsname (job_Meta ?d))) w"
  have poll: "polling (PollImmediate L)" using lib by (simp add: library_def)
  have get: "run_state (currentJob mem_client s) w = (Inr cur, w)"
    using mem_reads(2) [OF quiet, where sel = m_jobs, OF Some] by (simp add: currentJob_def)
  have del: "run_state (Delete (jobs mem_client) ?d) w = (None, v)"
    using quiet Some by (simp add: v_def mem_kind_def with_fault_def)
  have "run_state (tryJobCreate mem_client ?d) v = ((True, None), m_jobs_update (put_obj job_Meta ?d) v)"
    using quiet by (simp add: v_def tryJobCreate_def mem_creates)
  from polling.poll_first [OF poll this] have
    "is_ok (fst (run_state (retryJobCreate L mem_client ?d 3) v))"
    by (simp add: retryJobCreate_def)
  then have "is_ok (fst (run_state (recreateJobIfNeeded L mem_client s cur ?d) w))"
    using del by (auto simp: recreateJobIfNeeded_def split: option.split dest: JobConfigChanged_expected)
  then show ?thesis
    using get by (cases "run_state (recreateJobIfNeeded L mem_client s cur ?d) w") (simp add: EnsureJob_def Let_def)
qed

text \<open>The workloads are deleted when the selector differs, and refine the abstract handler otherwise.\<close>

lemma mem_deployment_ok:
  assumes lib: "library L" and quiet: "m_faults w = []"
  shows "is_ok (fst (run_state (EnsureDeployment L mem_client s img) w))"
proof (cases "\<exists>cur. stored_deployment w s = Some cur \<and>
    DeploymentSelectorsDiffer (DeepEqual L) cur (DesiredDeployment s img)")
  case True
  then obtain cur where "run_state (CurrentDeployment mem_client s) w = (Inr cur, w)"
    "DeploymentSelectorsDiffer (DeepEqual L) cur (DesiredDeployment s img)"
    using mem_reads(2) [OF quiet, where sel = m_deployments] by (auto simp: CurrentDeployment_def stored_deployment_def)
  then show ?thesis using mem_workload_deletions_ok(1) [OF lib quiet] by (simp add: EnsureDeployment_def Let_def)
next
  case False
  have "fst (run_state (CurrentDeployment mem_client s) w) =
      (case stored_deployment w s of None \<Rightarrow> Inl (api_fail ''NotFound'' ''not found'') | Some cur \<Rightarrow> Inr cur)"
    using quiet by (simp add: CurrentDeployment_def stored_deployment_def mem_kind_def with_fault_def)
  with False show ?thesis
    using mem_ensure_ok [where nf = "IsNotFound L", OF quiet missing_is_not_found [OF lib]
        deep_equal.deployment_drift [OF library_deq [OF lib]]] missing_is_not_found [OF lib]
    by (intro refined_ok [OF EnsureDeployment_refines]) (auto split: option.splits)
qed

lemma mem_daemonset_ok:
  assumes lib: "library L" and quiet: "m_faults w = []"
  shows "is_ok (fst (run_state (EnsureDaemonSet L mem_client s c e) w))"
proof (cases "\<exists>cur. stored_daemonset w s = Some cur \<and>
    DaemonSetSelectorsDiffer (DeepEqual L) cur (DesiredDaemonSet s c e)")
  case True
  then obtain cur where "run_state (CurrentDaemonSet mem_client s) w = (Inr cur, w)"
    "DaemonSetSelectorsDiffer (DeepEqual L) cur (DesiredDaemonSet s c e)"
    using mem_reads(2) [OF quiet, where sel = m_daemonsets] by (auto simp: CurrentDaemonSet_def stored_daemonset_def)
  then show ?thesis using mem_workload_deletions_ok(2) [OF lib quiet] by (simp add: EnsureDaemonSet_def Let_def)
next
  case False
  have "fst (run_state (CurrentDaemonSet mem_client s) w) =
      (case stored_daemonset w s of None \<Rightarrow> Inl (api_fail ''NotFound'' ''not found'') | Some cur \<Rightarrow> Inr cur)"
    using quiet by (simp add: CurrentDaemonSet_def stored_daemonset_def mem_kind_def with_fault_def)
  with False show ?thesis
    using mem_ensure_ok [where nf = "IsNotFound L", OF quiet missing_is_not_found [OF lib]
        deep_equal.daemonset_drift [OF library_deq [OF lib]]]
    by (intro refined_ok [OF EnsureDaemonSet_refines]) (auto split: option.splits)
qed

text \<open>The comparison of an owned Envoy Service that publishes node ports indexes the desired ports
  by the positions of the stored ones: there must not be more than two of these.\<close>

definition envoy_ports_bounded :: "Sesame \<Rightarrow> Service option \<Rightarrow> bool" where
  "envoy_ports_bounded s v \<longleftrightarrow> (case v of None \<Rightarrow> True | Some x \<Rightarrow>
     pub_Type (envoy_pub s) = NodePortServicePublishingType \<longrightarrow> owned_by s (svc_Meta x) \<longrightarrow>
     length (svs_Ports (svc_Spec x)) \<le> 2)"

definition stored_envoy :: "mem \<Rightarrow> Sesame \<Rightarrow> Service option" where
  "stored_envoy w s = lookup_obj svc_Meta (m_services w) \<lparr>nn_Namespace = spec_ns s, nn_Name = envoySvcName\<rparr>"

lemma mem_envoy_ok:
  assumes lib: "library L" and quiet: "m_faults w = []"
    and two: "length (svs_Ports (svc_Spec (envoy_service s))) = 2"
    and ports: "envoy_ports_bounded s (stored_envoy w s)"
  shows "is_ok (fst (run_state (EnsureEnvoyService L mem_client s) w))"
proof (rule refined_ok [OF EnsureEnvoyService_refines])
  fix cur
  assume cur: "fst (run_state (currentEnvoyService mem_client s) w) = Inr cur" "owned_by s (svc_Meta cur)"
  then have "stored_envoy w s = Some cur"
    using quiet by (simp add: currentEnvoyService_def stored_envoy_def mem_kind_def with_fault_def split: option.splits)
  then show "envoy_service_changed (DeepEqual L) s cur (envoy_service s) \<noteq> Panic"
    using ports cur(2) two nodeport_panic_iff [of "DeepEqual L" cur "envoy_service s"]
    by (auto simp: envoy_service_changed_def envoy_ports_bounded_def)
next
  show "ensured_ok (fst (run_state (ensure_obj (IsNotFound L) (services mem_client) svc_Meta
      (envoy_changed (DeepEqual L) s) (OwnerLabels s)
      \<lparr>nn_Namespace = spec_ns s, nn_Name = envoySvcName\<rparr> (envoy_service s)) w))"
  proof (cases "stored_envoy w s")
    case None
    then show ?thesis using quiet missing_is_not_found [OF lib]
      by (simp add: ensure_obj_def stored_envoy_def mem_missing mem_creates)
  next
    case (Some cur)
    have "run_state (Update (services mem_client) u) w = (Inr u, m_services_update (put_obj svc_Meta u) w)"
      if "envoy_changed (DeepEqual L) s cur (envoy_service s) = Some u" for u
    proof -
      have "nsname (svc_Meta cur) = nsname (svc_Meta (envoy_service s))"
        using lookup_key [OF Some [unfolded stored_envoy_def]] by simp
      then have "nsname (svc_Meta u) = \<lparr>nn_Namespace = spec_ns s, nn_Name = envoySvcName\<rparr>"
        using envoy_changed_key [of "DeepEqual L" s cur "envoy_service s" u] that library_deq [OF lib]
        by (auto simp: envoy_changed_def split: res.splits)
      with Some quiet show ?thesis by (simp add: stored_envoy_def mem_kind_def with_fault_def)
    qed
    with Some quiet show ?thesis
      by (auto simp: ensure_obj_def stored_envoy_def mem_reads(2) split: option.split)
  qed
qed

section \<open>The phases of a pass\<close>

text \<open>Which tables the handlers leave alone.\<close>

lemma mem_table_quiet:
  "quiet_kind m_services (namespaces mem_client)" "rbac_quiet m_services mem_client"
  "quiet_kind m_services (configmaps mem_client)" "quiet_kind m_services (jobs mem_client)"
  "quiet_kind m_services (deployments mem_client)" "quiet_kind m_services (daemonsets mem_client)"
  by (simp_all add: rbac_quiet_def mem_quiet)

lemma mem_workload_tables_quiet:
  "quiet_kind m_deployments (namespaces mem_client)" "rbac_quiet m_deployments mem_client"
  "quiet_kind m_deployments (configmaps mem_client)" "quiet_kind m_deployments (jobs mem_client)"
  "quiet_kind m_deployments (daemonsets mem_client)" "quiet_kind m_deployments (services mem_client)"
  "quiet_kind m_daemonsets (namespaces mem_client)" "rbac_quiet m_daemonsets mem_client"
  "quiet_kind m_daemonsets (configmaps mem_client)" "quiet_kind m_daemonsets (jobs mem_client)"
  "quiet_kind m_daemonsets (deployments mem_client)" "quiet_kind m_daemonsets (services mem_client)"
  by (simp_all add: rbac_quiet_def mem_quiet)

text \<open>Every handler but the last succeeds and leaves Envoy's Service as it was.\<close>

abbreviation faultless_with :: "Sesame \<Rightarrow> Service option \<Rightarrow> mem \<Rightarrow> bool" where
  "faultless_with s v w \<equiv> m_faults w = [] \<and> stored_envoy w s = v"

lemma leaves_envoy: "leaves m_services m \<Longrightarrow> leaves (\<lambda>w. stored_envoy w s) m"
  by (simp add: leaves_def stored_envoy_def)

lemma prerequisites_certain:
  assumes lib: "library L"
  shows "yields (faultless_with s v) (ensure_prerequisites L mem_client s) [] (faultless_with s v)"
proof -
  note core = guarded.axioms(1) [OF mem_faultless [OF lib, of "nsname (Meta s)"]]
  note keeps = guarded_core.keeps_core_handlers [OF core refl]
  have quiet: "quiet_kind m_services (serviceaccounts mem_client)" "quiet_kind m_services (clusterroles mem_client)"
    "quiet_kind m_services (clusterrolebindings mem_client)" "quiet_kind m_services (roles mem_client)"
    "quiet_kind m_services (rolebindings mem_client)"
    by (simp_all add: mem_quiet)
  have account: "certain (faultless_with s v) (EnsureServiceAccount L mem_client name s)" for name
    by (rule certainI [OF mem_handlers_ok(2) [OF lib] keeps(2) leaves_envoy [OF leaves_simple(2) [OF quiet(1)]]])
  have "certain (faultless_with s v) (ensure_accounts L mem_client s names c)" for names c
    by (induction names arbitrary: c) (auto intro!: certain_step certain_ret account)
  then have "certain (faultless_with s v) (EnsureRBAC L mem_client s)"
    unfolding EnsureRBAC_def Let_def
    by (intro certain_and_then certain_wrapped
        certainI [OF mem_handlers_ok(3) [OF lib] keeps(3) leaves_envoy [OF leaves_simple(3) [OF quiet(2)]]]
        certainI [OF mem_handlers_ok(4) [OF lib] keeps(4) leaves_envoy [OF leaves_simple(4) [OF quiet(3)]]]
        certainI [OF mem_handlers_ok(5) [OF lib] keeps(5) leaves_envoy [OF leaves_simple(5) [OF quiet(4)]]]
        certainI [OF mem_handlers_ok(6) [OF lib] keeps(6) leaves_envoy [OF leaves_simple(6) [OF quiet(5)]]])
  moreover have "certain (faultless_with s v) (EnsureNamespace L mem_client s)"
    by (rule certainI [OF mem_handlers_ok(1) [OF lib] keeps(1) leaves_envoy [OF leaves_simple(1) [OF mem_table_quiet(1)]]])
  ultimately show ?thesis
    unfolding ensure_prerequisites_def by (rule yields_and_then [OF certain_yields certain_yields, rotated])
qed

text \<open>The workloads: Sesame's own Service has another key than Envoy's.\<close>

lemma sesame_service_certain:
  assumes lib: "library L"
  shows "certain (faultless_with s v) (EnsureSesameService L mem_client s)"
proof -
  note deq = library_deq [OF lib]
  have "stored_envoy (snd (run_state (EnsureSesameService L mem_client s) w)) s = stored_envoy w s" for w
    using managed_kind.ensure_frame [OF managed [OF mem_kind_library [OF lib, of m_services m_services_update svc_Meta]
          deep_equal.clusterip_replace_drift [OF deq] admission_keeps_eq deep_equal.agrees_refl(10) [OF deq]],
        of "\<lparr>nn_Namespace = spec_ns s, nn_Name = envoySvcName\<rparr>" _ "DesiredSesameService s" "OwnerLabels s" w]
      EnsureSesameService_refines [of w L mem_client s]
    by (simp add: refines_at_def stored_envoy_def envoySvcName_def SesameSvcName_def)
  then have "leaves (\<lambda>w. stored_envoy w s) (EnsureSesameService L mem_client s)" by (simp add: leaves_def)
  with mem_handlers_ok(8) [OF lib] guarded.keeps_simple_handlers(2) [OF mem_faultless [OF lib] refl]
  show ?thesis by (rule certainI)
qed

lemma envoy_service_certain:
  assumes lib: "library L" and two: "length (svs_Ports (svc_Spec (envoy_service s))) = 2"
    and ports: "envoy_ports_bounded s v"
  shows "yields (faultless_with s v) (handleResult wrap resource (EnsureEnvoyService L mem_client s) errs) errs
    (\<lambda>w. m_faults w = [])"
proof -
  have "is_ok (fst (run_state (EnsureEnvoyService L mem_client s) w)) \<and>
      m_faults (snd (run_state (EnsureEnvoyService L mem_client s) w)) = []" if "faultless_with s v w" for w
    using mem_envoy_ok [OF lib _ two, of w] ports that
      keepsD [OF guarded.keeps_EnsureEnvoyService [OF mem_faultless [OF lib] refl, of s], of w] by simp
  then show ?thesis
    unfolding yields_def handleResult_def by (fastforce split: prod.splits res.splits elim: is_ok.elims)
qed

lemma workloads_certain:
  assumes lib: "library L" and two: "length (svs_Ports (svc_Spec (envoy_service s))) = 2"
    and ports: "envoy_ports_bounded s v"
  shows "yields (faultless_with s v) (ensure_workloads L mem_client cfg s []) [] (\<lambda>w. m_faults w = [])"
proof -
  note faultless = mem_faultless [OF lib, of "nsname (Meta s)"]
  note steps = certainI [OF mem_handlers_ok(7) [OF lib] guarded.keeps_simple_handlers(1) [OF faultless refl]
      leaves_envoy [OF leaves_simple(7) [OF mem_table_quiet(3)]]]
    certainI [OF mem_job_ok [OF lib] guarded.keeps_EnsureJob [OF faultless refl]
      leaves_envoy [OF leaves_EnsureJob [OF lib mem_table_quiet(4)]]]
    certainI [OF mem_deployment_ok [OF lib] guarded.keeps_EnsureDeployment [OF faultless refl]
      leaves_envoy [OF leaves_EnsureDeployment [OF mem_table_quiet(5)]]]
    certainI [OF mem_daemonset_ok [OF lib] guarded.keeps_EnsureDaemonSet [OF faultless refl]
      leaves_envoy [OF leaves_EnsureDaemonSet [OF mem_table_quiet(6)]]]
    sesame_service_certain [OF lib]
  have "yields (faultless_with s v) (if has_envoy_service s
      then handleResult (ensure_err s) ''envoy service'' (EnsureEnvoyService L mem_client s) []
      else ret (Ok [])) [] (\<lambda>w. m_faults w = [])"
    using envoy_service_certain [OF lib two ports] by (auto simp: yields_def)
  then show ?thesis
    unfolding ensure_workloads_def Let_def
    by - ((rule yields_and_then, rule certain_yields, rule steps, assumption?)+)
qed

section \<open>What a pass leaves of the workloads\<close>

definition deployment_selector_ok :: "(iface \<Rightarrow> iface \<Rightarrow> bool) \<Rightarrow> Sesame \<Rightarrow> Deployment option \<Rightarrow> bool" where
  "deployment_selector_ok deq s v \<longleftrightarrow> (\<forall>d. v = Some d \<longrightarrow> owned_by s (dep_Meta d) \<longrightarrow>
     deq (ILabelSelector (ds_Selector (dep_Spec d))) (ILabelSelector (Some SesameDeploymentPodSelector)))"

definition daemonset_selector_ok :: "(iface \<Rightarrow> iface \<Rightarrow> bool) \<Rightarrow> Sesame \<Rightarrow> DaemonSet option \<Rightarrow> bool" where
  "daemonset_selector_ok deq s v \<longleftrightarrow> (\<forall>x. v = Some x \<longrightarrow> owned_by s (dms_Meta x) \<longrightarrow>
     deq (ILabelSelector (dss_Selector (dms_Spec x))) (ILabelSelector (Some EnvoyDaemonSetPodSelector)))"

lemma same_selectors_stored:
  "same_selectors deq s (lookup_obj dep_Meta (m_deployments w)) (lookup_obj dms_Meta (m_daemonsets w)) \<longleftrightarrow>
     deployment_selector_ok deq s (stored_deployment w s) \<and> daemonset_selector_ok deq s (stored_daemonset w s)"
  by (simp add: same_selectors_def deployment_selector_ok_def daemonset_selector_ok_def stored_deployment_def
      stored_daemonset_def)

lemma deployment_reached:
  assumes lib: "library L" and ok: "deployment_selector_ok (DeepEqual L) s (stored_deployment w s)"
    and run: "run_state (EnsureDeployment L mem_client s img) w = (Ok (), w')"
  shows "\<exists>y. stored_deployment w' s = Some y \<and> deployment_selector_ok (DeepEqual L) s (Some y)"
proof -
  have "reaches (\<lambda>w. lookup_obj dep_Meta (m_deployments w)) dep_Meta (deployment_agrees (DeepEqual L)) s
      (DesiredDeployment s img) w w'"
    using ok by (intro deployment_reaches [OF lib _ _ _ run, where adm = "(=)"])
      (simp_all add: mem_kind_library [OF lib] deployment_selector_ok_def stored_deployment_def)
  moreover have "DeepEqual L (ILabelSelector (ds_Selector (dep_Spec y))) (ILabelSelector (Some SesameDeploymentPodSelector))"
    if "deployment_agrees (DeepEqual L) y (DesiredDeployment s img)" for y
    using deep_equal.deq_deployment_selector [OF library_deq [OF lib]] that
    by (fastforce simp: deployment_agrees_def DesiredDeployment_def)
  ultimately show ?thesis
    by (auto simp: reaches_def stored_deployment_def deployment_selector_ok_def)
qed

lemma daemonset_reached:
  assumes lib: "library L" and ok: "daemonset_selector_ok (DeepEqual L) s (stored_daemonset w s)"
    and run: "run_state (EnsureDaemonSet L mem_client s c e) w = (Ok (), w')"
  shows "\<exists>y. stored_daemonset w' s = Some y \<and> daemonset_selector_ok (DeepEqual L) s (Some y)"
proof -
  have "reaches (\<lambda>w. lookup_obj dms_Meta (m_daemonsets w)) dms_Meta (daemonset_agrees (DeepEqual L)) s
      (DesiredDaemonSet s c e) w w'"
    using ok by (intro daemonset_reaches [OF lib _ _ _ run, where adm = "(=)"])
      (simp_all add: mem_kind_library [OF lib] daemonset_selector_ok_def stored_daemonset_def)
  moreover have "DeepEqual L (ILabelSelector (dss_Selector (dms_Spec y))) (ILabelSelector (Some EnvoyDaemonSetPodSelector))"
    if "daemonset_agrees (DeepEqual L) y (DesiredDaemonSet s c e)" for y
    using deep_equal.deq_daemonset_selector [OF library_deq [OF lib]] that
    by (fastforce simp: daemonset_agrees_def DesiredDaemonSet_def)
  ultimately show ?thesis
    by (auto simp: reaches_def stored_daemonset_def daemonset_selector_ok_def)
qed

text \<open>With the wrong selector the workload is gone afterwards.\<close>

lemma deployment_after:
  assumes lib: "library L" and quiet: "m_faults w = []"
    and run: "run_state (EnsureDeployment L mem_client s img) w = (Ok (), w')"
  shows "deployment_selector_ok (DeepEqual L) s (stored_deployment w' s)"
proof (cases "deployment_selector_ok (DeepEqual L) s (stored_deployment w s)")
  case True
  from deployment_reached [OF lib this run] show ?thesis by auto
next
  case False
  then obtain d where d: "stored_deployment w s = Some d" "owned_by s (dep_Meta d)"
    "DeploymentSelectorsDiffer (DeepEqual L) d (DesiredDeployment s img)"
    by (auto simp: deployment_selector_ok_def DeploymentSelectorsDiffer_def DesiredDeployment_def)
  then have get: "run_state (CurrentDeployment mem_client s) w = (Inr d, w)"
    using mem_reads(2) [OF quiet, where sel = m_deployments] by (simp add: CurrentDeployment_def stored_deployment_def)
  have "nsname (dep_Meta d) = \<lparr>nn_Namespace = spec_ns s, nn_Name = SesameDeploymentName\<rparr>"
    using d(1) lookup_key by (auto simp: stored_deployment_def)
  then have "stored_deployment w' s = None"
    using run get d quiet
    by (auto simp: EnsureDeployment_def Let_def EnsureDeploymentDeleted_def stored_deployment_def mem_kind_def
        with_fault_def)
  then show ?thesis by (simp add: deployment_selector_ok_def)
qed

lemma daemonset_after:
  assumes lib: "library L" and quiet: "m_faults w = []"
    and run: "run_state (EnsureDaemonSet L mem_client s c e) w = (Ok (), w')"
  shows "daemonset_selector_ok (DeepEqual L) s (stored_daemonset w' s)"
proof (cases "daemonset_selector_ok (DeepEqual L) s (stored_daemonset w s)")
  case True
  from daemonset_reached [OF lib this run] show ?thesis by auto
next
  case False
  then obtain d where d: "stored_daemonset w s = Some d" "owned_by s (dms_Meta d)"
    "DaemonSetSelectorsDiffer (DeepEqual L) d (DesiredDaemonSet s c e)"
    by (auto simp: daemonset_selector_ok_def DaemonSetSelectorsDiffer_def DesiredDaemonSet_def)
  then have get: "run_state (CurrentDaemonSet mem_client s) w = (Inr d, w)"
    using mem_reads(2) [OF quiet, where sel = m_daemonsets] by (simp add: CurrentDaemonSet_def stored_daemonset_def)
  have "nsname (dms_Meta d) = \<lparr>nn_Namespace = spec_ns s, nn_Name = envoyDaemonSetName\<rparr>"
    using d(1) lookup_key by (auto simp: stored_daemonset_def)
  then have "stored_daemonset w' s = None"
    using run get d quiet
    by (auto simp: EnsureDaemonSet_def Let_def EnsureDaemonSetDeleted_def stored_daemonset_def mem_kind_def
        with_fault_def)
  then show ?thesis by (simp add: daemonset_selector_ok_def)
qed

lemma envoy_bounded_after:
  assumes lib: "library L" and two: "length (svs_Ports (svc_Spec (envoy_service s))) = 2"
    and run: "if has_envoy_service s then run_state (EnsureEnvoyService L mem_client s) w = (Ok (), u) else u = w"
  shows "envoy_ports_bounded s (stored_envoy u s)"
proof (cases "pub_Type (envoy_pub s) = NodePortServicePublishingType")
  case True
  with run have "run_state (EnsureEnvoyService L mem_client s) w = (Ok (), u)" by (simp add: has_envoy_service_def)
  with mem_kind_library [OF lib, of m_services m_services_update svc_Meta]
  have "reaches (\<lambda>w. lookup_obj svc_Meta (m_services w)) svc_Meta (envoy_agrees (DeepEqual L) s) s (envoy_service s) w u"
    by (intro envoy_service_reaches [where cli = mem_client and adm = "(=)", OF lib]) simp_all
  then obtain y where "stored_envoy u s = Some y"
    "envoy_agrees (DeepEqual L) s y (envoy_service s) \<or> \<not> owned_by s (svc_Meta y)"
    by (auto simp: reaches_def stored_envoy_def)
  with True two show ?thesis
    by (auto simp: envoy_ports_bounded_def envoy_agrees_def dest: nodeport_agrees_length)
qed (simp add: envoy_ports_bounded_def split: option.split)

lemma workloads_after:
  assumes lib: "library L" and quiet: "m_faults w = []"
    and two: "length (svs_Ports (svc_Spec (envoy_service s))) = 2"
    and run: "run_state (ensure_workloads L mem_client cfg s []) w = (Ok [], u)"
  shows "deployment_selector_ok (DeepEqual L) s (stored_deployment u s)"
    "daemonset_selector_ok (DeepEqual L) s (stored_daemonset u s)"
    "envoy_ports_bounded s (stored_envoy u s)"
    "deployment_selector_ok (DeepEqual L) s (stored_deployment w s) \<Longrightarrow>
     daemonset_selector_ok (DeepEqual L) s (stored_daemonset w s) \<Longrightarrow>
     stored_deployment u s \<noteq> None \<and> stored_daemonset u s \<noteq> None"
proof -
  obtain w1 w2 w3 w4 w5 where s1: "run_state (EnsureConfigMap L mem_client s) w = (Ok (), w1)"
    and s2: "run_state (EnsureJob L mem_client s (ctl_SesameImage cfg)) w1 = (Ok (), w2)"
    and s3: "run_state (EnsureDeployment L mem_client s (ctl_SesameImage cfg)) w2 = (Ok (), w3)"
    and s4: "run_state (EnsureDaemonSet L mem_client s (ctl_SesameImage cfg) (ctl_EnvoyImage cfg)) w3 = (Ok (), w4)"
    and s5: "run_state (EnsureSesameService L mem_client s) w4 = (Ok (), w5)"
    and s6: "if has_envoy_service s then run_state (EnsureEnvoyService L mem_client s) w5 = (Ok (), u) else u = w5"
    using workload_steps [OF run] by blast
  note faultless = mem_faultless [OF lib, of "nsname (Meta s)"]
  have "m_faults w1 = []" using keepsD [OF guarded.keeps_simple_handlers(1) [OF faultless refl], of w] s1 quiet by simp
  then have "m_faults w2 = []"
    using keepsD [OF guarded.keeps_EnsureJob [OF faultless refl], of w1 "ctl_SesameImage cfg"] s2 by simp
  moreover from this have "m_faults w3 = []"
    using keepsD [OF guarded.keeps_EnsureDeployment [OF faultless refl], of w2 "ctl_SesameImage cfg"] s3 by simp
  ultimately have after: "deployment_selector_ok (DeepEqual L) s (stored_deployment w3 s)"
    "daemonset_selector_ok (DeepEqual L) s (stored_daemonset w4 s)"
    using deployment_after [OF lib _ s3] daemonset_after [OF lib _ s4] by simp_all
  note q = mem_workload_tables_quiet
  have dep: "m_deployments w2 = m_deployments w" "m_deployments w5 = m_deployments w3" "m_deployments u = m_deployments w5"
    using leavesD [OF leaves_simple(7) [OF q(3)] s1] leavesD [OF leaves_EnsureJob [OF lib q(4)] s2]
      leavesD [OF leaves_EnsureDaemonSet [OF q(5)] s4] leavesD [OF leaves_simple(8) [OF q(6)] s5]
      leavesD [OF leaves_EnsureEnvoyService [OF q(6)]] s6 by (auto split: if_splits)
  have dms: "m_daemonsets w3 = m_daemonsets w" "m_daemonsets w5 = m_daemonsets w4" "m_daemonsets u = m_daemonsets w5"
    using leavesD [OF leaves_simple(7) [OF q(9)] s1] leavesD [OF leaves_EnsureJob [OF lib q(10)] s2]
      leavesD [OF leaves_EnsureDeployment [OF q(11)] s3] leavesD [OF leaves_simple(8) [OF q(12)] s5]
      leavesD [OF leaves_EnsureEnvoyService [OF q(12)]] s6 by (auto split: if_splits)
  show "deployment_selector_ok (DeepEqual L) s (stored_deployment u s)"
    "daemonset_selector_ok (DeepEqual L) s (stored_daemonset u s)"
    using after dep dms by (simp_all add: stored_deployment_def stored_daemonset_def)
  show "envoy_ports_bounded s (stored_envoy u s)" by (rule envoy_bounded_after [OF lib two s6])
  show "stored_deployment u s \<noteq> None \<and> stored_daemonset u s \<noteq> None"
    if "deployment_selector_ok (DeepEqual L) s (stored_deployment w s)"
      "daemonset_selector_ok (DeepEqual L) s (stored_daemonset w s)"
    using that deployment_reached [OF lib _ s3] daemonset_reached [OF lib _ s4] dep dms
    by (auto simp: stored_deployment_def stored_daemonset_def)
qed

section \<open>Whole passes\<close>

lemma prerequisites_leave_workloads:
  "leaves m_deployments (ensure_prerequisites L mem_client s)"
  "leaves m_daemonsets (ensure_prerequisites L mem_client s)"
proof -
  note q = mem_workload_tables_quiet
  show "leaves m_deployments (ensure_prerequisites L mem_client s)"
    "leaves m_daemonsets (ensure_prerequisites L mem_client s)"
    unfolding leaves_keeps ensure_prerequisites_def handleResult_def
    by (intro allI keeps_intro leaves_simple(1) [OF q(1), unfolded leaves_keeps, rule_format]
        leaves_EnsureRBAC [OF q(2), unfolded leaves_keeps, rule_format]
        leaves_simple(1) [OF q(7), unfolded leaves_keeps, rule_format]
        leaves_EnsureRBAC [OF q(8), unfolded leaves_keeps, rule_format])+
qed

text \<open>The worlds a pass may start from and end in.\<close>

definition manageable :: "Sesame \<Rightarrow> mem \<Rightarrow> bool" where
  "manageable s w \<longleftrightarrow> m_faults w = [] \<and> lookup_obj Meta (m_sesames w) (nsname (Meta s)) = Some s \<and>
     length (svs_Ports (svc_Spec (envoy_service s))) = 2 \<and> envoy_ports_bounded s (stored_envoy w s)"

definition selectors_ok :: "(iface \<Rightarrow> iface \<Rightarrow> bool) \<Rightarrow> Sesame \<Rightarrow> mem \<Rightarrow> bool" where
  "selectors_ok deq s w \<longleftrightarrow> deployment_selector_ok deq s (stored_deployment w s) \<and>
     daemonset_selector_ok deq s (stored_daemonset w s)"

lemma manageable_status_free [simp]:
  fixes s :: Sesame
  shows "envoy_ports_bounded (s\<lparr>Status := st\<rparr>) = envoy_ports_bounded s"
    "deployment_selector_ok deq (s\<lparr>Status := st\<rparr>) = deployment_selector_ok deq s"
    "daemonset_selector_ok deq (s\<lparr>Status := st\<rparr>) = daemonset_selector_ok deq s"
    "stored_envoy w (s\<lparr>Status := st\<rparr>) = stored_envoy w s"
    "stored_deployment w (s\<lparr>Status := st\<rparr>) = stored_deployment w s"
    "stored_daemonset w (s\<lparr>Status := st\<rparr>) = stored_daemonset w s"
  by (simp_all add: envoy_ports_bounded_def deployment_selector_ok_def daemonset_selector_ok_def fun_eq_iff
      stored_envoy_def stored_deployment_def stored_daemonset_def split: option.split)

text \<open>The status at the end of a pass touches nothing but the Sesame.\<close>

lemma status_from_manageable:
  assumes lib: "library L" and quiet: "m_faults u = []"
    and stored: "lookup_obj Meta (m_sesames u) (nsname (Meta s)) = Some s"
  shows "\<exists>r w' st. run_state (SyncSesame (Suc n) L mem_client s) u = (Some r, w') \<and> r \<noteq> Panic \<and>
    (r = Ok () \<longleftrightarrow> stored_deployment u s \<noteq> None \<and> stored_daemonset u s \<noteq> None) \<and> m_faults w' = [] \<and>
    stored_deployment w' s = stored_deployment u s \<and> stored_daemonset w' s = stored_daemonset u s \<and>
    stored_envoy w' s = stored_envoy u s \<and>
    (m_sesames w' = m_sesames u \<and> st = Status s \<or> m_sesames w' = put_obj Meta (s\<lparr>Status := st\<rparr>) (m_sesames u)) \<and>
    (conditions_ok (Conditions (Status s)) \<longrightarrow> conditions_ok (Conditions st))"
proof -
  define st where "st = new_status (fst (run_state (Now L) u)) s (stored_deployment u s) (stored_daemonset u s)"
  obtain r where sync: "run_state (SyncSesame (Suc n) L mem_client s) u = (Some r,
      if SesameStatusChanged (DeepEqual L) (Status s) st
      then u\<lparr>m_sesames := put_obj Meta (s\<lparr>Status := st\<rparr>) (m_sesames u)\<rparr> else u)"
    "r = Ok () \<longleftrightarrow> stored_deployment u s \<noteq> None \<and> stored_daemonset u s \<noteq> None"
    using sync_mem [OF lib quiet stored, of n] unfolding st_def by blast
  moreover have "conditions_ok (Conditions (Status s)) \<Longrightarrow> conditions_ok (Conditions st)"
    by (simp add: st_def new_status_def Let_def mergeConditions_ok split: option.split)
  moreover have "r \<noteq> Panic" using SyncSesame_total [of "Suc n" L mem_client s u] sync(1) by auto
  ultimately show ?thesis
    using quiet
    by (intro exI [of _ r] exI [of _ "if SesameStatusChanged (DeepEqual L) (Status s) st then st else Status s"]
        exI [of _ "if SesameStatusChanged (DeepEqual L) (Status s) st
          then u\<lparr>m_sesames := put_obj Meta (s\<lparr>Status := st\<rparr>) (m_sesames u)\<rparr> else u"])
      (simp add: stored_deployment_def stored_daemonset_def stored_envoy_def)
qed

lemma pass_from_manageable:
  assumes lib: "library L" and start: "manageable s w"
  shows "\<exists>r w' st. run_state (ensureSesame (Suc n) L mem_client cfg s) w = (Some r, w') \<and>
    (m_sesames w' = m_sesames w \<and> st = Status s \<or> m_sesames w' = put_obj Meta (s\<lparr>Status := st\<rparr>) (m_sesames w)) \<and>
    manageable (s\<lparr>Status := st\<rparr>) w' \<and> selectors_ok (DeepEqual L) s w' \<and>
    (selectors_ok (DeepEqual L) s w \<longrightarrow> r = Ok ()) \<and> r \<noteq> Panic \<and>
    (conditions_ok (Conditions (Status s)) \<longrightarrow> conditions_ok (Conditions st))"
proof -
  from start have quiet: "m_faults w = []" and stored: "lookup_obj Meta (m_sesames w) (nsname (Meta s)) = Some s"
    and two: "length (svs_Ports (svc_Spec (envoy_service s))) = 2"
    and ports: "envoy_ports_bounded s (stored_envoy w s)" by (simp_all add: manageable_def)
  obtain v where v: "run_state (ensure_prerequisites L mem_client s) w = (Ok [], v)"
    "faultless_with s (stored_envoy w s) v"
    using yieldsD [OF prerequisites_certain [OF lib, of s "stored_envoy w s"], of w] quiet by auto
  obtain u where u: "run_state (ensure_workloads L mem_client cfg s []) v = (Ok [], u)" "m_faults u = []"
    using yieldsD [OF workloads_certain [OF lib two ports] v(2)] by blast
  have tables: "m_sesames u = m_sesames w" "stored_deployment v s = stored_deployment w s"
    "stored_daemonset v s = stored_daemonset w s"
    using leavesD [OF mem_sesames_kept(1) [OF lib] v(1)] leavesD [OF mem_sesames_kept(2) [OF lib] u(1)]
      leavesD [OF prerequisites_leave_workloads(1) v(1)] leavesD [OF prerequisites_leave_workloads(2) v(1)]
    by (simp_all add: stored_deployment_def stored_daemonset_def)
  with stored have "lookup_obj Meta (m_sesames u) (nsname (Meta s)) = Some s" by simp
  from status_from_manageable [OF lib u(2) this, of n] obtain r w' st where
    sync: "run_state (SyncSesame (Suc n) L mem_client s) u = (Some r, w')" "r \<noteq> Panic"
    "r = Ok () \<longleftrightarrow> stored_deployment u s \<noteq> None \<and> stored_daemonset u s \<noteq> None"
    and w': "m_faults w' = []" "stored_deployment w' s = stored_deployment u s"
    "stored_daemonset w' s = stored_daemonset u s" "stored_envoy w' s = stored_envoy u s"
    "m_sesames w' = m_sesames w \<and> st = Status s \<or> m_sesames w' = put_obj Meta (s\<lparr>Status := st\<rparr>) (m_sesames w)"
    "conditions_ok (Conditions (Status s)) \<longrightarrow> conditions_ok (Conditions st)"
    unfolding tables(1) by blast
  note after = workloads_after [OF lib _ two u(1)]
  obtain r' where "run_state (ensureSesame (Suc n) L mem_client cfg s) w = (Some r', w')" "r = Ok () \<longrightarrow> r' = Ok ()" "r' \<noteq> Panic"
    using v(1) u(1) sync(1,2) agg_res_nil [OF lib, of "[]"]
    by (cases r) (auto simp: ensureSesame_def syncSesameStatus_def)
  moreover have "manageable (s\<lparr>Status := st\<rparr>) w'" "selectors_ok (DeepEqual L) s w'"
    using w' stored two after(1-3) v(2) by (auto simp: manageable_def selectors_ok_def)
  moreover have "selectors_ok (DeepEqual L) s w \<longrightarrow> r = Ok ()"
    using after(4) v(2) tables sync(3) by (simp add: selectors_ok_def)
  ultimately show ?thesis using w'(5,6) by blast
qed

lemma Reconcile_manageable:
  assumes lib: "library L" and start: "manageable s w" and key: "nsname (Meta s) = req"
    and valid: "run_state (validate_Sesame mem_client s) w = (Ok (), w)"
    and ready: "timestamp_is_zero (DeletionTimestamp (Meta s))" "IsFinalized s"
  shows "\<exists>r w' st. run_state (Reconcile (Suc n) L mem_client cfg req) w = (Some r, w') \<and>
    manageable (s\<lparr>Status := st\<rparr>) w' \<and> selectors_ok (DeepEqual L) s w' \<and>
    run_state (validate_Sesame mem_client (s\<lparr>Status := st\<rparr>)) w' = (Ok (), w') \<and>
    (selectors_ok (DeepEqual L) s w \<longrightarrow> r = Ok zero_Result) \<and> r \<noteq> Panic \<and>
    (conditions_ok (Conditions (Status s)) \<longrightarrow> conditions_ok (Conditions st))"
proof -
  from start have quiet: "m_faults w = []" and stored: "lookup_obj Meta (m_sesames w) (nsname (Meta s)) = Some s"
    by (simp_all add: manageable_def)
  from pass_from_manageable [OF lib start, of n cfg] obtain r w' st where
    pass: "run_state (ensureSesame (Suc n) L mem_client cfg s) w = (Some r, w')"
      "m_sesames w' = m_sesames w \<and> st = Status s \<or> m_sesames w' = put_obj Meta (s\<lparr>Status := st\<rparr>) (m_sesames w)"
      "manageable (s\<lparr>Status := st\<rparr>) w'" "selectors_ok (DeepEqual L) s w'"
      "selectors_ok (DeepEqual L) s w \<longrightarrow> r = Ok ()" "r \<noteq> Panic"
      "conditions_ok (Conditions (Status s)) \<longrightarrow> conditions_ok (Conditions st)" by blast
  have "run_state (Get (sesames mem_client) req) w = (Inr s, w)"
    using mem_reads(2) [OF quiet, where sel = m_sesames, OF stored] key by simp
  then have "run_state (Reconcile (Suc n) L mem_client cfg req) w = (Some (requeue_or_fail r), w')"
    using pass(1) valid ready by (simp add: Reconcile_def)
  moreover have "run_state (validate_Sesame mem_client (s\<lparr>Status := st\<rparr>)) w' = (Ok (), w')"
    using validate_again [OF quiet _ stored pass(2)] valid pass(3) by (simp add: manageable_def)
  moreover have "requeue_or_fail r \<noteq> Panic" using pass(6) by (auto simp: requeue_or_fail_def split: res.split option.split)
  ultimately show ?thesis using pass(3-7) by (auto simp: requeue_or_fail_def)
qed

section \<open>Two passes are enough\<close>

text \<open>All objects of a Sesame are in place on the server in memory.\<close>

definition all_in_place :: "(iface \<Rightarrow> iface \<Rightarrow> bool) \<Rightarrow> Sesame \<Rightarrow> ControllerConfig \<Rightarrow> mem \<Rightarrow> bool" where
  "all_in_place deq s cfg w \<longleftrightarrow>
     in_place ns_Meta (namespace_agrees deq) s (DesiredNamespace s) (lookup_obj ns_Meta (m_namespaces w)) \<and>
     rbac_in_place deq s (lookup_obj sa_Meta (m_serviceaccounts w)) (lookup_obj cr_Meta (m_clusterroles w))
       (lookup_obj crb_Meta (m_clusterrolebindings w)) (lookup_obj role_Meta (m_roles w))
       (lookup_obj rb_Meta (m_rolebindings w)) \<and>
     workloads_in_place deq s cfg (lookup_obj cm_Meta (m_configmaps w)) (lookup_obj job_Meta (m_jobs w))
       (lookup_obj dep_Meta (m_deployments w)) (lookup_obj dms_Meta (m_daemonsets w))
       (lookup_obj svc_Meta (m_services w))"

lemma two_passes:
  assumes lib: "library L" and quiet: "m_faults w = []"
    and stored: "lookup_obj Meta (m_sesames w) req = Some s"
    and valid: "run_state (validate_Sesame mem_client s) w = (Ok (), w)"
    and ready: "timestamp_is_zero (DeletionTimestamp (Meta s))" "IsFinalized s"
    and ports: "envoy_ports_bounded s (stored_envoy w s)"
  shows "\<exists>r w1 w2. run_state (Reconcile (Suc n) L mem_client cfg req) w = (Some r, w1) \<and>
    run_state (Reconcile (Suc n) L mem_client cfg req) w1 = (Some (Ok zero_Result), w2) \<and>
    (same_selectors (DeepEqual L) s (lookup_obj dep_Meta (m_deployments w)) (lookup_obj dms_Meta (m_daemonsets w)) \<longrightarrow>
      r = Ok zero_Result) \<and>
    all_in_place (DeepEqual L) s cfg w2"
proof -
  have key: "nsname (Meta s) = req" by (rule lookup_key [OF stored])
  have "manageable s w" using quiet stored key validated_ports [OF valid] ports by (simp add: manageable_def)
  from Reconcile_manageable [OF lib this key valid ready, of n cfg] obtain r w1 st where
    first: "run_state (Reconcile (Suc n) L mem_client cfg req) w = (Some r, w1)"
      "manageable (s\<lparr>Status := st\<rparr>) w1" "selectors_ok (DeepEqual L) s w1"
      "run_state (validate_Sesame mem_client (s\<lparr>Status := st\<rparr>)) w1 = (Ok (), w1)"
      "selectors_ok (DeepEqual L) s w \<longrightarrow> r = Ok zero_Result" by blast
  let ?s = "s\<lparr>Status := st\<rparr>"
  have ready': "nsname (Meta ?s) = req" "timestamp_is_zero (DeletionTimestamp (Meta ?s))" "IsFinalized ?s"
    using key ready by (simp_all add: IsFinalized_iff)
  have sel: "selectors_ok (DeepEqual L) ?s w1" using first(3) by (simp add: selectors_ok_def)
  from Reconcile_manageable [OF lib first(2) ready'(1) first(4) ready'(2,3), of n cfg] sel obtain w2 where
    second: "run_state (Reconcile (Suc n) L mem_client cfg req) w1 = (Some (Ok zero_Result), w2)" by blast
  have get: "fst (run_state (Get (sesames mem_client) req) w1) = Inr ?s"
    using mem_reads(2) [of w1 Meta m_sesames "nsname (Meta ?s)" ?s] first(2) key by (simp add: manageable_def)
  have "same_selectors (DeepEqual L) ?s (lookup_obj dep_Meta (m_deployments w1)) (lookup_obj dms_Meta (m_daemonsets w1))"
    using sel by (simp add: same_selectors_stored selectors_ok_def)
  from pass_establishes [OF lib get ready'(2,3) this second] first(1,5) second
  show ?thesis by (simp add: all_in_place_def same_selectors_stored selectors_ok_def)
qed

text \<open>C4: From any content of the server in memory, as long as it answers every call, two
  reconciliations of a valid, finalized Sesame that is not being deleted put all its objects in place: whatever was missing,
  drifted, or made with another selector is created, updated or replaced, and what belongs to somebody
  else stays. The first reconciliation may report an error, but does not when no Deployment or DaemonSet
  of the Sesame has another selector; the second succeeds. Excluded is only an
  owned Envoy Service with more than two ports that publishes node ports, at which the handler panics.\<close>

theorem two_passes_stabilize:
  assumes lib: "library L" and quiet: "m_faults w = []"
    and stored: "lookup_obj Meta (m_sesames w) req = Some s"
    and valid: "run_state (validate_Sesame mem_client s) w = (Ok (), w)"
    and ready: "timestamp_is_zero (DeletionTimestamp (Meta s))" "IsFinalized s"
    and ports: "envoy_ports_bounded s (stored_envoy w s)"
  shows "\<exists>r w1 w2. run_state (Reconcile (Suc n) L mem_client cfg req) w = (Some r, w1) \<and>
    run_state (Reconcile (Suc n) L mem_client cfg req) w1 = (Some (Ok zero_Result), w2) \<and>
    (same_selectors (DeepEqual L) s (lookup_obj dep_Meta (m_deployments w)) (lookup_obj dms_Meta (m_daemonsets w)) \<longrightarrow>
      r = Ok zero_Result) \<and>
    in_place ns_Meta (namespace_agrees (DeepEqual L)) s (DesiredNamespace s)
      (lookup_obj ns_Meta (m_namespaces w2)) \<and>
    rbac_in_place (DeepEqual L) s (lookup_obj sa_Meta (m_serviceaccounts w2))
      (lookup_obj cr_Meta (m_clusterroles w2)) (lookup_obj crb_Meta (m_clusterrolebindings w2))
      (lookup_obj role_Meta (m_roles w2)) (lookup_obj rb_Meta (m_rolebindings w2)) \<and>
    workloads_in_place (DeepEqual L) s cfg (lookup_obj cm_Meta (m_configmaps w2))
      (lookup_obj job_Meta (m_jobs w2)) (lookup_obj dep_Meta (m_deployments w2))
      (lookup_obj dms_Meta (m_daemonsets w2)) (lookup_obj svc_Meta (m_services w2))"
  using two_passes [OF assms, of n cfg] unfolding all_in_place_def .

text \<open>A world with a Deployment of the Sesame that has no selector, and somebody else's ConfigMap.\<close>

definition drifted_mem :: mem where
  "drifted_mem = ready_mem
     \<lparr>m_deployments := [(DesiredDeployment sample_ready ''old'')\<lparr>dep_Spec :=
        (dep_Spec (DesiredDeployment sample_ready ''old''))\<lparr>ds_Selector := None\<rparr>\<rparr>],
      m_configmaps := [(desired_configmap sample_ready)\<lparr>cm_Meta :=
        (cm_Meta (desired_configmap sample_ready))\<lparr>Labels := None\<rparr>\<rparr>]\<rparr>"

lemma drifted_valid: "run_state (validate_Sesame mem_client sample_ready) drifted_mem = (Ok (), drifted_mem)"
  using ready_valid
  by (auto simp: validate_Sesame_def OtherSesamesExistInSpecNs_def OtherSesamesExist_def
      mem_client_def with_fault_def drifted_mem_def)

lemma drifted_envoy: "envoy_ports_bounded sample_ready (stored_envoy drifted_mem sample_ready)"
  by (simp add: envoy_ports_bounded_def stored_envoy_def drifted_mem_def ready_mem_def lookup_obj_def)

theorem two_passes_stabilize_witness:
  "\<exists>r w1 w2. run_state (Reconcile (Suc 0) std_lib mem_client sample_images sample_req) drifted_mem = (Some r, w1) \<and>
    run_state (Reconcile (Suc 0) std_lib mem_client sample_images sample_req) w1 = (Some (Ok zero_Result), w2)"
  using two_passes_stabilize [OF std.library_axioms _ _ drifted_valid _ _ drifted_envoy, of sample_req 0 sample_images]
  by (auto simp: drifted_mem_def lookup_obj_def timestamp_is_zero_def IsFinalized_iff)

end
