(* ===== verification/Teardown.thy ===== *)
theory Teardown
  imports Stabilization
begin

text \<open>
  Deletion on a server in memory that answers every call: one reconciliation of a Sesame that is being
  deleted removes everything that belongs to it and then the finalizer.
\<close>

section \<open>The RBAC objects\<close>

text \<open>The key of a collected object holds nothing.\<close>

fun removed :: "rbac_object \<Rightarrow> mem \<Rightarrow> bool" where
  "removed (OServiceAccount x) w \<longleftrightarrow> lookup_obj sa_Meta (m_serviceaccounts w) (nsname (sa_Meta x)) = None"
| "removed (OClusterRole x) w \<longleftrightarrow> lookup_obj cr_Meta (m_clusterroles w) (nsname (cr_Meta x)) = None"
| "removed (OClusterRoleBinding x) w \<longleftrightarrow>
     lookup_obj crb_Meta (m_clusterrolebindings w) (nsname (crb_Meta x)) = None"
| "removed (ORole x) w \<longleftrightarrow> lookup_obj role_Meta (m_roles w) (nsname (role_Meta x)) = None"
| "removed (ORoleBinding x) w \<longleftrightarrow> lookup_obj rb_Meta (m_rolebindings w) (nsname (rb_Meta x)) = None"

text \<open>A table only loses objects.\<close>

definition fewer :: "('o \<Rightarrow> ObjectMeta) \<Rightarrow> 'o table \<Rightarrow> 'o table \<Rightarrow> bool" where
  "fewer meta t t' \<longleftrightarrow> (\<forall>k x. lookup_obj meta t' k = Some x \<longrightarrow> lookup_obj meta t k = Some x)"

lemma fewer_refl [simp]: "fewer meta t t"
  by (simp add: fewer_def)

lemma fewer_trans: "fewer meta a b \<Longrightarrow> fewer meta b c \<Longrightarrow> fewer meta a c"
  by (simp add: fewer_def)

lemma fewer_del [simp]: "fewer meta t (del_obj meta k t)"
  by (simp add: fewer_def)

definition rbac_fewer :: "mem \<Rightarrow> mem \<Rightarrow> bool" where
  "rbac_fewer w w' \<longleftrightarrow> m_faults w' = m_faults w \<and> m_sesames w' = m_sesames w \<and>
     fewer sa_Meta (m_serviceaccounts w) (m_serviceaccounts w') \<and>
     fewer cr_Meta (m_clusterroles w) (m_clusterroles w') \<and>
     fewer crb_Meta (m_clusterrolebindings w) (m_clusterrolebindings w') \<and>
     fewer role_Meta (m_roles w) (m_roles w') \<and> fewer rb_Meta (m_rolebindings w) (m_rolebindings w')"

lemma rbac_fewer_refl [simp]: "rbac_fewer w w"
  by (simp add: rbac_fewer_def)

lemma rbac_fewer_trans: "rbac_fewer a b \<Longrightarrow> rbac_fewer b c \<Longrightarrow> rbac_fewer a c"
  unfolding rbac_fewer_def by (metis fewer_trans)

lemma fewer_None: "fewer meta t t' \<Longrightarrow> lookup_obj meta t k = None \<Longrightarrow> lookup_obj meta t' k = None"
  unfolding fewer_def by (metis not_Some_eq)

lemma removed_fewer: "removed x w \<Longrightarrow> rbac_fewer w w' \<Longrightarrow> removed x w'"
  by (cases x) (auto simp: rbac_fewer_def dest: fewer_None)

lemma mem_delete_object:
  assumes "m_faults w = []" and "library L"
  shows "\<exists>d w'. run_state (delete_object mem_client x) w = (d, w') \<and> (\<forall>e. d = Some e \<longrightarrow> IsNotFound L e) \<and>
    rbac_fewer w w' \<and> removed x w'"
  using assms missing_is_not_found [OF assms(2)]
  by (cases x; simp add: mem_kind_def with_fault_def; split option.split; auto simp: rbac_fewer_def)

lemma mem_delete_objects:
  assumes "m_faults w = []" and lib: "library L"
  shows "\<exists>w'. run_state (delete_objects L mem_client s xs) w = (Ok (), w') \<and> rbac_fewer w w' \<and>
    (\<forall>x \<in> set xs. owned_by s (object_meta x) \<longrightarrow> removed x w')"
  using assms(1)
proof (induction xs arbitrary: w)
  case Nil
  then show ?case by simp
next
  case (Cons x xs)
  show ?case
  proof (cases "owned_by s (object_meta x)")
    case False
    with Cons.IH [OF Cons.prems] show ?thesis by auto
  next
    case True
    obtain d v where d: "run_state (delete_object mem_client x) w = (d, v)" "\<forall>e. d = Some e \<longrightarrow> IsNotFound L e"
      "rbac_fewer w v" "removed x v" using mem_delete_object [OF Cons.prems lib] by blast
    from d(3) Cons.prems have "m_faults v = []" by (simp add: rbac_fewer_def)
    from Cons.IH [OF this] obtain w' where w': "run_state (delete_objects L mem_client s xs) v = (Ok (), w')"
      "rbac_fewer v w'" "\<forall>x \<in> set xs. owned_by s (object_meta x) \<longrightarrow> removed x w'" by blast
    have "run_state (delete_objects L mem_client s (x # xs)) w = (Ok (), w')"
      using True d(1,2) w'(1) by (auto split: option.split)
    then show ?thesis
      using w' removed_fewer [OF d(4) w'(2)] rbac_fewer_trans [OF d(3) w'(2)] by auto
  qed
qed

text \<open>Collecting appends the stored object, if there is one.\<close>

lemma mem_collect:
  assumes "m_faults w = []" and "library L"
  shows "run_state (collect_object L mk (Get (mem_kind sel upd meta) k) objs) w =
    (Ok (objs @ (case lookup_obj meta (sel w) k of None \<Rightarrow> [] | Some x \<Rightarrow> [mk x])), w)"
  using assms missing_is_not_found [OF assms(2)]
  by (simp add: collect_object_def mem_kind_def with_fault_def split: option.split)

definition found :: "('o \<Rightarrow> ObjectMeta) \<Rightarrow> ('o \<Rightarrow> rbac_object) \<Rightarrow> 'o table \<Rightarrow> NamespacedName \<Rightarrow> rbac_object list" where
  "found meta mk t k = (case lookup_obj meta t k of None \<Rightarrow> [] | Some x \<Rightarrow> [mk x])"

lemma found_iff: "y \<in> set (found meta mk t k) \<longleftrightarrow> (\<exists>x. lookup_obj meta t k = Some x \<and> y = mk x)"
  by (cases "lookup_obj meta t k") (auto simp: found_def)

definition stored_namespaced :: "string \<Rightarrow> mem \<Rightarrow> rbac_object list" where
  "stored_namespaced ns w = (let key = \<lambda>n. \<lparr>nn_Namespace = ns, nn_Name = n\<rparr> in
     found rb_Meta ORoleBinding (m_rolebindings w) (key SesameRbacName) @
     found role_Meta ORole (m_roles w) (key SesameRbacName) @
     found role_Meta ORole (m_roles w) (key CertGenRbacName) @
     concat (map (\<lambda>n. found sa_Meta OServiceAccount (m_serviceaccounts w) (key n)) rbac_names))"

definition stored_cluster :: "string \<Rightarrow> mem \<Rightarrow> rbac_object list" where
  "stored_cluster name w =
     found crb_Meta OClusterRoleBinding (m_clusterrolebindings w) \<lparr>nn_Namespace = [], nn_Name = name\<rparr> @
     found cr_Meta OClusterRole (m_clusterroles w) \<lparr>nn_Namespace = [], nn_Name = name\<rparr>"

lemma mem_collect_accounts:
  assumes "m_faults w = []" and "library L"
  shows "run_state (collect_accounts L mem_client ns names objs) w = (Ok (objs @ concat (map (\<lambda>n.
    found sa_Meta OServiceAccount (m_serviceaccounts w) \<lparr>nn_Namespace = ns, nn_Name = n\<rparr>) names)), w)"
  by (induction names arbitrary: objs)
    (simp_all add: run_and_then CurrentServiceAccount_def mem_collect [OF assms] found_def)

lemma mem_collects:
  assumes "m_faults w = []" and "library L"
  shows "run_state (collect_namespaced L mem_client ns objs) w = (Ok (objs @ stored_namespaced ns w), w)"
    "run_state (collect_cluster L mem_client name objs) w = (Ok (objs @ stored_cluster name w), w)"
  by (simp_all add: collect_namespaced_def collect_cluster_def run_and_then CurrentRoleBinding_def CurrentRole_def
      CurrentClusterRoleBinding_def CurrentClusterRole_def mem_collect [OF assms] mem_collect_accounts [OF assms]
      stored_namespaced_def stored_cluster_def found_def Let_def)

text \<open>What the deletion leaves: nothing of the Sesame under the names it uses.\<close>

definition rbac_released :: "Sesame \<Rightarrow> mem \<Rightarrow> bool" where
  "rbac_released s w \<longleftrightarrow>
     (\<forall>n \<in> set rbac_names. released sa_Meta s n (lookup_obj sa_Meta (m_serviceaccounts w))) \<and>
     released role_Meta s CertGenRbacName (lookup_obj role_Meta (m_roles w)) \<and>
     released rb_Meta s SesameRbacName (lookup_obj rb_Meta (m_rolebindings w))"

definition cluster_rbac_released :: "Sesame \<Rightarrow> mem \<Rightarrow> bool" where
  "cluster_rbac_released s w \<longleftrightarrow> (let key = \<lparr>nn_Namespace = [], nn_Name = cluster_rbac_name s\<rparr> in
     (\<forall>x. lookup_obj cr_Meta (m_clusterroles w) key = Some x \<longrightarrow> \<not> owned_by s (cr_Meta x)) \<and>
     (\<forall>x. lookup_obj crb_Meta (m_clusterrolebindings w) key = Some x \<longrightarrow> \<not> owned_by s (crb_Meta x)))"

lemma released_found:
  assumes "fewer meta t t'" and "lookup_obj meta t' k = Some x"
    and "\<And>x. lookup_obj meta t k = Some x \<Longrightarrow> owned_by s (meta x) \<Longrightarrow> lookup_obj meta t' (nsname (meta x)) = None"
  shows "\<not> owned_by s (meta x)"
proof
  assume "owned_by s (meta x)"
  moreover have "lookup_obj meta t k = Some x" using assms(1,2) by (simp add: fewer_def)
  ultimately have "lookup_obj meta t' (nsname (meta x)) = None" by (rule assms(3) [rotated])
  with assms(2) lookup_key [OF assms(2)] show False by simp
qed

lemma deleted_namespaced:
  assumes less: "rbac_fewer w w'"
    and gone: "\<And>x. x \<in> set (stored_namespaced (spec_ns s) w) \<Longrightarrow> owned_by s (object_meta x) \<Longrightarrow> removed x w'"
  shows "rbac_released s w'"
proof -
  let ?key = "\<lambda>n. \<lparr>nn_Namespace = spec_ns s, nn_Name = n\<rparr>"
  have fewer: "fewer sa_Meta (m_serviceaccounts w) (m_serviceaccounts w')" "fewer role_Meta (m_roles w) (m_roles w')"
    "fewer rb_Meta (m_rolebindings w) (m_rolebindings w')" using less by (simp_all add: rbac_fewer_def)
  have sa: "lookup_obj sa_Meta (m_serviceaccounts w) (?key n) = Some x \<Longrightarrow> n \<in> set rbac_names \<Longrightarrow>
      owned_by s (sa_Meta x) \<Longrightarrow> removed (OServiceAccount x) w'" for n x
    by (rule gone) (auto simp: stored_namespaced_def Let_def found_iff)
  have role: "lookup_obj role_Meta (m_roles w) (?key CertGenRbacName) = Some x \<Longrightarrow> owned_by s (role_Meta x) \<Longrightarrow>
      removed (ORole x) w'" for x
    by (rule gone) (auto simp: stored_namespaced_def Let_def found_iff)
  have rb: "lookup_obj rb_Meta (m_rolebindings w) (?key SesameRbacName) = Some x \<Longrightarrow> owned_by s (rb_Meta x) \<Longrightarrow>
      removed (ORoleBinding x) w'" for x
    by (rule gone) (auto simp: stored_namespaced_def Let_def found_iff)
  show ?thesis
    unfolding rbac_released_def released_def
    using released_found [OF fewer(1)] released_found [OF fewer(2)] released_found [OF fewer(3)] sa role rb
    by simp
qed

lemma deleted_cluster:
  assumes less: "rbac_fewer w w'"
    and gone: "\<And>x. x \<in> set (stored_cluster (cluster_rbac_name s) w) \<Longrightarrow> owned_by s (object_meta x) \<Longrightarrow> removed x w'"
  shows "cluster_rbac_released s w'"
proof -
  let ?key = "\<lparr>nn_Namespace = [], nn_Name = cluster_rbac_name s\<rparr>"
  have fewer: "fewer cr_Meta (m_clusterroles w) (m_clusterroles w')"
    "fewer crb_Meta (m_clusterrolebindings w) (m_clusterrolebindings w')" using less by (simp_all add: rbac_fewer_def)
  have cr: "lookup_obj cr_Meta (m_clusterroles w) ?key = Some x \<Longrightarrow> owned_by s (cr_Meta x) \<Longrightarrow>
      removed (OClusterRole x) w'" for x
    by (rule gone) (auto simp: stored_cluster_def found_iff)
  have crb: "lookup_obj crb_Meta (m_clusterrolebindings w) ?key = Some x \<Longrightarrow> owned_by s (crb_Meta x) \<Longrightarrow>
      removed (OClusterRoleBinding x) w'" for x
    by (rule gone) (auto simp: stored_cluster_def found_iff)
  show ?thesis
    unfolding cluster_rbac_released_def Let_def
    using released_found [OF fewer(1)] released_found [OF fewer(2)] cr crb by simp
qed

section \<open>The RBAC handler\<close>

text \<open>No other Sesame has the spec namespace; no other Sesame is stored at all.\<close>

definition alone_in_ns :: "Sesame \<Rightarrow> mem \<Rightarrow> bool" where
  "alone_in_ns s w \<longleftrightarrow>
     (\<forall>x \<in> set (m_sesames w). spec_ns x = spec_ns s \<longrightarrow> nsname (Meta x) = nsname (Meta s))"

lemma mem_others:
  assumes "m_faults w = []"
  shows "\<exists>b. run_state (OtherSesamesExistInSpecNs mem_client s) w = (Ok b, w) \<and> (alone_in_ns s w \<longrightarrow> \<not> b)"
    "\<exists>b items. run_state (OtherSesamesExist mem_client s) w = (Ok (b, items), w) \<and> (m_sesames w = [s] \<longrightarrow> \<not> b)"
proof -
  note l = mem_list [OF assms]
  have "alone_in_ns s w \<Longrightarrow> \<not> other_in_spec_ns s (m_sesames w)"
    by (auto simp: other_in_spec_ns_iff alone_in_ns_def nsname_def)
  then show "\<exists>b. run_state (OtherSesamesExistInSpecNs mem_client s) w = (Ok b, w) \<and> (alone_in_ns s w \<longrightarrow> \<not> b)"
    by (auto simp: OtherSesamesExistInSpecNs_def OtherSesamesExist_def l)
  show "\<exists>b items. run_state (OtherSesamesExist mem_client s) w = (Ok (b, items), w) \<and> (m_sesames w = [s] \<longrightarrow> \<not> b)"
  proof (cases "m_sesames w = [] \<or> length (m_sesames w) = 1 \<and> sesame_name (m_sesames w ! 0) = sesame_name s")
    case True
    then have "run_state (OtherSesamesExist mem_client s) w = (Ok (False, []), w)"
      by (auto simp: OtherSesamesExist_def l)
    then show ?thesis by blast
  next
    case False
    then have "run_state (OtherSesamesExist mem_client s) w = (Ok (True, m_sesames w), w)" "m_sesames w \<noteq> [s]"
      by (auto simp: OtherSesamesExist_def l)
    then show ?thesis by blast
  qed
qed

lemma mem_rbac_deleted:
  assumes quiet: "m_faults w = []" and lib: "library L"
  shows "\<exists>w'. run_state (EnsureRBACDeleted L mem_client s) w = (Ok (), w') \<and> rbac_fewer w w' \<and>
    (alone_in_ns s w \<longrightarrow> rbac_released s w') \<and> (alone_in_ns s w \<and> m_sesames w = [s] \<longrightarrow> cluster_rbac_released s w')"
proof -
  note collects = mem_collects [OF quiet lib]
  obtain b1 where o1: "run_state (OtherSesamesExistInSpecNs mem_client s) w = (Ok b1, w)" "alone_in_ns s w \<longrightarrow> \<not> b1"
    using mem_others(1) [OF quiet] by blast
  obtain b2 items where o2: "run_state (OtherSesamesExist mem_client s) w = (Ok (b2, items), w)"
    "m_sesames w = [s] \<longrightarrow> \<not> b2" using mem_others(2) [OF quiet] by blast
  define xs where "xs = (if b1 then [] else stored_namespaced (spec_ns s) w) @
    (if b2 then [] else stored_cluster (cluster_rbac_name s) w)"
  obtain w' where w': "run_state (delete_objects L mem_client s xs) w = (Ok (), w')" "rbac_fewer w w'"
    "\<forall>x \<in> set xs. owned_by s (object_meta x) \<longrightarrow> removed x w'" using mem_delete_objects [OF quiet lib] by blast
  have "NewAggregate L [] = None" using lib by (simp add: library_def aggregator.aggregate_nil)
  then have "run_state (EnsureRBACDeleted L mem_client s) w = (Ok (), w')"
    using w'(1) o1 o2 collects(1) [of "spec_ns s" "[]"] collects(2) [of "cluster_rbac_name s"]
    by (cases b1; cases b2) (simp_all add: EnsureRBACDeleted_def run_and_then wrapped_def xs_def)
  moreover have "alone_in_ns s w \<longrightarrow> rbac_released s w'"
    using deleted_namespaced [OF w'(2)] w'(3) o1(2) by (auto simp: xs_def)
  moreover have "m_sesames w = [s] \<longrightarrow> cluster_rbac_released s w'"
    using deleted_cluster [OF w'(2)] w'(3) o2(2) by (auto simp: xs_def)
  ultimately show ?thesis using w'(2) by blast
qed

section \<open>The namespace\<close>

definition namespace_released :: "Sesame \<Rightarrow> mem \<Rightarrow> bool" where
  "namespace_released s w \<longleftrightarrow>
     (RemoveOnDeletion (SpecNamespace (Spec s)) \<and> spec_ns s \<notin> set namespaceCoreList \<longrightarrow>
      (\<forall>x. lookup_obj ns_Meta (m_namespaces w) \<lparr>nn_Namespace = [], nn_Name = spec_ns s\<rparr> = Some x \<longrightarrow>
        \<not> owned_by s (ns_Meta x)))"

lemma mem_namespace_deleted:
  assumes quiet: "m_faults w = []" and lib: "library L"
  shows "\<exists>e w'. run_state (EnsureNamespaceDeleted L mem_client s) w = ((e, Ok ()), w') \<and>
    (w' = w \<or> (\<exists>k. w' = m_namespaces_update (del_obj ns_Meta k) w)) \<and> (alone_in_ns s w \<longrightarrow> namespace_released s w')"
proof -
  let ?key = "\<lparr>nn_Namespace = [], nn_Name = spec_ns s\<rparr>"
  obtain b where other: "run_state (OtherSesamesExistInSpecNs mem_client s) w = (Ok b, w)" "alone_in_ns s w \<longrightarrow> \<not> b"
    using mem_others(1) [OF quiet] by blast
  show ?thesis
  proof (cases "RemoveOnDeletion (SpecNamespace (Spec s)) \<and> spec_ns s \<notin> set namespaceCoreList")
    case False
    then show ?thesis
      by (cases "RemoveOnDeletion (SpecNamespace (Spec s))")
        (auto simp: EnsureNamespaceDeleted_def Let_def in_core_list_iff namespace_released_def)
  next
    case True
    show ?thesis
    proof (cases "lookup_obj ns_Meta (m_namespaces w) ?key")
      case None
      with True quiet missing_is_not_found [OF lib] show ?thesis
        by (auto simp: EnsureNamespaceDeleted_def Let_def in_core_list_iff currentSpecNsName_def mem_missing
            namespace_released_def)
    next
      case (Some ns)
      have get: "run_state (currentSpecNsName mem_client (spec_ns s)) w = (Inr ns, w)"
        using mem_reads(2) [OF quiet, where sel = m_namespaces, OF Some] by (simp add: currentSpecNsName_def)
      have "run_state (Delete (namespaces mem_client) ns) w = (None, m_namespaces_update (del_obj ns_Meta ?key) w)"
        using quiet Some lookup_key [OF Some] by (simp add: mem_kind_def with_fault_def)
      with True Some get other show ?thesis
        by (auto simp: EnsureNamespaceDeleted_def Let_def in_core_list_iff namespace_released_def)
    qed
  qed
qed

section \<open>The whole deletion\<close>

abbreviation faultless_sesames :: "Sesame table \<Rightarrow> mem \<Rightarrow> bool" where
  "faultless_sesames t w \<equiv> m_faults w = [] \<and> m_sesames w = t"

lemma workload_deletions_certain:
  assumes lib: "library L"
  shows "certain (faultless_sesames t) (EnsureConfigMapDeleted L mem_client s)"
    "certain (faultless_sesames t) (EnsureDeploymentDeleted L mem_client s)"
    "certain (faultless_sesames t) (EnsureDaemonSetDeleted L mem_client s)"
    "certain (faultless_sesames t) (EnsureJobDeleted L mem_client s)"
    "certain (faultless_sesames t) (EnsureSesameServiceDeleted L mem_client s)"
    "certain (faultless_sesames t) (EnsureEnvoyServiceDeleted L mem_client s)"
proof -
  note keeps = guarded.keeps_deletions [OF mem_faultless [OF lib] refl, of s]
  have ok: "is_ok (fst (run_state (EnsureConfigMapDeleted L mem_client s) w))"
    "is_ok (fst (run_state (EnsureDeploymentDeleted L mem_client s) w))"
    "is_ok (fst (run_state (EnsureDaemonSetDeleted L mem_client s) w))"
    "is_ok (fst (run_state (EnsureJobDeleted L mem_client s) w))"
    "is_ok (fst (run_state (EnsureSesameServiceDeleted L mem_client s) w))"
    "is_ok (fst (run_state (EnsureEnvoyServiceDeleted L mem_client s) w))" if "m_faults w = []" for w
    using that by (simp_all add: deletions_refine mem_delete_ok missing_is_not_found lib)
  note leave = leaves_deletions [where cli = mem_client and V = m_sesames, simplified, OF mem_quiet]
  show "certain (faultless_sesames t) (EnsureConfigMapDeleted L mem_client s)"
    "certain (faultless_sesames t) (EnsureDeploymentDeleted L mem_client s)"
    "certain (faultless_sesames t) (EnsureDaemonSetDeleted L mem_client s)"
    by (rule certainI, erule ok, rule keeps, rule leave, simp_all)+
  show "certain (faultless_sesames t) (EnsureJobDeleted L mem_client s)"
    "certain (faultless_sesames t) (EnsureSesameServiceDeleted L mem_client s)"
    "certain (faultless_sesames t) (EnsureEnvoyServiceDeleted L mem_client s)"
    by (rule certainI, erule ok, rule keeps, rule leave, simp_all)+
qed

lemma rbac_deletion_certain:
  assumes lib: "library L"
  shows "certain (faultless_sesames t) (EnsureRBACDeleted L mem_client s)"
  unfolding certain_def
proof (intro allI impI)
  fix w assume "faultless_sesames t w"
  with mem_rbac_deleted [OF _ lib, of w s] obtain w' where
    "run_state (EnsureRBACDeleted L mem_client s) w = (Ok (), w')" "rbac_fewer w w'" by blast
  then show "is_ok (fst (run_state (EnsureRBACDeleted L mem_client s) w)) \<and>
      faultless_sesames t (snd (run_state (EnsureRBACDeleted L mem_client s) w))"
    using \<open>faultless_sesames t w\<close> by (simp add: rbac_fewer_def)
qed

lemma namespace_deletion_yields:
  assumes lib: "library L"
  shows "yields (faultless_sesames t) (State_Monad.bind (EnsureNamespaceDeleted L mem_client s)
      (\<lambda>(e, r). if e then handleResult f name (ret r) errs else ret (Ok errs))) errs (faultless_sesames t)"
  unfolding yields_def
proof (intro allI impI)
  fix w assume "faultless_sesames t w"
  with mem_namespace_deleted [OF _ lib, of w s] obtain e w' where
    "run_state (EnsureNamespaceDeleted L mem_client s) w = ((e, Ok ()), w')" "faultless_sesames t w'" by fastforce
  then show "\<exists>w'. run_state (State_Monad.bind (EnsureNamespaceDeleted L mem_client s)
      (\<lambda>(e, r). if e then handleResult f name (ret r) errs else ret (Ok errs))) w = (Ok errs, w') \<and>
      faultless_sesames t w'"
    by (simp add: handleResult_def)
qed

lemma delete_resources_yields:
  assumes lib: "library L"
  shows "yields (faultless_sesames t) (delete_resources L mem_client s) [] (faultless_sesames t)"
proof -
  note steps = workload_deletions_certain [OF lib] rbac_deletion_certain [OF lib]
  have envoy: "yields (faultless_sesames t) (if has_envoy_service s
      then handleResult (delete_err s) ''envoy service'' (EnsureEnvoyServiceDeleted L mem_client s) []
      else ret (Ok [])) [] (faultless_sesames t)"
    using certain_yields [OF steps(6)] by (simp add: yields_def)
  show ?thesis
    unfolding delete_resources_def Let_def
    by (rule yields_and_then [OF envoy], (rule yields_and_then, rule certain_yields, rule steps)+)
      (rule namespace_deletion_yields [OF lib])
qed

text \<open>What is left of the tables when the RBAC handler and the namespace handler are through.\<close>

lemma core_released:
  assumes lib: "library L" and quiet: "m_faults w = []"
    and run: "run_state (delete_resources L mem_client s) w = (Ok [], w')"
  shows "(alone_in_ns s w \<longrightarrow> rbac_released s w' \<and> namespace_released s w') \<and>
    (alone_in_ns s w \<and> m_sesames w = [s] \<longrightarrow> cluster_rbac_released s w')"
proof -
  from delete_steps [OF run] obtain w1 w2 w3 w4 w5 w6 w7 where
      s1: "if has_envoy_service s then run_state (EnsureEnvoyServiceDeleted L mem_client s) w = (Ok (), w1) else w1 = w"
    and s2: "run_state (EnsureSesameServiceDeleted L mem_client s) w1 = (Ok (), w2)"
    and s3: "run_state (EnsureDaemonSetDeleted L mem_client s) w2 = (Ok (), w3)"
    and s4: "run_state (EnsureDeploymentDeleted L mem_client s) w3 = (Ok (), w4)"
    and s5: "run_state (EnsureJobDeleted L mem_client s) w4 = (Ok (), w5)"
    and s6: "run_state (EnsureConfigMapDeleted L mem_client s) w5 = (Ok (), w6)"
    and s7: "run_state (EnsureRBACDeleted L mem_client s) w6 = (Ok (), w7)"
    and s8: "w' = snd (run_state (EnsureNamespaceDeleted L mem_client s) w7)" by blast
  have step: "faultless_sesames t v'" if "certain (faultless_sesames t) m" "run_state m v = (r, v')" "faultless_sesames t v"
    for t v v' and m :: "(mem, unit res) state" and r
    using that unfolding certain_def by (metis snd_conv)
  note certain = workload_deletions_certain [OF lib, where s = s]
  have "faultless_sesames (m_sesames w) w1" using step [OF certain(6) _, of w _ w1] s1 quiet by (auto split: if_splits)
  then have w6: "faultless_sesames (m_sesames w) w6"
    using step [OF certain(1) s6] step [OF certain(4) s5] step [OF certain(2) s4] step [OF certain(3) s3]
      step [OF certain(5) s2] by blast
  from mem_rbac_deleted [OF _ lib, of w6 s] s7 w6 have rbac: "rbac_fewer w6 w7"
    "alone_in_ns s w6 \<longrightarrow> rbac_released s w7" "alone_in_ns s w6 \<and> m_sesames w6 = [s] \<longrightarrow> cluster_rbac_released s w7"
    by auto
  from mem_namespace_deleted [OF _ lib, of w7 s] rbac(1) w6 s8 have ns:
    "w' = w7 \<or> (\<exists>k. w' = m_namespaces_update (del_obj ns_Meta k) w7)" "alone_in_ns s w7 \<longrightarrow> namespace_released s w'"
    by (auto simp: rbac_fewer_def)
  have "rbac_released s w' = rbac_released s w7" "cluster_rbac_released s w' = cluster_rbac_released s w7"
    using ns(1) by (auto simp: rbac_released_def cluster_rbac_released_def)
  moreover have "alone_in_ns s w6 = alone_in_ns s w" "alone_in_ns s w7 = alone_in_ns s w"
    using w6 rbac(1) by (simp_all add: alone_in_ns_def rbac_fewer_def)
  ultimately show ?thesis using rbac ns(2) w6 by simp
qed

text \<open>C10: On a server in memory that answers every call, one reconciliation of a Sesame that is being
  deleted succeeds and removes its finalizer; then none of its workloads, Services and its ConfigMap is
  left, nor, when no other Sesame has the same spec namespace, its namespaced RBAC objects and its
  namespace (if the spec asks for that and it is no core namespace), nor, when no other Sesame exists,
  its cluster-wide RBAC objects.\<close>

theorem deletion_completes:
  assumes lib: "library L" and quiet: "m_faults w = []"
    and stored: "lookup_obj Meta (m_sesames w) req = Some s"
    and deleting: "\<not> timestamp_is_zero (DeletionTimestamp (Meta s))"
  shows "\<exists>w' t. run_state (Reconcile n L mem_client cfg req) w = (Some (Ok zero_Result), w') \<and>
    lookup_obj Meta (m_sesames w') req = Some t \<and> \<not> IsFinalized t \<and>
    all_released s (lookup_obj svc_Meta (m_services w')) (lookup_obj dms_Meta (m_daemonsets w'))
      (lookup_obj dep_Meta (m_deployments w')) (lookup_obj job_Meta (m_jobs w')) (lookup_obj cm_Meta (m_configmaps w')) \<and>
    (alone_in_ns s w \<longrightarrow> rbac_released s w' \<and> namespace_released s w') \<and>
    (alone_in_ns s w \<and> m_sesames w = [s] \<longrightarrow> cluster_rbac_released s w')"
proof -
  have key: "nsname (Meta s) = req" by (rule lookup_key [OF stored])
  have get: "run_state (Get (sesames mem_client) req) w = (Inr s, w)"
    using mem_reads(2) [OF quiet, where sel = m_sesames, OF stored] by simp
  obtain v where v: "run_state (delete_resources L mem_client s) w = (Ok [], v)" "m_faults v = []" "m_sesames v = m_sesames w"
    using yieldsD [OF delete_resources_yields [OF lib, of "m_sesames w" s], of w] quiet by auto
  define t where "t = (if IsFinalized s then s\<lparr>Meta := (Meta s)\<lparr>Finalizers :=
    RemoveString (Finalizers (Meta s)) SesameFinalizer\<rparr>\<rparr> else s)"
  define w' where "w' = (if IsFinalized s then m_sesames_update (put_obj Meta t) v else v)"
  have final: "run_state (EnsureFinalizerRemoved mem_client s) v = (Ok (), w')"
    using v(2,3) stored key
    by (simp add: EnsureFinalizerRemoved_def w'_def t_def IsFinalized_iff Let_def mem_kind_def with_fault_def nsname_def)
  have "NewAggregate L [] = None" using lib by (simp add: library_def aggregator.aggregate_nil)
  then have "run_state (Reconcile n L mem_client cfg req) w = (Some (Ok zero_Result), w')"
    using get deleting v(1) final
    by (simp add: Reconcile_def ensureSesameDeleted_def run_and_then requeue_or_fail_def)
  moreover have "lookup_obj Meta (m_sesames w') req = Some t" "\<not> IsFinalized t"
    using v(3) stored key by (auto simp: w'_def t_def IsFinalized_iff RemoveString_filter nsname_def)
  moreover note separate_kinds.deletions_release [OF mem_separate_kinds [OF lib] v(1)]
    core_released [OF lib quiet v(1)]
  ultimately show ?thesis
    by (intro exI [of _ w'] exI [of _ t])
      (auto simp: w'_def rbac_released_def cluster_rbac_released_def namespace_released_def)
qed

definition leaving_mem :: mem where
  "leaving_mem = empty_mem\<lparr>m_sesames := [sample_deleted], m_deployments := [DesiredDeployment sample ''img''],
     m_clusterroles := [desiredClusterRole (cluster_rbac_name sample) sample], m_namespaces := [DesiredNamespace sample]\<rparr>"

theorem deletion_completes_witness:
  "\<exists>w'. run_state (Reconcile 0 std_lib mem_client sample_images sample_req) leaving_mem = (Some (Ok zero_Result), w') \<and>
    rbac_released sample_deleted w' \<and> namespace_released sample_deleted w' \<and> cluster_rbac_released sample_deleted w'"
  using deletion_completes [OF std.library_axioms, of leaving_mem sample_req sample_deleted 0 sample_images]
  by (auto simp: leaving_mem_def lookup_obj_def sample_deleted_def nsname_def sample_req_def timestamp_is_zero_def
      alone_in_ns_def)

end
