(* ===== verification/Parse.thy ===== *)
theory Parse
  imports Prelude
begin

text \<open>
  Package \<open>internal/parse\<close>: image references, and the search for a string in the output of a
  command run in a pod. \<open>reference.Parse\<close> of docker/distribution, \<open>exec.LookPath\<close> and the run of the
  command are parameters: each returns its value or its error.
\<close>

definition Image :: "(string \<Rightarrow> error + 'r) \<Rightarrow> string \<Rightarrow> unit res" where
  "Image reference_Parse s = (case reference_Parse s of
       Inl err \<Rightarrow> Err (Wrapf ''failed to parse s %s: %w'' [s] err)
     | Inr _ \<Rightarrow> Ok ())"

text \<open>The loop over the arguments; a bad one stops it.\<close>

fun bad_argument :: "string list \<Rightarrow> string option" where
  "bad_argument [] = None"
| "bad_argument (arg # args) =
     (if has_prefix arg ''/'' \<or> has_prefix arg ''.'' then Some arg else bad_argument args)"

definition runCmd :: "(string \<Rightarrow> string list \<Rightarrow> ('w, error + string) state) \<Rightarrow>
    string \<Rightarrow> string list \<Rightarrow> ('w, string res) state" where
  "runCmd exec cmd args = (case bad_argument args of
       Some arg \<Rightarrow> ret (Err (Errorf ''invalid argument %q'' [arg]))
     | None \<Rightarrow> do {
         result \<leftarrow> exec cmd args;
         ret (case result of
             Inl err \<Rightarrow> Err (Wrapf ''failed to run command %q with args %q: %v'' (cmd # args) err)
           | Inr out \<Rightarrow> Ok out)
       })"

definition lookForString :: "(string \<Rightarrow> string list \<Rightarrow> ('w, error + string) state) \<Rightarrow>
    string \<Rightarrow> string list \<Rightarrow> string \<Rightarrow> ('w, bool res) state" where
  "lookForString exec cmd args expectedString = do {
     r \<leftarrow> runCmd exec cmd args;
     ret (case r of
         Err e \<Rightarrow> Err e
       | Panic \<Rightarrow> Panic
       | Ok result \<Rightarrow> (if contains_str result expectedString then Ok True else Ok False))
   }"

text \<open>The flag of \<open>lookForString\<close> is dropped.\<close>

definition StringInPodExec ::
    "(string \<Rightarrow> ('w, error + string) state) \<Rightarrow> (string \<Rightarrow> string list \<Rightarrow> ('w, error + string) state) \<Rightarrow>
     string \<Rightarrow> string \<Rightarrow> string \<Rightarrow> string list \<Rightarrow> ('w, unit res) state" where
  "StringInPodExec LookPath exec ns name expectedString cmd = do {
     p \<leftarrow> LookPath ''kubectl'';
     case p of
       Inl err \<Rightarrow> ret (Err err)
     | Inr cmdPath \<Rightarrow> do {
         let args = [''exec'', name, ''--namespace='' @ ns, ''--''] @ cmd;
         r \<leftarrow> lookForString exec cmdPath args expectedString;
         ret (case r of Err e \<Rightarrow> Err e | Panic \<Rightarrow> Panic | Ok _ \<Rightarrow> Ok ())
       }
   }"

lemma bad_argument_None:
  "bad_argument args = None \<longleftrightarrow> (\<forall>a \<in> set args. \<not> has_prefix a ''/'' \<and> \<not> has_prefix a ''.'')"
  by (induction args) auto

lemma bad_argument_Some:
  "bad_argument args = Some a \<Longrightarrow> a \<in> set args \<and> (has_prefix a ''/'' \<or> has_prefix a ''.'')"
  by (induction args) (auto split: if_splits)

end
