(* ===== verification/Operator.thy ===== *)
theory Operator
  imports Controller Parse
begin

text \<open>
  The program around the controller: \<open>internal/operator\<close>, the construction of the
  controller with its watches, and \<open>main\<close> of \<open>cmd/sesame-operator.go\<close>. The controller runtime is a
  parameter (\<open>runtime\<close>): building a manager, a controller and a REST mapper, registering a watch and
  running the manager. \<open>main\<close> returns the exit code of the process.
\<close>

section \<open>The controller runtime\<close>

datatype watched = WatchSesame | WatchDeployment | WatchDaemonSet

datatype event_handler = EnqueueRequestForObject | EnqueueForOwningSesame

text \<open>The packages whose Go types are registered with the scheme, and the types the code names.\<close>

datatype scheme_builder = ClientGoScheme | OperatorV1alpha1 | GatewayV1alpha2 | ApiextensionsV1

datatype go_type = TSesame | TGatewayClass | TGateway | TCustomResourceDefinition
  | TNamespace | TServiceAccount | TClusterRole | TClusterRoleBinding | TRole | TRoleBinding
  | TConfigMap | TJob | TDeployment | TDaemonSet | TService

record ManagerOptions =
  mo_Scheme :: "scheme_builder list"
  mo_LeaderElection :: bool
  mo_LeaderElectionID :: string
  mo_MetricsBindAddress :: string
  mo_ClientDisableCacheFor :: "go_type list"

text \<open>What ends the wait in \<open>Start\<close>: the context is done, or the manager returned.\<close>

datatype stopped = ContextDone | ManagerReturned "error option"

record 'w runtime =
  rt_GetConfig :: "('w, bool) state"
  rt_NewManager :: "ManagerOptions \<Rightarrow> ('w, error option) state"
  rt_NewController :: "string \<Rightarrow> ControllerConfig \<Rightarrow> ('w, error option) state"
  rt_Watch :: "watched \<Rightarrow> event_handler \<Rightarrow> ('w, error option) state"
  rt_NewRESTMapper :: "('w, error option) state"
  rt_Run :: "('w, stopped) state"

text \<open>\<open>if err := call(); err != nil { return nil, wrap(err) }\<close>.\<close>

definition checked :: "(error \<Rightarrow> error) \<Rightarrow> ('w, error option) state \<Rightarrow> ('w, unit res) state" where
  "checked wrap m = do {
     e \<leftarrow> m;
     ret (case e of None \<Rightarrow> Ok () | Some err \<Rightarrow> Err (wrap err))
   }"

section \<open>controller.New\<close>

definition controllerName :: string where "controllerName = ''sesame_controller''"

definition controller_New :: "'w runtime \<Rightarrow> ControllerConfig \<Rightarrow> ('w, unit res) state" where
  "controller_New rt cfg =
     and_then (checked id (rt_NewController rt controllerName cfg)) (\<lambda>_.
     and_then (checked id (rt_Watch rt WatchSesame EnqueueRequestForObject)) (\<lambda>_.
     and_then (checked id (rt_Watch rt WatchDeployment EnqueueForOwningSesame)) (\<lambda>_.
     and_then (checked id (rt_Watch rt WatchDaemonSet EnqueueForOwningSesame)) (\<lambda>_.
     ret (Ok ())))))"

text \<open>The requests an event puts into the work queue.\<close>

fun event_requests :: "event_handler \<Rightarrow> ObjectMeta \<Rightarrow> NamespacedName list" where
  "event_requests EnqueueRequestForObject m = [nsname m]"
| "event_requests EnqueueForOwningSesame m = enqueueRequestForOwningSesame (Labels m)"

section \<open>internal/operator\<close>

text \<open>The initialisation of the package registers the types of four packages, in order; an error is a
  panic before \<open>main\<close> runs. \<open>add\<close> stands for their \<open>AddToScheme\<close>.\<close>

fun add_to_scheme :: "(scheme_builder \<Rightarrow> error option) \<Rightarrow> scheme_builder list \<Rightarrow> scheme_builder list \<Rightarrow>
    scheme_builder list res" where
  "add_to_scheme add scheme [] = Ok scheme"
| "add_to_scheme add scheme (b # bs) =
     (case add b of Some err \<Rightarrow> Panic | None \<Rightarrow> add_to_scheme add (scheme @ [b]) bs)"

definition scheme_init :: "(scheme_builder \<Rightarrow> error option) \<Rightarrow> scheme_builder list res" where
  "scheme_init add = add_to_scheme add [] [ClientGoScheme, OperatorV1alpha1, GatewayV1alpha2, ApiextensionsV1]"

definition nonCached :: "go_type list" where
  "nonCached = [TSesame, TGatewayClass, TGateway, TCustomResourceDefinition]"

text \<open>\<open>scheme\<close> is the variable the initialisation filled.\<close>

definition operator_New :: "'w runtime \<Rightarrow> scheme_builder list \<Rightarrow> OperatorConfig \<Rightarrow> ('w, unit res) state" where
  "operator_New rt scheme opCfg = (let mgrOpts = \<lparr>mo_Scheme = scheme,
       mo_LeaderElection = op_LeaderElection opCfg,
       mo_LeaderElectionID = op_LeaderElectionID opCfg,
       mo_MetricsBindAddress = op_MetricsBindAddress opCfg,
       mo_ClientDisableCacheFor = nonCached\<rparr> in
     and_then (checked (Wrapf ''failed to create manager: %w'' []) (rt_NewManager rt mgrOpts)) (\<lambda>_.
     and_then (do {
         c \<leftarrow> controller_New rt \<lparr>ctl_SesameImage = op_SesameImage opCfg, ctl_EnvoyImage = op_EnvoyImage opCfg\<rparr>;
         ret (map_err (Wrapf ''failed to create sesame controller: %w'' []) c)
       }) (\<lambda>_.
     and_then (checked id (rt_NewRESTMapper rt)) (\<lambda>_.
     ret (Ok ())))))"

definition operator_Start :: "'w runtime \<Rightarrow> ('w, unit res) state" where
  "operator_Start rt = do {
     e \<leftarrow> rt_Run rt;
     ret (case e of
         ContextDone \<Rightarrow> Ok ()
       | ManagerReturned None \<Rightarrow> Ok ()
       | ManagerReturned (Some err) \<Rightarrow> Err err)
   }"

section \<open>main\<close>

text \<open>The flags given on the command line; a flag that is not given keeps its default.\<close>

record Flags =
  sesame_image :: "string option"
  envoy_image :: "string option"
  metrics_addr :: "string option"
  enable_leader_election :: "bool option"

fun flag_value :: "'a option \<Rightarrow> 'a \<Rightarrow> 'a" where
  "flag_value None d = d"
| "flag_value (Some v) d = v"

definition flags_config :: "Flags \<Rightarrow> OperatorConfig" where
  "flags_config f = \<lparr>op_SesameImage = flag_value (sesame_image f) DefaultSesameImage,
     op_EnvoyImage = flag_value (envoy_image f) DefaultEnvoyImage,
     op_MetricsBindAddress = flag_value (metrics_addr f) DefaultMetricsAddr,
     op_LeaderElection = flag_value (enable_leader_election f) DefaultEnableLeaderElection,
     op_LeaderElectionID = DefaultEnableLeaderElectionID\<rparr>"

text \<open>The loop over the images; false is the exit at the first one that does not parse.\<close>

fun images_parse :: "(string \<Rightarrow> error + 'r) \<Rightarrow> string list \<Rightarrow> bool" where
  "images_parse reference_Parse [] = True"
| "images_parse reference_Parse (img # images) =
     (case Image reference_Parse img of
        Ok _ \<Rightarrow> images_parse reference_Parse images
      | Err e \<Rightarrow> False
      | Panic \<Rightarrow> False)"

definition main ::
    "(string \<Rightarrow> error + 'r) \<Rightarrow> 'w runtime \<Rightarrow> scheme_builder list \<Rightarrow> Flags \<Rightarrow> ('w, nat) state" where
  "main reference_Parse rt scheme flags = (let opCfg = flags_config flags in
     if \<not> images_parse reference_Parse [op_SesameImage opCfg, op_EnvoyImage opCfg] then ret 1
     else do {
       ok \<leftarrow> rt_GetConfig rt;
       if \<not> ok then ret 1
       else do {
         op \<leftarrow> operator_New rt scheme opCfg;
         if \<not> is_ok op then ret 1
         else do {
           started \<leftarrow> operator_Start rt;
           ret (if is_ok started then 0 else 1)
         }
       }
     })"

text \<open>The process: a panic of the initialisation ends it with status 2.\<close>

definition operator_process :: "(scheme_builder \<Rightarrow> error option) \<Rightarrow> (string \<Rightarrow> error + 'r) \<Rightarrow> 'w runtime \<Rightarrow> Flags \<Rightarrow>
    ('w, nat) state" where
  "operator_process add reference_Parse rt flags = (case scheme_init add of
       Ok scheme \<Rightarrow> main reference_Parse rt scheme flags
     | Err e \<Rightarrow> ret 2
     | Panic \<Rightarrow> ret 2)"

end
