(* ===== verification/Permissions.thy ===== *)
theory Permissions
  imports Operator Samples
begin

text \<open>
  The rights of the operator: the RBAC markers of \<open>internal/operator\<close>, from which its ClusterRole is
  generated, and a client that refuses every call they do not allow. Every handler makes the same
  calls, with the same results, through that client.
\<close>

section \<open>The rules\<close>

definition marker :: "string \<Rightarrow> string list \<Rightarrow> string list \<Rightarrow> PolicyRule" where
  "marker grp resources verbs =
     \<lparr>rule_Verbs = verbs, rule_APIGroups = [grp], rule_Resources = resources\<rparr>"

definition operator_rules :: "PolicyRule list" where
  "operator_rules = (let GLW = [''get'', ''list'', ''watch'']; GCU = [''get'', ''create'', ''update''];
       all = [''get'', ''list'', ''watch'', ''delete'', ''create'', ''update''] in
     [marker ''operator.projectsesame.io'' [''Sesames''] [''get'', ''list'', ''watch'', ''update''],
      marker ''operator.projectsesame.io'' [''Sesames/status''] [''get'', ''update'', ''patch''],
      marker '''' [''namespaces'', ''secrets'', ''serviceaccounts'', ''services''] all,
      marker '''' [''configmaps''] all,
      marker '''' [''events''] GCU,
      marker '''' [''endpoints''] GLW,
      marker ''coordination.k8s.io'' [''leases''] [''get'', ''list'', ''watch'', ''create'', ''update''],
      marker ''gateway.networking.k8s.io''
        [''gatewayclasses'', ''gateways'', ''httproutes'', ''tlsroutes'', ''referencepolicies'']
        [''get'', ''list'', ''watch'', ''update''],
      marker ''gateway.networking.k8s.io''
        [''gatewayclasses/status'', ''gateways/status'', ''httproutes/status'', ''tlsroutes/status''] GCU,
      marker ''networking.k8s.io'' [''ingresses'', ''ingressclasses''] GLW,
      marker ''networking.k8s.io'' [''ingresses/status''] GCU,
      marker ''projectsesame.io''
        [''httpproxies'', ''tlscertificatedelegations'', ''extensionservices'', ''Sesameconfigurations''] GLW,
      marker ''projectsesame.io''
        [''httpproxies/status'', ''extensionservices/status'', ''Sesameconfigurations/status''] GCU,
      marker ''rbac.authorization.k8s.io'' [''clusterroles'', ''clusterrolebindings'', ''roles'', ''rolebindings''] all,
      marker ''batch'' [''jobs''] all,
      marker ''apps'' [''deployments''] all,
      marker ''apps'' [''daemonsets''] all,
      marker ''apiextensions.k8s.io'' [''customresourcedefinitions''] [''get'', ''list'']])"

section \<open>The authorizer of the API server\<close>

text \<open>RBAC allows a request when a rule lists its verb, its group and its resource. (It may allow more:
  rules with wildcards, other roles bound to the operator.)\<close>

locale rbac_authorizer =
  fixes allows :: "PolicyRule list \<Rightarrow> string \<Rightarrow> string \<Rightarrow> string \<Rightarrow> bool"
  assumes listed: "r \<in> set rules \<Longrightarrow> verb \<in> set (rule_Verbs r) \<Longrightarrow> grp \<in> set (rule_APIGroups r) \<Longrightarrow>
    resource \<in> set (rule_Resources r) \<Longrightarrow> allows rules verb grp resource"
begin

lemma listed_in:
  "list_ex (\<lambda>r. List.member (rule_Verbs r) verb \<and> List.member (rule_APIGroups r) grp \<and>
     List.member (rule_Resources r) resource) rules \<Longrightarrow> allows rules verb grp resource"
  using listed by (auto simp: list_ex_iff)

end

definition rules_list :: "PolicyRule list \<Rightarrow> string \<Rightarrow> string \<Rightarrow> string \<Rightarrow> bool" where
  "rules_list rules verb grp resource = list_ex (\<lambda>r. List.member (rule_Verbs r) verb \<and>
     List.member (rule_APIGroups r) grp \<and> List.member (rule_Resources r) resource) rules"

definition rules_cover :: "PolicyRule list \<Rightarrow> PolicyRule \<Rightarrow> bool" where
  "rules_cover rules r = list_all (\<lambda>v. list_all (\<lambda>g. list_all (rules_list rules v g)
     (rule_Resources r)) (rule_APIGroups r)) (rule_Verbs r)"

interpretation plain: rbac_authorizer rules_list
  by unfold_locales (auto simp: rules_list_def list_ex_iff)

text \<open>The group and the resource the API server serves a Go type under. For Sesames the group is that of
  \<open>groupversion_info.go\<close>; the resource \<open>p\<close> is a parameter, because the markers and the generated CRD say
  \<open>Sesames\<close>, while Kubernetes admits only lower-case names for a CRD.\<close>

fun served :: "string \<Rightarrow> go_type \<Rightarrow> string \<times> string" where
  "served p TSesame = (''operator.projectsesame.io'', p)"
| "served p TGatewayClass = (''gateway.networking.k8s.io'', ''gatewayclasses'')"
| "served p TGateway = (''gateway.networking.k8s.io'', ''gateways'')"
| "served p TCustomResourceDefinition = (''apiextensions.k8s.io'', ''customresourcedefinitions'')"
| "served p TNamespace = ('''', ''namespaces'')"
| "served p TServiceAccount = ('''', ''serviceaccounts'')"
| "served p TClusterRole = (''rbac.authorization.k8s.io'', ''clusterroles'')"
| "served p TClusterRoleBinding = (''rbac.authorization.k8s.io'', ''clusterrolebindings'')"
| "served p TRole = (''rbac.authorization.k8s.io'', ''roles'')"
| "served p TRoleBinding = (''rbac.authorization.k8s.io'', ''rolebindings'')"
| "served p TConfigMap = ('''', ''configmaps'')"
| "served p TJob = (''batch'', ''jobs'')"
| "served p TDeployment = (''apps'', ''deployments'')"
| "served p TDaemonSet = (''apps'', ''daemonsets'')"
| "served p TService = ('''', ''services'')"

lemma served_group: "fst (served p TSesame) = gv_Group GroupVersion"
  by (simp add: GroupVersion_def)

text \<open>A read of a type without a cache is a get; the cache behind the other reads lists and watches.\<close>

definition read_verbs :: "go_type \<Rightarrow> string list" where
  "read_verbs t = (if List.member nonCached t then [''get''] else [''list'', ''watch''])"

section \<open>A client that asks the authorizer\<close>

definition forbidden :: api_error where
  "forbidden = \<lparr>Reason = ''Forbidden'', Message = ''forbidden''\<rparr>"

definition may :: "(string \<Rightarrow> string \<Rightarrow> string \<Rightarrow> bool) \<Rightarrow> string \<Rightarrow> string \<Rightarrow> go_type \<Rightarrow> bool" where
  "may allow p verb t = (case served p t of (grp, resource) \<Rightarrow> allow verb grp resource)"

definition authorised_kind :: "(string \<Rightarrow> string \<Rightarrow> string \<Rightarrow> bool) \<Rightarrow> string \<Rightarrow> go_type \<Rightarrow> ('w, 'o) kind_client \<Rightarrow>
    ('w, 'o) kind_client" where
  "authorised_kind allow p t kc = \<lparr>
     Get = (\<lambda>k. if list_all (\<lambda>v. may allow p v t) (read_verbs t) then Get kc k else ret (Inl forbidden)),
     Create = (\<lambda>x. if may allow p ''create'' t then Create kc x else ret (Inl forbidden)),
     Update = (\<lambda>x. if may allow p ''update'' t then Update kc x else ret (Inl forbidden)),
     Delete = (\<lambda>x. if may allow p ''delete'' t then Delete kc x else ret (Some forbidden))\<rparr>"

definition authorised :: "(string \<Rightarrow> string \<Rightarrow> string \<Rightarrow> bool) \<Rightarrow> string \<Rightarrow> 'w client \<Rightarrow> 'w client" where
  "authorised allow p cli = \<lparr>
     sesames = authorised_kind allow p TSesame (sesames cli),
     list_sesames = (if may allow p ''list'' TSesame then list_sesames cli else ret (Inl forbidden)),
     status_update = (\<lambda>s. if allow ''update'' (fst (served p TSesame)) (snd (served p TSesame) @ ''/status'')
       then status_update cli s else ret (Some forbidden)),
     namespaces = authorised_kind allow p TNamespace (namespaces cli),
     serviceaccounts = authorised_kind allow p TServiceAccount (serviceaccounts cli),
     clusterroles = authorised_kind allow p TClusterRole (clusterroles cli),
     clusterrolebindings = authorised_kind allow p TClusterRoleBinding (clusterrolebindings cli),
     roles = authorised_kind allow p TRole (roles cli),
     rolebindings = authorised_kind allow p TRoleBinding (rolebindings cli),
     configmaps = authorised_kind allow p TConfigMap (configmaps cli),
     jobs = authorised_kind allow p TJob (jobs cli),
     deployments = authorised_kind allow p TDeployment (deployments cli),
     daemonsets = authorised_kind allow p TDaemonSet (daemonsets cli),
     services = authorised_kind allow p TService (services cli)\<rparr>"

section \<open>Which calls the operator makes on Sesames\<close>

text \<open>Two clients that differ at most in how they create and delete Sesames.\<close>

definition same_but_sesames :: "'w client \<Rightarrow> 'w client \<Rightarrow> bool" where
  "same_but_sesames a b \<longleftrightarrow> a\<lparr>sesames := sesames b\<rparr> = b \<and>
     Get (sesames a) = Get (sesames b) \<and> Update (sesames a) = Update (sesames b)"

lemma same_but_sesamesD:
  assumes "same_but_sesames a b"
  shows "Get (sesames a) = Get (sesames b)" "Update (sesames a) = Update (sesames b)"
    "list_sesames a = list_sesames b" "status_update a = status_update b" "namespaces a = namespaces b"
    "serviceaccounts a = serviceaccounts b" "clusterroles a = clusterroles b"
    "clusterrolebindings a = clusterrolebindings b" "roles a = roles b" "rolebindings a = rolebindings b"
    "configmaps a = configmaps b" "jobs a = jobs b" "deployments a = deployments b"
    "daemonsets a = daemonsets b" "services a = services b"
proof -
  have "a\<lparr>sesames := sesames b\<rparr> = b" using assms by (simp add: same_but_sesames_def)
  then show "list_sesames a = list_sesames b" "status_update a = status_update b" "namespaces a = namespaces b"
    "serviceaccounts a = serviceaccounts b" "clusterroles a = clusterroles b"
    "clusterrolebindings a = clusterrolebindings b" "roles a = roles b" "rolebindings a = rolebindings b"
    "configmaps a = configmaps b" "jobs a = jobs b" "deployments a = deployments b"
    "daemonsets a = daemonsets b" "services a = services b"
    by (cases a; cases b; simp)+
qed (use assms in \<open>simp_all add: same_but_sesames_def\<close>)

text \<open>The handlers do not notice the difference.\<close>

lemma same_ensures:
  assumes "same_but_sesames a b"
  shows "EnsureNamespace L a s = EnsureNamespace L b s"
    "EnsureServiceAccount L a name s = EnsureServiceAccount L b name s"
    "EnsureClusterRole L a name s = EnsureClusterRole L b name s"
    "EnsureClusterRoleBinding L a name ref acct s = EnsureClusterRoleBinding L b name ref acct s"
    "EnsureRole L a name s = EnsureRole L b name s"
    "EnsureRoleBinding L a name acct ref s = EnsureRoleBinding L b name acct ref s"
    "EnsureConfigMap L a s = EnsureConfigMap L b s" "EnsureJob L a s i = EnsureJob L b s i"
    "EnsureDeployment L a s i = EnsureDeployment L b s i"
    "EnsureDaemonSet L a s i j = EnsureDaemonSet L b s i j"
    "EnsureSesameService L a s = EnsureSesameService L b s"
    "EnsureEnvoyService L a s = EnsureEnvoyService L b s"
  unfolding EnsureNamespace_def EnsureServiceAccount_def
      EnsureClusterRole_def EnsureClusterRoleBinding_def EnsureRole_def EnsureRoleBinding_def
      EnsureConfigMap_def EnsureJob_def EnsureDeployment_def EnsureDaemonSet_def EnsureSesameService_def
      EnsureEnvoyService_def currentSpecNsName_def createNamespace_def updateNamespaceIfNeeded_def
      CurrentServiceAccount_def createServiceAccount_def updateSvcAcctIfNeeded_def
      CurrentClusterRole_def createClusterRole_def updateClusterRoleIfNeeded_def
      CurrentClusterRoleBinding_def createClusterRoleBinding_def updateClusterRoleBindingIfNeeded_def
      CurrentRole_def createRole_def updateRoleIfNeeded_def CurrentRoleBinding_def createRoleBinding_def
      updateRoleBindingIfNeeded_def configmap_current_def configmap_create_def configmap_updateIfNeeded_def
      currentJob_def createJob_def recreateJobIfNeeded_def retryJobCreate_def tryJobCreate_def
      CurrentDeployment_def createDeployment_def updateDeploymentIfNeeded_def EnsureDeploymentDeleted_def
      CurrentDaemonSet_def createDaemonSet_def updateDaemonSetIfNeeded_def EnsureDaemonSetDeleted_def
      currentSesameService_def createService_def updateSesameServiceIfNeeded_def
      currentEnvoyService_def updateEnvoyServiceIfNeeded_def same_but_sesamesD [OF assms]
  by (rule refl)+

lemma same_deletions:
  assumes "same_but_sesames a b"
  shows "EnsureConfigMapDeleted L a s = EnsureConfigMapDeleted L b s"
    "EnsureDeploymentDeleted L a s = EnsureDeploymentDeleted L b s"
    "EnsureDaemonSetDeleted L a s = EnsureDaemonSetDeleted L b s"
    "EnsureJobDeleted L a s = EnsureJobDeleted L b s"
    "EnsureSesameServiceDeleted L a s = EnsureSesameServiceDeleted L b s"
    "EnsureEnvoyServiceDeleted L a s = EnsureEnvoyServiceDeleted L b s"
    "EnsureNamespaceDeleted L a s = EnsureNamespaceDeleted L b s"
  unfolding EnsureConfigMapDeleted_def configmap_current_def EnsureDeploymentDeleted_def CurrentDeployment_def
    EnsureDaemonSetDeleted_def CurrentDaemonSet_def EnsureJobDeleted_def currentJob_def
    EnsureSesameServiceDeleted_def currentSesameService_def EnsureEnvoyServiceDeleted_def
    currentEnvoyService_def EnsureNamespaceDeleted_def currentSpecNsName_def OtherSesamesExistInSpecNs_def
    OtherSesamesExist_def same_but_sesamesD [OF assms]
  by (rule refl)+

lemma same_reads:
  assumes "same_but_sesames a b"
  shows "OtherSesamesExist a s = OtherSesamesExist b s"
    "OtherSesamesExistInSpecNs a s = OtherSesamesExistInSpecNs b s"
    "validate_Sesame a s = validate_Sesame b s"
    "EnsureFinalizer a s = EnsureFinalizer b s" "EnsureFinalizerRemoved a s = EnsureFinalizerRemoved b s"
  unfolding validate_Sesame_def OtherSesamesExistInSpecNs_def OtherSesamesExist_def EnsureFinalizer_def
    EnsureFinalizerRemoved_def same_but_sesamesD [OF assms]
  by (rule refl)+

lemma same_accounts:
  assumes "same_but_sesames a b"
  shows "ensure_accounts L a s names acct = ensure_accounts L b s names acct"
    "collect_accounts L a ns names objs = collect_accounts L b ns names objs"
    "delete_objects L a s xs = delete_objects L b s xs"
proof -
  show "ensure_accounts L a s names acct = ensure_accounts L b s names acct"
    by (induction names arbitrary: acct)
      (simp_all only: ensure_accounts.simps same_ensures(2) [OF assms])
  show "collect_accounts L a ns names objs = collect_accounts L b ns names objs"
  proof (induction names arbitrary: objs)
    case (Cons name names)
    then have "collect_accounts L a ns names = collect_accounts L b ns names" by (rule ext)
    then show ?case
      by (simp only: collect_accounts.simps CurrentServiceAccount_def same_but_sesamesD [OF assms])
  qed simp
  have "delete_object a x = delete_object b x" for x
    by (cases x) (simp_all add: same_but_sesamesD [OF assms])
  then show "delete_objects L a s xs = delete_objects L b s xs"
    by (induction xs) (simp_all only: delete_objects.simps)
qed

lemma same_rbac:
  assumes "same_but_sesames a b"
  shows "EnsureRBAC L a s = EnsureRBAC L b s" "EnsureRBACDeleted L a s = EnsureRBACDeleted L b s"
  unfolding EnsureRBAC_def EnsureRBACDeleted_def collect_namespaced_def collect_cluster_def CurrentRole_def
    CurrentRoleBinding_def CurrentClusterRole_def CurrentClusterRoleBinding_def same_ensures [OF assms]
    same_reads [OF assms] same_accounts [OF assms] same_but_sesamesD [OF assms]
  by (rule refl)+

lemma same_SyncSesame:
  assumes "same_but_sesames a b"
  shows "SyncSesame n L a s = SyncSesame n L b s"
proof (induction n arbitrary: s)
  case (Suc n)
  show ?case
    unfolding SyncSesame.simps CurrentDeployment_def CurrentDaemonSet_def same_but_sesamesD [OF assms] Suc.IH
    by (rule refl)
qed (simp add: SyncSesame.simps)

lemma same_Reconcile:
  assumes "same_but_sesames a b"
  shows "Reconcile n L a cfg req = Reconcile n L b cfg req"
  unfolding Reconcile_def ensureSesame_def ensure_prerequisites_def ensure_workloads_def syncSesameStatus_def
    ensureSesameDeleted_def delete_resources_def same_ensures [OF assms] same_deletions [OF assms]
    same_reads [OF assms] same_rbac [OF assms] same_SyncSesame [OF assms] same_but_sesamesD [OF assms]
  by (rule refl)

section \<open>Through the authorizer\<close>

definition full_verbs :: "string list" where
  "full_verbs = [''get'', ''list'', ''watch'', ''delete'', ''create'', ''update'']"

text \<open>One rule for each type the operator manages.\<close>

lemma managed_rule:
  "t \<notin> set nonCached \<Longrightarrow> \<exists>r \<in> set operator_rules. rule_Verbs r = full_verbs \<and>
     fst (served p t) \<in> set (rule_APIGroups r) \<and> snd (served p t) \<in> set (rule_Resources r)"
  unfolding operator_rules_def marker_def full_verbs_def Let_def nonCached_def
  by (cases t) (simp_all only: served.simps fst_conv snd_conv list.set bex_simps PolicyRule.simps
      insert_iff simp_thms go_type.distinct)

context rbac_authorizer
begin

lemma operator_may:
  "may (allows operator_rules) ''Sesames'' v TSesame" if "v \<in> {''get'', ''list'', ''watch'', ''update''}"
  unfolding may_def served.simps prod.case using that
  by (intro listed_in) (auto simp: operator_rules_def marker_def Let_def)

lemma operator_may_status: "allows operator_rules ''update'' ''operator.projectsesame.io'' ''Sesames/status''"
  by (intro listed_in) (simp add: operator_rules_def marker_def Let_def)

lemma operator_may_all:
  assumes "t \<notin> set nonCached" and "v \<in> set full_verbs"
  shows "may (allows operator_rules) p v t"
  using managed_rule [OF assms(1), of p] assms(2) listed by (auto simp: may_def split: prod.split)

lemma authorised_cached:
  "t \<notin> set nonCached \<Longrightarrow> authorised_kind (allows operator_rules) p t kc = kc"
  by (simp add: authorised_kind_def read_verbs_def operator_may_all full_verbs_def)

lemma authorised_same: "same_but_sesames (authorised (allows operator_rules) ''Sesames'' cli) cli"
  by (simp add: same_but_sesames_def authorised_def authorised_cached nonCached_def operator_may)
    (simp add: authorised_kind_def read_verbs_def nonCached_def operator_may operator_may_status)

lemma reconcile_unhindered:
  "Reconcile n L (authorised (allows operator_rules) ''Sesames'' cli) cfg req = Reconcile n L cli cfg req"
  by (rule same_Reconcile [OF authorised_same])

lemma covered_allowed:
  "rules_cover rules r \<Longrightarrow> v \<in> set (rule_Verbs r) \<Longrightarrow> g \<in> set (rule_APIGroups r) \<Longrightarrow>
   x \<in> set (rule_Resources r) \<Longrightarrow> allows rules v g x"
  using listed_in by (auto simp: rules_cover_def rules_list_def list_all_iff)

end

section \<open>What the operator grants\<close>

text \<open>The rules of the roles the operator creates; the API server lets nobody grant rights he does not
  have himself.\<close>

definition granted_rules :: "PolicyRule list" where
  "granted_rules = cr_Rules (desiredClusterRole [] sample) @ role_Rules (desiredRole [] sample)"

lemma granted_rules_all:
  "cr_Rules (desiredClusterRole name s) @ role_Rules (desiredRole role s) = granted_rules"
  by (simp add: granted_rules_def desiredClusterRole_def desiredRole_def Let_def)

lemma granted_covered: "list_all (rules_cover operator_rules) granted_rules"
  by code_simp

text \<open>Under a name the markers do not list, the first call of every reconciliation is refused.\<close>

lemma unlisted_resource:
  assumes "p \<notin> {''Sesames'', ''Sesames/status''}"
  shows "\<not> rules_list operator_rules verb ''operator.projectsesame.io'' p"
  using assms by (simp add: rules_list_def operator_rules_def marker_def Let_def)

lemma unlisted_get:
  assumes "p \<notin> {''Sesames'', ''Sesames/status''}"
  shows "Get (sesames (authorised (rules_list operator_rules) p cli)) req = ret (Inl forbidden)"
  using unlisted_resource [OF assms]
  by (simp add: authorised_def authorised_kind_def read_verbs_def nonCached_def may_def)

text \<open>C13: What the RBAC markers of the operator are good for, seen through a client that refuses every
  call its generated ClusterRole does not allow. If the API server served Sesames as the resource
  \<open>Sesames\<close>, the name in the markers and in the generated CRD, the markers would suffice: the client
  makes no difference to any reconciliation, the three watches are allowed, and every right in the
  ClusterRole and the Role the operator creates is one it has itself, as the API server demands of
  whoever creates a role. But Kubernetes admits only lower-case names for a CRD and compares the names
  in rules exactly: under any other name than those of the markers, \<open>sesames\<close> for one, and with no
  other role bound to the operator, the watch of Sesames is not allowed and every reconciliation ends at its first call with an error and
  changes nothing.\<close>

theorem operator_rights:
  assumes "rbac_authorizer allows" and lib: "library L"
  shows "Reconcile n L (authorised (allows operator_rules) ''Sesames'' cli) cfg req = Reconcile n L cli cfg req \<and>
    (\<forall>t \<in> {TSesame, TDeployment, TDaemonSet}. \<forall>v \<in> {''list'', ''watch''}. may (allows operator_rules) ''Sesames'' v t) \<and>
    (\<forall>r \<in> set (cr_Rules (desiredClusterRole name s) @ role_Rules (desiredRole role s)).
       \<forall>v \<in> set (rule_Verbs r). \<forall>g \<in> set (rule_APIGroups r). \<forall>x \<in> set (rule_Resources r).
         allows operator_rules v g x) \<and>
    (\<forall>p w. p \<notin> {''Sesames'', ''Sesames/status''} \<longrightarrow> \<not> may (rules_list operator_rules) p ''watch'' TSesame \<and>
       run_state (Reconcile n L (authorised (rules_list operator_rules) p cli) cfg req) w =
         (Some (Err (Wrapf ''failed to get sesame %s: %w'' [nn_Namespace req @ ''/'' @ nn_Name req] (ApiErr forbidden))), w))"
proof (intro conjI ballI allI impI)
  fix r v g x
  assume "r \<in> set (cr_Rules (desiredClusterRole name s) @ role_Rules (desiredRole role s))"
    and "v \<in> set (rule_Verbs r)" "g \<in> set (rule_APIGroups r)" "x \<in> set (rule_Resources r)"
  then show "allows operator_rules v g x"
    using granted_covered rbac_authorizer.covered_allowed [OF assms(1)] unfolding granted_rules_all list_all_iff by blast
next
  fix t v
  assume "t \<in> {TSesame, TDeployment, TDaemonSet}" and v: "v \<in> {''list'', ''watch''}"
  then consider "t = TSesame" | "t \<notin> set nonCached" by (auto simp: nonCached_def)
  then show "may (allows operator_rules) ''Sesames'' v t"
    using rbac_authorizer.operator_may [OF assms(1), of v] rbac_authorizer.operator_may_all [OF assms(1), of t v] v
    by cases (auto simp: full_verbs_def)
next
  fix p w
  assume p: "p \<notin> {''Sesames'', ''Sesames/status''}"
  show "\<not> may (rules_list operator_rules) p ''watch'' TSesame" using unlisted_resource [OF p] by (simp add: may_def)
  show "run_state (Reconcile n L (authorised (rules_list operator_rules) p cli) cfg req) w =
      (Some (Err (Wrapf ''failed to get sesame %s: %w'' [nn_Namespace req @ ''/'' @ nn_Name req] (ApiErr forbidden))), w)"
    using library.not_found [OF lib, of forbidden] by (simp add: Reconcile_def unlisted_get [OF p]) (simp add: forbidden_def)
qed (rule rbac_authorizer.reconcile_unhindered [OF assms(1)])

theorem operator_rights_witness:
  "Reconcile 1 std_lib (authorised (rules_list operator_rules) ''Sesames'' mem_client) sample_images sample_req =
     Reconcile 1 std_lib mem_client sample_images sample_req \<and>
   rules_list operator_rules ''create'' [] ''secrets'' \<and>
   snd (run_state (Reconcile 1 std_lib (authorised (rules_list operator_rules) ''sesames'' mem_client) sample_images
     sample_req) sample_mem) = sample_mem"
  using operator_rights [OF plain.rbac_authorizer_axioms std.library_axioms, of 1 mem_client sample_images sample_req
      "[]" sample "[]"]
  by (simp add: desiredRole_def)

end
