(* ===== verification/Operator_Theorems.thy ===== *)
theory Operator_Theorems
  imports Operator Samples
begin

text \<open>
  Properties of the program around the controller and of \<open>internal/parse\<close>: what the process checks
  before it starts, which events it listens to, and what the search in the output of a pod reports.
\<close>

section \<open>A runtime that logs what it is asked for\<close>

datatype runtime_call =
    CallManager ManagerOptions
  | CallController string ControllerConfig
  | CallWatch watched event_handler
  | CallMapper
  | CallRun

text \<open>The calls are answered by a function of the call: an error, or none.\<close>

definition logging_runtime :: "(runtime_call \<Rightarrow> error option) \<Rightarrow> stopped \<Rightarrow> runtime_call list runtime" where
  "logging_runtime answer stop = (let call = (\<lambda>c. State (\<lambda>l. (answer c, l @ [c]))) in
     \<lparr>rt_GetConfig = ret True, rt_NewManager = (\<lambda>opts. call (CallManager opts)),
      rt_NewController = (\<lambda>name cfg. call (CallController name cfg)),
      rt_Watch = (\<lambda>k h. call (CallWatch k h)), rt_NewRESTMapper = call CallMapper,
      rt_Run = State (\<lambda>l. (stop, l @ [CallRun]))\<rparr>)"

lemma logging_runtime_simps [simp]:
  "rt_GetConfig (logging_runtime answer stop) = ret True"
  "rt_NewManager (logging_runtime answer stop) opts =
     State (\<lambda>l. (answer (CallManager opts), l @ [CallManager opts]))"
  "rt_NewController (logging_runtime answer stop) name cfg =
     State (\<lambda>l. (answer (CallController name cfg), l @ [CallController name cfg]))"
  "rt_Watch (logging_runtime answer stop) k h =
     State (\<lambda>l. (answer (CallWatch k h), l @ [CallWatch k h]))"
  "rt_NewRESTMapper (logging_runtime answer stop) = State (\<lambda>l. (answer CallMapper, l @ [CallMapper]))"
  "rt_Run (logging_runtime answer stop) = State (\<lambda>l. (stop, l @ [CallRun]))"
  by (simp_all add: logging_runtime_def Let_def)

definition setup_calls :: "OperatorConfig \<Rightarrow> runtime_call list" where
  "setup_calls c = [
     CallManager \<lparr>mo_Scheme = [ClientGoScheme, OperatorV1alpha1, GatewayV1alpha2, ApiextensionsV1],
       mo_LeaderElection = op_LeaderElection c, mo_LeaderElectionID = op_LeaderElectionID c,
       mo_MetricsBindAddress = op_MetricsBindAddress c, mo_ClientDisableCacheFor = nonCached\<rparr>,
     CallController controllerName \<lparr>ctl_SesameImage = op_SesameImage c, ctl_EnvoyImage = op_EnvoyImage c\<rparr>,
     CallWatch WatchSesame EnqueueRequestForObject,
     CallWatch WatchDeployment EnqueueForOwningSesame,
     CallWatch WatchDaemonSet EnqueueForOwningSesame,
     CallMapper]"

lemma images_parse_iff:
  "images_parse parse images \<longleftrightarrow> (\<forall>i \<in> set images. \<exists>x. parse i = Inr x)"
  by (induction images) (auto simp: Image_def split: sum.splits)

lemma run_checked:
  "run_state (checked wrap m) w = (case run_state m w of (e, w') \<Rightarrow>
     (case e of None \<Rightarrow> Ok () | Some err \<Rightarrow> Err (wrap err), w'))"
  by (simp add: checked_def split: prod.split)

lemma scheme_init_ok:
  "scheme_init add = Ok scheme \<longleftrightarrow> (\<forall>b. add b = None) \<and>
     scheme = [ClientGoScheme, OperatorV1alpha1, GatewayV1alpha2, ApiextensionsV1]"
proof -
  have "(\<forall>b. add b = None) \<longleftrightarrow> add ClientGoScheme = None \<and> add OperatorV1alpha1 = None \<and>
      add GatewayV1alpha2 = None \<and> add ApiextensionsV1 = None"
    by (metis scheme_builder.exhaust)
  then show ?thesis by (auto simp: scheme_init_def split: option.splits)
qed

text \<open>C40: The process does nothing before the types are registered and both images parse; it runs the
  manager only after the manager (with that scheme), the controller with the configured images, its
  watches on Sesames, Deployments and DaemonSets and the REST mapper were all set up without an
  error, and it exits with 0 exactly when it then stopped without an error.\<close>

theorem main_checks_before_it_runs:
  assumes run: "run_state (operator_process add parse (logging_runtime answer stop) flags) [] = (status, calls)"
    and cfg: "c = flags_config flags"
  shows "(calls \<noteq> [] \<longrightarrow> (\<forall>b. add b = None) \<and> (\<exists>x. parse (op_SesameImage c) = Inr x) \<and>
      (\<exists>x. parse (op_EnvoyImage c) = Inr x)) \<and>
    (CallRun \<in> set calls \<longrightarrow> calls = setup_calls c @ [CallRun] \<and> list_all (\<lambda>x. answer x = None) (setup_calls c)) \<and>
    (status = 0 \<longleftrightarrow> CallRun \<in> set calls \<and> stop \<in> {ContextDone, ManagerReturned None})"
proof (cases "\<exists>scheme. scheme_init add = Ok scheme")
  case False
  with run show ?thesis by (auto simp: operator_process_def split: res.splits)
next
  case True
  then have init: "\<forall>b. add b = None"
    "scheme_init add = Ok [ClientGoScheme, OperatorV1alpha1, GatewayV1alpha2, ApiextensionsV1]"
    by (auto simp: scheme_init_ok)
  show ?thesis
  proof (cases "images_parse parse [op_SesameImage c, op_EnvoyImage c]")
    case False
    with run init show ?thesis by (auto simp: operator_process_def main_def cfg Let_def)
  next
    case True
    then have "(\<exists>x. parse (op_SesameImage c) = Inr x) \<and> (\<exists>x. parse (op_EnvoyImage c) = Inr x)"
      by (simp only: images_parse_iff) simp
    with True run init show ?thesis
      by (auto simp: operator_process_def main_def cfg [symmetric] Let_def operator_New_def controller_New_def
          run_and_then run_checked operator_Start_def setup_calls_def simp del: images_parse.simps
          split: option.splits if_splits stopped.splits prod.splits)
  qed
qed

theorem main_checks_before_it_runs_witness:
  "run_state (operator_process (\<lambda>_. None) Inr (logging_runtime (\<lambda>_. None) ContextDone)
      \<lparr>sesame_image = None, envoy_image = None, metrics_addr = None, enable_leader_election = None\<rparr>) [] =
    (0, setup_calls NewOperatorConfig @ [CallRun])"
proof -
  let ?f = "\<lparr>sesame_image = None, envoy_image = None, metrics_addr = None, enable_leader_election = None\<rparr>"
  obtain status calls where run:
    "run_state (operator_process (\<lambda>_. None) Inr (logging_runtime (\<lambda>_. None) ContextDone) ?f) [] = (status, calls)"
    by fastforce
  have "flags_config ?f = NewOperatorConfig" by (simp add: flags_config_def NewOperatorConfig_def)
  moreover have "status = 0"
    using run by (simp add: operator_process_def scheme_init_def main_def Let_def Image_def operator_New_def
        controller_New_def run_and_then run_checked operator_Start_def)
  ultimately show ?thesis using main_checks_before_it_runs [OF run refl] run by simp
qed

section \<open>The output of a command in a pod\<close>

text \<open>When the command runs, the search for a string in its output reports no error whether or not
  the string is there: only a missing kubectl, an argument that starts with a slash or a dot, or a
  command that fails is an error.\<close>

theorem absent_string_is_no_error:
  assumes run: "run_state (StringInPodExec LookPath exec ns name expected cmd) w = (r, w')"
  shows "r = Ok () \<longleftrightarrow> (\<exists>path w1 out. run_state (LookPath ''kubectl'') w = (Inr path, w1) \<and>
    list_all (\<lambda>a. \<not> has_prefix a ''/'' \<and> \<not> has_prefix a ''.'') (name # cmd) \<and>
    run_state (exec path ([''exec'', name, ''--namespace='' @ ns, ''--''] @ cmd)) w1 = (Inr out, w'))"
proof -
  have args: "bad_argument ([''exec'', name, ''--namespace='' @ ns, ''--''] @ cmd) = None \<longleftrightarrow>
      list_all (\<lambda>a. \<not> has_prefix a ''/'' \<and> \<not> has_prefix a ''.'') (name # cmd)"
    unfolding bad_argument_None by (auto simp: list_all_iff)
  show ?thesis
    using run unfolding args [symmetric]
    by (auto simp: StringInPodExec_def lookForString_def runCmd_def Let_def simp del: bad_argument.simps
        split: prod.splits sum.splits option.splits if_splits)
qed

theorem absent_string_is_no_error_witness:
  "fst (run_state (StringInPodExec (\<lambda>_. ret (Inr ''kubectl'')) (\<lambda>_ _. ret (Inr ''nothing'')) ''ns'' ''pod''
     ''expected'' [''ls'']) ()) = Ok ()"
proof -
  obtain r w' where run: "run_state (StringInPodExec (\<lambda>_. ret (Inr ''kubectl'')) (\<lambda>_ _. ret (Inr ''nothing''))
      ''ns'' ''pod'' ''expected'' [''ls'']) () = (r, w')" by (metis prod.collapse)
  show ?thesis using absent_string_is_no_error [OF run] run by simp
qed

end
