(* ===== verification/Wire.thy ===== *)
theory Wire
  imports Sesame_Types
begin

text \<open>
  The spec of a Sesame on the wire: the JSON the struct tags of \<open>sesame_types.go\<close> describe (a field
  with \<open>omitempty\<close> that holds the zero value is left out; a struct never is), and the defaults the
  kubebuilder markers ask the API server to fill in for what is missing.
\<close>

section \<open>JSON\<close>

text \<open>A field that may be missing is an option.\<close>

record AWSJSON =
  ja_type :: "string option"
  ja_allocationIds :: "string list option"

record ProviderJSON =
  jp_type :: "string option"
  jp_aws :: "AWSJSON option"
  jp_azure :: "AzureLoadBalancerParameters option"
  jp_gcp :: "GCPLoadBalancerParameters option"

record StrategyJSON =
  jl_scope :: "string option"
  jl_providerParameters :: "ProviderJSON option"

record NodePortJSON =
  jn_name :: string
  jn_portNumber :: "int32 option"

record EnvoyJSON =
  je_type :: "string option"
  je_loadBalancer :: "StrategyJSON option"
  je_nodePorts :: "NodePortJSON list option"
  je_containerPorts :: "ContainerPort list option"

record PublishingJSON =
  jb_envoy :: "EnvoyJSON option"

record NamespaceJSON =
  jm_name :: "string option"
  jm_removeOnDeletion :: "bool option"

record SpecJSON =
  jc_replicas :: "int32 option"
  jc_namespace :: "NamespaceJSON option"
  jc_networkPublishing :: "PublishingJSON option"
  jc_gatewayClassRef :: "string option"
  jc_gatewayControllerName :: "string option"
  jc_ingressClassName :: "string option"
  jc_nodePlacement :: "NodePlacement option"
  jc_enableExternalNameService :: "bool option"

definition empty_json :: SpecJSON where
  "empty_json = \<lparr>jc_replicas = None, jc_namespace = None, jc_networkPublishing = None, jc_gatewayClassRef = None,
     jc_gatewayControllerName = None, jc_ingressClassName = None, jc_nodePlacement = None,
     jc_enableExternalNameService = None\<rparr>"

section \<open>Encoding\<close>

definition omit_zero :: "'a \<Rightarrow> 'a \<Rightarrow> 'a option" where
  "omit_zero zero x = (if x = zero then None else Some x)"

fun omit_empty :: "'a list option \<Rightarrow> 'a list option" where
  "omit_empty (Some []) = None"
| "omit_empty l = l"

definition encode_AWS :: "AWSLoadBalancerParameters \<Rightarrow> AWSJSON" where
  "encode_AWS p = \<lparr>ja_type = omit_zero [] (aws_Type p), ja_allocationIds = omit_empty (AllocationIDs p)\<rparr>"

definition encode_provider :: "ProviderLoadBalancerParameters \<Rightarrow> ProviderJSON" where
  "encode_provider p = \<lparr>jp_type = omit_zero [] (prov_Type p), jp_aws = map_option encode_AWS (prov_AWS p),
     jp_azure = prov_Azure p, jp_gcp = prov_GCP p\<rparr>"

definition encode_strategy :: "LoadBalancerStrategy \<Rightarrow> StrategyJSON" where
  "encode_strategy l = \<lparr>jl_scope = omit_zero [] (Scope l),
     jl_providerParameters = Some (encode_provider (ProviderParameters l))\<rparr>"

definition encode_node_port :: "NodePort \<Rightarrow> NodePortJSON" where
  "encode_node_port p = \<lparr>jn_name = np_Name p, jn_portNumber = map_option deref (np_PortNumber p)\<rparr>"

definition encode_envoy :: "EnvoyNetworkPublishing \<Rightarrow> EnvoyJSON" where
  "encode_envoy e = \<lparr>je_type = omit_zero [] (pub_Type e), je_loadBalancer = Some (encode_strategy (LoadBalancer e)),
     je_nodePorts = omit_empty (map_option (map encode_node_port) (NodePorts e)),
     je_containerPorts = omit_zero [] (ContainerPorts e)\<rparr>"

definition encode_namespace :: "NamespaceSpec \<Rightarrow> NamespaceJSON" where
  "encode_namespace n = \<lparr>jm_name = omit_zero [] (nsp_Name n),
     jm_removeOnDeletion = omit_zero False (RemoveOnDeletion n)\<rparr>"

definition encode_sesame_placement :: "SesameNodePlacement \<Rightarrow> SesameNodePlacement" where
  "encode_sesame_placement p = p\<lparr>snp_NodeSelector := omit_empty (snp_NodeSelector p)\<rparr>"

definition encode_envoy_placement :: "EnvoyNodePlacement \<Rightarrow> EnvoyNodePlacement" where
  "encode_envoy_placement p = p\<lparr>enp_NodeSelector := omit_empty (enp_NodeSelector p)\<rparr>"

definition encode_placement :: "NodePlacement \<Rightarrow> NodePlacement" where
  "encode_placement n = \<lparr>npl_Sesame = map_option encode_sesame_placement (npl_Sesame n),
     npl_Envoy = map_option encode_envoy_placement (npl_Envoy n)\<rparr>"

definition encode_spec :: "SesameSpec \<Rightarrow> SpecJSON" where
  "encode_spec s = \<lparr>jc_replicas = omit_zero 0 (Replicas s),
     jc_namespace = Some (encode_namespace (SpecNamespace s)),
     jc_networkPublishing = Some \<lparr>jb_envoy = Some (encode_envoy (Envoy (SpecNetworkPublishing s)))\<rparr>,
     jc_gatewayClassRef = GatewayClassRef s, jc_gatewayControllerName = GatewayControllerName s,
     jc_ingressClassName = IngressClassName s,
     jc_nodePlacement = map_option encode_placement (SpecNodePlacement s),
     jc_enableExternalNameService = EnableExternalNameService s\<rparr>"

section \<open>Decoding\<close>

text \<open>What is missing becomes the zero value; every number behind a pointer gets an address of its own,
  from the given one on.\<close>

fun the_or :: "'a \<Rightarrow> 'a option \<Rightarrow> 'a" where
  "the_or zero None = zero"
| "the_or zero (Some x) = x"

definition decode_AWS :: "AWSJSON \<Rightarrow> AWSLoadBalancerParameters" where
  "decode_AWS j = \<lparr>aws_Type = the_or [] (ja_type j), AllocationIDs = ja_allocationIds j\<rparr>"

definition decode_provider :: "ProviderJSON \<Rightarrow> ProviderLoadBalancerParameters" where
  "decode_provider j = \<lparr>prov_Type = the_or [] (jp_type j), prov_AWS = map_option decode_AWS (jp_aws j),
     prov_Azure = jp_azure j, prov_GCP = jp_gcp j\<rparr>"

definition empty_provider :: ProviderJSON where
  "empty_provider = \<lparr>jp_type = None, jp_aws = None, jp_azure = None, jp_gcp = None\<rparr>"

definition decode_strategy :: "StrategyJSON \<Rightarrow> LoadBalancerStrategy" where
  "decode_strategy j = \<lparr>Scope = the_or [] (jl_scope j),
     ProviderParameters = decode_provider (the_or empty_provider (jl_providerParameters j))\<rparr>"

definition empty_strategy :: StrategyJSON where
  "empty_strategy = \<lparr>jl_scope = None, jl_providerParameters = None\<rparr>"

fun decode_node_ports :: "nat \<Rightarrow> NodePortJSON list \<Rightarrow> NodePort list" where
  "decode_node_ports a [] = []"
| "decode_node_ports a (p # ps) =
     \<lparr>np_Name = jn_name p, np_PortNumber = map_option (Ptr a) (jn_portNumber p)\<rparr> # decode_node_ports (Suc a) ps"

definition decode_envoy :: "nat \<Rightarrow> EnvoyJSON \<Rightarrow> EnvoyNetworkPublishing" where
  "decode_envoy a j = \<lparr>pub_Type = the_or [] (je_type j),
     LoadBalancer = decode_strategy (the_or empty_strategy (je_loadBalancer j)),
     NodePorts = map_option (decode_node_ports a) (je_nodePorts j),
     ContainerPorts = the_or [] (je_containerPorts j)\<rparr>"

definition empty_envoy :: EnvoyJSON where
  "empty_envoy = \<lparr>je_type = None, je_loadBalancer = None, je_nodePorts = None, je_containerPorts = None\<rparr>"

definition decode_namespace :: "NamespaceJSON \<Rightarrow> NamespaceSpec" where
  "decode_namespace j = \<lparr>nsp_Name = the_or [] (jm_name j), RemoveOnDeletion = the_or False (jm_removeOnDeletion j)\<rparr>"

definition decode_spec :: "nat \<Rightarrow> SpecJSON \<Rightarrow> SesameSpec" where
  "decode_spec a j = \<lparr>Replicas = the_or 0 (jc_replicas j),
     SpecNamespace = decode_namespace (the_or \<lparr>jm_name = None, jm_removeOnDeletion = None\<rparr> (jc_namespace j)),
     SpecNetworkPublishing = \<lparr>Envoy = decode_envoy a (the_or empty_envoy
       (jb_envoy (the_or \<lparr>jb_envoy = None\<rparr> (jc_networkPublishing j))))\<rparr>,
     GatewayClassRef = jc_gatewayClassRef j, GatewayControllerName = jc_gatewayControllerName j,
     IngressClassName = jc_ingressClassName j, SpecNodePlacement = jc_nodePlacement j,
     EnableExternalNameService = jc_enableExternalNameService j\<rparr>"

section \<open>Defaults\<close>

text \<open>The API server fills in the default of a missing property and then goes into the properties that
  are there, the ones just filled in included.\<close>

fun or_default :: "'a \<Rightarrow> 'a option \<Rightarrow> 'a option" where
  "or_default d None = Some d"
| "or_default d (Some x) = Some x"

definition default_ports :: "ContainerPort list" where
  "default_ports = [\<lparr>ecp_Name = ''http'', ecp_PortNumber = 8080\<rparr>, \<lparr>ecp_Name = ''https'', ecp_PortNumber = 8443\<rparr>]"

definition default_AWS :: "AWSJSON \<Rightarrow> AWSJSON" where
  "default_AWS j = j\<lparr>ja_type := or_default ''Classic'' (ja_type j)\<rparr>"

definition default_provider :: "ProviderJSON \<Rightarrow> ProviderJSON" where
  "default_provider j = j\<lparr>jp_type := or_default ''AWS'' (jp_type j), jp_aws := map_option default_AWS (jp_aws j)\<rparr>"

definition default_strategy :: "StrategyJSON \<Rightarrow> StrategyJSON" where
  "default_strategy j = \<lparr>jl_scope = or_default ''External'' (jl_scope j),
     jl_providerParameters = map_option default_provider
       (or_default (empty_provider\<lparr>jp_type := Some ''AWS''\<rparr>) (jl_providerParameters j))\<rparr>"

definition default_envoy :: "EnvoyJSON \<Rightarrow> EnvoyJSON" where
  "default_envoy j = j\<lparr>je_type := or_default ''LoadBalancerService'' (je_type j),
     je_loadBalancer := map_option default_strategy
       (or_default \<lparr>jl_scope = Some ''External'',
          jl_providerParameters = Some (empty_provider\<lparr>jp_type := Some ''AWS''\<rparr>)\<rparr> (je_loadBalancer j)),
     je_containerPorts := or_default default_ports (je_containerPorts j)\<rparr>"

definition default_publishing :: "PublishingJSON \<Rightarrow> PublishingJSON" where
  "default_publishing j = \<lparr>jb_envoy = map_option default_envoy
     (or_default \<lparr>je_type = Some ''LoadBalancerService'',
        je_loadBalancer = Some \<lparr>jl_scope = Some ''External'',
          jl_providerParameters = Some (empty_provider\<lparr>jp_type := Some ''AWS''\<rparr>)\<rparr>,
        je_nodePorts = None, je_containerPorts = Some default_ports\<rparr> (jb_envoy j))\<rparr>"

definition default_namespace :: "NamespaceJSON \<Rightarrow> NamespaceJSON" where
  "default_namespace j = \<lparr>jm_name = or_default ''projectsesame'' (jm_name j),
     jm_removeOnDeletion = or_default False (jm_removeOnDeletion j)\<rparr>"

definition default_spec :: "SpecJSON \<Rightarrow> SpecJSON" where
  "default_spec j = j\<lparr>jc_replicas := or_default 2 (jc_replicas j),
     jc_namespace := map_option default_namespace
       (or_default \<lparr>jm_name = Some ''projectsesame'', jm_removeOnDeletion = Some False\<rparr> (jc_namespace j)),
     jc_networkPublishing := map_option default_publishing
       (or_default \<lparr>jb_envoy = Some \<lparr>je_type = Some ''LoadBalancerService'', je_loadBalancer = None,
          je_nodePorts = None, je_containerPorts = Some default_ports\<rparr>\<rparr> (jc_networkPublishing j))\<rparr>"

end
