(* ===== verification/Wire_Theorems.thy ===== *)
theory Wire_Theorems
  imports Wire Validation_Theorems
begin

text \<open>
  What the JSON encoding and the API server's defaults do to a spec: the round trip the operator's
  own update of a Sesame takes, and the specs a user may leave incomplete.
\<close>

section \<open>A spec sent to the API server and read back\<close>

definition stored_spec :: "nat \<Rightarrow> SesameSpec \<Rightarrow> SesameSpec" where
  "stored_spec a s = decode_spec a (default_spec (encode_spec s))"

text \<open>The value behind the pointers: the same spec with every node port number at address 0.\<close>

definition port_value :: "NodePort \<Rightarrow> NodePort" where
  "port_value p = p\<lparr>np_PortNumber := map_option (\<lambda>q. Ptr 0 (deref q)) (np_PortNumber p)\<rparr>"

definition envoy_value :: "EnvoyNetworkPublishing \<Rightarrow> EnvoyNetworkPublishing" where
  "envoy_value e = e\<lparr>NodePorts := map_option (map port_value) (NodePorts e)\<rparr>"

definition spec_value :: "SesameSpec \<Rightarrow> SesameSpec" where
  "spec_value s = s\<lparr>SpecNetworkPublishing := \<lparr>Envoy = envoy_value (spec_pub s)\<rparr>\<rparr>"

text \<open>Empty lists behind \<open>omitempty\<close> are lost, and so are empty strings that have a default: a spec
  is explicit when it has none.\<close>

definition aws_explicit :: "AWSLoadBalancerParameters \<Rightarrow> bool" where
  "aws_explicit p \<longleftrightarrow> aws_Type p \<noteq> [] \<and> AllocationIDs p \<noteq> Some []"

definition placement_explicit :: "NodePlacement \<Rightarrow> bool" where
  "placement_explicit n \<longleftrightarrow> pred_option (\<lambda>p. snp_NodeSelector p \<noteq> Some []) (npl_Sesame n) \<and>
     pred_option (\<lambda>p. enp_NodeSelector p \<noteq> Some []) (npl_Envoy n)"

definition explicit :: "SesameSpec \<Rightarrow> bool" where
  "explicit s \<longleftrightarrow> nsp_Name (SpecNamespace s) \<noteq> [] \<and> pub_Type (spec_pub s) \<noteq> [] \<and>
     Scope (LoadBalancer (spec_pub s)) \<noteq> [] \<and> prov_Type (spec_params s) \<noteq> [] \<and>
     pred_option aws_explicit (prov_AWS (spec_params s)) \<and>
     NodePorts (spec_pub s) \<noteq> Some [] \<and> ContainerPorts (spec_pub s) \<noteq> [] \<and>
     pred_option placement_explicit (SpecNodePlacement s)"

subsection \<open>What the trip does to each struct\<close>

definition nonempty :: "string \<Rightarrow> string \<Rightarrow> string" where
  "nonempty d x = (if x = [] then d else x)"

lemma the_or_omit [simp]: "the_or zero (omit_zero zero x) = x"
  by (simp add: omit_zero_def)

lemma the_or_default [simp]:
  "the_or zero (or_default d (omit_zero zero x)) = (if x = zero then d else x)"
  by (simp add: omit_zero_def)

lemma omit_empty_keeps: "l \<noteq> Some [] \<Longrightarrow> omit_empty l = l"
  by (cases l rule: omit_empty.cases) auto

lemma omit_empty_twice [simp]: "omit_empty (omit_empty l) = omit_empty l" "omit_empty l \<noteq> Some []"
  by (cases l rule: omit_empty.cases; simp)+

lemma nonempty_twice [simp]: "nonempty d (nonempty d x) = nonempty d x"
  by (simp add: nonempty_def)

fun renumber :: "nat \<Rightarrow> NodePort list \<Rightarrow> NodePort list" where
  "renumber a [] = []"
| "renumber a (p # ps) = p\<lparr>np_PortNumber := map_option (\<lambda>q. Ptr a (deref q)) (np_PortNumber p)\<rparr> # renumber (Suc a) ps"

definition trip_AWS :: "AWSLoadBalancerParameters \<Rightarrow> AWSLoadBalancerParameters" where
  "trip_AWS p = \<lparr>aws_Type = nonempty ''Classic'' (aws_Type p), AllocationIDs = omit_empty (AllocationIDs p)\<rparr>"

definition trip_strategy :: "LoadBalancerStrategy \<Rightarrow> LoadBalancerStrategy" where
  "trip_strategy l = (let p = ProviderParameters l in
     \<lparr>Scope = nonempty ''External'' (Scope l),
      ProviderParameters = p\<lparr>prov_Type := nonempty ''AWS'' (prov_Type p), prov_AWS := map_option trip_AWS (prov_AWS p)\<rparr>\<rparr>)"

definition trip_envoy :: "nat \<Rightarrow> EnvoyNetworkPublishing \<Rightarrow> EnvoyNetworkPublishing" where
  "trip_envoy a e = \<lparr>pub_Type = nonempty ''LoadBalancerService'' (pub_Type e),
     LoadBalancer = trip_strategy (LoadBalancer e),
     NodePorts = omit_empty (map_option (renumber a) (NodePorts e)),
     ContainerPorts = (if ContainerPorts e = [] then default_ports else ContainerPorts e)\<rparr>"

definition trip_spec :: "nat \<Rightarrow> SesameSpec \<Rightarrow> SesameSpec" where
  "trip_spec a s = s\<lparr>Replicas := (if Replicas s = 0 then 2 else Replicas s),
     SpecNamespace := (SpecNamespace s)\<lparr>nsp_Name := nonempty ''projectsesame'' (nsp_Name (SpecNamespace s))\<rparr>,
     SpecNetworkPublishing := \<lparr>Envoy = trip_envoy a (spec_pub s)\<rparr>,
     SpecNodePlacement := map_option encode_placement (SpecNodePlacement s)\<rparr>"

lemma trip_AWS: "decode_AWS (default_AWS (encode_AWS p)) = trip_AWS p"
  by (simp add: decode_AWS_def default_AWS_def encode_AWS_def trip_AWS_def nonempty_def)

lemma trip_strategy: "decode_strategy (default_strategy (encode_strategy l)) = trip_strategy l"
  by (simp add: decode_strategy_def default_strategy_def encode_strategy_def trip_strategy_def Let_def
      decode_provider_def default_provider_def encode_provider_def nonempty_def option.map_comp
      comp_def trip_AWS)

lemma decode_encode_ports: "decode_node_ports a (map encode_node_port ps) = renumber a ps"
  by (induction ps arbitrary: a) (auto simp: encode_node_port_def option.map_comp comp_def)

lemma decode_omitted_ports:
  "map_option (decode_node_ports a) (omit_empty (map_option (map encode_node_port) ps)) =
   omit_empty (map_option (renumber a) ps)"
  by (cases ps rule: omit_empty.cases)
    (auto simp: encode_node_port_def option.map_comp comp_def decode_encode_ports)

lemma trip_envoy: "decode_envoy a (default_envoy (encode_envoy e)) = trip_envoy a e"
  by (simp add: decode_envoy_def default_envoy_def encode_envoy_def trip_envoy_def nonempty_def
      decode_omitted_ports trip_strategy)

lemma trip_namespace:
  "decode_namespace (default_namespace (encode_namespace n)) = n\<lparr>nsp_Name := nonempty ''projectsesame'' (nsp_Name n)\<rparr>"
  by (simp add: decode_namespace_def default_namespace_def encode_namespace_def nonempty_def)

lemma stored_spec_trip: "stored_spec a s = trip_spec a s"
  by (simp add: stored_spec_def decode_spec_def default_spec_def encode_spec_def trip_spec_def
      default_publishing_def trip_envoy trip_namespace)

subsection \<open>An explicit spec survives\<close>

lemma renumber_empty [simp]: "renumber a ps = [] \<longleftrightarrow> ps = []"
  by (cases ps) simp_all

lemma renumber_value: "map port_value (renumber a ps) = map port_value ps"
  by (induction ps arbitrary: a) (auto simp: port_value_def option.map_comp comp_def)

lemma renumber_twice [simp]: "renumber a (renumber b ps) = renumber a ps"
  by (induction ps arbitrary: a b) (auto simp: option.map_comp comp_def)

lemma trip_strategy_explicit:
  assumes "Scope l \<noteq> []" "prov_Type (ProviderParameters l) \<noteq> []"
    "pred_option aws_explicit (prov_AWS (ProviderParameters l))"
  shows "trip_strategy l = l"
  using assms by (cases "prov_AWS (ProviderParameters l)")
    (auto simp: trip_strategy_def Let_def nonempty_def trip_AWS_def aws_explicit_def omit_empty_keeps)

lemma encode_placement_explicit:
  assumes "placement_explicit n"
  shows "encode_placement n = n"
  using assms by (cases "npl_Sesame n"; cases "npl_Envoy n")
    (auto simp: placement_explicit_def encode_placement_def encode_sesame_placement_def
      encode_envoy_placement_def omit_empty_keeps)

lemma port_value_again [simp]:
  "port_value (p\<lparr>np_PortNumber := map_option (\<lambda>q. Ptr a (deref q)) (np_PortNumber p)\<rparr>) = port_value p"
  by (simp add: port_value_def option.map_comp comp_def)

lemma trip_envoy_explicit:
  assumes "pub_Type e \<noteq> []" "ContainerPorts e \<noteq> []" "NodePorts e \<noteq> Some []"
    and "trip_strategy (LoadBalancer e) = LoadBalancer e"
  shows "envoy_value (trip_envoy a e) = envoy_value e"
proof -
  have "map_option (map port_value) (omit_empty (map_option (renumber a) (NodePorts e))) =
      map_option (map port_value) (NodePorts e)"
    using assms(3) by (cases "NodePorts e" rule: omit_empty.cases) (simp_all add: renumber_value)
  then show ?thesis using assms by (cases e) (simp add: trip_envoy_def envoy_value_def nonempty_def)
qed

lemma stored_explicit:
  assumes "explicit s"
  shows "spec_value (stored_spec a s) = (spec_value s)\<lparr>Replicas := if Replicas s = 0 then 2 else Replicas s\<rparr>"
proof -
  have "envoy_value (trip_envoy a (spec_pub s)) = envoy_value (spec_pub s)"
    using assms by (intro trip_envoy_explicit trip_strategy_explicit) (auto simp: explicit_def)
  moreover have "map_option encode_placement (SpecNodePlacement s) = SpecNodePlacement s"
    using assms by (cases "SpecNodePlacement s") (auto simp: explicit_def encode_placement_explicit)
  ultimately show ?thesis
    using assms by (simp add: stored_spec_trip trip_spec_def spec_value_def explicit_def nonempty_def)
qed

subsection \<open>A stored spec is stored as it is\<close>

lemma omit_renumber_twice [simp]:
  "omit_empty (map_option (renumber a) (omit_empty (map_option (renumber b) l))) = omit_empty (map_option (renumber a) l)"
  by (cases l rule: omit_empty.cases) (simp_all add: option.map_comp comp_def)

lemma trip_strategy_twice [simp]: "trip_strategy (trip_strategy l) = trip_strategy l"
  by (cases "prov_AWS (ProviderParameters l)") (simp_all add: trip_strategy_def Let_def trip_AWS_def)

lemma trip_envoy_twice [simp]: "trip_envoy a (trip_envoy b e) = trip_envoy a e"
  by (simp add: trip_envoy_def default_ports_def)

lemma encode_placement_twice [simp]: "encode_placement (encode_placement n) = encode_placement n"
  by (cases "npl_Sesame n"; cases "npl_Envoy n")
    (simp_all add: encode_placement_def encode_sesame_placement_def encode_envoy_placement_def)

lemma stored_again: "stored_spec a (stored_spec b s) = stored_spec a s"
  by (cases "SpecNodePlacement s") (simp_all add: stored_spec_trip trip_spec_def)

lemma stored_address_value: "spec_value (stored_spec a s) = spec_value (stored_spec b s)"
proof -
  have "map_option (map port_value) (omit_empty (map_option (renumber a) l)) =
      map_option (map port_value) (omit_empty (map_option (renumber b) l))" for l
    by (cases l rule: omit_empty.cases) (simp_all add: renumber_value)
  then show ?thesis by (simp add: stored_spec_trip trip_spec_def spec_value_def envoy_value_def trip_envoy_def)
qed

lemma stored_twice: "spec_value (stored_spec b (stored_spec a s)) = spec_value (stored_spec a s)"
  unfolding stored_again by (rule stored_address_value)

section \<open>Specs the API server admits stay admitted\<close>

lemma renumber_admitted:
  "list_all (\<lambda>p. name_length_ok (np_Name p) \<and>
      (case np_PortNumber p of None \<Rightarrow> True | Some q \<Rightarrow> port_in_range (deref q))) (renumber a ps) =
   list_all (\<lambda>p. name_length_ok (np_Name p) \<and>
      (case np_PortNumber p of None \<Rightarrow> True | Some q \<Rightarrow> port_in_range (deref q))) ps"
  "length (renumber a ps) = length ps"
  by (induction ps arbitrary: a) (auto split: option.splits)

lemma node_ports_stored:
  assumes "node_ports_admitted ps"
  shows "node_ports_admitted (omit_empty (map_option (renumber a) ps))"
proof -
  have "node_ports_admitted (map_option (renumber a) ps)"
    using assms by (cases ps) (simp_all add: node_ports_admitted_def renumber_admitted)
  moreover from this have "map_option (renumber a) ps \<noteq> Some []"
    by (auto simp: node_ports_admitted_def)
  ultimately show ?thesis by (simp add: omit_empty_keeps)
qed

lemma stored_spec_admitted:
  assumes "crd_valid s" and "Spec t = stored_spec a (Spec s)"
  shows "crd_valid t"
  using assms node_ports_stored
  by (cases "prov_AWS (lb_params s)")
    (auto simp: crd_valid_def stored_spec_trip trip_spec_def trip_envoy_def trip_strategy_def Let_def
      trip_AWS_def nonempty_def const_defs container_ports_admitted_def provider_admitted_def)

section \<open>The operator's own update\<close>

text \<open>What the API server may make of a Sesame it is sent.\<close>

definition json_adm :: "Sesame \<Rightarrow> Sesame \<Rightarrow> bool" where
  "json_adm x y \<longleftrightarrow> (\<exists>a. Spec y = stored_spec a (Spec x)) \<and> Labels (Meta y) = Labels (Meta x) \<and>
     Finalizers (Meta y) = Finalizers (Meta x)"

text \<open>A client whose objects pass through JSON on their way to the server behind it.\<close>

definition through_json :: "nat \<Rightarrow> ('w, Sesame) kind_client \<Rightarrow> ('w, Sesame) kind_client" where
  "through_json a kc = kc\<lparr>
     Create := \<lambda>x. Create kc (x\<lparr>Spec := stored_spec a (Spec x)\<rparr>),
     Update := \<lambda>x. Update kc (x\<lparr>Spec := stored_spec a (Spec x)\<rparr>)\<rparr>"

lemma through_json_api:
  assumes "api_kind kc Meta view nf (=)"
  shows "api_kind (through_json a kc) Meta view nf json_adm"
proof -
  note laws = api_kind.get_reads [OF assms] api_kind.get_found [OF assms] api_kind.get_missing [OF assms]
    api_kind.view_key [OF assms] api_kind.delete_frame [OF assms] api_kind.delete_removes [OF assms]
  have adm: "json_adm x (x\<lparr>Spec := stored_spec a (Spec x)\<rparr>)" for x
    by (auto simp: json_adm_def)
  show ?thesis
  proof (unfold_locales, goal_cases)
    case (5 k x w)
    then show ?case
      using api_kind.create_frame [OF assms, of k "x\<lparr>Spec := stored_spec a (Spec x)\<rparr>"] by (simp add: through_json_def)
  next
    case (6 k x w)
    then show ?case
      using api_kind.update_frame [OF assms, of k "x\<lparr>Spec := stored_spec a (Spec x)\<rparr>"] by (simp add: through_json_def)
  next
    case (8 x w y)
    then show ?case
      using api_kind.create_stores [OF assms, of "x\<lparr>Spec := stored_spec a (Spec x)\<rparr>" w y] adm [of x]
      by (auto simp: through_json_def)
  next
    case (9 x w y)
    then show ?case
      using api_kind.update_stores [OF assms, of "x\<lparr>Spec := stored_spec a (Spec x)\<rparr>" w y] adm [of x]
      by (auto simp: through_json_def)
  next
    case (11 x y)
    then show ?case by (simp add: json_adm_def)
  qed (use laws in \<open>simp_all add: through_json_def\<close>)
qed

interpretation json_sesames: api_kind "through_json a (mem_kind m_sesames m_sesames_update Meta)" Meta
    "\<lambda>w. lookup_obj Meta (m_sesames w)" "\<lambda>e. Reason e = ''NotFound''" json_adm
  by (rule through_json_api, rule mem_kind_api) simp

text \<open>C14: The operator's own update of a Sesame, the one that adds its finalizer, keeps an explicit spec
  on any server that decodes, defaults and stores it, with one exception: zero replicas are left out
  of the JSON and come back as the default of two. What is stored is admitted again when the Sesame was,
  and from then on sending it changes nothing.\<close>

theorem finalizer_update_keeps_spec:
  assumes server: "api_kind (sesames cli) Meta view nf json_adm"
    and "explicit (Spec s)" and "\<not> IsFinalized s"
    and ok: "fst (run_state (EnsureFinalizer cli s) w) = Ok ()"
  shows "\<exists>t. view (snd (run_state (EnsureFinalizer cli s) w)) (nsname (Meta s)) = Some t \<and> IsFinalized t \<and>
    spec_value (Spec t) = (spec_value (Spec s))\<lparr>Replicas := if Replicas (Spec s) = 0 then 2 else Replicas (Spec s)\<rparr> \<and>
    (crd_valid s \<longrightarrow> crd_valid t) \<and> spec_value (stored_spec b (Spec t)) = spec_value (Spec t)"
proof -
  define x where "x = s\<lparr>Meta := (Meta s)\<lparr>Finalizers := Finalizers (Meta s) @ [SesameFinalizer]\<rparr>\<rparr>"
  have run: "run_state (EnsureFinalizer cli s) w = (case run_state (Update (sesames cli) x) w of (r, w') \<Rightarrow>
      (call_res (Wrapf ''failed to add finalizer %s to sesame %s/%s: %w''
        [SesameFinalizer, sesame_namespace s, sesame_name s]) r, w'))"
    using assms(3) by (simp add: EnsureFinalizer_def x_def IsFinalized_iff Let_def)
  with ok obtain y where y: "fst (run_state (Update (sesames cli) x) w) = Inr y"
    by (cases "fst (run_state (Update (sesames cli) x) w)") (auto split: prod.splits)
  from api_kind.update_stores [OF server y]
  have stored: "view (snd (run_state (EnsureFinalizer cli s) w)) (nsname (Meta s)) = Some y" "json_adm x y"
    using run by (auto simp: x_def nsname_def split: prod.splits)
  then obtain a where spec: "Spec y = stored_spec a (Spec s)" and fin: "IsFinalized y"
    by (auto simp: json_adm_def x_def IsFinalized_iff)
  have again: "spec_value (stored_spec b (Spec y)) = spec_value (Spec y)"
    unfolding spec by (rule stored_twice)
  have "crd_valid s \<longrightarrow> crd_valid y" using stored_spec_admitted [OF _ spec] by blast
  with again stored(1) fin stored_explicit [OF assms(2), of a, folded spec] show ?thesis by blast
qed

text \<open>A Sesame that asks for no replicas.\<close>

definition sample_zero :: Sesame where
  "sample_zero = sample\<lparr>Spec := (Spec sample)\<lparr>Replicas := 0, SpecNetworkPublishing := \<lparr>Envoy =
     (envoy_pub sample)\<lparr>LoadBalancer := \<lparr>Scope = ExternalLoadBalancer, ProviderParameters =
       zero_ProviderLoadBalancerParameters\<lparr>prov_Type := AWSLoadBalancerProvider\<rparr>\<rparr>\<rparr>\<rparr>\<rparr>\<rparr>"

definition zero_mem :: mem where
  "zero_mem = empty_mem\<lparr>m_sesames := [sample_zero]\<rparr>"

definition json_client :: "mem client" where
  "json_client = mem_client\<lparr>sesames := through_json 0 (mem_kind m_sesames m_sesames_update Meta)\<rparr>"

lemma sample_zero_explicit: "explicit (Spec sample_zero)"
  by (simp add: explicit_def sample_zero_def sample_def sample_cfg_def New_def Let_def const_defs
      zero_ProviderLoadBalancerParameters_def)

lemma zero_mem_updated:
  "fst (run_state (EnsureFinalizer json_client sample_zero) zero_mem) = Ok ()"
  by (simp add: EnsureFinalizer_def sample_zero_def json_client_def through_json_def mem_kind_def
      with_fault_def zero_mem_def lookup_obj_def nsname_def Let_def)

theorem finalizer_update_keeps_spec_witness:
  "\<exists>t. lookup_obj Meta (m_sesames (snd (run_state (EnsureFinalizer json_client sample_zero) zero_mem)))
      (nsname (Meta sample_zero)) = Some t \<and> Replicas (Spec sample_zero) = 0 \<and> Replicas (Spec t) = 2"
proof -
  have server: "api_kind (sesames json_client) Meta (\<lambda>w. lookup_obj Meta (m_sesames w))
      (\<lambda>e. Reason e = ''NotFound'') json_adm"
    by (simp add: json_client_def json_sesames.api_kind_axioms)
  have "\<not> IsFinalized sample_zero" "Replicas (Spec sample_zero) = 0"
    by (simp_all add: IsFinalized_iff sample_zero_def)
  with finalizer_update_keeps_spec [OF server sample_zero_explicit _ zero_mem_updated, of 0] obtain t where
    t: "lookup_obj Meta (m_sesames (snd (run_state (EnsureFinalizer json_client sample_zero) zero_mem)))
        (nsname (Meta sample_zero)) = Some t"
      "spec_value (Spec t) = (spec_value (Spec sample_zero))\<lparr>Replicas := 2\<rparr>"
    by auto
  have "Replicas (Spec t) = Replicas (spec_value (Spec t))" by (simp add: spec_value_def)
  with t \<open>Replicas (Spec sample_zero) = 0\<close> show ?thesis by auto
qed

section \<open>What a user may leave out\<close>

text \<open>A spec that says nothing on the network but, at most, the publishing type; its other fields are
  within their bounds.\<close>

definition lean_envoy :: "EnvoyJSON \<Rightarrow> bool" where
  "lean_envoy e \<longleftrightarrow> je_loadBalancer e = None \<and> je_nodePorts e = None \<and> je_containerPorts e = None \<and>
     pred_option (\<lambda>t. t \<in> {LoadBalancerServicePublishingType, NodePortServicePublishingType,
       ClusterIPServicePublishingType}) (je_type e)"

definition lean_json :: "SpecJSON \<Rightarrow> bool" where
  "lean_json j \<longleftrightarrow> pred_option (\<lambda>r. 0 \<le> sint r) (jc_replicas j) \<and>
     length_within 0 253 (jc_gatewayClassRef j) \<and> length_within 0 253 (jc_gatewayControllerName j) \<and>
     length_within 1 253 (jc_ingressClassName j) \<and>
     pred_option (\<lambda>p. pred_option lean_envoy (jb_envoy p)) (jc_networkPublishing j)"

definition wanted_type :: "SpecJSON \<Rightarrow> string" where
  "wanted_type j = the_or LoadBalancerServicePublishingType
     (Option.bind (Option.bind (jc_networkPublishing j) jb_envoy) je_type)"

lemma default_ports_accepted:
  "ContainerPorts (envoy_pub s) = default_ports \<Longrightarrow>
     container_ports_admitted (ContainerPorts (envoy_pub s)) \<and> validate_ContainerPorts s = Ok ()"
  by (simp add: default_ports_def container_ports_admitted_def name_length_ok_def port_in_range_def
      validate_ContainerPorts_def container_ports_loop_ok)

lemma lean_publishing:
  assumes "lean_json j"
  shows "spec_pub (decode_spec a (default_spec j)) = \<lparr>pub_Type = wanted_type j,
      LoadBalancer = \<lparr>Scope = ExternalLoadBalancer, ProviderParameters =
        zero_ProviderLoadBalancerParameters\<lparr>prov_Type := AWSLoadBalancerProvider\<rparr>\<rparr>,
      NodePorts = None, ContainerPorts = default_ports\<rparr> \<and>
    wanted_type j \<in> {LoadBalancerServicePublishingType, NodePortServicePublishingType, ClusterIPServicePublishingType}"
proof -
  note defs = decode_spec_def default_spec_def default_publishing_def default_envoy_def decode_envoy_def
    default_strategy_def decode_strategy_def default_provider_def decode_provider_def empty_provider_def
    zero_ProviderLoadBalancerParameters_def wanted_type_def lean_json_def lean_envoy_def
  show ?thesis
  proof (cases "Option.bind (jc_networkPublishing j) jb_envoy")
    case None
    then show ?thesis
      by (cases "jc_networkPublishing j") (simp_all add: defs const_defs)
  next
    case (Some e)
    then obtain p where p: "jc_networkPublishing j = Some p" "jb_envoy p = Some e"
      by (auto simp: bind_eq_Some_conv)
    with assms show ?thesis
      by (cases "je_type e") (simp_all add: defs const_defs)
  qed
qed

lemma lean_accepted:
  assumes "lean_json j" and "Spec s = decode_spec a (default_spec j)"
  shows "crd_valid s" and "validate_spec s = Ok ()"
proof -
  note publishing = lean_publishing [OF assms(1), of a, folded assms(2)]
  have ports: "container_ports_admitted (ContainerPorts (envoy_pub s))" "validate_ContainerPorts s = Ok ()"
    using default_ports_accepted [of s] publishing by simp_all
  have replicas: "0 \<le> sint (Replicas (Spec s))"
    using assms by (cases "jc_replicas j") (simp_all add: decode_spec_def default_spec_def lean_json_def)
  have classes: "length_within 0 253 (GatewayClassRef (Spec s))" "length_within 0 253 (GatewayControllerName (Spec s))"
    "length_within 1 253 (IngressClassName (Spec s))"
    using assms by (simp_all add: decode_spec_def default_spec_def lean_json_def)
  show "crd_valid s" "validate_spec s = Ok ()"
    using publishing ports replicas classes
    by (simp_all add: crd_valid_def provider_admitted_def node_ports_admitted_def
        zero_ProviderLoadBalancerParameters_def validate_spec_def validate_NodePorts_def
        validate_LoadBalancerAddress_def validate_LoadBalancerProvider_def)
qed

text \<open>C15: Of the network a user may leave out everything but the type of publishing: with the defaults
  filled in, the spec is admitted and passes the operator's own validation, with two replicas in the
  namespace projectsesame unless it names others. The operator relies on the defaults: the same spec
  decoded without them is rejected, for want of container ports.\<close>

theorem defaulted_spec_valid:
  assumes "lean_json j" and "Spec s = decode_spec a (default_spec j)"
  shows "crd_valid s \<and> validate_spec s = Ok () \<and> pub_Type (envoy_pub s) = wanted_type j \<and>
    Replicas (Spec s) = the_or 2 (jc_replicas j) \<and>
    spec_ns s = the_or ''projectsesame'' (Option.bind (jc_namespace j) jm_name) \<and>
    (\<exists>e. validate_spec (s\<lparr>Spec := decode_spec a j\<rparr>) = Err e)"
proof -
  have replicas: "Replicas (Spec s) = the_or 2 (jc_replicas j)"
    unfolding assms(2) by (cases "jc_replicas j") (simp_all add: decode_spec_def default_spec_def)
  have ns: "spec_ns s = the_or ''projectsesame'' (Option.bind (jc_namespace j) jm_name)"
    unfolding assms(2) by (cases "jc_namespace j"; cases "Option.bind (jc_namespace j) jm_name")
      (simp_all add: decode_spec_def default_spec_def default_namespace_def decode_namespace_def)
  have "ContainerPorts (envoy_pub (s\<lparr>Spec := decode_spec a j\<rparr>)) = []"
    using assms(1) by (cases "jc_networkPublishing j"; cases "Option.bind (jc_networkPublishing j) jb_envoy")
      (simp_all add: decode_spec_def decode_envoy_def empty_envoy_def lean_json_def lean_envoy_def)
  then have "\<exists>e. validate_spec (s\<lparr>Spec := decode_spec a j\<rparr>) = Err e"
    by (simp add: validate_spec_def validate_ContainerPorts_def)
  with lean_accepted [OF assms] lean_publishing [OF assms(1), of a, folded assms(2)] replicas ns show ?thesis
    by simp
qed

theorem defaulted_spec_valid_witness:
  "validate_spec (sample\<lparr>Spec := decode_spec 0 (default_spec empty_json)\<rparr>) = Ok () \<and>
   Replicas (decode_spec 0 (default_spec empty_json)) = 2"
  using defaulted_spec_valid [of empty_json "sample\<lparr>Spec := decode_spec 0 (default_spec empty_json)\<rparr>" 0]
  by (simp add: empty_json_def lean_json_def length_within_def)

end
