(* ===== verification/Journey.thy ===== *)
theory Journey
  imports Stabilization Wire_Theorems
begin

text \<open>
  From the creation of a Sesame to its deployment: the defaults of the API server, the operator's
  validation, the finalizer, and the passes that put the objects in place, on the server in memory.
\<close>

definition finalized :: "Sesame \<Rightarrow> Sesame" where
  "finalized s = s\<lparr>Meta := (Meta s)\<lparr>Finalizers := Finalizers (Meta s) @ [SesameFinalizer]\<rparr>\<rparr>"

lemma finalized_simps [simp]:
  "nsname (Meta (finalized s)) = nsname (Meta s)" "Spec (finalized s) = Spec s" "IsFinalized (finalized s)"
  "DeletionTimestamp (Meta (finalized s)) = DeletionTimestamp (Meta s)"
  "sesame_name (finalized s) = sesame_name s" "sesame_namespace (finalized s) = sesame_namespace s"
  by (simp_all add: finalized_def nsname_def IsFinalized_iff)

lemma run_EnsureFinalizer:
  assumes "m_faults w = []" and "lookup_obj Meta (m_sesames w) (nsname (Meta s)) = Some s" and "\<not> IsFinalized s"
  shows "run_state (EnsureFinalizer mem_client s) w = (Ok (), w\<lparr>m_sesames := put_obj Meta (finalized s) (m_sesames w)\<rparr>)"
  using assms by (simp add: EnsureFinalizer_def IsFinalized_iff Let_def mem_kind_def with_fault_def
      finalized_def nsname_def)

text \<open>The first pass.\<close>

lemma finalizing_pass:
  assumes quiet: "m_faults w = []" and stored: "lookup_obj Meta (m_sesames w) req = Some s"
    and valid: "run_state (validate_Sesame mem_client s) w = (Ok (), w)"
    and live: "timestamp_is_zero (DeletionTimestamp (Meta s))" "\<not> IsFinalized s"
  shows "run_state (Reconcile n L mem_client cfg req) w =
    (Some (Ok zero_Result), w\<lparr>m_sesames := put_obj Meta (finalized s) (m_sesames w)\<rparr>)"
proof -
  have "lookup_obj Meta (m_sesames w) (nsname (Meta s)) = Some s" using stored lookup_key [OF stored] by simp
  from run_EnsureFinalizer [OF quiet this live(2)] show ?thesis
    using mem_reads(2) [OF quiet, where sel = m_sesames, OF stored] valid live by (simp add: Reconcile_def)
qed

text \<open>Validation on the server in memory.\<close>

lemma mem_validates:
  assumes quiet: "m_faults w = []" and stored: "lookup_obj Meta (m_sesames w) req = Some s"
    and alone: "\<forall>x \<in> set (m_sesames w). spec_ns x = spec_ns s \<longrightarrow> nsname (Meta x) = req"
    and spec: "validate_spec s = Ok ()"
  shows "run_state (validate_Sesame mem_client s) w = (Ok (), w)"
proof -
  have key: "nsname (Meta s) = req" by (rule lookup_key [OF stored])
  have "snd (run_state (validate_Sesame mem_client s) w) = w"
    "fst (run_state (validate_Sesame mem_client s) w) = Ok ()"
    using validate_exact [OF mem_list [OF quiet] stored_in_table [OF stored] refl] alone key spec
    by (simp_all add: validate_spec_ok [symmetric])
  then show ?thesis by (metis prod.collapse)
qed

text \<open>C5: A user who names at most the type of publishing gets a running installation: once the API server
  has filled in the defaults, three reconciliations of the new Sesame, which is not being deleted and is
  alone in its namespace, on the server in memory without faults (which stores objects as they are sent and
  assigns no node ports), first add the finalizer and then put all objects in place, whatever other objects the server held before. The first and the third report success;
  so does the second, unless a Deployment or a DaemonSet is already stored under one of the two keys the
  operator uses for them. Excluded is an owned Envoy Service with more than two ports that publishes node
  ports, at which the handler panics.\<close>

theorem new_sesame_is_deployed:
  assumes lib: "library L" and quiet: "m_faults w = []"
    and stored: "lookup_obj Meta (m_sesames w) req = Some s"
    and spec: "lean_json j" "Spec s = decode_spec a (default_spec j)"
    and alone: "\<forall>x \<in> set (m_sesames w). spec_ns x = spec_ns s \<longrightarrow> nsname (Meta x) = req"
    and new: "DeletionTimestamp (Meta s) = None" "\<not> IsFinalized s"
    and ports: "envoy_ports_bounded s (stored_envoy w s)"
  shows "\<exists>r w1 w2 w3. run_state (Reconcile (Suc n) L mem_client cfg req) w = (Some (Ok zero_Result), w1) \<and>
    run_state (Reconcile (Suc n) L mem_client cfg req) w1 = (Some r, w2) \<and>
    run_state (Reconcile (Suc n) L mem_client cfg req) w2 = (Some (Ok zero_Result), w3) \<and>
    (lookup_obj dep_Meta (m_deployments w) \<lparr>nn_Namespace = spec_ns s, nn_Name = SesameDeploymentName\<rparr> = None \<and>
     lookup_obj dms_Meta (m_daemonsets w) \<lparr>nn_Namespace = spec_ns s, nn_Name = envoyDaemonSetName\<rparr> = None \<longrightarrow>
       r = Ok zero_Result) \<and>
    all_in_place (DeepEqual L) (finalized s) cfg w3"
proof -
  let ?t = "finalized s"
  define w1 where "w1 = w\<lparr>m_sesames := put_obj Meta ?t (m_sesames w)\<rparr>"
  have live: "timestamp_is_zero (DeletionTimestamp (Meta s))" using new(1) by (simp add: timestamp_is_zero_def)
  have key: "nsname (Meta s) = req" by (rule lookup_key [OF stored])
  have first: "run_state (Reconcile (Suc n) L mem_client cfg req) w = (Some (Ok zero_Result), w1)"
    unfolding w1_def
    by (rule finalizing_pass [OF quiet stored mem_validates [OF quiet stored alone lean_accepted(2) [OF spec]] live new(2)])
  have quiet1: "m_faults w1 = []" and stored1: "lookup_obj Meta (m_sesames w1) req = Some ?t"
    using quiet key by (simp_all add: w1_def)
  have alone1: "\<forall>x \<in> set (m_sesames w1). spec_ns x = spec_ns ?t \<longrightarrow> nsname (Meta x) = req"
    using alone key by (auto simp: w1_def put_obj_def del_obj_def)
  have valid1: "run_state (validate_Sesame mem_client ?t) w1 = (Ok (), w1)"
    by (rule mem_validates [OF quiet1 stored1 alone1 lean_accepted(2) [OF spec(1)]]) (simp add: spec(2))
  have ports1: "envoy_ports_bounded ?t (stored_envoy w1 ?t)"
    using ports by (auto simp: envoy_ports_bounded_def stored_envoy_def w1_def owned_by_iff split: option.splits)
  have "same_selectors (DeepEqual L) ?t (lookup_obj dep_Meta (m_deployments w1)) (lookup_obj dms_Meta (m_daemonsets w1))"
    if "lookup_obj dep_Meta (m_deployments w) \<lparr>nn_Namespace = spec_ns s, nn_Name = SesameDeploymentName\<rparr> = None \<and>
      lookup_obj dms_Meta (m_daemonsets w) \<lparr>nn_Namespace = spec_ns s, nn_Name = envoyDaemonSetName\<rparr> = None"
    using that by (simp add: same_selectors_def w1_def)
  moreover from two_passes [OF lib quiet1 stored1 valid1 _ _ ports1, of n cfg] live obtain r w2 w3 where
    "run_state (Reconcile (Suc n) L mem_client cfg req) w1 = (Some r, w2)"
    "run_state (Reconcile (Suc n) L mem_client cfg req) w2 = (Some (Ok zero_Result), w3)"
    "same_selectors (DeepEqual L) ?t (lookup_obj dep_Meta (m_deployments w1)) (lookup_obj dms_Meta (m_daemonsets w1)) \<longrightarrow>
      r = Ok zero_Result" "all_in_place (DeepEqual L) ?t cfg w3" by auto
  ultimately show ?thesis using first by blast
qed

text \<open>A Sesame without a spec of its own.\<close>

definition sample_new :: Sesame where
  "sample_new = sample\<lparr>Spec := decode_spec 0 (default_spec empty_json)\<rparr>"

definition new_mem :: mem where
  "new_mem = empty_mem\<lparr>m_sesames := [sample_new]\<rparr>"

theorem new_sesame_is_deployed_witness:
  "\<exists>w1 w2 w3. run_state (Reconcile (Suc 0) std_lib mem_client sample_images sample_req) new_mem = (Some (Ok zero_Result), w1) \<and>
    run_state (Reconcile (Suc 0) std_lib mem_client sample_images sample_req) w1 = (Some (Ok zero_Result), w2) \<and>
    run_state (Reconcile (Suc 0) std_lib mem_client sample_images sample_req) w2 = (Some (Ok zero_Result), w3) \<and>
    all_in_place semDeepEqual (finalized sample_new) sample_images w3"
proof -
  have "lean_json empty_json" by (simp add: empty_json_def lean_json_def length_within_def)
  moreover have "lookup_obj Meta (m_sesames new_mem) sample_req = Some sample_new"
    "\<not> IsFinalized sample_new" "DeletionTimestamp (Meta sample_new) = None" "nsname (Meta sample_new) = sample_req"
    by (simp_all add: new_mem_def sample_new_def lookup_obj_def IsFinalized_iff)
  moreover have "envoy_ports_bounded sample_new (stored_envoy new_mem sample_new)"
    by (simp add: envoy_ports_bounded_def stored_envoy_def new_mem_def lookup_obj_def)
  ultimately show ?thesis
    using new_sesame_is_deployed [OF std.library_axioms, of new_mem sample_req sample_new empty_json 0 0 sample_images]
    by (auto simp: new_mem_def sample_new_def lookup_obj_def)
qed

end
