(* ===== verification/Foreign_Objects.thy ===== *)
theory Foreign_Objects
  imports Stabilization
begin

text \<open>
  What a reconciliation does to the stored objects of others, on the server in memory with any script
  of faults: nothing. \<open>Ownership\<close> states which calls are made, by the labels of the objects sent;
  here the stored objects are compared, before and after.
\<close>

section \<open>Changes of owned objects\<close>

text \<open>Each stored object stays, or its old and its new version are owned.\<close>

definition owned_change :: "(ObjectMeta \<Rightarrow> bool) \<Rightarrow> ('o \<Rightarrow> ObjectMeta) \<Rightarrow> 'o table \<Rightarrow> 'o table \<Rightarrow> bool" where
  "owned_change own meta t t' \<longleftrightarrow> (\<forall>k. lookup_obj meta t' k = lookup_obj meta t k \<or>
     (\<forall>x. lookup_obj meta t k = Some x \<or> lookup_obj meta t' k = Some x \<longrightarrow> own (meta x)))"

lemma owned_change_refl [simp]: "owned_change own meta t t"
  by (simp add: owned_change_def)

lemma owned_change_put:
  assumes "owned_change own meta t t'" and "own (meta x)"
    and "\<forall>y. lookup_obj meta t' (nsname (meta x)) = Some y \<longrightarrow> own (meta y)"
  shows "owned_change own meta t (put_obj meta x t')"
  unfolding owned_change_def
proof
  fix k
  show "lookup_obj meta (put_obj meta x t') k = lookup_obj meta t k \<or> (\<forall>y. lookup_obj meta t k = Some y \<or>
      lookup_obj meta (put_obj meta x t') k = Some y \<longrightarrow> own (meta y))"
    using assms(1) [unfolded owned_change_def, rule_format, of k] assms(2,3) by auto
qed

lemma owned_change_del:
  assumes "owned_change own meta t t'" and "\<forall>y. lookup_obj meta t' j = Some y \<longrightarrow> own (meta y)"
  shows "owned_change own meta t (del_obj meta j t')"
  unfolding owned_change_def
proof
  fix k
  show "lookup_obj meta (del_obj meta j t') k = lookup_obj meta t k \<or> (\<forall>y. lookup_obj meta t k = Some y \<or>
      lookup_obj meta (del_obj meta j t') k = Some y \<longrightarrow> own (meta y))"
    using assms(1) [unfolded owned_change_def, rule_format, of k] assms(2) by auto
qed

section \<open>Results and worlds\<close>

text \<open>A triple for one computation: the result and the final world satisfy \<open>Q\<close>.\<close>

definition triple :: "('w \<Rightarrow> bool) \<Rightarrow> ('w, 'a) state \<Rightarrow> ('a \<Rightarrow> 'w \<Rightarrow> bool) \<Rightarrow> bool" where
  "triple P m Q \<longleftrightarrow> (\<forall>w. P w \<longrightarrow> Q (fst (run_state m w)) (snd (run_state m w)))"

lemma triple_bind: "triple P m Q \<Longrightarrow> (\<And>x. triple (Q x) (f x) R) \<Longrightarrow> triple P (State_Monad.bind m f) R"
  unfolding triple_def by (simp split: prod.split) (metis fst_conv snd_conv)

lemma triple_keeps: "keeps I m \<longleftrightarrow> triple I m (\<lambda>_. I)"
  by (simp add: keeps_def triple_def)

lemma triple_ret: "(\<And>w. P w \<Longrightarrow> Q x w) \<Longrightarrow> triple P (ret x) Q"
  by (simp add: triple_def)

lemma triple_pre: "triple P m Q \<Longrightarrow> (\<And>w. P' w \<Longrightarrow> P w) \<Longrightarrow> triple P' m Q"
  by (simp add: triple_def)

lemma triple_post: "triple P m Q \<Longrightarrow> (\<And>x w. Q x w \<Longrightarrow> Q' x w) \<Longrightarrow> triple P m Q'"
  by (simp add: triple_def)

lemma triple_then_ret: "triple P m (\<lambda>_. I) \<Longrightarrow> triple P (State_Monad.bind m (\<lambda>x. ret (f x))) (\<lambda>_. I)"
  by (rule triple_bind, assumption) (rule triple_ret)

lemma triple_if: "(b \<Longrightarrow> triple P m Q) \<Longrightarrow> (\<not> b \<Longrightarrow> triple P n Q) \<Longrightarrow> triple P (if b then m else n) Q"
  by simp

section \<open>The calls\<close>

lemma mem_calls:
  assumes "table_lens sel upd"
  shows "sel (snd (run_state (Get (mem_kind sel upd meta) k) w)) = sel w"
    and "fst (run_state (Get (mem_kind sel upd meta) k) w) = Inr x \<Longrightarrow> lookup_obj meta (sel w) k = Some x"
    and "fst (run_state (Get (mem_kind sel upd meta) k) w) = Inl e \<Longrightarrow> Reason e = ''NotFound'' \<Longrightarrow>
      lookup_obj meta (sel w) k = None"
    and "sel (snd (run_state (Create (mem_kind sel upd meta) y) w)) = sel w \<or>
      lookup_obj meta (sel w) (nsname (meta y)) = None \<and>
      sel (snd (run_state (Create (mem_kind sel upd meta) y) w)) = put_obj meta y (sel w)"
    and "sel (snd (run_state (Update (mem_kind sel upd meta) y) w)) = sel w \<or>
      sel (snd (run_state (Update (mem_kind sel upd meta) y) w)) = put_obj meta y (sel w)"
    and "sel (snd (run_state (Delete (mem_kind sel upd meta) y) w)) = sel w \<or>
      sel (snd (run_state (Delete (mem_kind sel upd meta) y) w)) = del_obj meta (nsname (meta y)) (sel w)"
  using assms
  by (auto simp: mem_kind_def with_fault_def table_lens_def api_fail_def split: list.splits option.splits)

text \<open>A read, then a write of the object read: the stored object is the one that was read.\<close>

definition owned_at :: "(ObjectMeta \<Rightarrow> bool) \<Rightarrow> ('o \<Rightarrow> ObjectMeta) \<Rightarrow> 'o table \<Rightarrow> NamespacedName \<Rightarrow> bool" where
  "owned_at own meta t k \<longleftrightarrow> (\<forall>y. lookup_obj meta t k = Some y \<longrightarrow> own (meta y))"

lemma get_triple:
  assumes "table_lens sel upd"
  shows "triple (\<lambda>w. P (sel w)) (Get (mem_kind sel upd meta) k) (\<lambda>r w. P (sel w) \<and>
    (\<forall>x. r = Inr x \<longrightarrow> nsname (meta x) = k \<and> (own (meta x) \<longrightarrow> owned_at own meta (sel w) k)))"
proof -
  show ?thesis
    using mem_calls(1,2) [OF assms, of meta k] unfolding triple_def owned_at_def by (auto dest: lookup_key)
qed

lemma keeps_create:
  assumes "table_lens sel upd" and "own (meta x)"
  shows "keeps (\<lambda>w. owned_change own meta t (sel w)) (Create (mem_kind sel upd meta) x)"
proof (rule keepsI)
  fix w assume I: "owned_change own meta t (sel w)"
  show "owned_change own meta t (sel (snd (run_state (Create (mem_kind sel upd meta) x) w)))"
    using mem_calls(4) [OF assms(1), of meta x w] I owned_change_put [OF I assms(2)] by auto
qed

lemma update_triple:
  assumes "table_lens sel upd" and "own (meta x)"
  shows "triple (\<lambda>w. owned_change own meta t (sel w) \<and> owned_at own meta (sel w) (nsname (meta x)))
    (Update (mem_kind sel upd meta) x) (\<lambda>_ w. owned_change own meta t (sel w))"
proof -
  have "owned_change own meta t (sel (snd (run_state (Update (mem_kind sel upd meta) x) w)))"
    if "owned_change own meta t (sel w)" "owned_at own meta (sel w) (nsname (meta x))" for w
    using mem_calls(5) [OF assms(1), of meta x w] that owned_change_put [OF that(1) assms(2)] by (auto simp: owned_at_def)
  then show ?thesis by (simp add: triple_def)
qed

text \<open>A deletion also leaves no object that is not owned where there was none.\<close>

lemma delete_triple:
  assumes "table_lens sel upd"
  shows "triple (\<lambda>w. owned_change own meta t (sel w) \<and> owned_at own meta (sel w) (nsname (meta x)) \<and>
      (\<forall>k \<in> K. owned_at own meta (sel w) k)) (Delete (mem_kind sel upd meta) x)
    (\<lambda>_ w. owned_change own meta t (sel w) \<and> (\<forall>k \<in> K. owned_at own meta (sel w) k))"
proof -
  have "owned_change own meta t (sel (snd (run_state (Delete (mem_kind sel upd meta) x) w))) \<and>
      (\<forall>k \<in> K. owned_at own meta (sel (snd (run_state (Delete (mem_kind sel upd meta) x) w))) k)"
    if "owned_change own meta t (sel w)" "owned_at own meta (sel w) (nsname (meta x))"
      "\<forall>k \<in> K. owned_at own meta (sel w) k" for w
    using mem_calls(6) [OF assms(1), of meta x w] that owned_change_del [OF that(1)]
    by (auto simp: owned_at_def split: if_splits)
  then show ?thesis by (simp add: triple_def)
qed

section \<open>The handlers\<close>

abbreviation labelled :: "strmap \<Rightarrow> ObjectMeta \<Rightarrow> bool" where
  "labelled labels m \<equiv> Exist m labels"

lemma keeps_owned_ensure:
  assumes lens: "table_lens sel upd" and desired: "nsname (meta desired) = key" "labelled labels (meta desired)"
    and changed: "\<And>c u. changed c desired = Some u \<Longrightarrow> nsname (meta c) = key \<Longrightarrow> labelled labels (meta c) \<Longrightarrow>
      nsname (meta u) = key \<and> labelled labels (meta u)"
  shows "keeps (\<lambda>w. owned_change (labelled labels) meta t (sel w))
    (ensure_obj nf (mem_kind sel upd meta) meta changed labels key desired)"
  unfolding ensure_obj_def triple_keeps
proof (rule triple_bind [OF get_triple [OF lens, where P = "owned_change (labelled labels) meta t" and own = "labelled labels"]])
  fix r
  show "triple (\<lambda>w. owned_change (labelled labels) meta t (sel w) \<and> (\<forall>x. r = Inr x \<longrightarrow> nsname (meta x) = key \<and>
      (labelled labels (meta x) \<longrightarrow> owned_at (labelled labels) meta (sel w) key)))
    (case r of Inl e \<Rightarrow> if nf e then do { c \<leftarrow> Create (mem_kind sel upd meta) desired; ret (Created c) } else ret (ReadFailed e)
     | Inr cur \<Rightarrow> (if labelled labels (meta cur) then (case changed cur desired of None \<Rightarrow> ret (Kept cur)
         | Some u \<Rightarrow> do { x \<leftarrow> Update (mem_kind sel upd meta) u; ret (Updated u x) }) else ret (Kept cur)))
    (\<lambda>_ w. owned_change (labelled labels) meta t (sel w))"
  proof (cases r)
    case (Inl e)
    have "triple (\<lambda>w. owned_change (labelled labels) meta t (sel w)) (Create (mem_kind sel upd meta) desired)
        (\<lambda>_ w. owned_change (labelled labels) meta t (sel w))"
      using keeps_create [OF lens, where own = "labelled labels" and x = desired and meta = meta] desired(2)
      by (simp add: triple_keeps)
    with Inl show ?thesis
      by (auto intro!: triple_if triple_then_ret triple_ret elim: triple_pre)
  next
    case (Inr cur)
    show ?thesis
    proof (cases "nsname (meta cur) = key \<and> labelled labels (meta cur) \<and> changed cur desired \<noteq> None")
      case True
      then obtain u where u: "changed cur desired = Some u" "nsname (meta u) = key" "labelled labels (meta u)"
        using changed by blast
      have "triple (\<lambda>w. owned_change (labelled labels) meta t (sel w) \<and> owned_at (labelled labels) meta (sel w) (nsname (meta u)))
          (Update (mem_kind sel upd meta) u) (\<lambda>_ w. owned_change (labelled labels) meta t (sel w))"
        by (rule update_triple [OF lens]) (rule u(3))
      with Inr True u show ?thesis
        by (auto intro!: triple_then_ret elim: triple_pre)
    qed (use Inr in \<open>auto simp: triple_def split: option.split\<close>)
  qed
qed

lemma keeps_owned_delete:
  assumes lens: "table_lens sel upd"
  shows "keeps (\<lambda>w. owned_change (\<lambda>m. Exist m labels) meta t (sel w))
    (delete_owned nf (mem_kind sel upd meta) meta labels key)"
proof (rule keepsI)
  fix w assume I: "owned_change (\<lambda>m. Exist m labels) meta t (sel w)"
  obtain r w1 where get: "run_state (Get (mem_kind sel upd meta) key) w = (r, w1)" by fastforce
  have sel: "sel w1 = sel w" "\<And>x. r = Inr x \<Longrightarrow> lookup_obj meta (sel w) key = Some x"
    using get lens
    by (auto simp: mem_kind_def with_fault_def table_lens_def split: list.splits option.splits)
  have "owned_change (\<lambda>m. Exist m labels) meta t (sel (snd (run_state (Delete (mem_kind sel upd meta) cur) w1)))"
    if "r = Inr cur" "Exist (meta cur) labels" for cur
  proof -
    note cur = sel(2) [OF that(1)]
    have "owned_change (\<lambda>m. Exist m labels) meta t (del_obj meta (nsname (meta cur)) (sel w))"
      by (rule owned_change_del [OF I]) (use cur lookup_key [OF cur] that(2) in simp)
    with lens sel(1) I show ?thesis
      by (auto simp: mem_kind_def with_fault_def table_lens_def split: list.split option.split)
  qed
  then show "owned_change (\<lambda>m. Exist m labels) meta t
      (sel (snd (run_state (delete_owned nf (mem_kind sel upd meta) meta labels key) w)))"
    using get I sel(1) by (auto simp: delete_owned_def split: sum.split prod.splits)
qed

lemma keeps_owned_drift:
  assumes "table_lens sel upd" and drift: "drift_check changed agrees meta"
    and desired: "nsname (meta desired) = key" "labelled labels (meta desired)"
  shows "keeps (\<lambda>w. owned_change (labelled labels) meta t (sel w))
    (ensure_obj nf (mem_kind sel upd meta) meta changed labels key desired)"
  using assms(1) desired
proof (rule keeps_owned_ensure)
  show "nsname (meta u) = key \<and> labelled labels (meta u)"
    if "changed c desired = Some u" "nsname (meta c) = key" "labelled labels (meta c)" for c u
    using drift_check.changed_key [OF drift that(1)] drift_check.changed_owned [OF drift that(1,3)] that(2) desired by simp
qed

text \<open>The handlers that only create or update.\<close>

lemma keeps_owned_simple:
  assumes lib: "library L"
  shows "keeps (\<lambda>w :: mem. owned_change (owned_by s) ns_Meta t1 (m_namespaces w)) (EnsureNamespace L mem_client s)"
    and "keeps (\<lambda>w :: mem. owned_change (owned_by s) sa_Meta t2 (m_serviceaccounts w)) (EnsureServiceAccount L mem_client name s)"
    and "keeps (\<lambda>w :: mem. owned_change (owned_by s) cr_Meta t3 (m_clusterroles w)) (EnsureClusterRole L mem_client name s)"
    and "keeps (\<lambda>w :: mem. owned_change (owned_by s) crb_Meta t4 (m_clusterrolebindings w)) (EnsureClusterRoleBinding L mem_client name ref acct s)"
    and "keeps (\<lambda>w :: mem. owned_change (owned_by s) role_Meta t5 (m_roles w)) (EnsureRole L mem_client name s)"
    and "keeps (\<lambda>w :: mem. owned_change (owned_by s) rb_Meta t6 (m_rolebindings w)) (EnsureRoleBinding L mem_client name acct ref s)"
    and "keeps (\<lambda>w :: mem. owned_change (owned_by s) cm_Meta t7 (m_configmaps w)) (EnsureConfigMap L mem_client s)"
    and "keeps (\<lambda>w :: mem. owned_change (owned_by s) svc_Meta t8 (m_services w)) (EnsureSesameService L mem_client s)"
proof -
  note deq = library_deq [OF lib]
  show "keeps (\<lambda>w :: mem. owned_change (owned_by s) ns_Meta t1 (m_namespaces w)) (EnsureNamespace L mem_client s)"
    by (rule keeps_refines [OF EnsureNamespace_refines], unfold mem_client_kinds,
        rule keeps_owned_drift [OF _ deep_equal.namespace_drift [OF deq]]) (simp_all)
  show "keeps (\<lambda>w :: mem. owned_change (owned_by s) sa_Meta t2 (m_serviceaccounts w)) (EnsureServiceAccount L mem_client name s)"
    by (rule keeps_refines [OF EnsureServiceAccount_refines], unfold mem_client_kinds,
        rule keeps_owned_drift [OF _ deep_equal.serviceaccount_drift [OF deq]]) (simp_all)
  show "keeps (\<lambda>w :: mem. owned_change (owned_by s) cr_Meta t3 (m_clusterroles w)) (EnsureClusterRole L mem_client name s)"
    by (rule keeps_refines [OF EnsureClusterRole_refines], unfold mem_client_kinds,
        rule keeps_owned_drift [OF _ deep_equal.clusterrole_drift [OF deq]]) (simp_all)
  show "keeps (\<lambda>w :: mem. owned_change (owned_by s) crb_Meta t4 (m_clusterrolebindings w)) (EnsureClusterRoleBinding L mem_client name ref acct s)"
    by (rule keeps_refines [OF EnsureClusterRoleBinding_refines], unfold mem_client_kinds,
        rule keeps_owned_drift [OF _ deep_equal.clusterrolebinding_drift [OF deq]]) (simp_all)
  show "keeps (\<lambda>w :: mem. owned_change (owned_by s) role_Meta t5 (m_roles w)) (EnsureRole L mem_client name s)"
    by (rule keeps_refines [OF EnsureRole_refines], unfold mem_client_kinds,
        rule keeps_owned_drift [OF _ deep_equal.role_drift [OF deq]]) (simp_all)
  show "keeps (\<lambda>w :: mem. owned_change (owned_by s) rb_Meta t6 (m_rolebindings w)) (EnsureRoleBinding L mem_client name acct ref s)"
    by (rule keeps_refines [OF EnsureRoleBinding_refines], unfold mem_client_kinds,
        rule keeps_owned_drift [OF _ deep_equal.rolebinding_drift [OF deq]]) (simp_all)
  show "keeps (\<lambda>w :: mem. owned_change (owned_by s) cm_Meta t7 (m_configmaps w)) (EnsureConfigMap L mem_client s)"
    by (rule keeps_refines [OF EnsureConfigMap_refines], unfold mem_client_kinds,
        rule keeps_owned_drift [OF _ deep_equal.configmap_drift [OF deq]]) (simp_all add: desired_configmap_def nsname_def)
  show "keeps (\<lambda>w :: mem. owned_change (owned_by s) svc_Meta t8 (m_services w)) (EnsureSesameService L mem_client s)"
    by (rule keeps_refines [OF EnsureSesameService_refines], unfold mem_client_kinds,
        rule keeps_owned_drift [OF _ deep_equal.clusterip_replace_drift [OF deq]]) (simp_all)
qed

lemma keeps_owned_Deployment:
  assumes lib: "library L"
  shows "keeps (\<lambda>w. owned_change (owned_by s) dep_Meta t (m_deployments w)) (EnsureDeployment L mem_client s img)"
    and "keeps (\<lambda>w. owned_change (owned_by s) dep_Meta t (m_deployments w)) (EnsureDeploymentDeleted L mem_client s)"
proof -
  let ?I = "\<lambda>w :: mem. owned_change (owned_by s) dep_Meta t (m_deployments w)"
  show del: "keeps ?I (EnsureDeploymentDeleted L mem_client s)"
    unfolding deletions_refine mem_client_kinds
    by (intro keeps_result_of keeps_owned_delete table_lenses)
  have ensure: "keeps ?I (ensure_obj (IsNotFound L) (deployments mem_client) dep_Meta (DeploymentConfigChanged (DeepEqual L))
      (OwnerLabels s) \<lparr>nn_Namespace = spec_ns s, nn_Name = SesameDeploymentName\<rparr> (DesiredDeployment s img))"
    unfolding mem_client_kinds
    by (rule keeps_owned_drift [OF _ deep_equal.deployment_drift [OF library_deq [OF lib]]])
      simp_all
  show "keeps ?I (EnsureDeployment L mem_client s img)"
  proof (rule keepsI)
    fix w assume I: "?I w"
    obtain r w1 where get: "run_state (CurrentDeployment mem_client s) w = (r, w1)" by fastforce
    then have I1: "?I w1"
      using I by (auto simp: CurrentDeployment_def mem_kind_def with_fault_def split: list.splits option.splits)
    consider "\<exists>e. r = Inl e \<and> \<not> IsNotFound L e"
      | "\<exists>c. r = Inr c \<and> DeploymentSelectorsDiffer (DeepEqual L) c (DesiredDeployment s img)"
      | "\<And>e. r = Inl e \<Longrightarrow> IsNotFound L e"
        "\<And>c. r = Inr c \<Longrightarrow> \<not> DeploymentSelectorsDiffer (DeepEqual L) c (DesiredDeployment s img)" by blast
    then show "?I (snd (run_state (EnsureDeployment L mem_client s img) w))"
    proof cases
      case 3
      then have "refines_at w (EnsureDeployment L mem_client s img) (ensure_obj (IsNotFound L) (deployments mem_client)
          dep_Meta (DeploymentConfigChanged (DeepEqual L)) (OwnerLabels s)
          \<lparr>nn_Namespace = spec_ns s, nn_Name = SesameDeploymentName\<rparr> (DesiredDeployment s img))"
        by (intro EnsureDeployment_refines) (simp_all add: get)
      then show ?thesis using keepsD [OF ensure I] by (simp add: refines_at_def)
    qed (use get I1 keepsD [OF del I1] in \<open>auto simp: EnsureDeployment_def Let_def\<close>)
  qed
qed

lemma keeps_owned_DaemonSet:
  assumes lib: "library L"
  shows "keeps (\<lambda>w. owned_change (owned_by s) dms_Meta t (m_daemonsets w)) (EnsureDaemonSet L mem_client s c e)"
    and "keeps (\<lambda>w. owned_change (owned_by s) dms_Meta t (m_daemonsets w)) (EnsureDaemonSetDeleted L mem_client s)"
proof -
  let ?I = "\<lambda>w :: mem. owned_change (owned_by s) dms_Meta t (m_daemonsets w)"
  show del: "keeps ?I (EnsureDaemonSetDeleted L mem_client s)"
    unfolding deletions_refine mem_client_kinds
    by (intro keeps_result_of keeps_owned_delete table_lenses)
  have ensure: "keeps ?I (ensure_obj (IsNotFound L) (daemonsets mem_client) dms_Meta (DaemonsetConfigChanged (DeepEqual L))
      (OwnerLabels s) \<lparr>nn_Namespace = spec_ns s, nn_Name = envoyDaemonSetName\<rparr> (DesiredDaemonSet s c e))"
    unfolding mem_client_kinds
    by (rule keeps_owned_drift [OF _ deep_equal.daemonset_drift [OF library_deq [OF lib]]])
      simp_all
  show "keeps ?I (EnsureDaemonSet L mem_client s c e)"
  proof (rule keepsI)
    fix w assume I: "?I w"
    obtain r w1 where get: "run_state (CurrentDaemonSet mem_client s) w = (r, w1)" by fastforce
    then have I1: "?I w1"
      using I by (auto simp: CurrentDaemonSet_def mem_kind_def with_fault_def split: list.splits option.splits)
    show "?I (snd (run_state (EnsureDaemonSet L mem_client s c e) w))"
    proof (cases "\<exists>d. r = Inr d \<and> DaemonSetSelectorsDiffer (DeepEqual L) d (DesiredDaemonSet s c e)")
      case True
      then show ?thesis using get keepsD [OF del I1] by (auto simp: EnsureDaemonSet_def Let_def)
    next
      case False
      then have "refines_at w (EnsureDaemonSet L mem_client s c e) (ensure_obj (IsNotFound L) (daemonsets mem_client)
          dms_Meta (DaemonsetConfigChanged (DeepEqual L)) (OwnerLabels s)
          \<lparr>nn_Namespace = spec_ns s, nn_Name = envoyDaemonSetName\<rparr> (DesiredDaemonSet s c e))"
        by (intro EnsureDaemonSet_refines) (use get in auto)
      then show ?thesis using keepsD [OF ensure I] by (simp add: refines_at_def)
    qed
  qed
qed

text \<open>Envoy's Service, whose comparison may panic after the read.\<close>

lemma keeps_owned_EnvoyService:
  assumes lib: "library L"
  shows "keeps (\<lambda>w :: mem. owned_change (owned_by s) svc_Meta t (m_services w)) (EnsureEnvoyService L mem_client s)"
proof (rule keepsI)
  let ?I = "\<lambda>w :: mem. owned_change (owned_by s) svc_Meta t (m_services w)"
  fix w assume I: "?I w"
  obtain r w1 where get: "run_state (currentEnvoyService mem_client s) w = (r, w1)" by fastforce
  then have I1: "?I w1"
    using I by (auto simp: currentEnvoyService_def mem_kind_def with_fault_def split: list.splits option.splits)
  show "?I (snd (run_state (EnsureEnvoyService L mem_client s) w))"
  proof (cases "\<exists>c. r = Inr c \<and> owned_by s (svc_Meta c) \<and> envoy_service_changed (DeepEqual L) s c (envoy_service s) = Panic")
    case True
    then show ?thesis
      using get I1 by (auto simp: EnsureEnvoyService_def DesiredEnvoyService_closed updateEnvoyServiceIfNeeded_def Let_def)
  next
    case False
    have "keeps ?I (ensure_obj (IsNotFound L) (services mem_client) svc_Meta (envoy_changed (DeepEqual L) s)
        (OwnerLabels s) \<lparr>nn_Namespace = spec_ns s, nn_Name = envoySvcName\<rparr> (envoy_service s))"
      unfolding mem_client_kinds
    proof (rule keeps_owned_ensure)
      fix c u
      assume u: "envoy_changed (DeepEqual L) s c (envoy_service s) = Some u"
        and c: "nsname (svc_Meta c) = \<lparr>nn_Namespace = spec_ns s, nn_Name = envoySvcName\<rparr>" "owned_by s (svc_Meta c)"
      from u have "envoy_service_changed (DeepEqual L) s c (envoy_service s) = Ok (Some u)"
        by (simp add: envoy_changed_def split: res.splits)
      with c envoy_changed_key [OF this _ library_deq [OF lib]]
        deep_equal.envoy_changed_owned [OF library_deq [OF lib] this]
      show "nsname (svc_Meta u) = \<lparr>nn_Namespace = spec_ns s, nn_Name = envoySvcName\<rparr> \<and> owned_by s (svc_Meta u)"
        by simp
    qed simp_all
    from keepsD [OF this I] show ?thesis
      using EnsureEnvoyService_refines [of mem_client s w L] False get by (auto simp: refines_at_def)
  qed
qed

text \<open>The Job: the old one is deleted before the new one is created.\<close>

lemma keeps_owned_Job:
  assumes lib: "library L"
  shows "keeps (\<lambda>w :: mem. owned_change (owned_by s) job_Meta t (m_jobs w)) (EnsureJob L mem_client s img)"
proof -
  let ?I = "\<lambda>w :: mem. owned_change (owned_by s) job_Meta t (m_jobs w)" and ?d = "DesiredJob s img"
  have poll: "polling (PollImmediate L)" using lib by (simp add: library_def)
  have create: "keeps ?I (Create (jobs mem_client) ?d)"
    unfolding mem_client_kinds by (rule keeps_create [where own = "owned_by s"]) simp_all
  have retry: "keeps ?I (retryJobCreate L mem_client ?d n)" for n
    unfolding retryJobCreate_def tryJobCreate_def by (intro keeps_intro polling.poll_keeps [OF poll] create)
  have delete: "triple (\<lambda>w. ?I w \<and> owned_at (owned_by s) job_Meta (m_jobs w) (nsname (job_Meta ?d)))
      (Delete (jobs mem_client) ?d) (\<lambda>_. ?I)"
    using delete_triple [of m_jobs m_jobs_update "owned_by s" job_Meta t ?d "{}"] by simp
  have re: "triple (\<lambda>w. ?I w \<and> (nsname (job_Meta c) = nsname (job_Meta ?d) \<and>
        (owned_by s (job_Meta c) \<longrightarrow> owned_at (owned_by s) job_Meta (m_jobs w) (nsname (job_Meta ?d)))))
      (recreateJobIfNeeded L mem_client s c ?d) (\<lambda>_. ?I)" for c
  proof (cases "owned_by s (job_Meta c) \<and> JobConfigChanged (DeepEqual L) c ?d \<noteq> None")
    case True
    then have "recreateJobIfNeeded L mem_client s c ?d = do {
        d \<leftarrow> Delete (jobs mem_client) ?d;
        case delete_res (IsNotFound L) id d of Ok _ \<Rightarrow> retryJobCreate L mem_client ?d 3 | Err e \<Rightarrow> ret (Err e) | Panic \<Rightarrow> ret Panic }"
      by (auto simp: recreateJobIfNeeded_def dest: JobConfigChanged_expected)
    moreover have "triple (\<lambda>w. ?I w \<and> owned_at (owned_by s) job_Meta (m_jobs w) (nsname (job_Meta ?d))) (do {
        d \<leftarrow> Delete (jobs mem_client) ?d;
        case delete_res (IsNotFound L) id d of Ok _ \<Rightarrow> retryJobCreate L mem_client ?d 3 | Err e \<Rightarrow> ret (Err e) | Panic \<Rightarrow> ret Panic })
        (\<lambda>_. ?I)"
      by (rule triple_bind [OF delete]) (use retry in \<open>auto simp: triple_keeps triple_def split: res.split\<close>)
    ultimately show ?thesis using True by (auto elim: triple_pre)
  qed (auto simp: recreateJobIfNeeded_def triple_def split: option.split)
  show ?thesis
    unfolding EnsureJob_def Let_def currentJob_def createJob_def triple_keeps mem_client_kinds
    by (rule triple_bind [OF get_triple [where P = "owned_change (owned_by s) job_Meta t" and own = "owned_by s"]])
      (use create re in \<open>auto split: sum.split intro!: triple_if triple_then_ret triple_ret elim: triple_pre simp: triple_keeps\<close>)
qed

text \<open>The namespace: between the read and the deletion the other Sesames are listed.\<close>

lemma leaves_triple: "leaves V m \<Longrightarrow> triple (\<lambda>w. P (V w)) m (\<lambda>_ w. P (V w))"
  by (simp add: leaves_def triple_def)

lemma keeps_owned_namespace_deletion:
  "keeps (\<lambda>w :: mem. owned_change (owned_by s) ns_Meta t (m_namespaces w)) (EnsureNamespaceDeleted L mem_client s)"
proof -
  let ?I = "\<lambda>w :: mem. owned_change (owned_by s) ns_Meta t (m_namespaces w)"
  let ?P = "\<lambda>x u. owned_change (owned_by s) ns_Meta t u \<and> owned_at (owned_by s) ns_Meta u (nsname (ns_Meta x))"
  have "only_kind RNamespace m_namespaces mem_client" by (rule mem_only_kind) simp_all
  from leaves_triple [OF leaves_others(2) [OF this]]
  have others: "triple (\<lambda>w. ?P x (m_namespaces w)) (OtherSesamesExistInSpecNs mem_client s) (\<lambda>_ w. ?P x (m_namespaces w))" for x .
  have delete: "triple (\<lambda>w. ?P x (m_namespaces w)) (Delete (namespaces mem_client) x) (\<lambda>_. ?I)" for x
    using delete_triple [of m_namespaces m_namespaces_update "owned_by s" ns_Meta t x "{}"] by simp
  have inner: "triple (\<lambda>w. ?P x (m_namespaces w)) (do {
      r \<leftarrow> OtherSesamesExistInSpecNs mem_client s;
      case r of Err e \<Rightarrow> ret (True, Err (f e)) | Panic \<Rightarrow> ret (True, Panic)
      | Ok exist \<Rightarrow> (if \<not> exist then do { d \<leftarrow> Delete (namespaces mem_client) x; ret (True, g d) } else ret (True, Ok ())) }) (\<lambda>_. ?I)"
    for x and f :: "error \<Rightarrow> error" and g :: "api_error option \<Rightarrow> unit res"
    by (rule triple_bind [OF others])
      (use delete in \<open>auto split: res.split intro!: triple_if triple_then_ret triple_ret\<close>)
  show ?thesis
    unfolding EnsureNamespaceDeleted_def Let_def currentSpecNsName_def triple_keeps mem_client_kinds
    by (intro triple_if triple_ret triple_bind [OF get_triple [where P = "owned_change (owned_by s) ns_Meta t" and own = "owned_by s"]])
      (auto split: sum.split intro!: triple_if triple_ret intro: triple_pre [OF inner [unfolded mem_client_kinds]])
qed

section \<open>The deletion of RBAC objects\<close>

text \<open>What is known of the collected objects of one kind: those that are owned are still owned, or gone,
  in the server.\<close>

definition collected :: "(ObjectMeta \<Rightarrow> bool) \<Rightarrow> ('o \<Rightarrow> ObjectMeta) \<Rightarrow> ('o \<Rightarrow> rbac_object) \<Rightarrow> 'o table \<Rightarrow>
    rbac_object list \<Rightarrow> 'o table \<Rightarrow> bool" where
  "collected own meta mk t objs u \<longleftrightarrow> owned_change own meta t u \<and>
     (\<forall>x. mk x \<in> set objs \<longrightarrow> own (meta x) \<longrightarrow> owned_at own meta u (nsname (meta x)))"

definition on_ok :: "('a \<Rightarrow> 'w \<Rightarrow> bool) \<Rightarrow> ('w \<Rightarrow> bool) \<Rightarrow> 'a res \<Rightarrow> 'w \<Rightarrow> bool" where
  "on_ok Q I r w \<longleftrightarrow> (case r of Ok x \<Rightarrow> Q x w | Err e \<Rightarrow> I w | Panic \<Rightarrow> I w)"

lemma triple_and_then:
  "triple P m (on_ok Q I) \<Longrightarrow> (\<And>x. triple (Q x) (f x) (on_ok R I)) \<Longrightarrow> triple P (and_then m f) (on_ok R I)"
  unfolding and_then_def
  by (rule triple_bind, assumption) (auto simp: on_ok_def triple_def split: res.split)

lemma collect_same:
  assumes "table_lens sel upd" and inj: "\<And>x y. mk x = mk y \<Longrightarrow> x = y"
  shows "triple (\<lambda>w. collected own meta mk t objs (sel w)) (collect_object L mk (Get (mem_kind sel upd meta) k) objs)
    (on_ok (\<lambda>os w. collected own meta mk t os (sel w)) (\<lambda>w. owned_change own meta t (sel w)))"
  unfolding collect_object_def
  by (rule triple_bind [OF get_triple [OF assms(1), where P = "collected own meta mk t objs" and own = own]])
    (auto simp: on_ok_def collected_def triple_def split: sum.split dest: inj)

lemma collect_other:
  assumes "leaves sel m" and "\<And>x y. mk' y \<noteq> mk x"
  shows "triple (\<lambda>w. collected own meta mk t objs (sel w)) (collect_object L mk' m objs)
    (on_ok (\<lambda>os w. collected own meta mk t os (sel w)) (\<lambda>w. owned_change own meta t (sel w)))"
  unfolding collect_object_def
  by (rule triple_bind [OF leaves_triple [OF assms(1), where P = "collected own meta mk t objs"]])
    (use assms(2) assms(2) [THEN not_sym] in \<open>auto simp: on_ok_def collected_def triple_def split: sum.split\<close>)

lemma delete_same:
  assumes "table_lens sel upd" and "own (meta x)"
  shows "triple (\<lambda>w. collected own meta mk t (mk x # xs) (sel w)) (Delete (mem_kind sel upd meta) x)
    (\<lambda>_ w. collected own meta mk t xs (sel w))"
  using delete_triple [OF assms(1), of own meta t x "{nsname (meta y) | y. mk y \<in> set xs \<and> own (meta y)}"] assms(2)
  by (auto simp: collected_def triple_def)

lemma delete_other:
  assumes "leaves sel m"
  shows "triple (\<lambda>w. collected own meta mk t (x # xs) (sel w)) m (\<lambda>_ w. collected own meta mk t xs (sel w))"
  using assms by (simp add: collected_def triple_def leaves_def)

text \<open>The handler keeps to such an invariant of the collected objects and of the world.\<close>

lemma keeps_RBACDeleted:
  assumes collect: "\<And>objs k. triple (Q objs) (collect_object L ORoleBinding (Get (rolebindings mem_client) k) objs) (on_ok Q I)"
      "\<And>objs k. triple (Q objs) (collect_object L ORole (Get (roles mem_client) k) objs) (on_ok Q I)"
      "\<And>objs k. triple (Q objs) (collect_object L OServiceAccount (Get (serviceaccounts mem_client) k) objs) (on_ok Q I)"
      "\<And>objs k. triple (Q objs) (collect_object L OClusterRoleBinding (Get (clusterrolebindings mem_client) k) objs) (on_ok Q I)"
      "\<And>objs k. triple (Q objs) (collect_object L OClusterRole (Get (clusterroles mem_client) k) objs) (on_ok Q I)"
    and others: "\<And>objs. triple (Q objs) (OtherSesamesExist mem_client s) (\<lambda>_. Q objs)"
    and delete: "\<And>x xs. owned_by s (object_meta x) \<Longrightarrow> triple (Q (x # xs)) (delete_object mem_client x) (\<lambda>_. Q xs)"
    and less: "\<And>x xs w. Q (x # xs) w \<Longrightarrow> Q xs w" "\<And>objs w. Q objs w \<Longrightarrow> I w" "\<And>w. I w \<Longrightarrow> Q [] w"
  shows "keeps I (EnsureRBACDeleted L mem_client s)"
proof -
  have pass: "triple (Q objs) (wrapped f m) (on_ok (\<lambda>_. Q objs) I)" if "triple (Q objs) m (\<lambda>_. Q objs)"
    for f objs and m :: "(mem, 'a res) state"
    unfolding wrapped_def using less(2)
    by (intro triple_bind [OF that] triple_ret) (auto simp: on_ok_def split: res.split)
  have in_ns: "triple (Q objs) (OtherSesamesExistInSpecNs mem_client s) (\<lambda>_. Q objs)" for objs
    unfolding OtherSesamesExistInSpecNs_def
    by (rule triple_bind [OF others]) (auto split: res.split intro!: triple_ret)
  have finished: "triple (Q objs) (ret (Ok objs)) (on_ok Q I)" for objs
    by (rule triple_ret) (simp add: on_ok_def)
  have accounts: "triple (Q objs) (collect_accounts L mem_client ns names objs) (on_ok Q I)" for ns names objs
    by (induction names arbitrary: objs)
      (auto intro!: triple_and_then [OF collect(3)] finished simp: CurrentServiceAccount_def simp del: mem_client_kinds)
  have namespaced: "triple (Q objs) (collect_namespaced L mem_client ns objs) (on_ok Q I)" for ns objs
    unfolding collect_namespaced_def CurrentRoleBinding_def CurrentRole_def
    by (intro triple_and_then [OF collect(1)] triple_and_then [OF collect(2)] accounts)
  have cluster: "triple (Q objs) (collect_cluster L mem_client k objs) (on_ok Q I)" for k objs
    unfolding collect_cluster_def CurrentClusterRoleBinding_def CurrentClusterRole_def
    by (rule triple_and_then [OF collect(4) collect(5)])
  have deletes: "triple (Q objs) (delete_objects L mem_client s objs) (on_ok (\<lambda>_. I) I)" for objs
  proof (induction objs)
    case (Cons x xs)
    have err: "triple (Q xs) (ret (Err e)) (on_ok (\<lambda>_. I) I)" for e
      by (rule triple_ret) (simp add: on_ok_def less(2))
    show ?case
    proof (cases "owned_by s (object_meta x)")
      case True
      show ?thesis
        unfolding delete_objects.simps if_P [OF True]
        by (rule triple_bind [OF delete [OF True]]) (simp add: Cons.IH err split: option.split)
    next
      case False
      then show ?thesis using triple_pre [OF Cons.IH less(1)] by simp
    qed
  qed (auto intro!: triple_ret simp: on_ok_def less)
  have tail: "triple I (ret (case r of None \<Rightarrow> Ok () | Some es \<Rightarrow> Err (Aggregate es))) (on_ok (\<lambda>_. I) I)" for r
    by (rule triple_ret) (simp add: on_ok_def split: option.split)
  have rest: "triple (Q objs) (and_then (wrapped f (OtherSesamesExist mem_client s)) (\<lambda>(anywhere, _).
      and_then (if \<not> anywhere then collect_cluster L mem_client k objs else ret (Ok objs)) (\<lambda>objs.
      and_then (delete_objects L mem_client s objs) (\<lambda>_. ret (case r of None \<Rightarrow> Ok () | Some es \<Rightarrow> Err (Aggregate es))))))
      (on_ok (\<lambda>_. I) I)" for objs f k r
    unfolding case_prod_beta
    by (rule triple_and_then [OF pass [OF others]], rule triple_and_then [where Q = Q])
      (rule triple_if, rule cluster, rule finished, rule triple_and_then [OF deletes tail])
  have "triple (Q []) (EnsureRBACDeleted L mem_client s) (on_ok (\<lambda>_. I) I)"
    unfolding EnsureRBACDeleted_def
    by (rule triple_and_then [OF pass [OF in_ns]], rule triple_and_then [where Q = Q])
      (rule triple_if, rule namespaced, rule finished, rule rest)
  then show ?thesis
    unfolding triple_keeps by (rule triple_post [OF triple_pre]) (auto simp: on_ok_def less(3) split: res.splits)
qed

lemma leaves_calls:
  assumes "quiet_kind V kc"
  shows "leaves V (Get kc k)" "leaves V (Delete kc x)"
  using assms by (simp_all add: quiet_kind_def leaves_def)

lemmas collecting = collect_same collect_other delete_same delete_other leaves_calls mem_quiet

lemma keeps_owned_RBACDeleted_namespaced:
  shows "keeps (\<lambda>w :: mem. owned_change (owned_by s) sa_Meta t1 (m_serviceaccounts w)) (EnsureRBACDeleted L mem_client s)"
    and "keeps (\<lambda>w :: mem. owned_change (owned_by s) role_Meta t2 (m_roles w)) (EnsureRBACDeleted L mem_client s)"
    and "keeps (\<lambda>w :: mem. owned_change (owned_by s) rb_Meta t3 (m_rolebindings w)) (EnsureRBACDeleted L mem_client s)"
proof -
  have "only_kind RServiceAccount m_serviceaccounts mem_client" by (rule mem_only_kind) simp_all
  note others = leaves_triple [OF leaves_others(1) [OF this]]
  show "keeps (\<lambda>w :: mem. owned_change (owned_by s) sa_Meta t1 (m_serviceaccounts w)) (EnsureRBACDeleted L mem_client s)"
  proof (rule keeps_RBACDeleted [where Q = "\<lambda>objs w. collected (owned_by s) sa_Meta OServiceAccount t1 objs (m_serviceaccounts w)"])
    show "triple (\<lambda>w. collected (owned_by s) sa_Meta OServiceAccount t1 (x # xs) (m_serviceaccounts w)) (delete_object mem_client x)
        (\<lambda>_ w. collected (owned_by s) sa_Meta OServiceAccount t1 xs (m_serviceaccounts w))" if "owned_by s (object_meta x)" for x xs
      using that by (cases x) (simp_all add: collecting)
    show "triple (\<lambda>w. collected (owned_by s) sa_Meta OServiceAccount t1 objs (m_serviceaccounts w))
        (collect_object L OServiceAccount (Get (serviceaccounts mem_client) k) objs)
        (on_ok (\<lambda>os w. collected (owned_by s) sa_Meta OServiceAccount t1 os (m_serviceaccounts w))
          (\<lambda>w. owned_change (owned_by s) sa_Meta t1 (m_serviceaccounts w)))" for objs k
      unfolding mem_client_kinds by (rule collect_same) simp_all
  qed (simp_all add: collecting others, auto simp: collected_def)
  have "only_kind RRole m_roles mem_client" by (rule mem_only_kind) simp_all
  note others = leaves_triple [OF leaves_others(1) [OF this]]
  show "keeps (\<lambda>w :: mem. owned_change (owned_by s) role_Meta t2 (m_roles w)) (EnsureRBACDeleted L mem_client s)"
  proof (rule keeps_RBACDeleted [where Q = "\<lambda>objs w. collected (owned_by s) role_Meta ORole t2 objs (m_roles w)"])
    show "triple (\<lambda>w. collected (owned_by s) role_Meta ORole t2 (x # xs) (m_roles w)) (delete_object mem_client x)
        (\<lambda>_ w. collected (owned_by s) role_Meta ORole t2 xs (m_roles w))" if "owned_by s (object_meta x)" for x xs
      using that by (cases x) (simp_all add: collecting)
    show "triple (\<lambda>w. collected (owned_by s) role_Meta ORole t2 objs (m_roles w))
        (collect_object L ORole (Get (roles mem_client) k) objs)
        (on_ok (\<lambda>os w. collected (owned_by s) role_Meta ORole t2 os (m_roles w))
          (\<lambda>w. owned_change (owned_by s) role_Meta t2 (m_roles w)))" for objs k
      unfolding mem_client_kinds by (rule collect_same) simp_all
  qed (simp_all add: collecting others, auto simp: collected_def)
  have "only_kind RRoleBinding m_rolebindings mem_client" by (rule mem_only_kind) simp_all
  note others = leaves_triple [OF leaves_others(1) [OF this]]
  show "keeps (\<lambda>w :: mem. owned_change (owned_by s) rb_Meta t3 (m_rolebindings w)) (EnsureRBACDeleted L mem_client s)"
  proof (rule keeps_RBACDeleted [where Q = "\<lambda>objs w. collected (owned_by s) rb_Meta ORoleBinding t3 objs (m_rolebindings w)"])
    show "triple (\<lambda>w. collected (owned_by s) rb_Meta ORoleBinding t3 (x # xs) (m_rolebindings w)) (delete_object mem_client x)
        (\<lambda>_ w. collected (owned_by s) rb_Meta ORoleBinding t3 xs (m_rolebindings w))" if "owned_by s (object_meta x)" for x xs
      using that by (cases x) (simp_all add: collecting)
    show "triple (\<lambda>w. collected (owned_by s) rb_Meta ORoleBinding t3 objs (m_rolebindings w))
        (collect_object L ORoleBinding (Get (rolebindings mem_client) k) objs)
        (on_ok (\<lambda>os w. collected (owned_by s) rb_Meta ORoleBinding t3 os (m_rolebindings w))
          (\<lambda>w. owned_change (owned_by s) rb_Meta t3 (m_rolebindings w)))" for objs k
      unfolding mem_client_kinds by (rule collect_same) simp_all
  qed (simp_all add: collecting others, auto simp: collected_def)
qed

lemma keeps_owned_RBACDeleted_cluster:
  shows "keeps (\<lambda>w :: mem. owned_change (owned_by s) cr_Meta t1 (m_clusterroles w)) (EnsureRBACDeleted L mem_client s)"
    and "keeps (\<lambda>w :: mem. owned_change (owned_by s) crb_Meta t2 (m_clusterrolebindings w)) (EnsureRBACDeleted L mem_client s)"
proof -
  have "only_kind RClusterRole m_clusterroles mem_client" by (rule mem_only_kind) simp_all
  note others = leaves_triple [OF leaves_others(1) [OF this]]
  show "keeps (\<lambda>w :: mem. owned_change (owned_by s) cr_Meta t1 (m_clusterroles w)) (EnsureRBACDeleted L mem_client s)"
  proof (rule keeps_RBACDeleted [where Q = "\<lambda>objs w. collected (owned_by s) cr_Meta OClusterRole t1 objs (m_clusterroles w)"])
    show "triple (\<lambda>w. collected (owned_by s) cr_Meta OClusterRole t1 (x # xs) (m_clusterroles w)) (delete_object mem_client x)
        (\<lambda>_ w. collected (owned_by s) cr_Meta OClusterRole t1 xs (m_clusterroles w))" if "owned_by s (object_meta x)" for x xs
      using that by (cases x) (simp_all add: collecting)
    show "triple (\<lambda>w. collected (owned_by s) cr_Meta OClusterRole t1 objs (m_clusterroles w))
        (collect_object L OClusterRole (Get (clusterroles mem_client) k) objs)
        (on_ok (\<lambda>os w. collected (owned_by s) cr_Meta OClusterRole t1 os (m_clusterroles w))
          (\<lambda>w. owned_change (owned_by s) cr_Meta t1 (m_clusterroles w)))" for objs k
      unfolding mem_client_kinds by (rule collect_same) simp_all
  qed (simp_all add: collecting others, auto simp: collected_def)
  have "only_kind RClusterRoleBinding m_clusterrolebindings mem_client" by (rule mem_only_kind) simp_all
  note others = leaves_triple [OF leaves_others(1) [OF this]]
  show "keeps (\<lambda>w :: mem. owned_change (owned_by s) crb_Meta t2 (m_clusterrolebindings w)) (EnsureRBACDeleted L mem_client s)"
  proof (rule keeps_RBACDeleted [where Q = "\<lambda>objs w. collected (owned_by s) crb_Meta OClusterRoleBinding t2 objs (m_clusterrolebindings w)"])
    show "triple (\<lambda>w. collected (owned_by s) crb_Meta OClusterRoleBinding t2 (x # xs) (m_clusterrolebindings w)) (delete_object mem_client x)
        (\<lambda>_ w. collected (owned_by s) crb_Meta OClusterRoleBinding t2 xs (m_clusterrolebindings w))" if "owned_by s (object_meta x)" for x xs
      using that by (cases x) (simp_all add: collecting)
    show "triple (\<lambda>w. collected (owned_by s) crb_Meta OClusterRoleBinding t2 objs (m_clusterrolebindings w))
        (collect_object L OClusterRoleBinding (Get (clusterrolebindings mem_client) k) objs)
        (on_ok (\<lambda>os w. collected (owned_by s) crb_Meta OClusterRoleBinding t2 os (m_clusterrolebindings w))
          (\<lambda>w. owned_change (owned_by s) crb_Meta t2 (m_clusterrolebindings w)))" for objs k
      unfolding mem_client_kinds by (rule collect_same) simp_all
  qed (simp_all add: collecting others, auto simp: collected_def)
qed

section \<open>A reconciliation\<close>

lemma leaves_keeps_any: "leaves V m \<Longrightarrow> keeps (\<lambda>w. P (V w)) m"
  by (simp add: leaves_def keeps_def)

text \<open>An invariant of the objects of one kind is kept when the handlers of that kind keep it.\<close>

lemma keeps_EnsureRBAC_kind:
  assumes only: "only_kind r V mem_client"
    and own: "\<And>name. r = RServiceAccount \<Longrightarrow> keeps (\<lambda>w. P (V w)) (EnsureServiceAccount L mem_client name s)"
      "\<And>name. r = RClusterRole \<Longrightarrow> keeps (\<lambda>w. P (V w)) (EnsureClusterRole L mem_client name s)"
      "\<And>name ref acct. r = RClusterRoleBinding \<Longrightarrow> keeps (\<lambda>w. P (V w)) (EnsureClusterRoleBinding L mem_client name ref acct s)"
      "\<And>name. r = RRole \<Longrightarrow> keeps (\<lambda>w. P (V w)) (EnsureRole L mem_client name s)"
      "\<And>name acct ref. r = RRoleBinding \<Longrightarrow> keeps (\<lambda>w. P (V w)) (EnsureRoleBinding L mem_client name acct ref s)"
  shows "keeps (\<lambda>w. P (V w)) (EnsureRBAC L mem_client s)"
proof -
  note kinds = only_kindD [OF only]
  have account: "keeps (\<lambda>w. P (V w)) (EnsureServiceAccount L mem_client name s)" for name
    using own(1) kinds(3) by (cases "r = RServiceAccount") (auto intro: leaves_keeps_any [OF leaves_simple(2)])
  have "keeps (\<lambda>w. P (V w)) (EnsureClusterRole L mem_client name s)" for name
    using own(2) kinds(4) by (cases "r = RClusterRole") (auto intro: leaves_keeps_any [OF leaves_simple(3)])
  moreover have "keeps (\<lambda>w. P (V w)) (EnsureClusterRoleBinding L mem_client name ref acct s)" for name ref acct
    using own(3) kinds(5) by (cases "r = RClusterRoleBinding") (auto intro: leaves_keeps_any [OF leaves_simple(4)])
  moreover have "keeps (\<lambda>w. P (V w)) (EnsureRole L mem_client name s)" for name
    using own(4) kinds(6) by (cases "r = RRole") (auto intro: leaves_keeps_any [OF leaves_simple(5)])
  moreover have "keeps (\<lambda>w. P (V w)) (EnsureRoleBinding L mem_client name acct ref s)" for name acct ref
    using own(5) kinds(7) by (cases "r = RRoleBinding") (auto intro: leaves_keeps_any [OF leaves_simple(6)])
  moreover have "keeps (\<lambda>w. P (V w)) (ensure_accounts L mem_client s names c)" for names c
    by (induction names arbitrary: c) (auto intro!: keeps_intro account)
  ultimately show ?thesis
    unfolding EnsureRBAC_def Let_def by (intro keeps_intro keeps_wrapped)
qed

lemma keeps_Reconcile_kind:
  assumes lib: "library L" and only: "only_kind r V mem_client" and reads: "reads_quiet V L mem_client"
    and core: "\<And>s. nsname (Meta s) = req \<Longrightarrow> r = RNamespace \<Longrightarrow> keeps (\<lambda>w. P (V w)) (EnsureNamespace L mem_client s)"
      "\<And>s. nsname (Meta s) = req \<Longrightarrow> keeps (\<lambda>w. P (V w)) (EnsureRBAC L mem_client s)"
    and workloads: "\<And>s. nsname (Meta s) = req \<Longrightarrow> r = RConfigMap \<Longrightarrow> keeps (\<lambda>w. P (V w)) (EnsureConfigMap L mem_client s)"
      "\<And>s i. nsname (Meta s) = req \<Longrightarrow> r = RJob \<Longrightarrow> keeps (\<lambda>w. P (V w)) (EnsureJob L mem_client s i)"
      "\<And>s i. nsname (Meta s) = req \<Longrightarrow> r = RDeployment \<Longrightarrow> keeps (\<lambda>w. P (V w)) (EnsureDeployment L mem_client s i)"
      "\<And>s i j. nsname (Meta s) = req \<Longrightarrow> r = RDaemonSet \<Longrightarrow> keeps (\<lambda>w. P (V w)) (EnsureDaemonSet L mem_client s i j)"
      "\<And>s. nsname (Meta s) = req \<Longrightarrow> r = RService \<Longrightarrow> keeps (\<lambda>w. P (V w)) (EnsureSesameService L mem_client s)"
      "\<And>s. nsname (Meta s) = req \<Longrightarrow> r = RService \<Longrightarrow> keeps (\<lambda>w. P (V w)) (EnsureEnvoyService L mem_client s)"
    and deletions: "\<And>s. nsname (Meta s) = req \<Longrightarrow> r = RConfigMap \<Longrightarrow> keeps (\<lambda>w. P (V w)) (EnsureConfigMapDeleted L mem_client s)"
      "\<And>s. nsname (Meta s) = req \<Longrightarrow> r = RJob \<Longrightarrow> keeps (\<lambda>w. P (V w)) (EnsureJobDeleted L mem_client s)"
      "\<And>s. nsname (Meta s) = req \<Longrightarrow> r = RDeployment \<Longrightarrow> keeps (\<lambda>w. P (V w)) (EnsureDeploymentDeleted L mem_client s)"
      "\<And>s. nsname (Meta s) = req \<Longrightarrow> r = RDaemonSet \<Longrightarrow> keeps (\<lambda>w. P (V w)) (EnsureDaemonSetDeleted L mem_client s)"
      "\<And>s. nsname (Meta s) = req \<Longrightarrow> r = RService \<Longrightarrow> keeps (\<lambda>w. P (V w)) (EnsureSesameServiceDeleted L mem_client s)"
      "\<And>s. nsname (Meta s) = req \<Longrightarrow> r = RService \<Longrightarrow> keeps (\<lambda>w. P (V w)) (EnsureEnvoyServiceDeleted L mem_client s)"
      "\<And>s. nsname (Meta s) = req \<Longrightarrow> keeps (\<lambda>w. P (V w)) (EnsureRBACDeleted L mem_client s)"
      "\<And>s. nsname (Meta s) = req \<Longrightarrow> r = RNamespace \<Longrightarrow> keeps (\<lambda>w. P (V w)) (EnsureNamespaceDeleted L mem_client s)"
  shows "keeps (\<lambda>w. P (V w)) (Reconcile n L mem_client cfg req)"
proof -
  note kinds = only_kindD [OF only]
  have ns: "keeps (\<lambda>w. P (V w)) (EnsureNamespace L mem_client s)" "keeps (\<lambda>w. P (V w)) (EnsureNamespaceDeleted L mem_client s)"
    if "nsname (Meta s) = req" for s
    using core(1) [OF that] deletions(8) [OF that] kinds(2)
    by (cases "r = RNamespace"; auto intro: leaves_keeps_any [OF leaves_simple(1)]
      leaves_keeps_any [OF leaves_EnsureNamespaceDeleted [OF only]])+
  have cm: "keeps (\<lambda>w. P (V w)) (EnsureConfigMap L mem_client s)" "keeps (\<lambda>w. P (V w)) (EnsureConfigMapDeleted L mem_client s)"
    if "nsname (Meta s) = req" for s
    using workloads(1) [OF that] deletions(1) [OF that] kinds
    by (cases "r = RConfigMap"; auto intro: leaves_keeps_any [OF leaves_simple(7)] leaves_keeps_any [OF leaves_deletions(1)])+
  have job: "keeps (\<lambda>w. P (V w)) (EnsureJob L mem_client s i)" "keeps (\<lambda>w. P (V w)) (EnsureJobDeleted L mem_client s)"
    if "nsname (Meta s) = req" for s i
    using workloads(2) [OF that] deletions(2) [OF that] kinds
    by (cases "r = RJob"; auto intro: leaves_keeps_any [OF leaves_EnsureJob [OF lib]] leaves_keeps_any [OF leaves_deletions(4)])+
  have dep: "keeps (\<lambda>w. P (V w)) (EnsureDeployment L mem_client s i)" "keeps (\<lambda>w. P (V w)) (EnsureDeploymentDeleted L mem_client s)"
    if "nsname (Meta s) = req" for s i
    using workloads(3) [OF that] deletions(3) [OF that] kinds
    by (cases "r = RDeployment"; auto intro: leaves_keeps_any [OF leaves_EnsureDeployment] leaves_keeps_any [OF leaves_deletions(2)])+
  have dms: "keeps (\<lambda>w. P (V w)) (EnsureDaemonSet L mem_client s i j)" "keeps (\<lambda>w. P (V w)) (EnsureDaemonSetDeleted L mem_client s)"
    if "nsname (Meta s) = req" for s i j
    using workloads(4) [OF that] deletions(4) [OF that] kinds
    by (cases "r = RDaemonSet"; auto intro: leaves_keeps_any [OF leaves_EnsureDaemonSet] leaves_keeps_any [OF leaves_deletions(3)])+
  have svc: "keeps (\<lambda>w. P (V w)) (EnsureSesameService L mem_client s)" "keeps (\<lambda>w. P (V w)) (EnsureSesameServiceDeleted L mem_client s)"
      "keeps (\<lambda>w. P (V w)) (EnsureEnvoyService L mem_client s)" "keeps (\<lambda>w. P (V w)) (EnsureEnvoyServiceDeleted L mem_client s)"
    if "nsname (Meta s) = req" for s
    using workloads(5,6) [OF that] deletions(5,6) [OF that] kinds
    by (cases "r = RService"; auto intro: leaves_keeps_any [OF leaves_simple(8)] leaves_keeps_any [OF leaves_deletions(5)]
      leaves_keeps_any [OF leaves_EnsureEnvoyService] leaves_keeps_any [OF leaves_deletions(6)])+
  note left = leaves_syncSesameStatus [OF only reads] leaves_validate [OF only] leaves_get_sesame [OF only]
  have update: "keeps (\<lambda>w. P (V w)) (Update (sesames mem_client) x)" for x
    using kinds(1) by (simp add: quiet_kind_def keeps_def)
  have key: "gives (\<lambda>w. P (V w)) (Get (sesames mem_client) req) (\<lambda>r. \<forall>x. r = Inr x \<longrightarrow> nsname (Meta x) = req)"
    by (auto simp: gives_def mem_kind_def with_fault_def split: list.splits option.splits dest: lookup_key)
  show ?thesis
    unfolding Reconcile_def ensureSesame_def ensureSesameDeleted_def ensure_prerequisites_def ensure_workloads_def
      delete_resources_def handleResult_def EnsureFinalizer_def EnsureFinalizerRemoved_def Let_def
    by (rule keeps_bind_gives [OF leaves_keeps_any [OF left(3)] key])
      (auto intro!: keeps_intro update ns cm job dep dms svc core(2) deletions(7) left [THEN leaves_keeps_any])
qed

lemma owned_by_eq: "nsname (Meta s) = req \<Longrightarrow> owned_by s = owned_key req"
  by (auto simp: owned_by_key fun_eq_iff)

lemma keeps_owned_deletions:
  "keeps (\<lambda>w :: mem. owned_change (owned_by s) cm_Meta t1 (m_configmaps w)) (EnsureConfigMapDeleted L mem_client s)"
  "keeps (\<lambda>w :: mem. owned_change (owned_by s) job_Meta t2 (m_jobs w)) (EnsureJobDeleted L mem_client s)"
  "keeps (\<lambda>w :: mem. owned_change (owned_by s) svc_Meta t3 (m_services w)) (EnsureSesameServiceDeleted L mem_client s)"
  "keeps (\<lambda>w :: mem. owned_change (owned_by s) svc_Meta t4 (m_services w)) (EnsureEnvoyServiceDeleted L mem_client s)"
  unfolding deletions_refine mem_client_kinds
  by (rule keeps_result_of, rule keeps_owned_delete, simp)+

text \<open>What a reconciliation of \<open>req\<close> may change on the server.\<close>

definition only_owned_changes :: "NamespacedName \<Rightarrow> mem \<Rightarrow> mem \<Rightarrow> bool" where
  "only_owned_changes req w w' \<longleftrightarrow>
     owned_change (owned_key req) ns_Meta (m_namespaces w) (m_namespaces w') \<and>
     owned_change (owned_key req) sa_Meta (m_serviceaccounts w) (m_serviceaccounts w') \<and>
     owned_change (owned_key req) cr_Meta (m_clusterroles w) (m_clusterroles w') \<and>
     owned_change (owned_key req) crb_Meta (m_clusterrolebindings w) (m_clusterrolebindings w') \<and>
     owned_change (owned_key req) role_Meta (m_roles w) (m_roles w') \<and>
     owned_change (owned_key req) rb_Meta (m_rolebindings w) (m_rolebindings w') \<and>
     owned_change (owned_key req) cm_Meta (m_configmaps w) (m_configmaps w') \<and>
     owned_change (owned_key req) job_Meta (m_jobs w) (m_jobs w') \<and>
     owned_change (owned_key req) dep_Meta (m_deployments w) (m_deployments w') \<and>
     owned_change (owned_key req) dms_Meta (m_daemonsets w) (m_daemonsets w') \<and>
     owned_change (owned_key req) svc_Meta (m_services w) (m_services w') \<and>
     (\<forall>k. k \<noteq> req \<longrightarrow> lookup_obj Meta (m_sesames w') k = lookup_obj Meta (m_sesames w) k)"

lemma mem_reads_quiet:
  assumes lib: "library L" and "\<And>g w. V (m_faults_update g w) = V w"
  shows "reads_quiet V L mem_client"
  using assms(2) library.now_reads [OF lib]
  by (simp add: reads_quiet_def mem_kind_def with_fault_def split: list.split option.split)

text \<open>The kinds without RBAC.\<close>

lemma keeps_Reconcile_workload:
  assumes only: "only_kind r V mem_client" and r: "r \<in> {RNamespace, RConfigMap, RJob, RDeployment, RDaemonSet, RService}"
  shows "keeps (\<lambda>w. P (V w)) (EnsureRBAC L mem_client s)" "keeps (\<lambda>w. P (V w)) (EnsureRBACDeleted L mem_client s)"
proof -
  have quiet: "rbac_quiet V mem_client" using only r by (intro only_kind_rbac_quiet) auto
  show "keeps (\<lambda>w. P (V w)) (EnsureRBAC L mem_client s)" "keeps (\<lambda>w. P (V w)) (EnsureRBACDeleted L mem_client s)"
    by (rule leaves_keeps_any [OF leaves_EnsureRBAC [OF quiet]])
      (rule leaves_keeps_any [OF leaves_EnsureRBACDeleted [OF only quiet]])
qed

text \<open>The stored objects of each kind.\<close>

lemma pass_namespaces:
  assumes lib: "library L"
  shows "keeps (\<lambda>v :: mem. owned_change (owned_key req) ns_Meta t (m_namespaces v)) (Reconcile n L mem_client cfg req)"
proof -
  let ?P = "owned_change (owned_key req) ns_Meta t"
  have only: "only_kind RNamespace m_namespaces mem_client" by (rule mem_only_kind) simp_all
  show ?thesis
    by (rule keeps_Reconcile_kind [where P = ?P, OF lib only mem_reads_quiet [OF lib]])
      (use keeps_owned_simple(1) [OF lib] keeps_owned_namespace_deletion
         keeps_Reconcile_workload [where P = ?P, OF only] in \<open>simp_all add: owned_by_eq [symmetric]\<close>)
qed

lemma pass_configmaps:
  assumes lib: "library L"
  shows "keeps (\<lambda>v :: mem. owned_change (owned_key req) cm_Meta t (m_configmaps v)) (Reconcile n L mem_client cfg req)"
proof -
  let ?P = "owned_change (owned_key req) cm_Meta t"
  have only: "only_kind RConfigMap m_configmaps mem_client" by (rule mem_only_kind) simp_all
  show ?thesis
    by (rule keeps_Reconcile_kind [where P = ?P, OF lib only mem_reads_quiet [OF lib]])
      (use keeps_owned_simple(7) [OF lib] keeps_owned_deletions(1)
         keeps_Reconcile_workload [where P = ?P, OF only] in \<open>simp_all add: owned_by_eq [symmetric]\<close>)
qed

lemma pass_jobs:
  assumes lib: "library L"
  shows "keeps (\<lambda>v :: mem. owned_change (owned_key req) job_Meta t (m_jobs v)) (Reconcile n L mem_client cfg req)"
proof -
  let ?P = "owned_change (owned_key req) job_Meta t"
  have only: "only_kind RJob m_jobs mem_client" by (rule mem_only_kind) simp_all
  show ?thesis
    by (rule keeps_Reconcile_kind [where P = ?P, OF lib only mem_reads_quiet [OF lib]])
      (use keeps_owned_Job [OF lib] keeps_owned_deletions(2)
         keeps_Reconcile_workload [where P = ?P, OF only] in \<open>simp_all add: owned_by_eq [symmetric]\<close>)
qed

lemma pass_deployments:
  assumes lib: "library L"
  shows "keeps (\<lambda>v :: mem. owned_change (owned_key req) dep_Meta t (m_deployments v)) (Reconcile n L mem_client cfg req)"
proof -
  let ?P = "owned_change (owned_key req) dep_Meta t"
  have only: "only_kind RDeployment m_deployments mem_client" by (rule mem_only_kind) simp_all
  show ?thesis
    by (rule keeps_Reconcile_kind [where P = ?P, OF lib only mem_reads_quiet [OF lib]])
      (use keeps_owned_Deployment [OF lib]
         keeps_Reconcile_workload [where P = ?P, OF only] in \<open>simp_all add: owned_by_eq [symmetric]\<close>)
qed

lemma pass_daemonsets:
  assumes lib: "library L"
  shows "keeps (\<lambda>v :: mem. owned_change (owned_key req) dms_Meta t (m_daemonsets v)) (Reconcile n L mem_client cfg req)"
proof -
  let ?P = "owned_change (owned_key req) dms_Meta t"
  have only: "only_kind RDaemonSet m_daemonsets mem_client" by (rule mem_only_kind) simp_all
  show ?thesis
    by (rule keeps_Reconcile_kind [where P = ?P, OF lib only mem_reads_quiet [OF lib]])
      (use keeps_owned_DaemonSet [OF lib]
         keeps_Reconcile_workload [where P = ?P, OF only] in \<open>simp_all add: owned_by_eq [symmetric]\<close>)
qed

lemma pass_services:
  assumes lib: "library L"
  shows "keeps (\<lambda>v :: mem. owned_change (owned_key req) svc_Meta t (m_services v)) (Reconcile n L mem_client cfg req)"
proof -
  let ?P = "owned_change (owned_key req) svc_Meta t"
  have only: "only_kind RService m_services mem_client" by (rule mem_only_kind) simp_all
  show ?thesis
    by (rule keeps_Reconcile_kind [where P = ?P, OF lib only mem_reads_quiet [OF lib]])
      (use keeps_owned_simple(8) [OF lib] keeps_owned_EnvoyService [OF lib] keeps_owned_deletions(3,4)
         keeps_Reconcile_workload [where P = ?P, OF only] in \<open>simp_all add: owned_by_eq [symmetric]\<close>)
qed

lemma pass_serviceaccounts:
  assumes lib: "library L"
  shows "keeps (\<lambda>v :: mem. owned_change (owned_key req) sa_Meta t (m_serviceaccounts v)) (Reconcile n L mem_client cfg req)"
proof -
  let ?P = "owned_change (owned_key req) sa_Meta t"
  have only: "only_kind RServiceAccount m_serviceaccounts mem_client" by (rule mem_only_kind) simp_all
  show ?thesis
    by (rule keeps_Reconcile_kind [where P = ?P, OF lib only mem_reads_quiet [OF lib]])
      (use keeps_EnsureRBAC_kind [where P = ?P, OF only] keeps_owned_simple(2) [OF lib]
         keeps_owned_RBACDeleted_namespaced(1) in \<open>simp_all add: owned_by_eq [symmetric]\<close>)
qed

lemma pass_roles:
  assumes lib: "library L"
  shows "keeps (\<lambda>v :: mem. owned_change (owned_key req) role_Meta t (m_roles v)) (Reconcile n L mem_client cfg req)"
proof -
  let ?P = "owned_change (owned_key req) role_Meta t"
  have only: "only_kind RRole m_roles mem_client" by (rule mem_only_kind) simp_all
  show ?thesis
    by (rule keeps_Reconcile_kind [where P = ?P, OF lib only mem_reads_quiet [OF lib]])
      (use keeps_EnsureRBAC_kind [where P = ?P, OF only] keeps_owned_simple(5) [OF lib]
         keeps_owned_RBACDeleted_namespaced(2) in \<open>simp_all add: owned_by_eq [symmetric]\<close>)
qed

lemma pass_rolebindings:
  assumes lib: "library L"
  shows "keeps (\<lambda>v :: mem. owned_change (owned_key req) rb_Meta t (m_rolebindings v)) (Reconcile n L mem_client cfg req)"
proof -
  let ?P = "owned_change (owned_key req) rb_Meta t"
  have only: "only_kind RRoleBinding m_rolebindings mem_client" by (rule mem_only_kind) simp_all
  show ?thesis
    by (rule keeps_Reconcile_kind [where P = ?P, OF lib only mem_reads_quiet [OF lib]])
      (use keeps_EnsureRBAC_kind [where P = ?P, OF only] keeps_owned_simple(6) [OF lib]
         keeps_owned_RBACDeleted_namespaced(3) in \<open>simp_all add: owned_by_eq [symmetric]\<close>)
qed

lemma pass_clusterroles:
  assumes lib: "library L"
  shows "keeps (\<lambda>v :: mem. owned_change (owned_key req) cr_Meta t (m_clusterroles v)) (Reconcile n L mem_client cfg req)"
proof -
  let ?P = "owned_change (owned_key req) cr_Meta t"
  have only: "only_kind RClusterRole m_clusterroles mem_client" by (rule mem_only_kind) simp_all
  show ?thesis
    by (rule keeps_Reconcile_kind [where P = ?P, OF lib only mem_reads_quiet [OF lib]])
      (use keeps_EnsureRBAC_kind [where P = ?P, OF only] keeps_owned_simple(3) [OF lib]
         keeps_owned_RBACDeleted_cluster(1) in \<open>simp_all add: owned_by_eq [symmetric]\<close>)
qed

lemma pass_clusterrolebindings:
  assumes lib: "library L"
  shows "keeps (\<lambda>v :: mem. owned_change (owned_key req) crb_Meta t (m_clusterrolebindings v)) (Reconcile n L mem_client cfg req)"
proof -
  let ?P = "owned_change (owned_key req) crb_Meta t"
  have only: "only_kind RClusterRoleBinding m_clusterrolebindings mem_client" by (rule mem_only_kind) simp_all
  show ?thesis
    by (rule keeps_Reconcile_kind [where P = ?P, OF lib only mem_reads_quiet [OF lib]])
      (use keeps_EnsureRBAC_kind [where P = ?P, OF only] keeps_owned_simple(4) [OF lib]
         keeps_owned_RBACDeleted_cluster(2) in \<open>simp_all add: owned_by_eq [symmetric]\<close>)
qed

text \<open>Of the Sesames only that of the request is written.\<close>

lemma pass_other_sesames:
  assumes lib: "library L" and run: "run_state (Reconcile n L mem_client cfg req) w = (r, w')"
    and other: "k \<noteq> req"
  shows "lookup_obj Meta (m_sesames w') k = lookup_obj Meta (m_sesames w) k"
proof -
  let ?I = "\<lambda>v :: mem. lookup_obj Meta (m_sesames v) k = lookup_obj Meta (m_sesames w) k"
  have quiet: "guard_kind ?I ok meta kc" if "quiet_kind m_sesames kc" for ok and meta :: "'o \<Rightarrow> ObjectMeta" and kc
    using that by (simp add: guard_kind_def keeps_def quiet_kind_def)
  have "guarded L mem_client ?I req"
    by (intro guarded.intro guarded_core.intro guarded_core_axioms.intro guarded_axioms.intro lib)
      (simp_all add: quiet mem_quiet, use other in \<open>auto simp: keeps_def gives_def mem_client_def mem_kind_def with_fault_def
        split: list.splits option.splits dest: lookup_key\<close>)
  from keepsD [OF guarded.keeps_Reconcile [OF this], of w n cfg] run show ?thesis by simp
qed

section \<open>The objects of others\<close>

text \<open>C2: A reconciliation leaves the objects of others alone. Whatever the server in memory holds, whichever
  calls fail, and whether the Sesame is installed, removed or its handlers fail half-way: of all eleven
  kinds an object is created, changed or deleted only when both what was stored before and what is
  stored afterwards carry the owner labels of the request, an object that lies under the name of one of
  the Sesame's objects included; and no other Sesame is written.\<close>

theorem foreign_objects_untouched:
  assumes lib: "library L" and run: "run_state (Reconcile n L mem_client cfg req) w = (r, w')"
  shows "only_owned_changes req w w'"
proof -
  have at: "owned_change own meta (sel w) (sel w')"
    if "\<And>t. keeps (\<lambda>v. owned_change own meta t (sel v)) (Reconcile n L mem_client cfg req)"
    for own meta and sel :: "mem \<Rightarrow> 'o table"
    using keepsD [OF that [of "sel w"], of w] run by simp
  show ?thesis
    unfolding only_owned_changes_def
    by (intro conjI at [OF pass_namespaces [OF lib]] at [OF pass_serviceaccounts [OF lib]]
      at [OF pass_clusterroles [OF lib]] at [OF pass_clusterrolebindings [OF lib]] at [OF pass_roles [OF lib]]
      at [OF pass_rolebindings [OF lib]] at [OF pass_configmaps [OF lib]] at [OF pass_jobs [OF lib]]
      at [OF pass_deployments [OF lib]] at [OF pass_daemonsets [OF lib]] at [OF pass_services [OF lib]])
      (simp add: pass_other_sesames [OF lib run])
qed

text \<open>Somebody else's ConfigMap under the name of the Sesame's.\<close>

theorem foreign_objects_untouched_witness:
  "lookup_obj cm_Meta (m_configmaps drifted_mem) (nsname (cm_Meta (desired_configmap sample_ready))) \<noteq> None \<and>
   lookup_obj cm_Meta (m_configmaps (snd (run_state (Reconcile (Suc 0) std_lib mem_client sample_images sample_req) drifted_mem)))
     (nsname (cm_Meta (desired_configmap sample_ready))) =
   lookup_obj cm_Meta (m_configmaps drifted_mem) (nsname (cm_Meta (desired_configmap sample_ready)))"
proof -
  let ?run = "run_state (Reconcile (Suc 0) std_lib mem_client sample_images sample_req) drifted_mem"
  have "owned_change (owned_key sample_req) cm_Meta (m_configmaps drifted_mem) (m_configmaps (snd ?run))"
    using foreign_objects_untouched [OF std.library_axioms, of "Suc 0" sample_images sample_req drifted_mem "fst ?run" "snd ?run"]
    by (simp add: only_owned_changes_def)
  then show ?thesis
    by (auto simp: owned_change_def lookup_obj_def drifted_mem_def owned_key_def nsname_def
        dest!: spec [of _ "nsname (cm_Meta (desired_configmap sample_ready))"])
qed

end
