(* ===== verification/Control_Loop.thy ===== *)
theory Control_Loop
  imports Journey Foreign_Objects Operator "HOL-Library.While_Combinator"
begin

text \<open>
  The closed loop of the operator and a server in memory: a worker takes a request from the work
  queue and reconciles it, the changes the reconciliation made come back as events of the three
  watches, and the queue holds a request at most once. \<open>settles\<close> says that this loop ends with an
  empty queue. What the queue does is the documented behaviour of the controller runtime: an error or a
  requested delay puts the request back. Here nothing else happens in between; \<open>Lifecycle\<close> interleaves
  the passes with the environment.
\<close>

section \<open>Events and the queue\<close>

text \<open>A changed object is an event for the old and for the new object.\<close>

definition object_requests :: "event_handler \<Rightarrow> ('o \<Rightarrow> ObjectMeta) \<Rightarrow> 'o option \<Rightarrow> NamespacedName list" where
  "object_requests h meta x = (case x of None \<Rightarrow> [] | Some y \<Rightarrow> event_requests h (meta y))"

definition table_requests :: "event_handler \<Rightarrow> ('o \<Rightarrow> ObjectMeta) \<Rightarrow> 'o table \<Rightarrow> 'o table \<Rightarrow> NamespacedName list" where
  "table_requests h meta t t' = concat (map (\<lambda>k.
     if lookup_obj meta t k = lookup_obj meta t' k then []
     else object_requests h meta (lookup_obj meta t k) @ object_requests h meta (lookup_obj meta t' k))
     (map (\<lambda>x. nsname (meta x)) (t @ t')))"

text \<open>The watches \<open>New\<close> registers.\<close>

definition watch_requests :: "mem \<Rightarrow> mem \<Rightarrow> NamespacedName list" where
  "watch_requests w w' =
     table_requests EnqueueRequestForObject Meta (m_sesames w) (m_sesames w') @
     table_requests EnqueueForOwningSesame dep_Meta (m_deployments w) (m_deployments w') @
     table_requests EnqueueForOwningSesame dms_Meta (m_daemonsets w) (m_daemonsets w')"

definition enqueue :: "NamespacedName list \<Rightarrow> NamespacedName \<Rightarrow> NamespacedName list" where
  "enqueue q r = (if r \<in> set q then q else q @ [r])"

definition enqueue_all :: "NamespacedName list \<Rightarrow> NamespacedName list \<Rightarrow> NamespacedName list" where
  "enqueue_all q rs = foldl enqueue q rs"

record control =
  cluster :: mem
  pending :: "NamespacedName list"
  passes :: nat

text \<open>The operator starts on a server: all that is stored is an event.\<close>

definition started :: "mem \<Rightarrow> control" where
  "started w = \<lparr>cluster = w, pending = enqueue_all [] (watch_requests empty_mem w), passes = 0\<rparr>"

text \<open>A panic ends the process, which is started again.\<close>

definition settle_request :: "NamespacedName \<Rightarrow> NamespacedName list \<Rightarrow> mem \<Rightarrow> CtrlResult res \<Rightarrow> NamespacedName list" where
  "settle_request req q w r = (case r of
       Ok res \<Rightarrow> (if Requeue res \<or> RequeueAfter res > 0 then enqueue q req else q)
     | Err e \<Rightarrow> enqueue q req
     | Panic \<Rightarrow> pending (started w))"

text \<open>One pass; \<open>clock i\<close> is the time of the pass \<open>i\<close>. A pass that uses up its fuel makes no progress.\<close>

definition work :: "nat \<Rightarrow> mem lib \<Rightarrow> (nat \<Rightarrow> Time) \<Rightarrow> ControllerConfig \<Rightarrow> control \<Rightarrow> control" where
  "work n L clock cfg st = (case pending st of
       [] \<Rightarrow> st
     | req # rest \<Rightarrow>
         (case run_state (Reconcile n (L\<lparr>Now := ret (clock (passes st))\<rparr>) mem_client cfg req) (cluster st) of
            (None, w) \<Rightarrow> st
          | (Some r, w) \<Rightarrow> \<lparr>cluster = w,
              pending = settle_request req (enqueue_all rest (watch_requests (cluster st) w)) w r,
              passes = Suc (passes st)\<rparr>))"

definition run_loop :: "nat \<Rightarrow> mem lib \<Rightarrow> (nat \<Rightarrow> Time) \<Rightarrow> ControllerConfig \<Rightarrow> control \<Rightarrow> control option" where
  "run_loop n L clock cfg = while_option (\<lambda>st. pending st \<noteq> []) (work n L clock cfg)"

definition settles :: "nat \<Rightarrow> mem lib \<Rightarrow> (nat \<Rightarrow> Time) \<Rightarrow> ControllerConfig \<Rightarrow> (control \<Rightarrow> bool) \<Rightarrow> control \<Rightarrow> bool" where
  "settles n L clock cfg G st \<longleftrightarrow> (\<exists>fin. run_loop n L clock cfg st = Some fin \<and> G fin)"

lemma settles_idle: "pending st = [] \<Longrightarrow> G st \<Longrightarrow> settles n L clock cfg G st"
  by (subst settles_def) (simp add: run_loop_def while_option_unfold)

lemma settles_work:
  assumes "pending st \<noteq> []" and "settles n L clock cfg G (work n L clock cfg st)"
  shows "settles n L clock cfg G st"
  using assms by (simp add: settles_def run_loop_def while_option_unfold [of "\<lambda>st. pending st \<noteq> []" _ st])

text \<open>A phase of the loop: every pass ends the phase or shortens the queue.\<close>

lemma settles_phase:
  assumes step: "\<And>st. P st \<Longrightarrow> pending st \<noteq> [] \<Longrightarrow>
      settles n L clock cfg G (work n L clock cfg st) \<or>
      P (work n L clock cfg st) \<and> length (pending (work n L clock cfg st)) < length (pending st)"
    and stop: "\<And>st. P st \<Longrightarrow> pending st = [] \<Longrightarrow> G st"
  shows "P st \<Longrightarrow> settles n L clock cfg G st"
proof (induction "length (pending st)" arbitrary: st rule: less_induct)
  case less
  show ?case
  proof (cases "pending st = []")
    case True
    then show ?thesis using stop less.prems by (blast intro: settles_idle)
  next
    case False
    with step [OF less.prems] less.hyps show ?thesis by (blast intro: settles_work)
  qed
qed

lemma set_enqueue_all [simp]: "set (enqueue_all q rs) = set q \<union> set rs"
  by (induction rs arbitrary: q) (auto simp: enqueue_all_def enqueue_def)

lemma enqueue_all_Nil [simp]: "enqueue_all q [] = q"
  by (simp add: enqueue_all_def)

lemma in_concat_map: "r \<in> set (concat (map f ks)) \<longleftrightarrow> (\<exists>k \<in> set ks. r \<in> set (f k))"
  by simp

lemma set_table_requests:
  "r \<in> set (table_requests h meta t t') \<longleftrightarrow> (\<exists>k. lookup_obj meta t k \<noteq> lookup_obj meta t' k \<and>
     r \<in> set (object_requests h meta (lookup_obj meta t k) @ object_requests h meta (lookup_obj meta t' k)))"
proof -
  let ?K = "set (map (\<lambda>x. nsname (meta x)) (t @ t'))"
  have "lookup_obj meta u k = None" if "k \<notin> (\<lambda>x. nsname (meta x)) ` set u" for u k
    using that by (auto simp: lookup_obj_def find_None_iff)
  then have key: "k \<in> ?K" if "lookup_obj meta t k \<noteq> lookup_obj meta t' k" for k
    using that by (metis UnCI image_Un set_append set_map)
  have "r \<in> set (table_requests h meta t t') \<longleftrightarrow> (\<exists>k \<in> ?K. lookup_obj meta t k \<noteq> lookup_obj meta t' k \<and>
     r \<in> set (object_requests h meta (lookup_obj meta t k) @ object_requests h meta (lookup_obj meta t' k)))"
    unfolding table_requests_def in_concat_map by (rule bex_cong [OF refl]) simp
  with key show ?thesis by blast
qed

lemma table_requests_same [simp]: "table_requests h meta t t = []"
  by (simp add: table_requests_def)

lemma watch_requests_same [simp]: "watch_requests w w = []"
  by (simp add: watch_requests_def)

section \<open>The requests of a pass\<close>

text \<open>What a pass does to the watched workloads is a case of what it does to all objects.\<close>

lemma pass_owned_changes:
  assumes lib: "library L" and run: "run_state (Reconcile n L mem_client cfg req) w = (r, w')"
  shows "owned_change (owned_key req) dep_Meta (m_deployments w) (m_deployments w')"
    and "owned_change (owned_key req) dms_Meta (m_daemonsets w) (m_daemonsets w')"
  using keepsD [OF pass_deployments [OF lib, of req "m_deployments w" n cfg], of w]
    keepsD [OF pass_daemonsets [OF lib, of req "m_daemonsets w" n cfg], of w] run
  by simp_all

lemma owned_request: "owned_key req m \<Longrightarrow> event_requests EnqueueForOwningSesame m = [req]"
  by (cases req) (simp add: enqueueRequestForOwningSesame_def owned_key_def)

lemma owned_change_requests:
  assumes "owned_change (owned_key req) meta t t'"
  shows "set (table_requests EnqueueForOwningSesame meta t t') \<subseteq> {req}"
    and "req \<notin> set (table_requests EnqueueForOwningSesame meta t t') \<Longrightarrow> lookup_obj meta t' k = lookup_obj meta t k"
proof -
  have at: "lookup_obj meta t' j = lookup_obj meta t j \<or>
      (set (object_requests EnqueueForOwningSesame meta (lookup_obj meta t j)) \<subseteq> {req} \<and>
       set (object_requests EnqueueForOwningSesame meta (lookup_obj meta t' j)) \<subseteq> {req} \<and>
       req \<in> set (object_requests EnqueueForOwningSesame meta (lookup_obj meta t j) @
         object_requests EnqueueForOwningSesame meta (lookup_obj meta t' j)))" for j
    using assms [unfolded owned_change_def, rule_format, of j] owned_request
    by (cases "lookup_obj meta t j"; cases "lookup_obj meta t' j") (auto simp: object_requests_def)
  show "set (table_requests EnqueueForOwningSesame meta t t') \<subseteq> {req}"
  proof
    fix r assume "r \<in> set (table_requests EnqueueForOwningSesame meta t t')"
    then obtain j where "lookup_obj meta t j \<noteq> lookup_obj meta t' j"
      "r \<in> set (object_requests EnqueueForOwningSesame meta (lookup_obj meta t j) @
        object_requests EnqueueForOwningSesame meta (lookup_obj meta t' j))"
      unfolding set_table_requests by blast
    with at [of j] show "r \<in> {req}" by auto
  qed
  show "lookup_obj meta t' k = lookup_obj meta t k"
    if "req \<notin> set (table_requests EnqueueForOwningSesame meta t t')"
  proof (rule ccontr)
    assume "lookup_obj meta t' k \<noteq> lookup_obj meta t k"
    with at [of k] have "req \<in> set (table_requests EnqueueForOwningSesame meta t t')"
      unfolding set_table_requests by (intro exI [of _ k]) auto
    with that show False ..
  qed
qed

lemma key_change_requests:
  assumes "\<And>k. k \<noteq> req \<Longrightarrow> lookup_obj meta t' k = lookup_obj meta t k"
  shows "set (table_requests EnqueueRequestForObject meta t t') \<subseteq> {req}"
    and "req \<notin> set (table_requests EnqueueRequestForObject meta t t') \<Longrightarrow> lookup_obj meta t' req = lookup_obj meta t req"
proof -
  have at: "set (object_requests EnqueueRequestForObject meta (lookup_obj meta u k)) \<subseteq> {k}"
    "lookup_obj meta u k \<noteq> None \<Longrightarrow> k \<in> set (object_requests EnqueueRequestForObject meta (lookup_obj meta u k))"
    for u k by (auto simp: object_requests_def lookup_key split: option.split)
  show "set (table_requests EnqueueRequestForObject meta t t') \<subseteq> {req}"
  proof
    fix r assume "r \<in> set (table_requests EnqueueRequestForObject meta t t')"
    then obtain j where "lookup_obj meta t j \<noteq> lookup_obj meta t' j"
      "r \<in> set (object_requests EnqueueRequestForObject meta (lookup_obj meta t j) @
        object_requests EnqueueRequestForObject meta (lookup_obj meta t' j))"
      unfolding set_table_requests by blast
    with assms [of j] at(1) [of t j] at(1) [of t' j] show "r \<in> {req}" by auto
  qed
  show "lookup_obj meta t' req = lookup_obj meta t req"
    if "req \<notin> set (table_requests EnqueueRequestForObject meta t t')"
  proof (rule ccontr)
    assume diff: "lookup_obj meta t' req \<noteq> lookup_obj meta t req"
    then have "req \<in> set (object_requests EnqueueRequestForObject meta (lookup_obj meta t req) @
        object_requests EnqueueRequestForObject meta (lookup_obj meta t' req))"
      using at(2) [of t req] at(2) [of t' req] by (metis UnCI set_append)
    with diff have "req \<in> set (table_requests EnqueueRequestForObject meta t t')"
      unfolding set_table_requests by (intro exI [of _ req]) simp
    with that show False ..
  qed
qed

lemma pass_requests:
  assumes lib: "library L" and run: "run_state (Reconcile n L mem_client cfg req) w = (r, w')"
  shows "set (watch_requests w w') \<subseteq> {req}"
    and "req \<notin> set (watch_requests w w') \<Longrightarrow> lookup_obj Meta (m_sesames w') req = lookup_obj Meta (m_sesames w) req"
    and "req \<notin> set (watch_requests w w') \<Longrightarrow> lookup_obj dep_Meta (m_deployments w') k = lookup_obj dep_Meta (m_deployments w) k"
    and "req \<notin> set (watch_requests w w') \<Longrightarrow> lookup_obj dms_Meta (m_daemonsets w') k = lookup_obj dms_Meta (m_daemonsets w) k"
  using key_change_requests [of req Meta, OF pass_other_sesames [OF lib run]]
    owned_change_requests [OF pass_owned_changes(1) [OF lib run]]
    owned_change_requests [OF pass_owned_changes(2) [OF lib run]]
  by (auto simp: watch_requests_def)

section \<open>The phases of an installation\<close>

text \<open>The queue holds at most the request and requests for Sesames that do not exist.\<close>

definition stale_or :: "NamespacedName \<Rightarrow> control \<Rightarrow> bool" where
  "stale_or req st \<longleftrightarrow> (\<forall>r \<in> set (pending st). r = req \<or> lookup_obj Meta (m_sesames (cluster st)) r = None)"

text \<open>The Sesame is \<open>s\<close> up to its status, valid, and its objects are manageable.\<close>

definition on_its_way :: "(iface \<Rightarrow> iface \<Rightarrow> bool) \<Rightarrow> Sesame \<Rightarrow> Sesame \<Rightarrow> mem \<Rightarrow> bool" where
  "on_its_way deq s t w \<longleftrightarrow> (\<exists>st. t = s\<lparr>Status := st\<rparr>) \<and> manageable t w \<and>
     run_state (validate_Sesame mem_client t) w = (Ok (), w) \<and> conditions_ok (Conditions (Status t))"

lemma on_its_way_quiet: "on_its_way deq s t w \<Longrightarrow> m_faults w = []"
  by (simp add: on_its_way_def manageable_def)

text \<open>Everything is in place, and further passes change nothing.\<close>

definition settled :: "mem lib \<Rightarrow> ControllerConfig \<Rightarrow> Sesame \<Rightarrow> mem \<Rightarrow> bool" where
  "settled L cfg s w \<longleftrightarrow> (\<exists>t. on_its_way (DeepEqual L) s t w) \<and> all_in_place (DeepEqual L) s cfg w \<and> (\<forall>k later.
     run_state (Reconcile (Suc k) (L\<lparr>Now := ret later\<rparr>) mem_client cfg (nsname (Meta s))) w = (Some (Ok zero_Result), w))"

text \<open>A request for a Sesame that does not exist is dropped.\<close>

lemma stale_pass:
  assumes lib: "library L" and quiet: "m_faults w = []" and gone: "lookup_obj Meta (m_sesames w) r = None"
  shows "run_state (Reconcile n L mem_client cfg r) w = (Some (Ok zero_Result), w)"
  using assms by (simp add: Reconcile_def mem_kind_def with_fault_def missing_is_not_found)

lemma stale_work:
  assumes lib: "library L" and quiet: "m_faults (cluster st) = []" and st: "stale_or req st"
    and q: "pending st = r # rest" "r \<noteq> req"
  shows "work n L clock cfg st = st\<lparr>pending := rest, passes := Suc (passes st)\<rparr>"
proof -
  have "lookup_obj Meta (m_sesames (cluster st)) r = None" using st q by (auto simp: stale_or_def)
  from stale_pass [OF library_later [OF lib] quiet this] show ?thesis
    by (simp add: work_def q(1) settle_request_def zero_Result_def)
qed

lemma settled_work:
  assumes "settled L cfg s (cluster st)" and "pending st = nsname (Meta s) # rest"
  shows "work (Suc n) L clock cfg st = st\<lparr>pending := rest, passes := Suc (passes st)\<rparr>"
  using assms by (simp add: work_def settled_def settle_request_def zero_Result_def)

text \<open>When everything is settled the queue drains.\<close>

lemma settled_drains:
  assumes lib: "library L" and "settled L cfg s (cluster st)"
    and "stale_or (nsname (Meta s)) st"
  shows "settles (Suc n) L clock cfg (\<lambda>fin. settled L cfg s (cluster fin)) st"
proof (rule settles_phase [where P = "\<lambda>st. settled L cfg s (cluster st) \<and> stale_or (nsname (Meta s)) st"])
  fix st assume P: "settled L cfg s (cluster st) \<and> stale_or (nsname (Meta s)) st"
    and "pending st \<noteq> []"
  then obtain r rest where q: "pending st = r # rest" by (cases "pending st") auto
  have "work (Suc n) L clock cfg st = st\<lparr>pending := rest, passes := Suc (passes st)\<rparr>"
    using P q stale_work [OF lib, where st = st, OF _ _ q] on_its_way_quiet settled_work [of L cfg s st rest]
    by (cases "r = nsname (Meta s)") (auto simp: settled_def)
  with P q show "settles (Suc n) L clock cfg (\<lambda>fin. settled L cfg s (cluster fin))
      (work (Suc n) L clock cfg st) \<or>
    (settled L cfg s (cluster (work (Suc n) L clock cfg st)) \<and>
      stale_or (nsname (Meta s)) (work (Suc n) L clock cfg st)) \<and>
    length (pending (work (Suc n) L clock cfg st)) < length (pending st)"
    by (simp add: stale_or_def)
qed (use assms in auto)

text \<open>Any pass over a Sesame on its way leaves it there, and the selectors are right afterwards.\<close>

lemma pass_on_its_way:
  assumes lib: "library L" and way: "on_its_way (DeepEqual L) s t w"
    and ready: "timestamp_is_zero (DeletionTimestamp (Meta s))" "IsFinalized s"
  shows "\<exists>r w' t'. run_state (Reconcile (Suc n) L mem_client cfg (nsname (Meta s))) w = (Some r, w') \<and> r \<noteq> Panic \<and>
    on_its_way (DeepEqual L) s t' w' \<and> selectors_ok (DeepEqual L) t' w'"
proof -
  obtain st where t: "t = s\<lparr>Status := st\<rparr>" and m: "manageable t w"
    and valid: "run_state (validate_Sesame mem_client t) w = (Ok (), w)" and ok: "conditions_ok (Conditions (Status t))"
    using way by (auto simp: on_its_way_def)
  have key: "nsname (Meta t) = nsname (Meta s)" and ready': "timestamp_is_zero (DeletionTimestamp (Meta t))" "IsFinalized t"
    using ready by (simp_all add: t IsFinalized_iff)
  from Reconcile_manageable [OF lib m key valid ready', of n cfg] obtain r w' st' where
    run: "run_state (Reconcile (Suc n) L mem_client cfg (nsname (Meta s))) w = (Some r, w')" "r \<noteq> Panic"
    and after: "manageable (t\<lparr>Status := st'\<rparr>) w'" "selectors_ok (DeepEqual L) t w'"
      "run_state (validate_Sesame mem_client (t\<lparr>Status := st'\<rparr>)) w' = (Ok (), w')"
      "conditions_ok (Conditions (Status t)) \<longrightarrow> conditions_ok (Conditions st')" by auto
  have "on_its_way (DeepEqual L) s (t\<lparr>Status := st'\<rparr>) w'"
    using after ok by (auto simp: on_its_way_def t)
  moreover have "selectors_ok (DeepEqual L) (t\<lparr>Status := st'\<rparr>) w'" using after(2) by (simp add: selectors_ok_def)
  ultimately show ?thesis using run by blast
qed

text \<open>A pass over a Sesame whose workloads have no other selector settles everything.\<close>

lemma pass_settles:
  assumes lib: "library L" and exact: "\<And>a b. DeepEqual L (IConditions a) (IConditions b) \<longleftrightarrow> a = b"
    and way: "on_its_way (DeepEqual L) s t w" and sel: "selectors_ok (DeepEqual L) t w"
    and ready: "timestamp_is_zero (DeletionTimestamp (Meta s))" "IsFinalized s"
    and run: "run_state (Reconcile (Suc n) L mem_client cfg (nsname (Meta s))) w = (r, w')"
  shows "settled L cfg s w'"
proof -
  obtain st where t: "t = s\<lparr>Status := st\<rparr>" and m: "manageable t w"
    and valid: "run_state (validate_Sesame mem_client t) w = (Ok (), w)" and ok: "conditions_ok (Conditions (Status t))"
    using way by (auto simp: on_its_way_def)
  have key: "nsname (Meta t) = nsname (Meta s)" and ready': "timestamp_is_zero (DeletionTimestamp (Meta t))" "IsFinalized t"
    using ready by (simp_all add: t IsFinalized_iff)
  from Reconcile_manageable [OF lib m key valid ready', of n cfg] sel run have ran: "r = Some (Ok zero_Result)" by auto
  have quiet: "m_faults w = []" and stored: "lookup_obj Meta (m_sesames w) (nsname (Meta s)) = Some t"
    using m key by (simp_all add: manageable_def)
  have get: "fst (run_state (Get (sesames mem_client) (nsname (Meta s))) w) = Inr t"
    using mem_reads(2) [OF quiet, where sel = m_sesames, OF stored] by simp
  have same: "same_selectors (DeepEqual L) t (lookup_obj dep_Meta (m_deployments w)) (lookup_obj dms_Meta (m_daemonsets w))"
    using sel by (simp add: same_selectors_stored selectors_ok_def)
  have "all_in_place (DeepEqual L) t cfg w'"
    using pass_establishes [OF lib get ready' same] run ran by (simp add: all_in_place_def)
  then have "all_in_place (DeepEqual L) s cfg w'" by (simp add: t all_in_place_def)
  moreover have "run_state (Reconcile (Suc k) (L\<lparr>Now := ret later\<rparr>) mem_client cfg (nsname (Meta s))) w' =
      (Some (Ok zero_Result), w')" for k later
    using pass_is_fixed_point [OF lib quiet exact stored ready' ok same] run ran by simp
  moreover have "\<exists>t'. on_its_way (DeepEqual L) s t' w'"
    using pass_on_its_way [OF lib way ready, of n cfg] run by auto
  ultimately show ?thesis by (simp add: settled_def)
qed

text \<open>The queue after a pass on the request.\<close>

lemma work_run:
  assumes lib: "library L" and q: "pending st = req # rest"
    and run: "run_state (Reconcile (Suc n) (L\<lparr>Now := ret (clock (passes st))\<rparr>) mem_client cfg req) (cluster st) = (Some r, w')"
    and live: "r \<noteq> Panic" and st: "stale_or req st"
  shows "cluster (work (Suc n) L clock cfg st) = w'" and "stale_or req (work (Suc n) L clock cfg st)"
    and "req \<notin> set (pending (work (Suc n) L clock cfg st)) \<Longrightarrow> req \<notin> set (watch_requests (cluster st) w')"
proof -
  have work: "work (Suc n) L clock cfg st = \<lparr>cluster = w',
      pending = settle_request req (enqueue_all rest (watch_requests (cluster st) w')) w' r, passes = Suc (passes st)\<rparr>"
    using run q by (simp add: work_def)
  have queue: "set (settle_request req Q w' r) \<subseteq> insert req (set Q)" "set Q \<subseteq> set (settle_request req Q w' r)" for Q
    using live by (auto simp: settle_request_def enqueue_def split: res.split)
  show "cluster (work (Suc n) L clock cfg st) = w'" by (simp add: work)
  show "stale_or req (work (Suc n) L clock cfg st)"
    using st q queue(1) [of "enqueue_all rest (watch_requests (cluster st) w')"]
      pass_requests(1) [OF library_later [OF lib] run] pass_other_sesames [OF library_later [OF lib] run]
    unfolding stale_or_def work by fastforce
  show "req \<notin> set (watch_requests (cluster st) w')" if "req \<notin> set (pending (work (Suc n) L clock cfg st))"
    using that queue(2) [of "enqueue_all rest (watch_requests (cluster st) w')"] by (auto simp: work)
qed

text \<open>The two phases of a Sesame that has its finalizer: before the first pass on it and, when that was
  not enough, before the second. Stale requests may come in between.\<close>

definition waiting :: "(iface \<Rightarrow> iface \<Rightarrow> bool) \<Rightarrow> Sesame \<Rightarrow> control \<Rightarrow> bool" where
  "waiting deq s st \<longleftrightarrow> stale_or (nsname (Meta s)) st \<and> nsname (Meta s) \<in> set (pending st) \<and>
     (\<exists>t. on_its_way deq s t (cluster st))"

definition waiting_again :: "(iface \<Rightarrow> iface \<Rightarrow> bool) \<Rightarrow> Sesame \<Rightarrow> control \<Rightarrow> bool" where
  "waiting_again deq s st \<longleftrightarrow> stale_or (nsname (Meta s)) st \<and> nsname (Meta s) \<in> set (pending st) \<and>
     (\<exists>t. on_its_way deq s t (cluster st) \<and> selectors_ok deq t (cluster st))"

lemma waiting_stale:
  assumes lib: "library L" and "waiting deq s st \<or> waiting_again deq s st"
    and q: "pending st = r # rest" "r \<noteq> nsname (Meta s)"
  shows "work (Suc n) L clock cfg st = st\<lparr>pending := rest, passes := Suc (passes st)\<rparr>"
    and "waiting deq s st \<Longrightarrow> waiting deq s (work (Suc n) L clock cfg st)"
    and "waiting_again deq s st \<Longrightarrow> waiting_again deq s (work (Suc n) L clock cfg st)"
proof -
  have "m_faults (cluster st) = []" "stale_or (nsname (Meta s)) st"
    using assms(2) on_its_way_quiet by (auto simp: waiting_def waiting_again_def)
  from stale_work [OF lib this q] show
    work: "work (Suc n) L clock cfg st = st\<lparr>pending := rest, passes := Suc (passes st)\<rparr>" .
  show "waiting deq s st \<Longrightarrow> waiting deq s (work (Suc n) L clock cfg st)"
    "waiting_again deq s st \<Longrightarrow> waiting_again deq s (work (Suc n) L clock cfg st)"
    unfolding work using q by (auto simp: waiting_def waiting_again_def stale_or_def)
qed

lemma waiting_again_settles:
  assumes lib: "library L" and exact: "\<And>a b. DeepEqual L (IConditions a) (IConditions b) \<longleftrightarrow> a = b"
    and ready: "timestamp_is_zero (DeletionTimestamp (Meta s))" "IsFinalized s"
    and start: "waiting_again (DeepEqual L) s st"
  shows "settles (Suc n) L clock cfg (\<lambda>fin. settled L cfg s (cluster fin)) st"
proof (rule settles_phase [where P = "waiting_again (DeepEqual L) s", OF _ _ start])
  fix st assume P: "waiting_again (DeepEqual L) s st" and "pending st \<noteq> []"
  then obtain r rest where q: "pending st = r # rest" by (cases "pending st") auto
  let ?next = "work (Suc n) L clock cfg st"
  show "settles (Suc n) L clock cfg (\<lambda>fin. settled L cfg s (cluster fin)) ?next \<or>
    waiting_again (DeepEqual L) s ?next \<and> length (pending ?next) < length (pending st)"
  proof (cases "r = nsname (Meta s)")
    case False
    with waiting_stale [OF lib disjI2 [OF P] q False] P q show ?thesis by simp
  next
    case True
    obtain t where t: "on_its_way (DeepEqual L) s t (cluster st)" "selectors_ok (DeepEqual L) t (cluster st)"
      and stale: "stale_or (nsname (Meta s)) st" using P by (auto simp: waiting_again_def)
    let ?L = "L\<lparr>Now := ret (clock (passes st))\<rparr>"
    from pass_on_its_way [OF library_later [OF lib], of "clock (passes st)" s t "cluster st" n cfg] t(1) ready obtain x w' where
      run: "run_state (Reconcile (Suc n) ?L mem_client cfg (nsname (Meta s))) (cluster st) = (Some x, w')" "x \<noteq> Panic" by auto
    have "settled ?L cfg s w'" using pass_settles [OF library_later [OF lib] _ _ _ ready run(1)] exact t by simp
    then have "settled L cfg s w'" by (simp add: settled_def)
    with work_run(1,2) [where clock = clock, OF lib q [unfolded True] run(1,2) stale]
    show ?thesis by (intro disjI1 settled_drains [OF lib]) simp_all
  qed
qed (auto simp: waiting_again_def)

lemma waiting_settles:
  assumes lib: "library L" and exact: "\<And>a b. DeepEqual L (IConditions a) (IConditions b) \<longleftrightarrow> a = b"
    and ready: "timestamp_is_zero (DeletionTimestamp (Meta s))" "IsFinalized s"
    and start: "waiting (DeepEqual L) s st"
  shows "settles (Suc n) L clock cfg (\<lambda>fin. settled L cfg s (cluster fin)) st"
proof (rule settles_phase [where P = "waiting (DeepEqual L) s", OF _ _ start])
  fix st assume P: "waiting (DeepEqual L) s st" and "pending st \<noteq> []"
  then obtain r rest where q: "pending st = r # rest" by (cases "pending st") auto
  let ?next = "work (Suc n) L clock cfg st"
  show "settles (Suc n) L clock cfg (\<lambda>fin. settled L cfg s (cluster fin)) ?next \<or>
    waiting (DeepEqual L) s ?next \<and> length (pending ?next) < length (pending st)"
  proof (cases "r = nsname (Meta s)")
    case False
    with waiting_stale [OF lib disjI1 [OF P] q False] P q show ?thesis by simp
  next
    case True
    obtain t where t: "on_its_way (DeepEqual L) s t (cluster st)"
      and stale: "stale_or (nsname (Meta s)) st" using P by (auto simp: waiting_def)
    let ?L = "L\<lparr>Now := ret (clock (passes st))\<rparr>"
    from pass_on_its_way [OF library_later [OF lib], of "clock (passes st)" s t "cluster st" n cfg] t ready obtain x w' t' where
      run: "run_state (Reconcile (Suc n) ?L mem_client cfg (nsname (Meta s))) (cluster st) = (Some x, w')" "x \<noteq> Panic"
      and t': "on_its_way (DeepEqual L) s t' w'" "selectors_ok (DeepEqual L) t' w'" by auto
    note after = work_run [where clock = clock, OF lib q [unfolded True] run(1,2) stale]
    show ?thesis
    proof (cases "nsname (Meta s) \<in> set (pending ?next)")
      case True
      with after t' have "waiting_again (DeepEqual L) s ?next" by (auto simp: waiting_again_def)
      then show ?thesis using waiting_again_settles [OF lib exact ready] by blast
    next
      case False
      have "stored_deployment (cluster st) t = stored_deployment w' t'" "stored_daemonset (cluster st) t = stored_daemonset w' t'"
        using pass_requests(3,4) [OF library_later [OF lib] run(1) after(3) [OF False]] t t'(1)
        by (auto simp: stored_deployment_def stored_daemonset_def on_its_way_def)
      then have "selectors_ok (DeepEqual L) t (cluster st)"
        using t'(2) t t'(1) by (auto simp: selectors_ok_def on_its_way_def)
      then have "settled ?L cfg s w'" using pass_settles [OF library_later [OF lib] _ _ _ ready run(1)] exact t by simp
      then have "settled L cfg s w'" by (simp add: settled_def)
      with after(1,2) show ?thesis by (intro disjI1 settled_drains [OF lib]) simp_all
    qed
  qed
qed (auto simp: waiting_def)

end
