(* ===== verification/Lifecycle.thy ===== *)
theory Lifecycle
  imports Control_Loop
begin

text \<open>
  The life of the operator as a transition system: the environment (users, other controllers, the
  cluster) changes the server in memory in any way, its faults included, and the changes reach the work
  queue through the three watches; a worker takes the first request and reconciles it (\<open>work\<close>); a panic
  ends the process, which starts again with all that is stored as events. Steps of both kinds
  interleave freely.

  Beside the state the run carries a history \<open>h\<close>: what the operator has dealt with of every Sesame,
  that is, the watched objects of that Sesame as they were when its last successful pass began.
\<close>

section \<open>What is watched of a Sesame\<close>

text \<open>The Sesame itself, and the Deployments and DaemonSets with its owner labels.\<close>

definition owned_part :: "NamespacedName \<Rightarrow> ('o \<Rightarrow> ObjectMeta) \<Rightarrow> 'o table \<Rightarrow> NamespacedName \<Rightarrow> 'o option" where
  "owned_part req meta t k = (case lookup_obj meta t k of
     Some x \<Rightarrow> (if owned_key req (meta x) then Some x else None)
   | None \<Rightarrow> None)"

type_synonym watched_objects =
  "Sesame option \<times> (NamespacedName \<Rightarrow> Deployment option) \<times> (NamespacedName \<Rightarrow> DaemonSet option)"

definition watched_of :: "mem \<Rightarrow> NamespacedName \<Rightarrow> watched_objects" where
  "watched_of w req = (lookup_obj Meta (m_sesames w) req,
     owned_part req dep_Meta (m_deployments w), owned_part req dms_Meta (m_daemonsets w))"

lemma owned_key_unique: "owned_key a m \<Longrightarrow> owned_key b m \<Longrightarrow> a = b"
  by (cases a; cases b) (simp add: owned_key_def)

text \<open>Whatever changes of it is an event that names it.\<close>

lemma owned_part_events:
  assumes "owned_part req meta t' \<noteq> owned_part req meta t"
  shows "req \<in> set (table_requests EnqueueForOwningSesame meta t t')"
proof -
  obtain k where k: "owned_part req meta t' k \<noteq> owned_part req meta t k" using assms by blast
  have named: "req \<in> set (object_requests EnqueueForOwningSesame meta (lookup_obj meta u k))"
    if "owned_part req meta u k \<noteq> None" for u
    using that owned_request [of req]
    by (auto simp: owned_part_def object_requests_def simp del: event_requests.simps split: option.splits if_splits)
  have "lookup_obj meta t k \<noteq> lookup_obj meta t' k" using k by (auto simp: owned_part_def)
  moreover have "owned_part req meta t' k \<noteq> None \<or> owned_part req meta t k \<noteq> None" using k by auto
  ultimately show ?thesis unfolding set_table_requests using named by auto
qed

lemma watched_events:
  assumes "watched_of w' req \<noteq> watched_of w req"
  shows "req \<in> set (watch_requests w w')"
proof (cases "lookup_obj Meta (m_sesames w') req = lookup_obj Meta (m_sesames w) req")
  case True
  with assms owned_part_events [of req dep_Meta "m_deployments w'" "m_deployments w"]
    owned_part_events [of req dms_Meta "m_daemonsets w'" "m_daemonsets w"]
  show ?thesis by (auto simp: watched_of_def watch_requests_def)
next
  case False
  then have "req \<in> set (object_requests EnqueueRequestForObject Meta (lookup_obj Meta (m_sesames w) req) @
      object_requests EnqueueRequestForObject Meta (lookup_obj Meta (m_sesames w') req))"
    by (cases "lookup_obj Meta (m_sesames w) req"; cases "lookup_obj Meta (m_sesames w') req")
      (auto simp: object_requests_def lookup_key)
  with False have "req \<in> set (table_requests EnqueueRequestForObject Meta (m_sesames w) (m_sesames w'))"
    unfolding set_table_requests by (intro exI [of _ req]) simp
  then show ?thesis by (simp add: watch_requests_def)
qed

text \<open>A pass leaves what is watched of another Sesame as it is.\<close>

lemma owned_part_other:
  assumes "owned_change (owned_key req) meta t t'" and "other \<noteq> req"
  shows "owned_part other meta t' = owned_part other meta t"
proof
  fix k
  show "owned_part other meta t' k = owned_part other meta t k"
    using assms(1) [unfolded owned_change_def, rule_format, of k] assms(2) owned_key_unique [of other _ req]
    by (cases "lookup_obj meta t k"; cases "lookup_obj meta t' k") (auto simp: owned_part_def)
qed

lemma pass_watched_other:
  assumes lib: "library L" and run: "run_state (Reconcile n L mem_client cfg req) w = (r, w')" and "other \<noteq> req"
  shows "watched_of w' other = watched_of w other"
  using pass_other_sesames [OF assms] owned_part_other [OF pass_owned_changes(1) [OF lib run] assms(3)]
    owned_part_other [OF pass_owned_changes(2) [OF lib run] assms(3)]
  by (simp add: watched_of_def)

section \<open>The run\<close>

definition settled_answer :: "CtrlResult res \<Rightarrow> bool" where
  "settled_answer r = (case r of Ok res \<Rightarrow> \<not> Requeue res \<and> RequeueAfter res \<le> 0 | Err e \<Rightarrow> False | Panic \<Rightarrow> False)"

definition note_pass :: "NamespacedName \<Rightarrow> mem \<Rightarrow> CtrlResult res \<Rightarrow> (NamespacedName \<Rightarrow> watched_objects) \<Rightarrow>
    NamespacedName \<Rightarrow> watched_objects" where
  "note_pass req w r h = (if r = Panic then watched_of empty_mem
     else if settled_answer r then h(req := watched_of w req) else h)"

inductive running :: "mem lib \<Rightarrow> (nat \<Rightarrow> Time) \<Rightarrow> ControllerConfig \<Rightarrow> control \<Rightarrow>
    (NamespacedName \<Rightarrow> watched_objects) \<Rightarrow> bool"
  for L clock cfg where
  start: "running L clock cfg (started w) (watched_of empty_mem)"
| environment: "running L clock cfg st h \<Longrightarrow>
     running L clock cfg (st\<lparr>cluster := w', pending := enqueue_all (pending st) (watch_requests (cluster st) w')\<rparr>) h"
| pass: "running L clock cfg st h \<Longrightarrow> pending st = req # rest \<Longrightarrow>
     run_state (Reconcile n (L\<lparr>Now := ret (clock (passes st))\<rparr>) mem_client cfg req) (cluster st) = (Some r, w') \<Longrightarrow>
     running L clock cfg (work n L clock cfg st) (note_pass req (cluster st) r h)"

lemma distinct_enqueue_all [simp]: "distinct (enqueue_all q rs) = distinct q"
  by (induction rs arbitrary: q) (simp_all add: enqueue_all_def enqueue_def)

text \<open>The queue after a pass that does not panic.\<close>

lemma settle_request_queue:
  assumes "r \<noteq> Panic"
  shows "set (settle_request req q w r) = (if settled_answer r then set q else insert req (set q))"
    and "distinct (settle_request req q w r) = distinct q"
  using assms by (auto simp: settle_request_def settled_answer_def enqueue_def split: res.split)

lemma work_pass:
  assumes "pending st = req # rest"
    and "run_state (Reconcile n (L\<lparr>Now := ret (clock (passes st))\<rparr>) mem_client cfg req) (cluster st) = (Some r, w')"
  shows "cluster (work n L clock cfg st) = w'"
    "pending (work n L clock cfg st) = settle_request req (enqueue_all rest (watch_requests (cluster st) w')) w' r"
  using assms by (simp_all add: work_def)

lemma restart_queue:
  "distinct (pending (started w))" "req \<notin> set (pending (started w)) \<Longrightarrow> watched_of w req = watched_of empty_mem req"
  using watched_events [of w req empty_mem] unfolding started_def by (simp_all, blast)

lemma running_invariant:
  assumes "running L clock cfg st h"
  shows "distinct (pending st) \<and> (\<forall>req. req \<notin> set (pending st) \<longrightarrow> watched_of (cluster st) req = h req)"
  using assms
proof induction
  case (start w)
  have "cluster (started w) = w" by (simp add: started_def)
  with restart_queue show ?case by simp
next
  case (environment st h w')
  then show ?case using watched_events [of w' _ "cluster st"] by (simp, metis)
next
  case (pass st h req rest n r w')
  note after = work_pass [where L = L and clock = clock and cfg = cfg, OF pass.hyps(2,3)]
  show ?case
  proof (cases "r = Panic")
    case True
    then show ?thesis using restart_queue [where w = w'] by (simp add: after settle_request_def note_pass_def)
  next
    case False
    note queue = settle_request_queue [OF False]
    have "watched_of w' k = note_pass req (cluster st) r h k"
      if k: "k \<notin> set rest" "k \<notin> set (watch_requests (cluster st) w')" "\<not> settled_answer r \<longrightarrow> k \<noteq> req" for k
      using k pass.IH pass.hyps(2) False watched_events [of w' k "cluster st"]
      by (cases "k = req") (auto simp: note_pass_def)
    then show ?thesis using pass.IH pass.hyps(2) by (auto simp: after queue)
  qed
qed

end
