(* ===== verification/Lifecycle_Theorems.thy ===== *)
theory Lifecycle_Theorems
  imports Lifecycle
begin

text \<open>Properties of whole runs of the operator, over all interleavings with its environment.\<close>

text \<open>C11: No event is lost and none goes to the wrong Sesame. In every state of every run on a server in
  memory, whatever the environment does in between and whichever calls fail, the queue holds no request
  twice, and a Sesame whose request is not in the queue is, together with all Deployments and DaemonSets
  that carry its owner labels, exactly what the last pass on it that ended without an error or a request
  for a retry started from (nothing, when there was none since the operator started). A pass that does
  not panic leaves the watched objects of every other Sesame and its place in the queue alone, and its
  own request leaves the queue only when the pass asked for no retry and changed no watched object.
  Every change of a watched object is an event of its watch, for the old and for the new version.\<close>

theorem no_event_is_lost:
  assumes lib: "library L" and run: "running L clock cfg st h"
  shows "distinct (pending st) \<and> (\<forall>req. req \<notin> set (pending st) \<longrightarrow> watched_of (cluster st) req = h req) \<and>
    (\<forall>req rest n r w'. pending st = req # rest \<and> r \<noteq> Panic \<and>
       run_state (Reconcile n (L\<lparr>Now := ret (clock (passes st))\<rparr>) mem_client cfg req) (cluster st) = (Some r, w') \<longrightarrow>
       (\<forall>other. other \<noteq> req \<longrightarrow> watched_of w' other = watched_of (cluster st) other \<and>
          (other \<in> set (pending (work n L clock cfg st)) \<longleftrightarrow> other \<in> set (pending st))) \<and>
       (req \<notin> set (pending (work n L clock cfg st)) \<longrightarrow>
          settled_answer r \<and> watched_of w' req = watched_of (cluster st) req))"
proof (intro conjI allI impI; (elim conjE)?)
  fix req rest n r w'
  assume q: "pending st = req # rest" and live: "r \<noteq> Panic"
    and pass: "run_state (Reconcile n (L\<lparr>Now := ret (clock (passes st))\<rparr>) mem_client cfg req) (cluster st) = (Some r, w')"
  note after = work_pass(2) [where L = L and clock = clock and cfg = cfg, OF q pass] settle_request_queue [OF live]
  show "watched_of w' other = watched_of (cluster st) other" if "other \<noteq> req" for other
    by (rule pass_watched_other [OF library_later [OF lib] pass that])
  show "other \<in> set (pending (work n L clock cfg st)) \<longleftrightarrow> other \<in> set (pending st)" if "other \<noteq> req" for other
    using pass_requests(1) [OF library_later [OF lib] pass] that q by (auto simp: after)
  show "settled_answer r" "watched_of w' req = watched_of (cluster st) req"
    if "req \<notin> set (pending (work n L clock cfg st))"
    using that watched_events [of w' req "cluster st"] by (auto simp: after split: if_splits)
qed (use running_invariant [OF run] in blast)+

text \<open>The operator starts on a server with a Sesame without the finalizer. The first pass adds it: an
  update of a watched object, which puts the request back.\<close>

theorem no_event_is_lost_witness:
  "\<exists>st h. running std_lib (\<lambda>i. 1700000000 + int i) sample_images st h \<and> passes st = 1 \<and>
     sample_req \<in> set (pending st) \<and> lookup_obj Meta (m_sesames (cluster st)) sample_req = Some (finalized sample)"
proof -
  let ?clock = "\<lambda>i::nat. 1700000000 + int i" and ?L = "std_lib\<lparr>Now := ret (1700000000 + int 0)\<rparr>"
  let ?w = "sample_mem\<lparr>m_sesames := put_obj Meta (finalized sample) (m_sesames sample_mem)\<rparr>"
  have stored: "lookup_obj Meta (m_sesames sample_mem) sample_req = Some sample" by (simp add: lookup_obj_def)
  have "run_state (Reconcile 1 ?L mem_client sample_images sample_req) sample_mem = (Some (Ok zero_Result), ?w)"
    unfolding One_nat_def using sample_valid
    by (intro finalizing_pass stored) (simp_all add: timestamp_is_zero_def IsFinalized_iff)
  note pass = this
  have q: "pending (started sample_mem) = [sample_req]"
    by (simp add: started_def watch_requests_def table_requests_def object_requests_def lookup_obj_def
        enqueue_all_def enqueue_def sample_mem_def)
  from pass q have "running std_lib ?clock sample_images (work 1 std_lib ?clock sample_images (started sample_mem))
      (note_pass sample_req sample_mem (Ok zero_Result) (watched_of empty_mem))"
    using running.pass [where cfg = sample_images and L = std_lib and clock = ?clock and n = 1 and req = sample_req
        and rest = "[]" and r = "Ok zero_Result" and w' = ?w, OF running.start [of _ _ _ sample_mem]]
    by (simp add: started_def)
  note run = this
  have state: "cluster (work 1 std_lib ?clock sample_images (started sample_mem)) = ?w"
      "passes (work 1 std_lib ?clock sample_images (started sample_mem)) = 1"
    using pass q by (simp_all add: work_def started_def)
  have "\<not> IsFinalized sample" by (simp add: IsFinalized_iff)
  then have "finalized sample \<noteq> sample" using finalized_simps(3) [of sample] by metis
  then have "watched_of ?w sample_req \<noteq> watched_of sample_mem sample_req"
    using stored by (simp add: watched_of_def)
  then have "sample_req \<in> set (pending (work 1 std_lib ?clock sample_images (started sample_mem)))"
    using no_event_is_lost [OF std.library_axioms run] state(1)
    by (auto simp: note_pass_def settled_answer_def zero_Result_def)
  with run state show ?thesis by (intro exI conjI) (assumption | simp)+
qed

end
