(* ===== verification/Control_Loop_Theorems.thy ===== *)
theory Control_Loop_Theorems
  imports Control_Loop
begin

text \<open>
  The closed loop comes to rest: from the first event on, and again after somebody interfered with
  the workloads.
\<close>

section \<open>The finalizer\<close>

text \<open>Validation looks at the spec and at the listed Sesames.\<close>

lemma validate_spec_cong: "Spec t = Spec s \<Longrightarrow> validate_spec t = validate_spec s"
  by (simp add: validate_spec_def validate_ContainerPorts_def validate_NodePorts_def validate_LoadBalancerAddress_def
      validate_LoadBalancerProvider_def azure_address_def gcp_address_def)

lemma validate_transfer:
  assumes quiet: "m_faults w = []" "m_faults w' = []"
    and stored: "lookup_obj Meta (m_sesames w) req = Some s" "lookup_obj Meta (m_sesames w') req = Some t"
    and spec: "Spec t = Spec s"
    and table: "\<And>x. x \<in> set (m_sesames w') \<Longrightarrow> x \<in> set (m_sesames w) \<or> nsname (Meta x) = req"
    and valid: "run_state (validate_Sesame mem_client s) w = (Ok (), w)"
  shows "run_state (validate_Sesame mem_client t) w' = (Ok (), w')"
proof -
  have key: "nsname (Meta s) = req" by (rule lookup_key [OF stored(1)])
  from validate_exact [OF mem_list [OF quiet(1)] stored_in_table [OF stored(1)] refl] valid
  have "\<forall>x \<in> set (m_sesames w). spec_ns x = spec_ns s \<longrightarrow> nsname (Meta x) = req" "validate_spec s = Ok ()"
    by (simp_all add: key validate_spec_ok)
  with spec table validate_spec_cong [OF spec] show ?thesis by (intro mem_validates [OF quiet(2) stored(2)]) auto
qed

text \<open>A Sesame without the finalizer whose request is in the queue: the pass on it adds the finalizer,
  and the change puts the request back.\<close>

definition unfinalized :: "Sesame \<Rightarrow> control \<Rightarrow> bool" where
  "unfinalized s st \<longleftrightarrow> stale_or (nsname (Meta s)) st \<and> nsname (Meta s) \<in> set (pending st) \<and>
     m_faults (cluster st) = [] \<and> lookup_obj Meta (m_sesames (cluster st)) (nsname (Meta s)) = Some s \<and>
     run_state (validate_Sesame mem_client s) (cluster st) = (Ok (), cluster st) \<and>
     conditions_ok (Conditions (Status s)) \<and> envoy_ports_bounded s (stored_envoy (cluster st) s)"

lemma finalized_on_its_way:
  assumes quiet: "m_faults w = []" and stored: "lookup_obj Meta (m_sesames w) (nsname (Meta s)) = Some s"
    and valid: "run_state (validate_Sesame mem_client s) w = (Ok (), w)"
    and ok: "conditions_ok (Conditions (Status s))" and ports: "envoy_ports_bounded s (stored_envoy w s)"
  shows "on_its_way deq (finalized s) (finalized s) (w\<lparr>m_sesames := put_obj Meta (finalized s) (m_sesames w)\<rparr>)"
proof -
  let ?w = "w\<lparr>m_sesames := put_obj Meta (finalized s) (m_sesames w)\<rparr>"
  have stored': "lookup_obj Meta (m_sesames ?w) (nsname (Meta s)) = Some (finalized s)" by simp
  have valid': "run_state (validate_Sesame mem_client (finalized s)) ?w = (Ok (), ?w)"
    by (rule validate_transfer [OF quiet _ stored stored' _ _ valid]) (auto simp: quiet put_obj_def del_obj_def)
  have "envoy_ports_bounded (finalized s) (stored_envoy ?w (finalized s))"
    using ports by (auto simp: envoy_ports_bounded_def stored_envoy_def owned_by_iff split: option.splits)
  with quiet stored' validated_ports [OF valid'] have "manageable (finalized s) ?w" by (simp add: manageable_def)
  moreover have "finalized s = (finalized s)\<lparr>Status := Status (finalized s)\<rparr>" by simp
  moreover have "conditions_ok (Conditions (Status (finalized s)))" using ok by (simp add: finalized_def)
  ultimately show ?thesis using valid' unfolding on_its_way_def by blast
qed

lemma unfinalized_settles:
  assumes lib: "library L" and exact: "\<And>a b. DeepEqual L (IConditions a) (IConditions b) \<longleftrightarrow> a = b"
    and live: "timestamp_is_zero (DeletionTimestamp (Meta s))" "\<not> IsFinalized s"
    and start: "unfinalized s st"
  shows "settles (Suc n) L clock cfg (\<lambda>fin. settled L cfg (finalized s) (cluster fin)) st"
proof (rule settles_phase [where P = "unfinalized s", OF _ _ start])
  fix st assume P: "unfinalized s st" and "pending st \<noteq> []"
  then obtain r rest where q: "pending st = r # rest" by (cases "pending st") auto
  let ?next = "work (Suc n) L clock cfg st"
  from P have quiet: "m_faults (cluster st) = []" and stale: "stale_or (nsname (Meta s)) st"
    and stored: "lookup_obj Meta (m_sesames (cluster st)) (nsname (Meta s)) = Some s"
    and valid: "run_state (validate_Sesame mem_client s) (cluster st) = (Ok (), cluster st)"
    by (simp_all add: unfinalized_def)
  show "settles (Suc n) L clock cfg (\<lambda>fin. settled L cfg (finalized s) (cluster fin)) ?next \<or>
    unfinalized s ?next \<and> length (pending ?next) < length (pending st)"
  proof (cases "r = nsname (Meta s)")
    case False
    with stale_work [OF lib quiet stale q False] P q show ?thesis by (simp add: unfinalized_def stale_or_def)
  next
    case True
    define w' where "w' = (cluster st)\<lparr>m_sesames := put_obj Meta (finalized s) (m_sesames (cluster st))\<rparr>"
    let ?L = "L\<lparr>Now := ret (clock (passes st))\<rparr>"
    have run: "run_state (Reconcile (Suc n) ?L mem_client cfg (nsname (Meta s))) (cluster st) = (Some (Ok zero_Result), w')"
      unfolding w'_def by (rule finalizing_pass [OF quiet stored valid live])
    note after = work_run [where clock = clock, OF lib q [unfolded True] run _ stale, simplified]
    have way: "on_its_way (DeepEqual L) (finalized s) (finalized s) w'"
      unfolding w'_def by (rule finalized_on_its_way [OF quiet stored valid]) (use P in \<open>simp_all add: unfinalized_def\<close>)
    have "finalized s \<noteq> s" using live(2) by (metis finalized_simps(3))
    then have "nsname (Meta s) \<in> set (watch_requests (cluster st) w')"
      using pass_requests(2) [OF library_later [OF lib] run] stored by (auto simp: w'_def)
    with after way have "waiting (DeepEqual L) (finalized s) ?next" by (auto simp: waiting_def)
    then show ?thesis using waiting_settles [OF lib exact, of "finalized s"] live by auto
  qed
qed (auto simp: unfinalized_def)

text \<open>The Sesame the loop works on.\<close>

definition with_finalizer :: "Sesame \<Rightarrow> Sesame" where
  "with_finalizer s = (if IsFinalized s then s else finalized s)"

lemma loop_settles_from:
  assumes lib: "library L" and exact: "\<And>a b. DeepEqual L (IConditions a) (IConditions b) \<longleftrightarrow> a = b"
    and quiet: "m_faults (cluster st) = []"
    and stored: "lookup_obj Meta (m_sesames (cluster st)) req = Some s"
    and valid: "run_state (validate_Sesame mem_client s) (cluster st) = (Ok (), cluster st)"
    and live: "timestamp_is_zero (DeletionTimestamp (Meta s))"
    and ok: "conditions_ok (Conditions (Status s))"
    and ports: "envoy_ports_bounded s (stored_envoy (cluster st) s)"
    and queue: "req \<in> set (pending st)" "stale_or req st"
  shows "settles (Suc n) L clock cfg (\<lambda>fin. settled L cfg (with_finalizer s) (cluster fin)) st"
proof -
  have key: "nsname (Meta s) = req" by (rule lookup_key [OF stored])
  show ?thesis
  proof (cases "IsFinalized s")
    case True
    have "manageable s (cluster st)"
      using quiet stored key ports validated_ports [OF valid] by (simp add: manageable_def)
    moreover have "s = s\<lparr>Status := Status s\<rparr>" by simp
    ultimately have "on_its_way (DeepEqual L) s s (cluster st)" using valid ok unfolding on_its_way_def by blast
    then have "waiting (DeepEqual L) s st" using queue key by (auto simp: waiting_def)
    from waiting_settles [OF lib exact live True this] True show ?thesis by (simp add: with_finalizer_def)
  next
    case False
    have "unfinalized s st" using quiet stored key valid ok ports queue by (simp add: unfinalized_def)
    from unfinalized_settles [OF lib exact live False this] False show ?thesis by (simp add: with_finalizer_def)
  qed
qed

lemma run_loop_stop: "run_loop n L clock cfg st = Some fin \<Longrightarrow> pending fin = []"
  unfolding run_loop_def by (drule while_option_stop) simp

section \<open>The loop comes to rest\<close>

text \<open>C6: The control loop of one Sesame terminates. On the server in memory without faults (which stores
  objects as they are sent and assigns no node ports), for a stored Sesame that passes validation, is not being deleted, has at most one condition of each type and has its
  request in the queue, and while all other requests in the queue are for Sesames that do not exist: the
  passes cause events, which put the request back, but after finitely many of them the queue is empty,
  every object of the Sesame is in place, the Sesame has its finalizer, and any further reconciliation
  changes nothing. The other objects the server holds at the start, the objects of this Sesame among
  them, are arbitrary, save that an owned Envoy Service with more than two ports that publishes node
  ports is excluded (the handler panics at it), and so is what the clock says at each pass. (A Sesame
  that fails validation is put back into the queue forever.)\<close>

theorem loop_settles:
  assumes lib: "library L" and exact: "\<And>a b. DeepEqual L (IConditions a) (IConditions b) \<longleftrightarrow> a = b"
    and quiet: "m_faults (cluster st) = []"
    and stored: "lookup_obj Meta (m_sesames (cluster st)) req = Some s"
    and valid: "run_state (validate_Sesame mem_client s) (cluster st) = (Ok (), cluster st)"
    and live: "timestamp_is_zero (DeletionTimestamp (Meta s))"
    and ok: "conditions_ok (Conditions (Status s))"
    and ports: "envoy_ports_bounded s (stored_envoy (cluster st) s)"
    and queue: "req \<in> set (pending st)" "stale_or req st"
  shows "\<exists>fin status. run_loop (Suc n) L clock cfg st = Some fin \<and> pending fin = [] \<and>
    all_in_place (DeepEqual L) (with_finalizer s) cfg (cluster fin) \<and>
    lookup_obj Meta (m_sesames (cluster fin)) req = Some ((with_finalizer s)\<lparr>Status := status\<rparr>) \<and>
    (\<forall>k later. run_state (Reconcile (Suc k) (L\<lparr>Now := ret later\<rparr>) mem_client cfg req) (cluster fin) =
      (Some (Ok zero_Result), cluster fin))"
proof -
  have key: "nsname (Meta (with_finalizer s)) = req" using lookup_key [OF stored] by (simp add: with_finalizer_def)
  from loop_settles_from [OF assms, of n clock cfg] obtain fin where
    fin: "run_loop (Suc n) L clock cfg st = Some fin" "settled L cfg (with_finalizer s) (cluster fin)"
    by (auto simp: settles_def)
  then obtain status where "lookup_obj Meta (m_sesames (cluster fin)) req = Some ((with_finalizer s)\<lparr>Status := status\<rparr>)"
    using key by (auto simp: settled_def on_its_way_def manageable_def)
  then show ?thesis using fin run_loop_stop [OF fin(1)] key unfolding settled_def by blast
qed

lemma drifted_queue: "set (pending (started drifted_mem)) = {sample_req}"
proof -
  have fields: "m_sesames drifted_mem = [sample_ready]" "m_daemonsets drifted_mem = []"
    "m_sesames empty_mem = []" "m_deployments empty_mem = []" "m_daemonsets empty_mem = []"
    by (simp_all add: drifted_mem_def ready_mem_def empty_mem_def)
  have "owned_change (owned_key sample_req) dep_Meta [] (m_deployments drifted_mem)"
    using DesiredDeployment_owned [of sample_ready "''old''"]
    by (auto simp: owned_change_def lookup_obj_def drifted_mem_def owned_by_key simp del: DesiredDeployment_owned)
  then have "set (watch_requests empty_mem drifted_mem) \<subseteq> {sample_req}"
    using key_change_requests(1) [of sample_req Meta "[sample_ready]" "[]"] owned_change_requests(1)
    by (fastforce simp: watch_requests_def fields lookup_obj_def)
  moreover have "sample_req \<in> set (table_requests EnqueueRequestForObject Meta [] [sample_ready])"
    unfolding set_table_requests by (intro exI [of _ sample_req]) (simp add: lookup_obj_def object_requests_def)
  then have "sample_req \<in> set (watch_requests empty_mem drifted_mem)" by (simp add: watch_requests_def fields)
  ultimately show ?thesis by (auto simp: started_def)
qed

theorem loop_settles_witness:
  "\<exists>fin. run_loop (Suc 0) std_lib (\<lambda>i. 1700000000 + int i) sample_images (started drifted_mem) = Some fin \<and>
    pending fin = [] \<and> all_in_place semDeepEqual sample_ready sample_images (cluster fin)"
proof -
  have "sample_req \<in> set (pending (started drifted_mem))" "stale_or sample_req (started drifted_mem)"
    by (simp_all add: stale_or_def drifted_queue)
  moreover have "lookup_obj Meta (m_sesames drifted_mem) sample_req = Some sample_ready"
    "conditions_ok (Conditions (Status sample_ready))" "m_faults drifted_mem = []"
    by (simp_all add: drifted_mem_def lookup_obj_def conditions_ok_def sample_conditions)
  ultimately show ?thesis
    using loop_settles [OF std.library_axioms, of "started drifted_mem" sample_req sample_ready 0
        "\<lambda>i. 1700000000 + int i" sample_images] drifted_valid drifted_envoy
    by (auto simp: started_def with_finalizer_def timestamp_is_zero_def IsFinalized_iff)
qed

section \<open>Drift of the workloads\<close>

text \<open>C7: Start from a settled state: on the server in memory without faults (which assigns no node ports)
  a valid Sesame that has its
  finalizer and is not being deleted has all its objects in place, and further reconciliations change
  nothing. Somebody else then changes, deletes or adds Deployments or DaemonSets, all of which carry the
  owner labels of this Sesame, each of the old versions that is replaced or deleted as well as each of the new ones. When
  anything is different afterwards, the watches put exactly the request of the Sesame into the empty
  queue, the control loop runs until the queue is empty again, and the state is settled again. (A change
  that takes the owner labels away is not repaired: the object is no longer the operator's.)\<close>

theorem drift_is_repaired:
  assumes lib: "library L" and exact: "\<And>a b. DeepEqual L (IConditions a) (IConditions b) \<longleftrightarrow> a = b"
    and live: "timestamp_is_zero (DeletionTimestamp (Meta s))" "IsFinalized s"
    and before: "settled L cfg s w"
    and change: "owned_change (owned_by s) dep_Meta (m_deployments w) ds" "owned_change (owned_by s) dms_Meta (m_daemonsets w) es"
    and seen: "lookup_obj dep_Meta ds k \<noteq> lookup_obj dep_Meta (m_deployments w) k \<or>
      lookup_obj dms_Meta es k \<noteq> lookup_obj dms_Meta (m_daemonsets w) k"
  shows "let w' = w\<lparr>m_deployments := ds, m_daemonsets := es\<rparr>; q = enqueue_all [] (watch_requests w w') in
    set q = {nsname (Meta s)} \<and>
    (\<exists>fin. run_loop (Suc n) L clock cfg \<lparr>cluster = w', pending = q, passes = i\<rparr> = Some fin \<and>
      pending fin = [] \<and> settled L cfg s (cluster fin))"
proof -
  let ?w = "w\<lparr>m_deployments := ds, m_daemonsets := es\<rparr>" and ?req = "nsname (Meta s)"
  let ?st = "\<lparr>cluster = ?w, pending = enqueue_all [] (watch_requests w ?w), passes = i\<rparr>"
  obtain t where "on_its_way (DeepEqual L) s t w" using before by (auto simp: settled_def)
  then obtain st where t: "t = s\<lparr>Status := st\<rparr>" and m: "manageable t w"
    and valid: "run_state (validate_Sesame mem_client t) w = (Ok (), w)" and ok: "conditions_ok (Conditions (Status t))"
    by (auto simp: on_its_way_def)
  have quiet: "m_faults w = []" "m_faults ?w = []" and key: "nsname (Meta t) = ?req"
    and stored: "lookup_obj Meta (m_sesames w) ?req = Some t" "lookup_obj Meta (m_sesames ?w) ?req = Some t"
    using m by (simp_all add: manageable_def t)
  have "run_state (validate_Sesame mem_client t) ?w = (Ok (), ?w)"
    by (rule validate_transfer [OF quiet stored refl _ valid]) simp
  moreover have "manageable t ?w" using m by (simp add: manageable_def stored_envoy_def)
  ultimately have way: "on_its_way (DeepEqual L) s t ?w" using ok t by (auto simp: on_its_way_def)
  have own: "owned_by s = owned_key ?req" by (rule owned_by_eq) simp
  note requests = owned_change_requests [OF change(1) [unfolded own]] owned_change_requests [OF change(2) [unfolded own]]
  have queue: "set (enqueue_all [] (watch_requests w ?w)) = {?req}"
    using requests seen by (auto simp: watch_requests_def)
  then have "waiting (DeepEqual L) s ?st" using way by (auto simp: waiting_def stale_or_def)
  from waiting_settles [OF lib exact live this, of n clock cfg] obtain fin where
    "run_loop (Suc n) L clock cfg ?st = Some fin" "settled L cfg s (cluster fin)"
    by (auto simp: settles_def)
  with queue run_loop_stop show ?thesis by (auto simp: Let_def)
qed

lemma ready_on_its_way: "on_its_way semDeepEqual sample_ready sample_ready ready_mem"
proof -
  have "\<exists>st. sample_ready = sample_ready\<lparr>Status := st\<rparr>" by (rule exI [of _ "Status sample_ready"]) simp
  then show ?thesis
    using ready_valid validated_ports [OF ready_valid] ready_stored unfolding on_its_way_def
    by (auto simp: manageable_def envoy_ports_bounded_def stored_envoy_def ready_mem_def lookup_obj_def conditions_ok_def
        sample_conditions)
qed

lemma ready_settled: "settled std_lib sample_images sample_ready ready_after"
proof (rule pass_settles [OF std.library_axioms])
  show "run_state (Reconcile (Suc 0) std_lib mem_client sample_images (nsname (Meta sample_ready))) ready_mem =
      (Some (Ok zero_Result), ready_after)" using ready_run by simp
  show "on_its_way (DeepEqual std_lib) sample_ready sample_ready ready_mem" using ready_on_its_way by simp
  show "selectors_ok (DeepEqual std_lib) sample_ready ready_mem"
    by (simp add: selectors_ok_def stored_deployment_def stored_daemonset_def lookup_obj_def
        deployment_selector_ok_def daemonset_selector_ok_def)
qed (simp_all add: timestamp_is_zero_def IsFinalized_iff)

text \<open>The Deployment is deleted.\<close>

lemma ready_deployment:
  "\<exists>y. lookup_obj dep_Meta (m_deployments ready_after) \<lparr>nn_Namespace = spec_ns sample_ready, nn_Name = SesameDeploymentName\<rparr> = Some y \<and>
    owned_by sample_ready (dep_Meta y)"
proof -
  let ?k = "\<lparr>nn_Namespace = spec_ns sample_ready, nn_Name = SesameDeploymentName\<rparr>"
  obtain y where y: "lookup_obj dep_Meta (m_deployments ready_after) ?k = Some y"
    using ready_settled by (auto simp: settled_def all_in_place_def workloads_placed_def in_place_def)
  have "owned_change (owned_key (nsname (Meta sample_ready))) dep_Meta (m_deployments ready_mem) (m_deployments ready_after)"
    using pass_owned_changes(1) [OF std.library_axioms ready_run] by simp
  with y show ?thesis by (auto simp: owned_change_def lookup_obj_def owned_by_key dest!: spec [of _ ?k])
qed

theorem drift_is_repaired_witness:
  "let ds = del_obj dep_Meta \<lparr>nn_Namespace = spec_ns sample_ready, nn_Name = SesameDeploymentName\<rparr> (m_deployments ready_after);
     w' = ready_after\<lparr>m_deployments := ds, m_daemonsets := m_daemonsets ready_after\<rparr>;
     q = enqueue_all [] (watch_requests ready_after w') in
   set q = {sample_req} \<and> (\<exists>fin. run_loop (Suc 0) std_lib (\<lambda>i. 1700000000 + int i) sample_images
      \<lparr>cluster = w', pending = q, passes = 0\<rparr> = Some fin \<and> pending fin = [] \<and>
      settled std_lib sample_images sample_ready (cluster fin))"
proof -
  let ?k = "\<lparr>nn_Namespace = spec_ns sample_ready, nn_Name = SesameDeploymentName\<rparr>"
  obtain y where y: "lookup_obj dep_Meta (m_deployments ready_after) ?k = Some y" "owned_by sample_ready (dep_Meta y)"
    using ready_deployment by blast
  have "owned_change (owned_by sample_ready) dep_Meta (m_deployments ready_after) (del_obj dep_Meta ?k (m_deployments ready_after))"
    by (rule owned_change_del) (use y in simp_all)
  from drift_is_repaired [OF std.library_axioms _ _ _ ready_settled this owned_change_refl, of ?k 0
      "\<lambda>i. 1700000000 + int i" 0] y
  show ?thesis by (simp add: timestamp_is_zero_def IsFinalized_iff)
qed

end
