(* ===== verification/Deep_Copy.thy ===== *)
theory Deep_Copy
  imports Sesame_Types
begin

text \<open>
  The deep copies of \<open>api/v1alpha1/zz_generated.deepcopy.go\<close>, over an explicit memory: pointers, slices
  and maps of Go are references to cells, so that sharing is visible. Every struct that holds a
  reference has a form in memory (suffix \<open>_M\<close>); the others are used as they are. A \<open>DeepCopyInto\<close> maps
  the struct it reads to the struct it writes and allocates on the way; \<open>DeepCopy\<close> goes from pointer to
  pointer.
\<close>

section \<open>Structs in memory\<close>

type_synonym ref = nat

record Toleration_M =
  tolm_Key :: string
  tolm_Operator :: string
  tolm_Value :: string
  tolm_Effect :: string
  tolm_Seconds :: "ref option"

record ObjectMeta_M =
  mm_Name :: string
  mm_Namespace :: string
  mm_Labels :: "ref option"
  mm_Annotations :: "ref option"
  mm_Finalizers :: "ref option"
  mm_DeletionTimestamp :: "ref option"
  mm_ResourceVersion :: string

record ListMeta_M =
  lmm_ResourceVersion :: string
  lmm_Continue :: string
  lmm_RemainingItemCount :: "ref option"

record AWS_M =
  awsm_Type :: string
  awsm_AllocationIDs :: "ref option"

record Azure_M =
  azm_Address :: "ref option"
  azm_ResourceGroup :: "ref option"
  azm_Subnet :: "ref option"

record GCP_M =
  gcpm_Address :: "ref option"
  gcpm_Subnet :: "ref option"

record Provider_M =
  provm_Type :: string
  provm_AWS :: "ref option"
  provm_Azure :: "ref option"
  provm_GCP :: "ref option"

record Strategy_M =
  strm_Scope :: string
  strm_ProviderParameters :: Provider_M

record NodePort_M =
  npm_Name :: string
  npm_PortNumber :: "ref option"

record Envoy_M =
  envm_Type :: string
  envm_LoadBalancer :: Strategy_M
  envm_NodePorts :: "ref option"
  envm_ContainerPorts :: "ref option"

record Publishing_M =
  pubm_Envoy :: Envoy_M

record SesamePlacement_M =
  sqm_NodeSelector :: "ref option"
  sqm_Tolerations :: "ref option"

record EnvoyPlacement_M =
  epm_NodeSelector :: "ref option"
  epm_Tolerations :: "ref option"

record Placement_M =
  plm_Sesame :: "ref option"
  plm_Envoy :: "ref option"

record Spec_M =
  spm_Replicas :: int32
  spm_Namespace :: NamespaceSpec
  spm_NetworkPublishing :: Publishing_M
  spm_GatewayClassRef :: "ref option"
  spm_GatewayControllerName :: "ref option"
  spm_IngressClassName :: "ref option"
  spm_NodePlacement :: "ref option"
  spm_EnableExternalNameService :: "ref option"

record Status_M =
  stm_AvailableSesames :: int32
  stm_AvailableEnvoys :: int32
  stm_Conditions :: "ref option"

record Sesame_M =
  sm_Meta :: ObjectMeta_M
  sm_Spec :: Spec_M
  sm_Status :: Status_M

record SesameList_M =
  lm_ListMeta :: ListMeta_M
  lm_Items :: "ref option"

section \<open>Memory\<close>

text \<open>A cell is the backing array of a slice, a map, or the struct or scalar a pointer points to.\<close>

datatype cell =
    CString (un_String: "string")
  | CBool (un_Bool: "bool")
  | CInt32 (un_Int32: "int32")
  | CInt64 (un_Int64: "int64")
  | CTime (un_Time: "Time")
  | CStrings (un_Strings: "string list")
  | CMap (un_Map: "(string \<times> string) list")
  | CTolerations (un_Tolerations: "Toleration_M list")
  | CConditions (un_Conditions: "Condition list")
  | CNodePorts (un_NodePorts: "NodePort_M list")
  | CContainerPorts (un_ContainerPorts: "ContainerPort list")
  | CContainerPort (un_ContainerPort: "ContainerPort")
  | CNodePort (un_NodePort: "NodePort_M")
  | CAWS (un_AWS: "AWS_M")
  | CAzure (un_Azure: "Azure_M")
  | CGCP (un_GCP: "GCP_M")
  | CProvider (un_Provider: "Provider_M")
  | CStrategy (un_Strategy: "Strategy_M")
  | CEnvoy (un_Envoy: "Envoy_M")
  | CPublishing (un_Publishing: "Publishing_M")
  | CNamespaceSpec (un_NamespaceSpec: "NamespaceSpec")
  | CSesamePlacement (un_SesamePlacement: "SesamePlacement_M")
  | CEnvoyPlacement (un_EnvoyPlacement: "EnvoyPlacement_M")
  | CPlacement (un_Placement: "Placement_M")
  | CSpec (un_Spec: "Spec_M")
  | CStatus (un_Status: "Status_M")
  | CSesame (un_Sesame: "Sesame_M")
  | CItems (un_Items: "Sesame_M list")
  | CSesameList (un_SesameList: "SesameList_M")

record memory =
  cells :: "ref \<Rightarrow> cell"
  lim :: ref

definition read_cell :: "ref \<Rightarrow> (memory, cell) state" where
  "read_cell a = State (\<lambda>h. (cells h a, h))"

definition alloc :: "cell \<Rightarrow> (memory, ref) state" where
  "alloc c = State (\<lambda>h. (lim h, h\<lparr>cells := (cells h)(lim h := c), lim := Suc (lim h)\<rparr>))"

text \<open>\<open>if in.F != nil { out.F = new(T); copy(*in.F, *out.F) }\<close>: the struct behind the reference is copied
  by \<open>copy\<close> and put into a cell of its own. The cell is allocated with its final contents: addresses
  have no order in Go.\<close>

definition copy_ref :: "('m \<Rightarrow> cell) \<Rightarrow> (cell \<Rightarrow> 'm) \<Rightarrow> ('m \<Rightarrow> (memory, 'm) state) \<Rightarrow>
    ref option \<Rightarrow> (memory, ref option) state" where
  "copy_ref box unbox copy r = (case r of
       None \<Rightarrow> ret None
     | Some a \<Rightarrow> do {
         c \<leftarrow> read_cell a;
         x \<leftarrow> copy (unbox c);
         b \<leftarrow> alloc (box x);
         ret (Some b)
       })"

text \<open>\<open>for i := range *in { (*in)[i].DeepCopyInto(&(*out)[i]) }\<close>.\<close>

fun copy_each :: "('m \<Rightarrow> (memory, 'm) state) \<Rightarrow> 'm list \<Rightarrow> (memory, 'm list) state" where
  "copy_each copy [] = ret []"
| "copy_each copy (x # xs) = do {
     y \<leftarrow> copy x;
     ys \<leftarrow> copy_each copy xs;
     ret (y # ys)
   }"

text \<open>\<open>for key, val := range *in { (*out)[key] = val }\<close>, into an empty map.\<close>

definition copy_entries :: "(string \<times> string) list \<Rightarrow> (memory, (string \<times> string) list) state" where
  "copy_entries kvs = ret (fold (\<lambda>(k, v) out. set_entry k v out) kvs [])"

abbreviation copy_string :: "ref option \<Rightarrow> (memory, ref option) state" where
  "copy_string \<equiv> copy_ref CString un_String ret"

abbreviation copy_map :: "ref option \<Rightarrow> (memory, ref option) state" where
  "copy_map \<equiv> copy_ref CMap un_Map copy_entries"

section \<open>The deep copies of the API machinery\<close>

text \<open>\<open>DeepCopyInto\<close> of \<open>metav1.ObjectMeta\<close>, \<open>metav1.ListMeta\<close>, \<open>metav1.Condition\<close> and \<open>v1.Toleration\<close>.\<close>

record copiers =
  copy_ObjectMeta :: "ObjectMeta_M \<Rightarrow> (memory, ObjectMeta_M) state"
  copy_ListMeta :: "ListMeta_M \<Rightarrow> (memory, ListMeta_M) state"
  copy_Condition :: "Condition \<Rightarrow> (memory, Condition) state"
  copy_Toleration :: "Toleration_M \<Rightarrow> (memory, Toleration_M) state"

section \<open>The deep copies of the Sesame types\<close>

text \<open>Load balancers.\<close>

definition AWS_DeepCopyInto :: "AWS_M \<Rightarrow> (memory, AWS_M) state" where
  "AWS_DeepCopyInto p = do {
     ids \<leftarrow> copy_ref CStrings un_Strings ret (awsm_AllocationIDs p);
     ret (p\<lparr>awsm_AllocationIDs := ids\<rparr>)
   }"

definition Azure_DeepCopyInto :: "Azure_M \<Rightarrow> (memory, Azure_M) state" where
  "Azure_DeepCopyInto p = do {
     address \<leftarrow> copy_string (azm_Address p);
     resources \<leftarrow> copy_string (azm_ResourceGroup p);
     subnet \<leftarrow> copy_string (azm_Subnet p);
     ret (p\<lparr>azm_Address := address, azm_ResourceGroup := resources, azm_Subnet := subnet\<rparr>)
   }"

definition GCP_DeepCopyInto :: "GCP_M \<Rightarrow> (memory, GCP_M) state" where
  "GCP_DeepCopyInto p = do {
     address \<leftarrow> copy_string (gcpm_Address p);
     subnet \<leftarrow> copy_string (gcpm_Subnet p);
     ret (p\<lparr>gcpm_Address := address, gcpm_Subnet := subnet\<rparr>)
   }"

definition Provider_DeepCopyInto :: "Provider_M \<Rightarrow> (memory, Provider_M) state" where
  "Provider_DeepCopyInto p = do {
     aws \<leftarrow> copy_ref CAWS un_AWS AWS_DeepCopyInto (provm_AWS p);
     azure \<leftarrow> copy_ref CAzure un_Azure Azure_DeepCopyInto (provm_Azure p);
     gcp \<leftarrow> copy_ref CGCP un_GCP GCP_DeepCopyInto (provm_GCP p);
     ret (p\<lparr>provm_AWS := aws, provm_Azure := azure, provm_GCP := gcp\<rparr>)
   }"

definition Strategy_DeepCopyInto :: "Strategy_M \<Rightarrow> (memory, Strategy_M) state" where
  "Strategy_DeepCopyInto l = do {
     params \<leftarrow> Provider_DeepCopyInto (strm_ProviderParameters l);
     ret (l\<lparr>strm_ProviderParameters := params\<rparr>)
   }"

text \<open>Ports and publishing.\<close>

definition NodePort_DeepCopyInto :: "NodePort_M \<Rightarrow> (memory, NodePort_M) state" where
  "NodePort_DeepCopyInto p = do {
     num \<leftarrow> copy_ref CInt32 un_Int32 ret (npm_PortNumber p);
     ret (p\<lparr>npm_PortNumber := num\<rparr>)
   }"

definition ContainerPort_DeepCopyInto :: "ContainerPort \<Rightarrow> (memory, ContainerPort) state" where
  "ContainerPort_DeepCopyInto p = ret p"

definition Envoy_DeepCopyInto :: "Envoy_M \<Rightarrow> (memory, Envoy_M) state" where
  "Envoy_DeepCopyInto e = do {
     lb \<leftarrow> Strategy_DeepCopyInto (envm_LoadBalancer e);
     nps \<leftarrow> copy_ref CNodePorts un_NodePorts (copy_each NodePort_DeepCopyInto) (envm_NodePorts e);
     cps \<leftarrow> copy_ref CContainerPorts un_ContainerPorts ret (envm_ContainerPorts e);
     ret (e\<lparr>envm_LoadBalancer := lb, envm_NodePorts := nps, envm_ContainerPorts := cps\<rparr>)
   }"

definition Publishing_DeepCopyInto :: "Publishing_M \<Rightarrow> (memory, Publishing_M) state" where
  "Publishing_DeepCopyInto n = do {
     e \<leftarrow> Envoy_DeepCopyInto (pubm_Envoy n);
     ret (n\<lparr>pubm_Envoy := e\<rparr>)
   }"

definition NamespaceSpec_DeepCopyInto :: "NamespaceSpec \<Rightarrow> (memory, NamespaceSpec) state" where
  "NamespaceSpec_DeepCopyInto n = ret n"

text \<open>Node placement.\<close>

definition SesamePlacement_DeepCopyInto :: "copiers \<Rightarrow> SesamePlacement_M \<Rightarrow> (memory, SesamePlacement_M) state" where
  "SesamePlacement_DeepCopyInto D p = do {
     sel \<leftarrow> copy_map (sqm_NodeSelector p);
     tols \<leftarrow> copy_ref CTolerations un_Tolerations (copy_each (copy_Toleration D)) (sqm_Tolerations p);
     ret (p\<lparr>sqm_NodeSelector := sel, sqm_Tolerations := tols\<rparr>)
   }"

definition EnvoyPlacement_DeepCopyInto :: "copiers \<Rightarrow> EnvoyPlacement_M \<Rightarrow> (memory, EnvoyPlacement_M) state" where
  "EnvoyPlacement_DeepCopyInto D p = do {
     sel \<leftarrow> copy_map (epm_NodeSelector p);
     tols \<leftarrow> copy_ref CTolerations un_Tolerations (copy_each (copy_Toleration D)) (epm_Tolerations p);
     ret (p\<lparr>epm_NodeSelector := sel, epm_Tolerations := tols\<rparr>)
   }"

definition Placement_DeepCopyInto :: "copiers \<Rightarrow> Placement_M \<Rightarrow> (memory, Placement_M) state" where
  "Placement_DeepCopyInto D n = do {
     s \<leftarrow> copy_ref CSesamePlacement un_SesamePlacement (SesamePlacement_DeepCopyInto D) (plm_Sesame n);
     e \<leftarrow> copy_ref CEnvoyPlacement un_EnvoyPlacement (EnvoyPlacement_DeepCopyInto D) (plm_Envoy n);
     ret (n\<lparr>plm_Sesame := s, plm_Envoy := e\<rparr>)
   }"

text \<open>The spec, the status, the Sesame and the list.\<close>

definition Spec_DeepCopyInto :: "copiers \<Rightarrow> Spec_M \<Rightarrow> (memory, Spec_M) state" where
  "Spec_DeepCopyInto D s = do {
     pub \<leftarrow> Publishing_DeepCopyInto (spm_NetworkPublishing s);
     cls \<leftarrow> copy_string (spm_GatewayClassRef s);
     ctl \<leftarrow> copy_string (spm_GatewayControllerName s);
     ing \<leftarrow> copy_string (spm_IngressClassName s);
     plc \<leftarrow> copy_ref CPlacement un_Placement (Placement_DeepCopyInto D) (spm_NodePlacement s);
     ext \<leftarrow> copy_ref CBool un_Bool ret (spm_EnableExternalNameService s);
     ret (s\<lparr>spm_NetworkPublishing := pub, spm_GatewayClassRef := cls, spm_GatewayControllerName := ctl,
       spm_IngressClassName := ing, spm_NodePlacement := plc, spm_EnableExternalNameService := ext\<rparr>)
   }"

definition Status_DeepCopyInto :: "copiers \<Rightarrow> Status_M \<Rightarrow> (memory, Status_M) state" where
  "Status_DeepCopyInto D s = do {
     cs \<leftarrow> copy_ref CConditions un_Conditions (copy_each (copy_Condition D)) (stm_Conditions s);
     ret (s\<lparr>stm_Conditions := cs\<rparr>)
   }"

definition Sesame_DeepCopyInto :: "copiers \<Rightarrow> Sesame_M \<Rightarrow> (memory, Sesame_M) state" where
  "Sesame_DeepCopyInto D s = do {
     m \<leftarrow> copy_ObjectMeta D (sm_Meta s);
     sp \<leftarrow> Spec_DeepCopyInto D (sm_Spec s);
     st \<leftarrow> Status_DeepCopyInto D (sm_Status s);
     ret (s\<lparr>sm_Meta := m, sm_Spec := sp, sm_Status := st\<rparr>)
   }"

definition SesameList_DeepCopyInto :: "copiers \<Rightarrow> SesameList_M \<Rightarrow> (memory, SesameList_M) state" where
  "SesameList_DeepCopyInto D l = do {
     m \<leftarrow> copy_ListMeta D (lm_ListMeta l);
     items \<leftarrow> copy_ref CItems un_Items (copy_each (Sesame_DeepCopyInto D)) (lm_Items l);
     ret (l\<lparr>lm_ListMeta := m, lm_Items := items\<rparr>)
   }"

section \<open>From pointer to pointer\<close>

text \<open>\<open>if in == nil { return nil }; out := new(T); in.DeepCopyInto(out); return out\<close>.\<close>

definition AWS_DeepCopy :: "ref option \<Rightarrow> (memory, ref option) state" where
  "AWS_DeepCopy = copy_ref CAWS un_AWS AWS_DeepCopyInto"

definition Azure_DeepCopy :: "ref option \<Rightarrow> (memory, ref option) state" where
  "Azure_DeepCopy = copy_ref CAzure un_Azure Azure_DeepCopyInto"

definition GCP_DeepCopy :: "ref option \<Rightarrow> (memory, ref option) state" where
  "GCP_DeepCopy = copy_ref CGCP un_GCP GCP_DeepCopyInto"

definition Provider_DeepCopy :: "ref option \<Rightarrow> (memory, ref option) state" where
  "Provider_DeepCopy = copy_ref CProvider un_Provider Provider_DeepCopyInto"

definition Strategy_DeepCopy :: "ref option \<Rightarrow> (memory, ref option) state" where
  "Strategy_DeepCopy = copy_ref CStrategy un_Strategy Strategy_DeepCopyInto"

definition NodePort_DeepCopy :: "ref option \<Rightarrow> (memory, ref option) state" where
  "NodePort_DeepCopy = copy_ref CNodePort un_NodePort NodePort_DeepCopyInto"

definition ContainerPort_DeepCopy :: "ref option \<Rightarrow> (memory, ref option) state" where
  "ContainerPort_DeepCopy = copy_ref CContainerPort un_ContainerPort ContainerPort_DeepCopyInto"

definition Envoy_DeepCopy :: "ref option \<Rightarrow> (memory, ref option) state" where
  "Envoy_DeepCopy = copy_ref CEnvoy un_Envoy Envoy_DeepCopyInto"

definition Publishing_DeepCopy :: "ref option \<Rightarrow> (memory, ref option) state" where
  "Publishing_DeepCopy = copy_ref CPublishing un_Publishing Publishing_DeepCopyInto"

definition NamespaceSpec_DeepCopy :: "ref option \<Rightarrow> (memory, ref option) state" where
  "NamespaceSpec_DeepCopy = copy_ref CNamespaceSpec un_NamespaceSpec NamespaceSpec_DeepCopyInto"

definition SesamePlacement_DeepCopy :: "copiers \<Rightarrow> ref option \<Rightarrow> (memory, ref option) state" where
  "SesamePlacement_DeepCopy D = copy_ref CSesamePlacement un_SesamePlacement (SesamePlacement_DeepCopyInto D)"

definition EnvoyPlacement_DeepCopy :: "copiers \<Rightarrow> ref option \<Rightarrow> (memory, ref option) state" where
  "EnvoyPlacement_DeepCopy D = copy_ref CEnvoyPlacement un_EnvoyPlacement (EnvoyPlacement_DeepCopyInto D)"

definition Placement_DeepCopy :: "copiers \<Rightarrow> ref option \<Rightarrow> (memory, ref option) state" where
  "Placement_DeepCopy D = copy_ref CPlacement un_Placement (Placement_DeepCopyInto D)"

definition Spec_DeepCopy :: "copiers \<Rightarrow> ref option \<Rightarrow> (memory, ref option) state" where
  "Spec_DeepCopy D = copy_ref CSpec un_Spec (Spec_DeepCopyInto D)"

definition Status_DeepCopy :: "copiers \<Rightarrow> ref option \<Rightarrow> (memory, ref option) state" where
  "Status_DeepCopy D = copy_ref CStatus un_Status (Status_DeepCopyInto D)"

definition Sesame_DeepCopy :: "copiers \<Rightarrow> ref option \<Rightarrow> (memory, ref option) state" where
  "Sesame_DeepCopy D = copy_ref CSesame un_Sesame (Sesame_DeepCopyInto D)"

definition SesameList_DeepCopy :: "copiers \<Rightarrow> ref option \<Rightarrow> (memory, ref option) state" where
  "SesameList_DeepCopy D = copy_ref CSesameList un_SesameList (SesameList_DeepCopyInto D)"

text \<open>A \<open>runtime.Object\<close> holds the pointer with its type; a nil pointer becomes a nil interface.\<close>

datatype runtime_Object = SesameObject ref | SesameListObject ref

definition Sesame_DeepCopyObject :: "copiers \<Rightarrow> ref option \<Rightarrow> (memory, runtime_Object option) state" where
  "Sesame_DeepCopyObject D r = do {
     c \<leftarrow> Sesame_DeepCopy D r;
     ret (case c of Some b \<Rightarrow> Some (SesameObject b) | None \<Rightarrow> None)
   }"

definition SesameList_DeepCopyObject :: "copiers \<Rightarrow> ref option \<Rightarrow> (memory, runtime_Object option) state" where
  "SesameList_DeepCopyObject D r = do {
     c \<leftarrow> SesameList_DeepCopy D r;
     ret (case c of Some b \<Rightarrow> Some (SesameListObject b) | None \<Rightarrow> None)
   }"

end
