(* ===== verification/Deep_Copy_Laws.thy ===== *)
theory Deep_Copy_Laws
  imports Deep_Copy
begin

text \<open>
  The contract of a deep copy (locale \<open>deep_copy\<close>): it has the value of the original, and the two share
  no memory. The value of a struct in memory is read off by a view, which also checks that every
  reference on the way lies in an interval of addresses and leads to a cell of its type. References,
  slices, maps, pairs and structs of deep copies are deep copies.
\<close>

section \<open>The contract of a deep copy\<close>

type_synonym ('m, 'v) view = "ref \<Rightarrow> ref \<Rightarrow> (ref \<Rightarrow> cell) \<Rightarrow> 'm \<Rightarrow> 'v option"

text \<open>Memory only grows while a copy is made.\<close>

definition extends :: "memory \<Rightarrow> memory \<Rightarrow> bool" where
  "extends h h' \<longleftrightarrow> lim h \<le> lim h' \<and> (\<forall>a < lim h. cells h' a = cells h a)"

lemma extends_refl [simp]: "extends h h"
  by (simp add: extends_def)

lemma extends_trans: "extends h h1 \<Longrightarrow> extends h1 h2 \<Longrightarrow> extends h h2"
  by (auto simp: extends_def)

lemma extends_alloc: "extends h1 (h1\<lparr>cells := (cells h1)(lim h1 := c), lim := Suc (lim h1)\<rparr>)"
  by (simp add: extends_def)

locale deep_copy =
  fixes view :: "('m, 'v) view"
    and copy :: "'m \<Rightarrow> (memory, 'm) state"
  assumes view_frame: "view lo hi c m = Some v \<Longrightarrow> lo' \<le> lo \<Longrightarrow> hi \<le> hi' \<Longrightarrow>
      (\<forall>a. lo \<le> a \<and> a < hi \<longrightarrow> c' a = c a) \<Longrightarrow> view lo' hi' c' m = Some v"
    and copies: "view lo (lim h) (cells h) m = Some v \<Longrightarrow> run_state (copy m) h = (m', h') \<Longrightarrow>
      extends h h' \<and> view (lim h) (lim h') (cells h') m' = Some v"
begin

text \<open>A value stays what it is when memory grows and when the interval does.\<close>

lemma view_extends: "view lo (lim h) (cells h) m = Some v \<Longrightarrow> extends h h' \<Longrightarrow> view lo (lim h') (cells h') m = Some v"
  by (rule view_frame) (auto simp: extends_def)

lemma view_widen: "view (lim h1) hi c m = Some v \<Longrightarrow> extends h h1 \<Longrightarrow> view (lim h) hi c m = Some v"
  by (rule view_frame) (auto simp: extends_def)

text \<open>Whatever happens to one of the two afterwards, the other keeps its value.\<close>

lemma writes_apart:
  assumes "view lo (lim h) (cells h) m = Some v" and "run_state (copy m) h = (m', h')"
  shows "(\<forall>a < lim h. c a = cells h' a) \<Longrightarrow> view lo (lim h) c m = Some v"
    and "(\<forall>a. lim h \<le> a \<and> a < lim h' \<longrightarrow> c a = cells h' a) \<Longrightarrow> view (lim h) (lim h') c m' = Some v"
proof -
  note copied = copies [OF assms]
  show "view lo (lim h) c m = Some v" if "\<forall>a < lim h. c a = cells h' a"
    by (rule view_frame [OF assms(1)]) (use copied that in \<open>auto simp: extends_def\<close>)
  show "view (lim h) (lim h') c m' = Some v" if "\<forall>a. lim h \<le> a \<and> a < lim h' \<longrightarrow> c a = cells h' a"
    by (rule view_frame [of "lim h" "lim h'" "cells h'"]) (use copied that in auto)
qed

end

section \<open>Building blocks\<close>

text \<open>A struct without references.\<close>

definition view_plain :: "('m, 'm) view" where
  "view_plain lo hi c m = Some m"

lemma deep_copy_plain: "deep_copy view_plain ret"
  by unfold_locales (simp_all add: view_plain_def)

text \<open>A reference.\<close>

definition view_ref :: "('m \<Rightarrow> cell) \<Rightarrow> (cell \<Rightarrow> 'm) \<Rightarrow> ('m, 'v) view \<Rightarrow> (ref option, 'v option) view" where
  "view_ref box unbox view lo hi c r = (case r of
       None \<Rightarrow> Some None
     | Some a \<Rightarrow> (if lo \<le> a \<and> a < hi \<and> c a = box (unbox (c a))
                 then map_option Some (view lo hi c (unbox (c a))) else None))"

lemma run_copy_ref:
  "run_state (copy_ref box unbox copy r) h = (case r of
       None \<Rightarrow> (None, h)
     | Some a \<Rightarrow> (case run_state (copy (unbox (cells h a))) h of (x, h1) \<Rightarrow>
         (Some (lim h1), h1\<lparr>cells := (cells h1)(lim h1 := box x), lim := Suc (lim h1)\<rparr>)))"
  by (simp add: copy_ref_def read_cell_def alloc_def split: option.split prod.split)

lemma deep_copy_ref:
  assumes sub: "deep_copy view copy" and box: "\<And>x. unbox (box x) = x"
  shows "deep_copy (view_ref box unbox view) (copy_ref box unbox copy)"
proof (unfold_locales, goal_cases)
  case (1 lo hi c r v lo' hi' c')
  then show ?case
    by (auto simp: view_ref_def split: option.splits if_splits intro: deep_copy.view_frame [OF sub])
next
  case (2 lo h r v r' h')
  show ?case
  proof (cases r)
    case None
    with 2 show ?thesis by (simp add: run_copy_ref view_ref_def)
  next
    case (Some a)
    obtain x h1 where run: "run_state (copy (unbox (cells h a))) h = (x, h1)" by fastforce
    from 2(1) Some obtain y where y: "view lo (lim h) (cells h) (unbox (cells h a)) = Some y" "v = Some y"
      by (auto simp: view_ref_def split: if_splits)
    note copied = deep_copy.copies [OF sub y(1) run]
    define h2 where "h2 = h1\<lparr>cells := (cells h1)(lim h1 := box x), lim := Suc (lim h1)\<rparr>"
    have grown: "extends h1 h2" by (simp add: h2_def extends_alloc)
    have "view (lim h) (lim h2) (cells h2) x = Some y"
      by (rule deep_copy.view_extends [OF sub conjunct2 [OF copied] grown])
    moreover have "r' = Some (lim h1)" "h' = h2" using 2(2) Some run by (simp_all add: run_copy_ref h2_def)
    moreover have "cells h2 (lim h1) = box x" "lim h2 = Suc (lim h1)" by (simp_all add: h2_def)
    moreover have "lim h \<le> lim h1" using copied by (simp add: extends_def)
    moreover have "extends h h2" using copied grown extends_trans by blast
    ultimately show ?thesis using y(2) by (simp add: view_ref_def box)
  qed
qed

text \<open>Two structs one after the other.\<close>

fun view_pair :: "('m, 'v) view \<Rightarrow> ('n, 'u) view \<Rightarrow> ('m \<times> 'n, 'v \<times> 'u) view" where
  "view_pair V W lo hi c (x, y) =
     (case V lo hi c x of None \<Rightarrow> None | Some v \<Rightarrow> map_option (Pair v) (W lo hi c y))"

fun copy_pair :: "('m \<Rightarrow> (memory, 'm) state) \<Rightarrow> ('n \<Rightarrow> (memory, 'n) state) \<Rightarrow>
    'm \<times> 'n \<Rightarrow> (memory, 'm \<times> 'n) state" where
  "copy_pair C D (x, y) = do {
     a \<leftarrow> C x;
     b \<leftarrow> D y;
     ret (a, b)
   }"

lemma deep_copy_pair:
  assumes sub: "deep_copy V C" "deep_copy W D"
  shows "deep_copy (view_pair V W) (copy_pair C D)"
proof (unfold_locales, goal_cases)
  case (1 lo hi c m v lo' hi' c')
  obtain x y where m: "m = (x, y)" by fastforce
  with 1 obtain p q where v: "V lo hi c x = Some p" "W lo hi c y = Some q" "v = (p, q)"
    by (auto split: option.splits)
  from deep_copy.view_frame [OF sub(1) v(1) 1(2-4)] deep_copy.view_frame [OF sub(2) v(2) 1(2-4)]
  show ?case by (simp add: m v)
next
  case (2 lo h m v m' h')
  obtain x y where m: "m = (x, y)" by fastforce
  with 2(1) obtain p q where v: "V lo (lim h) (cells h) x = Some p" "W lo (lim h) (cells h) y = Some q" "v = (p, q)"
    by (auto split: option.splits)
  obtain a h1 b h2 where run: "run_state (C x) h = (a, h1)" "run_state (D y) h1 = (b, h2)" by fastforce
  with 2(2) m have m': "m' = (a, b)" "h' = h2" by simp_all
  note first = deep_copy.copies [OF sub(1) v(1) run(1)]
  note second = deep_copy.copies [OF sub(2) deep_copy.view_extends [OF sub(2) v(2) conjunct1 [OF first]] run(2)]
  have "V (lim h) (lim h2) (cells h2) a = Some p" "W (lim h) (lim h2) (cells h2) b = Some q"
    using first second deep_copy.view_extends [OF sub(1)] deep_copy.view_widen [OF sub(2)] by blast+
  moreover have "extends h h2" using first second extends_trans by blast
  ultimately show ?case by (simp add: m' v)
qed

text \<open>A struct whose parts are copied and put back.\<close>

definition view_struct :: "('s \<Rightarrow> 'v \<Rightarrow> 'u) \<Rightarrow> ('s \<Rightarrow> 'm) \<Rightarrow> ('m, 'v) view \<Rightarrow> ('s, 'u) view" where
  "view_struct mk parts V lo hi c s = map_option (mk s) (V lo hi c (parts s))"

lemma deep_copy_struct:
  assumes sub: "deep_copy V C" and parts: "\<And>s x. parts (build s x) = x" "\<And>s x. mk (build s x) = mk s"
    and copy: "\<And>s. copy s = do { x \<leftarrow> C (parts s); ret (build s x) }"
  shows "deep_copy (view_struct mk parts V) copy"
proof (unfold_locales, goal_cases)
  case (1 lo hi c s v lo' hi' c')
  then show ?case using deep_copy.view_frame [OF sub _ 1(2-4)] by (auto simp: view_struct_def)
next
  case (2 lo h s v s' h')
  then obtain y where y: "V lo (lim h) (cells h) (parts s) = Some y" "v = mk s y" by (auto simp: view_struct_def)
  obtain x h1 where run: "run_state (C (parts s)) h = (x, h1)" by fastforce
  with 2(2) have "s' = build s x" "h' = h1" by (simp_all add: copy)
  with deep_copy.copies [OF sub y(1) run] show ?case by (simp add: parts y view_struct_def)
qed

text \<open>A slice of structs.\<close>

fun view_each :: "('m, 'v) view \<Rightarrow> ('m list, 'v list) view" where
  "view_each V lo hi c [] = Some []"
| "view_each V lo hi c (x # xs) =
     (case V lo hi c x of None \<Rightarrow> None | Some v \<Rightarrow> map_option (Cons v) (view_each V lo hi c xs))"

lemma deep_copy_each:
  assumes sub: "deep_copy V C"
  shows "deep_copy (view_each V) (copy_each C)"
proof -
  have frame: "view_each V lo hi c xs = Some vs \<Longrightarrow> lo' \<le> lo \<Longrightarrow> hi \<le> hi' \<Longrightarrow>
      (\<forall>a. lo \<le> a \<and> a < hi \<longrightarrow> c' a = c a) \<Longrightarrow> view_each V lo' hi' c' xs = Some vs" for lo hi c xs vs lo' hi' c'
    by (induction xs arbitrary: vs) (auto split: option.splits dest: deep_copy.view_frame [OF sub])
  have copied: "view_each V lo (lim h) (cells h) xs = Some vs \<Longrightarrow> run_state (copy_each C xs) h = (ys, h') \<Longrightarrow>
      extends h h' \<and> view_each V (lim h) (lim h') (cells h') ys = Some vs" for lo h xs vs ys h'
  proof (induction xs arbitrary: h vs ys h')
    case (Cons x xs)
    obtain y h1 zs h2 where run: "run_state (C x) h = (y, h1)" "run_state (copy_each C xs) h1 = (zs,
        h2)" by fastforce
    with Cons.prems(2) have res: "ys = y # zs" "h' = h2" by simp_all
    from Cons.prems(1) obtain v ws where v: "V lo (lim h) (cells h) x = Some v"
      "view_each V lo (lim h) (cells h) xs = Some ws" "vs = v # ws"
      by (auto split: option.splits)
    note first = deep_copy.copies [OF sub v(1) run(1)]
    have "view_each V lo (lim h1) (cells h1) xs = Some ws"
      by (rule frame [OF v(2)]) (use first in \<open>simp_all add: extends_def\<close>)
    note second = Cons.IH [OF this run(2)]
    have "V (lim h) (lim h2) (cells h2) y = Some v"
      using first second deep_copy.view_extends [OF sub] by blast
    moreover have "view_each V (lim h) (lim h2) (cells h2) zs = Some ws"
      by (rule frame [OF conjunct2 [OF second]]) (use first in \<open>simp_all add: extends_def\<close>)
    moreover have "extends h h2" using first second extends_trans by blast
    ultimately show ?case by (simp add: res v)
  qed simp
  show ?thesis
  proof (unfold_locales, goal_cases)
    case (1 lo hi c m v lo' hi' c')
    show ?case by (rule frame [OF 1])
  next
    case (2 lo h m v m' h')
    show ?case by (rule copied [OF 2])
  qed
qed

text \<open>A map; its keys are distinct.\<close>

definition view_entries :: "((string \<times> string) list, (string \<times> string) list) view" where
  "view_entries lo hi c kvs = (if distinct (map fst kvs) then Some kvs else None)"

lemma set_entry_new: "k \<notin> fst ` set kvs \<Longrightarrow> set_entry k v kvs = kvs @ [(k, v)]"
  by (induction kvs) auto

lemma copied_entries:
  "distinct (map fst (out @ kvs)) \<Longrightarrow> fold (\<lambda>(k, v) out. set_entry k v out) kvs out = out @ kvs"
  by (induction kvs arbitrary: out) (auto simp: set_entry_new)

lemma deep_copy_entries: "deep_copy view_entries copy_entries"
  by unfold_locales
    (auto simp: view_entries_def copy_entries_def copied_entries [of "[]", simplified] split: if_splits)

end
