(* ===== verification/Deep_Copy_Theorems.thy ===== *)
theory Deep_Copy_Theorems
  imports Deep_Copy_Laws Wire Sesame_Obj
begin

text \<open>
  The deep copies of the Sesame types meet the contract, over any deep copies of the API machinery's types
  that do (locale \<open>sesame_copies\<close>); and what that means for the updates the operator makes on a copy.
\<close>

section \<open>The values of the Sesame types\<close>

text \<open>The number behind a pointer is read at address 0, as in \<open>spec_value\<close>; a nil list is an empty one
  where the model of the types makes no difference.\<close>

abbreviation view_string :: "(ref option, string option) view" where
  "view_string \<equiv> view_ref CString un_String view_plain"

abbreviation view_map :: "(ref option, strmap) view" where
  "view_map \<equiv> view_ref CMap un_Map view_entries"

definition view_AWS :: "(AWS_M, AWSLoadBalancerParameters) view" where
  "view_AWS = view_struct (\<lambda>p ids. \<lparr>aws_Type = awsm_Type p, AllocationIDs = ids\<rparr>)
     awsm_AllocationIDs
     (view_ref CStrings un_Strings view_plain)"

definition view_Azure :: "(Azure_M, AzureLoadBalancerParameters) view" where
  "view_Azure = view_struct (\<lambda>p (a, r, s). \<lparr>az_Address = a, az_ResourceGroup = r, az_Subnet = s\<rparr>)
     (\<lambda>p. (azm_Address p, azm_ResourceGroup p, azm_Subnet p))
     (view_pair view_string (view_pair view_string view_string))"

definition view_GCP :: "(GCP_M, GCPLoadBalancerParameters) view" where
  "view_GCP = view_struct (\<lambda>p (a, s). \<lparr>gcp_Address = a, gcp_Subnet = s\<rparr>)
     (\<lambda>p. (gcpm_Address p, gcpm_Subnet p))
     (view_pair view_string view_string)"

definition view_Provider :: "(Provider_M, ProviderLoadBalancerParameters) view" where
  "view_Provider = view_struct (\<lambda>p (a, z, g). \<lparr>prov_Type = provm_Type p, prov_AWS = a, prov_Azure = z,
      prov_GCP = g\<rparr>)
     (\<lambda>p. (provm_AWS p, provm_Azure p, provm_GCP p))
     (view_pair (view_ref CAWS un_AWS view_AWS) (view_pair (view_ref CAzure un_Azure view_Azure)
        (view_ref CGCP un_GCP view_GCP)))"

definition view_Strategy :: "(Strategy_M, LoadBalancerStrategy) view" where
  "view_Strategy = view_struct (\<lambda>l p. \<lparr>Scope = strm_Scope l, ProviderParameters = p\<rparr>)
     strm_ProviderParameters
     view_Provider"

definition view_NodePort :: "(NodePort_M, NodePort) view" where
  "view_NodePort = view_struct (\<lambda>p n. \<lparr>np_Name = npm_Name p, np_PortNumber = map_option (Ptr 0) n\<rparr>)
     npm_PortNumber
     (view_ref CInt32 un_Int32 view_plain)"

definition view_Envoy :: "(Envoy_M, EnvoyNetworkPublishing) view" where
  "view_Envoy = view_struct (\<lambda>e (l, ns, cs). \<lparr>pub_Type = envm_Type e, LoadBalancer = l, NodePorts = ns,
      ContainerPorts = the_or [] cs\<rparr>)
     (\<lambda>e. (envm_LoadBalancer e, envm_NodePorts e, envm_ContainerPorts e))
     (view_pair view_Strategy (view_pair (view_ref CNodePorts un_NodePorts (view_each view_NodePort))
        (view_ref CContainerPorts un_ContainerPorts view_plain)))"

definition view_Publishing :: "(Publishing_M, NetworkPublishing) view" where
  "view_Publishing = view_struct (\<lambda>n e. \<lparr>Envoy = e\<rparr>) pubm_Envoy view_Envoy"

definition view_Toleration :: "(Toleration_M, Toleration) view" where
  "view_Toleration = view_struct (\<lambda>t s. \<lparr>tol_Key = tolm_Key t, tol_Operator = tolm_Operator t,
      tol_Value = tolm_Value t, tol_Effect = tolm_Effect t, tol_Seconds = s\<rparr>)
     tolm_Seconds
     (view_ref CInt64 un_Int64 view_plain)"

abbreviation view_Tolerations :: "(ref option, Toleration list option) view" where
  "view_Tolerations \<equiv> view_ref CTolerations un_Tolerations (view_each view_Toleration)"

definition view_SesamePlacement :: "(SesamePlacement_M, SesameNodePlacement) view" where
  "view_SesamePlacement = view_struct (\<lambda>p (n, t). \<lparr>snp_NodeSelector = n, snp_Tolerations = the_or [] t\<rparr>)
     (\<lambda>p. (sqm_NodeSelector p, sqm_Tolerations p))
     (view_pair view_map view_Tolerations)"

definition view_EnvoyPlacement :: "(EnvoyPlacement_M, EnvoyNodePlacement) view" where
  "view_EnvoyPlacement = view_struct (\<lambda>p (n, t). \<lparr>enp_NodeSelector = n, enp_Tolerations = the_or [] t\<rparr>)
     (\<lambda>p. (epm_NodeSelector p, epm_Tolerations p))
     (view_pair view_map view_Tolerations)"

definition view_Placement :: "(Placement_M, NodePlacement) view" where
  "view_Placement = view_struct (\<lambda>n (s, e). \<lparr>npl_Sesame = s, npl_Envoy = e\<rparr>)
     (\<lambda>n. (plm_Sesame n, plm_Envoy n))
     (view_pair (view_ref CSesamePlacement un_SesamePlacement view_SesamePlacement)
        (view_ref CEnvoyPlacement un_EnvoyPlacement view_EnvoyPlacement))"

definition view_Spec :: "(Spec_M, SesameSpec) view" where
  "view_Spec = view_struct (\<lambda>s (p, g, k, i, n, x). \<lparr>Replicas = spm_Replicas s,
      SpecNamespace = spm_Namespace s, SpecNetworkPublishing = p, GatewayClassRef = g,
      GatewayControllerName = k, IngressClassName = i, SpecNodePlacement = n, EnableExternalNameService = x\<rparr>)
     (\<lambda>s. (spm_NetworkPublishing s, spm_GatewayClassRef s, spm_GatewayControllerName s,
        spm_IngressClassName s, spm_NodePlacement s, spm_EnableExternalNameService s))
     (view_pair view_Publishing (view_pair view_string (view_pair view_string (view_pair view_string
        (view_pair (view_ref CPlacement un_Placement view_Placement) (view_ref CBool un_Bool view_plain))))))"

definition view_Status :: "(Status_M, SesameStatus) view" where
  "view_Status = view_struct (\<lambda>s cs. \<lparr>AvailableSesames = stm_AvailableSesames s,
      AvailableEnvoys = stm_AvailableEnvoys s, Conditions = the_or [] cs\<rparr>)
     stm_Conditions
     (view_ref CConditions un_Conditions (view_each view_plain))"

definition view_ObjectMeta :: "(ObjectMeta_M, ObjectMeta) view" where
  "view_ObjectMeta = view_struct (\<lambda>m (l, a, f, d). \<lparr>Name = mm_Name m, Namespace = mm_Namespace m, Labels = l,
      Annotations = a, Finalizers = the_or [] f, DeletionTimestamp = d, ResourceVersion = mm_ResourceVersion m\<rparr>)
     (\<lambda>m. (mm_Labels m, mm_Annotations m, mm_Finalizers m, mm_DeletionTimestamp m))
     (view_pair view_map (view_pair view_map (view_pair (view_ref CStrings un_Strings view_plain)
        (view_ref CTime un_Time view_plain))))"

definition view_Sesame :: "(Sesame_M, Sesame) view" where
  "view_Sesame = view_struct (\<lambda>s (m, sp, st). \<lparr>Meta = m, Spec = sp, Status = st\<rparr>)
     (\<lambda>s. (sm_Meta s, sm_Spec s, sm_Status s))
     (view_pair view_ObjectMeta (view_pair view_Spec view_Status))"

text \<open>The value of a list: its resource version, its continue token, the number of remaining items and
  the items.\<close>

definition view_ListMeta :: "(ListMeta_M, string \<times> string \<times> int64 option) view" where
  "view_ListMeta = view_struct (\<lambda>m n. (lmm_ResourceVersion m, lmm_Continue m, n))
     lmm_RemainingItemCount
     (view_ref CInt64 un_Int64 view_plain)"

definition view_SesameList :: "(SesameList_M, (string \<times> string \<times> int64 option) \<times> Sesame list option) view" where
  "view_SesameList = view_struct (\<lambda>l x. x) (\<lambda>l. (lm_ListMeta l, lm_Items l))
     (view_pair view_ListMeta (view_ref CItems un_Items (view_each view_Sesame)))"

section \<open>The deep copies meet the contract\<close>

lemmas copy_blocks = deep_copy_pair deep_copy_ref deep_copy_each deep_copy_plain deep_copy_entries cell.sel

lemma copy_AWS: "deep_copy view_AWS AWS_DeepCopyInto"
  unfolding view_AWS_def
  by (rule deep_copy_struct [where build = "\<lambda>s x. s\<lparr>awsm_AllocationIDs := x\<rparr>"], (rule copy_blocks)+)
    (auto simp: AWS_DeepCopyInto_def split: prod.split)

lemma copy_Azure: "deep_copy view_Azure Azure_DeepCopyInto"
  unfolding view_Azure_def
  by (rule deep_copy_struct [where build = "\<lambda>s (x, y, z). s\<lparr>azm_Address := x, azm_ResourceGroup := y,
      azm_Subnet := z\<rparr>"], (rule copy_blocks)+)
    (auto simp: Azure_DeepCopyInto_def split: prod.split)

lemma copy_GCP: "deep_copy view_GCP GCP_DeepCopyInto"
  unfolding view_GCP_def
  by (rule deep_copy_struct [where build = "\<lambda>s (x, y). s\<lparr>gcpm_Address := x, gcpm_Subnet := y\<rparr>"],
      (rule copy_blocks)+)
    (auto simp: GCP_DeepCopyInto_def split: prod.split)

lemma copy_Provider: "deep_copy view_Provider Provider_DeepCopyInto"
  unfolding view_Provider_def
  by (rule deep_copy_struct [where build = "\<lambda>s (x, y, z). s\<lparr>provm_AWS := x, provm_Azure := y,
      provm_GCP := z\<rparr>"], (rule copy_blocks copy_AWS copy_Azure copy_GCP)+)
    (auto simp: Provider_DeepCopyInto_def split: prod.split)

lemma copy_Strategy: "deep_copy view_Strategy Strategy_DeepCopyInto"
  unfolding view_Strategy_def
  by (rule deep_copy_struct [where build = "\<lambda>s x. s\<lparr>strm_ProviderParameters := x\<rparr>"],
      (rule copy_blocks copy_Provider)+)
    (auto simp: Strategy_DeepCopyInto_def split: prod.split)

lemma copy_NodePort: "deep_copy view_NodePort NodePort_DeepCopyInto"
  unfolding view_NodePort_def
  by (rule deep_copy_struct [where build = "\<lambda>s x. s\<lparr>npm_PortNumber := x\<rparr>"], (rule copy_blocks)+)
    (auto simp: NodePort_DeepCopyInto_def split: prod.split)

lemma copy_Envoy: "deep_copy view_Envoy Envoy_DeepCopyInto"
  unfolding view_Envoy_def
  by (rule deep_copy_struct [where build = "\<lambda>s (x, y, z). s\<lparr>envm_LoadBalancer := x, envm_NodePorts := y,
      envm_ContainerPorts := z\<rparr>"], (rule copy_blocks copy_Strategy copy_NodePort)+)
    (auto simp: Envoy_DeepCopyInto_def split: prod.split)

lemma copy_Publishing: "deep_copy view_Publishing Publishing_DeepCopyInto"
  unfolding view_Publishing_def
  by (rule deep_copy_struct [where build = "\<lambda>s x. s\<lparr>pubm_Envoy := x\<rparr>"], (rule copy_blocks copy_Envoy)+)
    (auto simp: Publishing_DeepCopyInto_def split: prod.split)

interpretation publishing: deep_copy view_Publishing Publishing_DeepCopyInto
  by (rule copy_Publishing)

lemma copy_ContainerPort: "deep_copy view_plain ContainerPort_DeepCopyInto"
  and copy_NamespaceSpec: "deep_copy view_plain NamespaceSpec_DeepCopyInto"
  by unfold_locales (simp_all add: view_plain_def ContainerPort_DeepCopyInto_def NamespaceSpec_DeepCopyInto_def)

section \<open>The types that contain structs of the API machinery\<close>

text \<open>The deep copies of the API machinery are deep copies.\<close>

locale sesame_copies =
  fixes D :: copiers
  assumes copy_ObjectMeta: "deep_copy view_ObjectMeta (copy_ObjectMeta D)"
    and copy_ListMeta: "deep_copy view_ListMeta (copy_ListMeta D)"
    and copy_Condition: "deep_copy view_plain (copy_Condition D)"
    and copy_Toleration: "deep_copy view_Toleration (copy_Toleration D)"
begin

lemma copy_SesamePlacement: "deep_copy view_SesamePlacement (SesamePlacement_DeepCopyInto D)"
  unfolding view_SesamePlacement_def
  by (rule deep_copy_struct [where build = "\<lambda>s (x, y). s\<lparr>sqm_NodeSelector := x, sqm_Tolerations := y\<rparr>"],
      (rule copy_blocks copy_Toleration)+)
    (auto simp: SesamePlacement_DeepCopyInto_def split: prod.split)

lemma copy_EnvoyPlacement: "deep_copy view_EnvoyPlacement (EnvoyPlacement_DeepCopyInto D)"
  unfolding view_EnvoyPlacement_def
  by (rule deep_copy_struct [where build = "\<lambda>s (x, y). s\<lparr>epm_NodeSelector := x, epm_Tolerations := y\<rparr>"],
      (rule copy_blocks copy_Toleration)+)
    (auto simp: EnvoyPlacement_DeepCopyInto_def split: prod.split)

lemma copy_Placement: "deep_copy view_Placement (Placement_DeepCopyInto D)"
  unfolding view_Placement_def
  by (rule deep_copy_struct [where build = "\<lambda>s (x, y). s\<lparr>plm_Sesame := x, plm_Envoy := y\<rparr>"],
      (rule copy_blocks copy_SesamePlacement copy_EnvoyPlacement)+)
    (auto simp: Placement_DeepCopyInto_def split: prod.split)

lemma copy_Spec: "deep_copy view_Spec (Spec_DeepCopyInto D)"
  unfolding view_Spec_def
  by (rule deep_copy_struct [where build = "\<lambda>s (x, y, z, u, v, w). s\<lparr>spm_NetworkPublishing := x,
      spm_GatewayClassRef := y, spm_GatewayControllerName := z, spm_IngressClassName := u,
      spm_NodePlacement := v, spm_EnableExternalNameService := w\<rparr>"],
      (rule copy_blocks copy_Publishing copy_Placement)+)
    (auto simp: Spec_DeepCopyInto_def split: prod.split)

lemma copy_Status: "deep_copy view_Status (Status_DeepCopyInto D)"
  unfolding view_Status_def
  by (rule deep_copy_struct [where build = "\<lambda>s x. s\<lparr>stm_Conditions := x\<rparr>"], (rule copy_blocks copy_Condition)+)
    (auto simp: Status_DeepCopyInto_def split: prod.split)

lemma copy_Sesame: "deep_copy view_Sesame (Sesame_DeepCopyInto D)"
  unfolding view_Sesame_def
  by (rule deep_copy_struct [where build = "\<lambda>s (x, y, z). s\<lparr>sm_Meta := x, sm_Spec := y, sm_Status := z\<rparr>"],
      (rule copy_blocks copy_ObjectMeta copy_Spec copy_Status)+)
    (auto simp: Sesame_DeepCopyInto_def split: prod.split)

lemma copy_SesameList: "deep_copy view_SesameList (SesameList_DeepCopyInto D)"
  unfolding view_SesameList_def
  by (rule deep_copy_struct [where build = "\<lambda>s (x, y). s\<lparr>lm_ListMeta := x, lm_Items := y\<rparr>"],
      (rule copy_blocks copy_ListMeta copy_Sesame)+)
    (auto simp: SesameList_DeepCopyInto_def split: prod.split)

text \<open>From pointer to pointer.\<close>

sublocale sesame: deep_copy "view_ref CSesame un_Sesame view_Sesame" "Sesame_DeepCopy D"
  unfolding Sesame_DeepCopy_def by (rule copy_blocks copy_Sesame)+

sublocale sesame_list: deep_copy "view_ref CSesameList un_SesameList view_SesameList" "SesameList_DeepCopy D"
  unfolding SesameList_DeepCopy_def by (rule copy_blocks copy_SesameList)+

lemmas sesame_apart = sesame.writes_apart
lemmas list_apart = sesame_list.writes_apart

text \<open>A copied pointer is not nil and is new.\<close>

lemma new_pointer:
  assumes "view_ref CSesame un_Sesame view_Sesame lo (lim h) (cells h) (Some a) = Some v"
    and "run_state (Sesame_DeepCopy D (Some a)) h = (r, h')"
  obtains b where "r = Some b" and "lim h \<le> b" and "b < lim h'"
proof -
  have "r \<noteq> None" using assms(2) by (auto simp: Sesame_DeepCopy_def run_copy_ref split: prod.splits)
  moreover have "view_ref CSesame un_Sesame view_Sesame (lim h) (lim h') (cells h') r = Some v"
    using sesame.copies [OF assms] by simp
  ultimately show thesis by (auto simp: view_ref_def split: if_splits intro: that)
qed

end

section \<open>An instance of the API machinery\<close>

definition std_copy_ObjectMeta :: "ObjectMeta_M \<Rightarrow> (memory, ObjectMeta_M) state" where
  "std_copy_ObjectMeta m = do {
     l \<leftarrow> copy_map (mm_Labels m);
     a \<leftarrow> copy_map (mm_Annotations m);
     f \<leftarrow> copy_ref CStrings un_Strings ret (mm_Finalizers m);
     d \<leftarrow> copy_ref CTime un_Time ret (mm_DeletionTimestamp m);
     ret (m\<lparr>mm_Labels := l, mm_Annotations := a, mm_Finalizers := f, mm_DeletionTimestamp := d\<rparr>)
   }"

definition std_copiers :: copiers where
  "std_copiers = \<lparr>copy_ObjectMeta = std_copy_ObjectMeta,
     copy_ListMeta = (\<lambda>m. do {
       n \<leftarrow> copy_ref CInt64 un_Int64 ret (lmm_RemainingItemCount m);
       ret (m\<lparr>lmm_RemainingItemCount := n\<rparr>)
     }),
     copy_Condition = ret,
     copy_Toleration = (\<lambda>t. do {
       s \<leftarrow> copy_ref CInt64 un_Int64 ret (tolm_Seconds t);
       ret (t\<lparr>tolm_Seconds := s\<rparr>)
     })\<rparr>"

lemma std_ObjectMeta: "deep_copy view_ObjectMeta std_copy_ObjectMeta"
  unfolding view_ObjectMeta_def
  by (rule deep_copy_struct [where build = "\<lambda>s (x, y, z, u). s\<lparr>mm_Labels := x, mm_Annotations := y,
      mm_Finalizers := z, mm_DeletionTimestamp := u\<rparr>"], (rule copy_blocks)+)
    (auto simp: std_copy_ObjectMeta_def split: prod.split)

lemma std_ListMeta: "deep_copy view_ListMeta (copy_ListMeta std_copiers)"
  unfolding view_ListMeta_def
  by (rule deep_copy_struct [where build = "\<lambda>s x. s\<lparr>lmm_RemainingItemCount := x\<rparr>"], (rule copy_blocks)+)
    (auto simp: std_copiers_def)

lemma std_Toleration: "deep_copy view_Toleration (copy_Toleration std_copiers)"
  unfolding view_Toleration_def
  by (rule deep_copy_struct [where build = "\<lambda>s x. s\<lparr>tolm_Seconds := x\<rparr>"], (rule copy_blocks)+)
    (auto simp: std_copiers_def)

interpretation std_copies: sesame_copies std_copiers
  by (rule sesame_copies.intro)
    (use std_ObjectMeta std_ListMeta std_Toleration deep_copy_plain in \<open>simp_all add: std_copiers_def\<close>)

section \<open>Properties\<close>

text \<open>C16: A deep copy of a Sesame is a pointer to new memory that holds the same Sesame, and the two share
  nothing: whatever is written through the copy (any memory that agrees with the result below the old
  limit) leaves the original as it was, and whatever is written through the original leaves the copy. A
  nil pointer is copied to a nil object.\<close>

theorem deep_copy_is_separate:
  assumes copies: "sesame_copies D"
    and original: "view_ref CSesame un_Sesame view_Sesame lo (lim h) (cells h) (Some a) = Some (Some s)"
    and run: "run_state (Sesame_DeepCopyObject D (Some a)) h = (obj, h')"
  shows "(\<exists>b. obj = Some (SesameObject b) \<and> lim h \<le> b \<and> b < lim h' \<and>
      (\<forall>c. (\<forall>x < lim h. c x = cells h' x) \<longrightarrow>
        view_ref CSesame un_Sesame view_Sesame lo (lim h) c (Some a) = Some (Some s)) \<and>
      (\<forall>c. (\<forall>x. lim h \<le> x \<and> x < lim h' \<longrightarrow> c x = cells h' x) \<longrightarrow>
        view_ref CSesame un_Sesame view_Sesame (lim h) (lim h') c (Some b) = Some (Some s))) \<and>
    run_state (Sesame_DeepCopyObject D None) h = (None, h)"
proof -
  obtain r where copied: "run_state (Sesame_DeepCopy D (Some a)) h = (r, h')"
    "obj = (case r of Some b \<Rightarrow> Some (SesameObject b) | None \<Rightarrow> None)"
    using run by (auto simp: Sesame_DeepCopyObject_def split: prod.splits)
  obtain b where b: "r = Some b" "lim h \<le> b" "b < lim h'"
    by (rule sesame_copies.new_pointer [OF copies original copied(1)])
  have "run_state (Sesame_DeepCopyObject D None) h = (None, h)"
    by (simp add: Sesame_DeepCopyObject_def Sesame_DeepCopy_def run_copy_ref)
  with b copied(2) sesame_copies.sesame_apart [OF copies original copied(1)] show ?thesis by auto
qed

text \<open>A Sesame in memory: the finalizers are at 1, the node ports at 2 with a number at 3, the labels at 4.\<close>

definition sample_meta :: ObjectMeta where
  "sample_meta = zero_ObjectMeta\<lparr>Name := ''c'', Labels := Some [(''app'', ''sesame'')], Finalizers := [SesameFinalizer]\<rparr>"

definition memory_cells :: "ref \<Rightarrow> cell" where
  "memory_cells = (\<lambda>_. CBool False)(
     0 := CSesame \<lparr>
       sm_Meta = \<lparr>mm_Name = ''c'', mm_Namespace = [], mm_Labels = Some 4, mm_Annotations = None, mm_Finalizers = Some 1,
         mm_DeletionTimestamp = None, mm_ResourceVersion = []\<rparr>,
       sm_Spec = \<lparr>spm_Replicas = 2, spm_Namespace = \<lparr>nsp_Name = ''ns'', RemoveOnDeletion = False\<rparr>,
         spm_NetworkPublishing = \<lparr>pubm_Envoy = \<lparr>envm_Type = NodePortServicePublishingType,
           envm_LoadBalancer = \<lparr>strm_Scope = [], strm_ProviderParameters =
             \<lparr>provm_Type = [], provm_AWS = None, provm_Azure = None, provm_GCP = None\<rparr>\<rparr>,
           envm_NodePorts = Some 2, envm_ContainerPorts = None\<rparr>\<rparr>,
         spm_GatewayClassRef = None, spm_GatewayControllerName = None, spm_IngressClassName = None,
         spm_NodePlacement = None, spm_EnableExternalNameService = None\<rparr>,
       sm_Status = \<lparr>stm_AvailableSesames = 0, stm_AvailableEnvoys = 0, stm_Conditions = None\<rparr>\<rparr>,
     1 := CStrings [SesameFinalizer],
     2 := CNodePorts [\<lparr>npm_Name = ''http'', npm_PortNumber = Some 3\<rparr>],
     3 := CInt32 30080,
     4 := CMap [(''app'', ''sesame'')])"

definition memory_sesame :: Sesame where
  "memory_sesame = \<lparr>Meta = sample_meta,
     Spec = \<lparr>Replicas = 2, SpecNamespace = \<lparr>nsp_Name = ''ns'', RemoveOnDeletion = False\<rparr>,
       SpecNetworkPublishing = \<lparr>Envoy = \<lparr>pub_Type = NodePortServicePublishingType,
         LoadBalancer = \<lparr>Scope = [], ProviderParameters = zero_ProviderLoadBalancerParameters\<rparr>,
         NodePorts = Some [\<lparr>np_Name = ''http'', np_PortNumber = Some (Ptr 0 30080)\<rparr>], ContainerPorts = []\<rparr>\<rparr>,
       GatewayClassRef = None, GatewayControllerName = None, IngressClassName = None, SpecNodePlacement = None,
       EnableExternalNameService = None\<rparr>,
     Status = \<lparr>AvailableSesames = 0, AvailableEnvoys = 0, Conditions = []\<rparr>\<rparr>"

lemmas view_defs = view_AWS_def view_Azure_def view_GCP_def view_Provider_def view_Strategy_def view_NodePort_def
  view_Envoy_def view_Publishing_def view_Placement_def view_Spec_def view_Status_def view_ObjectMeta_def
  view_Sesame_def view_struct_def view_ref_def view_plain_def view_entries_def

lemma memory_sample: "view_ref CSesame un_Sesame view_Sesame 0 5 memory_cells (Some 0) = Some (Some memory_sesame)"
  by (simp add: view_defs memory_cells_def memory_sesame_def sample_meta_def zero_ObjectMeta_def
      zero_ProviderLoadBalancerParameters_def)

theorem deep_copy_is_separate_witness:
  "\<exists>b. fst (run_state (Sesame_DeepCopyObject std_copiers (Some 0)) \<lparr>cells = memory_cells, lim = 5\<rparr>) =
      Some (SesameObject b) \<and> 5 \<le> b"
  using deep_copy_is_separate [OF std_copies.sesame_copies_axioms, of 0 "\<lparr>cells = memory_cells, lim = 5\<rparr>" 0
      memory_sesame "fst (run_state (Sesame_DeepCopyObject std_copiers (Some 0)) \<lparr>cells = memory_cells, lim = 5\<rparr>)"
      "snd (run_state (Sesame_DeepCopyObject std_copiers (Some 0)) \<lparr>cells = memory_cells, lim = 5\<rparr>)"]
    memory_sample
  by auto

end
