(* ===== verification/Copy_Updates.thy ===== *)
theory Copy_Updates
  imports Deep_Copy_Theorems Status_Sync
begin

text \<open>
  What the operator does with a deep copy: it appends the finalizer, and it merges the status into it,
  overwriting conditions in place. Both updates in memory implement the updates of values in
  \<open>EnsureFinalizer\<close> and \<open>SyncSesame\<close> and leave the original alone.
\<close>

section \<open>Updating a copy\<close>

definition write_cell :: "ref \<Rightarrow> cell \<Rightarrow> (memory, unit) state" where
  "write_cell a c = State (\<lambda>h. ((), h\<lparr>cells := (cells h)(a := c)\<rparr>))"

text \<open>\<open>updated := sesame.DeepCopy(); updated.Finalizers = append(updated.Finalizers, finalizer)\<close>: the
  copied slice is full, so \<open>append\<close> moves to a new array.\<close>

definition finalized_copy :: "copiers \<Rightarrow> ref \<Rightarrow> (memory, ref option) state" where
  "finalized_copy D a = do {
     updated \<leftarrow> Sesame_DeepCopy D (Some a);
     case updated of
       None \<Rightarrow> ret None
     | Some b \<Rightarrow> do {
         c \<leftarrow> read_cell b;
         let s = un_Sesame c;
         fs \<leftarrow> (case mm_Finalizers (sm_Meta s) of
             None \<Rightarrow> ret []
           | Some f \<Rightarrow> do { arr \<leftarrow> read_cell f; ret (un_Strings arr) });
         g \<leftarrow> alloc (CStrings (fs @ [SesameFinalizer]));
         write_cell b (CSesame (s\<lparr>sm_Meta := (sm_Meta s)\<lparr>mm_Finalizers := Some g\<rparr>\<rparr>));
         ret (Some b)
       }
   }"

text \<open>The loops of \<open>mergeConditions\<close> write into the array of the slice they are given; \<open>additions\<close> are
  collected, and appended to a new array when there are any.\<close>

fun merge_array :: "Time \<Rightarrow> ref \<Rightarrow> Condition list \<Rightarrow> Condition list \<Rightarrow> (memory, Condition list) state" where
  "merge_array now f additions [] = ret additions"
| "merge_array now f additions (upd # upds) = do {
     c \<leftarrow> read_cell f;
     let merged = merge_into now upd (un_Conditions c);
     write_cell f (CConditions (snd merged));
     merge_array now f (if fst merged then additions else additions @ [upd\<lparr>cond_LastTransitionTime := now\<rparr>]) upds
   }"

definition append_conditions :: "ref option \<Rightarrow> Condition list \<Rightarrow> (memory, ref option) state" where
  "append_conditions r additions = (if additions = [] then ret r
     else do {
       cs \<leftarrow> (case r of None \<Rightarrow> ret [] | Some f \<Rightarrow> do { c \<leftarrow> read_cell f; ret (un_Conditions c) });
       g \<leftarrow> alloc (CConditions (cs @ additions));
       ret (Some g)
     })"

definition merge_in_memory :: "Time \<Rightarrow> ref option \<Rightarrow> Condition list \<Rightarrow> (memory, ref option) state" where
  "merge_in_memory now r updates = do {
     additions \<leftarrow> (case r of
         None \<Rightarrow> ret (map (\<lambda>u. u\<lparr>cond_LastTransitionTime := now\<rparr>) updates)
       | Some f \<Rightarrow> merge_array now f [] updates);
     append_conditions r additions
   }"

text \<open>\<open>updated := latest.DeepCopy()\<close> and the assignments to \<open>updated.Status\<close>, over the copying function.\<close>

definition counted :: "Deployment option \<Rightarrow> DaemonSet option \<Rightarrow> Status_M \<Rightarrow> Status_M" where
  "counted deploy ds st =
     (let st = (case deploy of None \<Rightarrow> st | Some d \<Rightarrow> st\<lparr>stm_AvailableSesames := dep_AvailableReplicas d\<rparr>)
      in (case ds of None \<Rightarrow> st | Some x \<Rightarrow> st\<lparr>stm_AvailableEnvoys := dms_NumberAvailable x\<rparr>))"

definition updated_status :: "(ref option \<Rightarrow> (memory, ref option) state) \<Rightarrow> ref \<Rightarrow> Time \<Rightarrow> Deployment option \<Rightarrow>
    DaemonSet option \<Rightarrow> (memory, ref option) state" where
  "updated_status copy latest now deploy ds = do {
     updated \<leftarrow> copy (Some latest);
     case updated of
       None \<Rightarrow> ret None
     | Some b \<Rightarrow> do {
         c \<leftarrow> read_cell b;
         let s = un_Sesame c;
         let st = counted deploy ds (sm_Status s);
         r \<leftarrow> merge_in_memory now (stm_Conditions st) [computeSesameAvailableCondition deploy ds];
         write_cell b (CSesame (s\<lparr>sm_Status := st\<lparr>stm_Conditions := r\<rparr>\<rparr>));
         ret (Some b)
       }
   }"

section \<open>Views that do not look\<close>

text \<open>A view is blind to a kind of cells when it does not notice that cells of that kind were replaced.\<close>

definition blind :: "(cell \<Rightarrow> bool) \<Rightarrow> ('m, 'v) view \<Rightarrow> bool" where
  "blind P V \<longleftrightarrow> (\<forall>lo hi c c' m. (\<forall>a. lo \<le> a \<and> a < hi \<longrightarrow> c' a = c a \<or> P (c a) \<and> P (c' a)) \<longrightarrow>
     V lo hi c' m = V lo hi c m)"

lemma blind_plain: "blind P view_plain" and blind_entries: "blind P view_entries"
  by (simp_all add: blind_def view_plain_def view_entries_def)

lemma blind_ref:
  assumes V: "blind P V" and box: "\<And>x. \<not> P (box x)"
  shows "blind P (view_ref box unbox V)"
  unfolding blind_def
proof (intro allI impI)
  fix lo hi :: ref and c c' :: "ref \<Rightarrow> cell" and m :: "ref option"
  assume same: "\<forall>a. lo \<le> a \<and> a < hi \<longrightarrow> c' a = c a \<or> P (c a) \<and> P (c' a)"
  have other: "d \<noteq> box y" if "P d" for d y using that box [of y] by auto
  have "V lo hi c' x = V lo hi c x" for x using V same by (simp add: blind_def)
  then show "view_ref box unbox V lo hi c' m = view_ref box unbox V lo hi c m"
    using same other by (auto simp: view_ref_def split: option.split)
qed

lemma blind_pair: "blind P V \<Longrightarrow> blind P W \<Longrightarrow> blind P (view_pair V W)"
  by (fastforce simp: blind_def split: option.split)

lemma blind_struct: "blind P V \<Longrightarrow> blind P (view_struct mk parts V)"
  by (simp add: blind_def view_struct_def)

lemma blind_each: "blind P V \<Longrightarrow> blind P (view_each V)"
proof -
  assume V: "blind P V"
  have "(\<forall>a. lo \<le> a \<and> a < hi \<longrightarrow> c' a = c a \<or> P (c a) \<and> P (c' a)) \<Longrightarrow>
      view_each V lo hi c' m = view_each V lo hi c m" for lo hi c c' m
    using V by (induction m) (auto simp: blind_def split: option.split)
  then show ?thesis by (simp add: blind_def)
qed

lemmas blind_intros = blind_plain blind_entries blind_ref blind_pair blind_struct blind_each

text \<open>The cells the updates write to.\<close>

fun updatable :: "cell \<Rightarrow> bool" where
  "updatable c \<longleftrightarrow> is_CSesame c \<or> is_CConditions c"

lemma blind_parts: "blind updatable view_ObjectMeta" "blind updatable view_Spec"
  unfolding view_ObjectMeta_def view_Spec_def view_Publishing_def view_Envoy_def view_Strategy_def
    view_Provider_def view_AWS_def view_Azure_def view_GCP_def view_NodePort_def view_Placement_def
    view_SesamePlacement_def view_EnvoyPlacement_def view_Toleration_def
  by (intro blind_intros; simp)+

lemma blind_Status: "blind is_CSesame view_Status"
  unfolding view_Status_def by (intro blind_intros) simp_all

lemma view_Sesame_iff:
  "view_Sesame lo hi c m = Some s \<longleftrightarrow> view_ObjectMeta lo hi c (sm_Meta m) = Some (Meta s) \<and>
     view_Spec lo hi c (sm_Spec m) = Some (Spec s) \<and> view_Status lo hi c (sm_Status m) = Some (Status s)"
  by (cases s) (auto simp: view_Sesame_def view_struct_def split: option.splits)

lemma view_each_plain [simp]: "view_each view_plain lo hi c xs = Some xs"
  by (induction xs) (simp_all add: view_plain_def)

section \<open>The merge in memory\<close>

lemma run_merge_array:
  "cells h f = CConditions cs \<Longrightarrow>
   \<exists>cs' adds. run_state (merge_array now f additions upds) h = (adds, h\<lparr>cells := (cells h)(f := CConditions cs')\<rparr>) \<and>
     merge_loop now cs additions upds = cs' @ adds"
proof (induction upds arbitrary: h cs additions)
  case Nil
  then show ?case by (cases h) (auto simp: fun_eq_iff intro!: exI [of _ cs])
next
  case (Cons upd upds)
  define merged where "merged = merge_into now upd cs"
  define more where "more = (if fst merged then additions else additions @ [upd\<lparr>cond_LastTransitionTime := now\<rparr>])"
  let ?h = "h\<lparr>cells := (cells h)(f := CConditions (snd merged))\<rparr>"
  have "cells ?h f = CConditions (snd merged)" by simp
  from Cons.IH [OF this, of more] obtain cs' adds where
    rest: "run_state (merge_array now f more upds) ?h = (adds, ?h\<lparr>cells := (cells ?h)(f := CConditions cs')\<rparr>)"
      "merge_loop now (snd merged) more upds = cs' @ adds" by blast
  have "merge_loop now cs additions (upd # upds) = merge_loop now (snd merged) more upds"
    by (simp add: merged_def more_def split: prod.split)
  moreover have "run_state (merge_array now f additions (upd # upds)) h = run_state (merge_array now f more upds) ?h"
    using Cons.prems by (simp add: read_cell_def write_cell_def Let_def merged_def more_def)
  moreover have "?h\<lparr>cells := (cells ?h)(f := CConditions cs')\<rparr> = h\<lparr>cells := (cells h)(f := CConditions cs')\<rparr>" by simp
  ultimately show ?case using rest by (intro exI [of _ cs'] exI [of _ adds]) (simp only: simp_thms)
qed

text \<open>The conditions of the slice \<open>r\<close>, and what the merge leaves in memory: the merged conditions, in
  the array of \<open>r\<close> or in a new one.\<close>

definition slice_of :: "(ref \<Rightarrow> cell) \<Rightarrow> ref option \<Rightarrow> Condition list \<Rightarrow> bool" where
  "slice_of c r cs \<longleftrightarrow> (case r of None \<Rightarrow> cs = [] | Some f \<Rightarrow> c f = CConditions cs)"

lemma run_merge:
  assumes slice: "slice_of (cells h) r cs" and below: "\<forall>f. r = Some f \<longrightarrow> f < lim h"
  shows "\<exists>r' h'. run_state (merge_in_memory now r upds) h = (r', h') \<and> lim h \<le> lim h' \<and>
    slice_of (cells h') r' (mergeConditions now cs upds) \<and> (\<forall>g. r' = Some g \<longrightarrow> r' = r \<or> lim h \<le> g \<and> g < lim h') \<and>
    (\<forall>x < lim h. cells h' x = cells h x \<or> Some x = r \<and> is_CConditions (cells h' x))"
proof (cases r)
  case None
  have "merge_loop now [] adds upds = adds @ map (\<lambda>u. u\<lparr>cond_LastTransitionTime := now\<rparr>) upds" for adds
    by (induction upds arbitrary: adds) simp_all
  with None slice show ?thesis
    by (auto simp: merge_in_memory_def append_conditions_def alloc_def slice_of_def mergeConditions_def)
next
  case (Some f)
  with slice have f: "cells h f = CConditions cs" by (simp add: slice_of_def)
  from run_merge_array [OF f, of now "[]" upds] obtain cs' adds where
    run: "run_state (merge_array now f [] upds) h = (adds, h\<lparr>cells := (cells h)(f := CConditions cs')\<rparr>)"
    and merged: "mergeConditions now cs upds = cs' @ adds" by (auto simp: mergeConditions_def)
  show ?thesis
  proof (cases "adds = []")
    case True
    with Some run merged show ?thesis
      by (auto simp: merge_in_memory_def append_conditions_def slice_of_def)
  next
    case False
    with Some run merged below show ?thesis
      by (auto simp: merge_in_memory_def append_conditions_def slice_of_def alloc_def read_cell_def)
  qed
qed

section \<open>The copied struct\<close>

lemma copied_struct:
  assumes copies: "sesame_copies D"
    and original: "view_ref CSesame un_Sesame view_Sesame lo (lim h) (cells h) (Some a) = Some (Some s)"
  obtains b h1 m where "run_state (Sesame_DeepCopy D (Some a)) h = (Some b, h1)"
    and "lim h \<le> b" "b < lim h1" and "cells h1 b = CSesame m"
    and "view_Sesame (lim h) (lim h1) (cells h1) m = Some s"
    and "\<forall>c. (\<forall>x < lim h. c x = cells h1 x) \<longrightarrow>
      view_ref CSesame un_Sesame view_Sesame lo (lim h) c (Some a) = Some (Some s)"
proof -
  obtain r h1 where copied: "run_state (Sesame_DeepCopy D (Some a)) h = (r, h1)" by fastforce
  obtain b where b: "r = Some b" "lim h \<le> b" "b < lim h1"
    by (rule sesame_copies.new_pointer [OF copies original copied])
  have "view_ref CSesame un_Sesame view_Sesame (lim h) (lim h1) (cells h1) (Some b) = Some (Some s)"
    using sesame_copies.sesame_apart(2) [OF copies original copied, of "cells h1"] b by simp
  then have "cells h1 b = CSesame (un_Sesame (cells h1 b))"
    "view_Sesame (lim h) (lim h1) (cells h1) (un_Sesame (cells h1 b)) = Some s"
    by (auto simp: view_ref_def split: if_splits)
  with that copied b sesame_copies.sesame_apart(1) [OF copies original copied] show thesis by blast
qed

text \<open>What the updates do not touch keeps its value.\<close>

lemma untouched_parts:
  assumes view: "view_Sesame lo hi c m = Some s" and "hi \<le> hi'"
    and same: "\<forall>a. lo \<le> a \<and> a < hi \<longrightarrow> c' a = c a \<or> updatable (c a) \<and> updatable (c' a)"
  shows "view_ObjectMeta lo hi' c' (sm_Meta m) = Some (Meta s)" and "view_Spec lo hi' c' (sm_Spec m) = Some (Spec s)"
proof -
  have "view_ObjectMeta lo hi c' (sm_Meta m) = Some (Meta s)" "view_Spec lo hi c' (sm_Spec m) = Some (Spec s)"
    using view blind_parts same by (simp_all add: view_Sesame_iff blind_def)
  then show "view_ObjectMeta lo hi' c' (sm_Meta m) = Some (Meta s)" "view_Spec lo hi' c' (sm_Spec m) = Some (Spec s)"
    using assms(2) deep_copy.view_frame [OF std_ObjectMeta] deep_copy.view_frame [OF std_copies.copy_Spec] by blast+
qed

lemma untouched_status:
  assumes view: "view_Sesame lo hi c m = Some s" and "hi \<le> hi'"
    and same: "\<forall>a. lo \<le> a \<and> a < hi \<longrightarrow> c' a = c a \<or> is_CSesame (c a) \<and> is_CSesame (c' a)"
  shows "view_Status lo hi' c' (sm_Status m) = Some (Status s)"
proof -
  have "view_Status lo hi c' (sm_Status m) = Some (Status s)"
    using view blind_Status same by (simp add: view_Sesame_iff blind_def)
  then show ?thesis using assms(2) deep_copy.view_frame [OF std_copies.copy_Status] by blast
qed

section \<open>The finalizer\<close>

lemma view_finalizers:
  assumes "view_Sesame lo hi c m = Some s" and "lo \<le> g" "g < hi" "c g = CStrings fs"
  shows "view_Sesame lo hi c (m\<lparr>sm_Meta := (sm_Meta m)\<lparr>mm_Finalizers := Some g\<rparr>\<rparr>) =
    Some (s\<lparr>Meta := (Meta s)\<lparr>Finalizers := fs\<rparr>\<rparr>)"
  using assms by (auto simp: view_Sesame_def view_ObjectMeta_def view_struct_def view_ref_def [of CStrings]
      view_plain_def split: option.splits)

lemma read_finalizers:
  assumes "view_Sesame lo hi c m = Some s"
  shows "Finalizers (Meta s) = (case mm_Finalizers (sm_Meta m) of None \<Rightarrow> [] | Some f \<Rightarrow> un_Strings (c f))"
  using assms by (auto simp: view_Sesame_def view_ObjectMeta_def view_struct_def view_ref_def [of CStrings]
      view_plain_def split: option.splits if_splits)

text \<open>The run of \<open>finalized_copy\<close>, given what the copy of the struct is.\<close>

lemma run_finalized_copy:
  assumes "run_state (Sesame_DeepCopy D (Some a)) h = (Some b, h1)" and "un_Sesame (cells h1 b) = m"
  shows "run_state (finalized_copy D a) h = (Some b, let fs = (case mm_Finalizers (sm_Meta m) of
       None \<Rightarrow> [] | Some f \<Rightarrow> un_Strings (cells h1 f)) in
     h1\<lparr>cells := (cells h1)(lim h1 := CStrings (fs @ [SesameFinalizer]),
         b := CSesame (m\<lparr>sm_Meta := (sm_Meta m)\<lparr>mm_Finalizers := Some (lim h1)\<rparr>\<rparr>)),
       lim := Suc (lim h1)\<rparr>)"
  using assms by (cases "mm_Finalizers (sm_Meta m)")
    (simp_all add: finalized_copy_def read_cell_def alloc_def write_cell_def Let_def)

text \<open>C17: What \<open>EnsureFinalizer\<close> sends to the server is the Sesame with the finalizer appended, and the
  Sesame it was given keeps its value: the update in place of the copied struct and the append to the
  copied slice implement the update of the value in the model.\<close>

theorem finalized_copy_refines:
  assumes copies: "sesame_copies D"
    and original: "view_ref CSesame un_Sesame view_Sesame lo (lim h) (cells h) (Some a) = Some (Some s)"
  shows "\<exists>b h'. run_state (finalized_copy D a) h = (Some b, h') \<and>
    view_ref CSesame un_Sesame view_Sesame lo (lim h) (cells h') (Some a) = Some (Some s) \<and>
    view_ref CSesame un_Sesame view_Sesame (lim h) (lim h') (cells h') (Some b) =
      Some (Some (s\<lparr>Meta := (Meta s)\<lparr>Finalizers := Finalizers (Meta s) @ [SesameFinalizer]\<rparr>\<rparr>))"
proof -
  obtain b h1 m where copied: "run_state (Sesame_DeepCopy D (Some a)) h = (Some b, h1)"
    and b: "lim h \<le> b" "b < lim h1" and cell: "cells h1 b = CSesame m"
    and view: "view_Sesame (lim h) (lim h1) (cells h1) m = Some s"
    and kept: "\<forall>c. (\<forall>x < lim h. c x = cells h1 x) \<longrightarrow>
      view_ref CSesame un_Sesame view_Sesame lo (lim h) c (Some a) = Some (Some s)"
    by (rule copied_struct [OF copies original])
  define fs where "fs = Finalizers (Meta s) @ [SesameFinalizer]"
  define m' where "m' = m\<lparr>sm_Meta := (sm_Meta m)\<lparr>mm_Finalizers := Some (lim h1)\<rparr>\<rparr>"
  define h' where "h' = h1\<lparr>cells := (cells h1)(lim h1 := CStrings fs, b := CSesame m'), lim := Suc (lim h1)\<rparr>"
  have run: "run_state (finalized_copy D a) h = (Some b, h')"
    using run_finalized_copy [OF copied] cell read_finalizers [OF view] by (simp add: h'_def m'_def fs_def Let_def)
  have same: "\<forall>x. lim h \<le> x \<and> x < lim h1 \<longrightarrow> cells h' x = cells h1 x \<or> is_CSesame (cells h1 x) \<and> is_CSesame (cells h' x)"
    using cell by (auto simp: h'_def)
  have "view_Sesame (lim h) (lim h') (cells h') m = Some s"
    unfolding view_Sesame_iff using same
    by (intro conjI untouched_parts [OF view] untouched_status [OF view]) (auto simp: h'_def)
  then have "view_Sesame (lim h) (lim h') (cells h') m' = Some (s\<lparr>Meta := (Meta s)\<lparr>Finalizers := fs\<rparr>\<rparr>)"
    unfolding m'_def by (rule view_finalizers) (use b in \<open>auto simp: h'_def\<close>)
  then have "view_ref CSesame un_Sesame view_Sesame (lim h) (lim h') (cells h') (Some b) =
      Some (Some (s\<lparr>Meta := (Meta s)\<lparr>Finalizers := fs\<rparr>\<rparr>))"
    using b by (simp add: view_ref_def h'_def)
  moreover have "view_ref CSesame un_Sesame view_Sesame lo (lim h) (cells h') (Some a) = Some (Some s)"
    by (rule kept [rule_format]) (use b in \<open>auto simp: h'_def\<close>)
  ultimately show ?thesis using run by (auto simp: fs_def)
qed

theorem finalized_copy_refines_witness:
  "\<exists>b h'. run_state (finalized_copy std_copiers 0) \<lparr>cells = memory_cells, lim = 5\<rparr> = (Some b, h') \<and>
    view_ref CSesame un_Sesame view_Sesame 0 5 (cells h') (Some 0) = Some (Some memory_sesame)"
  using finalized_copy_refines [OF std_copies.sesame_copies_axioms, of 0 "\<lparr>cells = memory_cells, lim = 5\<rparr>" 0
      memory_sesame] memory_sample
  by auto


section \<open>The status\<close>

lemma view_slice:
  "view_ref CConditions un_Conditions (view_each view_plain) lo hi c r = Some x \<longleftrightarrow>
     (case r of None \<Rightarrow> x = None | Some f \<Rightarrow> lo \<le> f \<and> f < hi \<and> x \<noteq> None \<and> c f = CConditions (the x))"
  by (auto simp: view_ref_def split: option.split)

lemma view_Status_slice:
  "view_Status lo hi c st = Some t \<longleftrightarrow> slice_of c (stm_Conditions st) (Conditions t) \<and>
     (\<forall>f. stm_Conditions st = Some f \<longrightarrow> lo \<le> f \<and> f < hi) \<and>
     AvailableSesames t = stm_AvailableSesames st \<and> AvailableEnvoys t = stm_AvailableEnvoys st"
  by (cases t; cases "stm_Conditions st")
    (auto simp: view_Status_def view_struct_def view_slice slice_of_def view_ref_def)

lemma run_updated_status:
  assumes "run_state (copy (Some a)) h = (Some b, h1)" and "cells h1 b = CSesame m"
    and "run_state (merge_in_memory now (stm_Conditions (sm_Status m)) [computeSesameAvailableCondition deploy ds]) h1 = (r, h2)"
  shows "run_state (updated_status copy a now deploy ds) h = (Some b, h2\<lparr>cells := (cells h2)(b :=
     CSesame (m\<lparr>sm_Status := (counted deploy ds (sm_Status m))\<lparr>stm_Conditions := r\<rparr>\<rparr>))\<rparr>)"
proof -
  have "stm_Conditions (counted deploy ds (sm_Status m)) = stm_Conditions (sm_Status m)"
    by (simp add: counted_def Let_def split: option.split)
  with assms show ?thesis by (simp add: updated_status_def read_cell_def write_cell_def Let_def)
qed

lemma counted_status:
  "stm_AvailableSesames (counted deploy ds st) = (case deploy of None \<Rightarrow> stm_AvailableSesames st | Some d \<Rightarrow> dep_AvailableReplicas d)"
  "stm_AvailableEnvoys (counted deploy ds st) = (case ds of None \<Rightarrow> stm_AvailableEnvoys st | Some x \<Rightarrow> dms_NumberAvailable x)"
  by (simp_all add: counted_def Let_def split: option.split)

lemma new_status_fields:
  "Conditions (new_status now s deploy ds) = mergeConditions now (Conditions (Status s)) [computeSesameAvailableCondition deploy ds]"
  "AvailableSesames (new_status now s deploy ds) = (case deploy of None \<Rightarrow> AvailableSesames (Status s) | Some d \<Rightarrow> dep_AvailableReplicas d)"
  "AvailableEnvoys (new_status now s deploy ds) = (case ds of None \<Rightarrow> AvailableEnvoys (Status s) | Some x \<Rightarrow> dms_NumberAvailable x)"
  by (simp_all add: new_status_def Let_def split: option.split)

lemma status_ignores_Sesames:
  assumes "is_CSesame (c b)"
  shows "view_Status lo hi (c(b := CSesame x)) st = view_Status lo hi c st"
  by (rule blind_Status [unfolded blind_def, rule_format]) (use assms in simp)

text \<open>The merge on the conditions of a struct in memory computes the new status, and only writes to their
  array and to new cells.\<close>

lemma merged_struct:
  assumes view: "view_Sesame lo (lim h) (cells h) m = Some s" and low: "lo \<le> lim h"
  shows "\<exists>r h'. run_state (merge_in_memory now (stm_Conditions (sm_Status m)) [computeSesameAvailableCondition deploy ds]) h = (r, h') \<and>
    lim h \<le> lim h' \<and>
    (\<forall>x < lim h. cells h' x = cells h x \<or> lo \<le> x \<and> is_CConditions (cells h x) \<and> is_CConditions (cells h' x)) \<and>
    view_Status lo (lim h') (cells h') ((counted deploy ds (sm_Status m))\<lparr>stm_Conditions := r\<rparr>) =
      Some (new_status now s deploy ds)"
proof -
  let ?r = "stm_Conditions (sm_Status m)" and ?cs = "Conditions (Status s)"
  have status: "slice_of (cells h) ?r ?cs" "\<And>f. ?r = Some f \<Longrightarrow> lo \<le> f \<and> f < lim h"
    "AvailableSesames (Status s) = stm_AvailableSesames (sm_Status m)"
    "AvailableEnvoys (Status s) = stm_AvailableEnvoys (sm_Status m)"
    using view by (simp_all add: view_Sesame_iff view_Status_slice)
  have array: "is_CConditions (cells h f)" if "?r = Some f" for f
    using status(1) that by (simp add: slice_of_def)
  have below: "\<forall>f. ?r = Some f \<longrightarrow> f < lim h" using status(2) by blast
  from run_merge [OF status(1) below, of now "[computeSesameAvailableCondition deploy ds]"] obtain r h' where
    merge: "run_state (merge_in_memory now ?r [computeSesameAvailableCondition deploy ds]) h = (r, h')"
    and more: "lim h \<le> lim h'"
    and merged: "slice_of (cells h') r (mergeConditions now ?cs [computeSesameAvailableCondition deploy ds])"
    and place: "\<forall>g. r = Some g \<longrightarrow> r = ?r \<or> lim h \<le> g \<and> g < lim h'"
    and same: "\<forall>x < lim h. cells h' x = cells h x \<or> Some x = ?r \<and> is_CConditions (cells h' x)"
    by (elim exE conjE)
  have "lo \<le> g \<and> g < lim h'" if "r = Some g" for g
    using place that status(2) [of g] more low by auto
  then have "view_Status lo (lim h') (cells h') ((counted deploy ds (sm_Status m))\<lparr>stm_Conditions := r\<rparr>) =
      Some (new_status now s deploy ds)"
    using merged status(3,4)
    by (cases deploy; cases ds) (simp_all add: view_Status_slice new_status_fields counted_status)
  moreover have "\<forall>x < lim h. cells h' x = cells h x \<or> lo \<le> x \<and> is_CConditions (cells h x) \<and> is_CConditions (cells h' x)"
  proof (intro allI impI)
    fix x assume "x < lim h"
    then consider "cells h' x = cells h x" | "Some x = ?r" "is_CConditions (cells h' x)" using same by blast
    then show "cells h' x = cells h x \<or> lo \<le> x \<and> is_CConditions (cells h x) \<and> is_CConditions (cells h' x)"
      by cases (use array [of x] status(2) [of x] in simp_all)
  qed
  ultimately show ?thesis using merge more by (intro exI [of _ r] exI [of _ h'] conjI)
qed

text \<open>C18: The status that \<open>SyncSesame\<close> computes in place on a deep copy of the Sesame it read is the new status
  of the model, and the Sesame it read keeps its status, although \<open>mergeConditions\<close> overwrites the
  conditions it is given: so the comparison that follows sees the old status and the new one.\<close>

theorem status_update_in_memory:
  assumes copies: "sesame_copies D"
    and original: "view_ref CSesame un_Sesame view_Sesame lo (lim h) (cells h) (Some a) = Some (Some s)"
  shows "\<exists>b h'. run_state (updated_status (Sesame_DeepCopy D) a now deploy ds) h = (Some b, h') \<and>
    view_ref CSesame un_Sesame view_Sesame lo (lim h) (cells h') (Some a) = Some (Some s) \<and>
    view_ref CSesame un_Sesame view_Sesame (lim h) (lim h') (cells h') (Some b) =
      Some (Some (s\<lparr>Status := new_status now s deploy ds\<rparr>))"
proof -
  obtain b h1 m where copied: "run_state (Sesame_DeepCopy D (Some a)) h = (Some b, h1)"
    and b: "lim h \<le> b" "b < lim h1" and cell: "cells h1 b = CSesame m"
    and view: "view_Sesame (lim h) (lim h1) (cells h1) m = Some s"
    and kept: "\<forall>c. (\<forall>x < lim h. c x = cells h1 x) \<longrightarrow>
      view_ref CSesame un_Sesame view_Sesame lo (lim h) c (Some a) = Some (Some s)"
    by (rule copied_struct [OF copies original])
  obtain r h2 where merge: "run_state (merge_in_memory now (stm_Conditions (sm_Status m))
        [computeSesameAvailableCondition deploy ds]) h1 = (r, h2)" and more: "lim h1 \<le> lim h2"
    and same: "\<And>x. x < lim h1 \<Longrightarrow> cells h2 x = cells h1 x \<or>
        lim h \<le> x \<and> is_CConditions (cells h1 x) \<and> is_CConditions (cells h2 x)"
    and status: "view_Status (lim h) (lim h2) (cells h2) ((counted deploy ds (sm_Status m))\<lparr>stm_Conditions := r\<rparr>) =
        Some (new_status now s deploy ds)"
    using merged_struct [OF view, of now deploy ds] b by auto
  define m' where "m' = m\<lparr>sm_Status := (counted deploy ds (sm_Status m))\<lparr>stm_Conditions := r\<rparr>\<rparr>"
  define h' where "h' = h2\<lparr>cells := (cells h2)(b := CSesame m')\<rparr>"
  have run: "run_state (updated_status (Sesame_DeepCopy D) a now deploy ds) h = (Some b, h')"
    using run_updated_status [where copy = "Sesame_DeepCopy D", OF copied cell merge] by (simp add: h'_def m'_def)
  have grown: "lim h1 \<le> lim h'" using more by (simp add: h'_def)
  have cell2: "is_CSesame (cells h2 b)" using same [OF b(2)] cell by auto
  have frame: "\<forall>x. lim h \<le> x \<and> x < lim h1 \<longrightarrow> cells h' x = cells h1 x \<or> updatable (cells h1 x) \<and> updatable (cells h' x)"
    using same cell by (auto simp: h'_def)
  have "view_Status (lim h) (lim h') (cells h') (sm_Status m') = Some (new_status now s deploy ds)"
    using status status_ignores_Sesames [of "cells h2" b, OF cell2] by (simp add: h'_def m'_def)
  then have "view_Sesame (lim h) (lim h') (cells h') m' = Some (s\<lparr>Status := new_status now s deploy ds\<rparr>)"
    using untouched_parts [OF view grown frame] by (simp add: view_Sesame_iff m'_def)
  then have "view_ref CSesame un_Sesame view_Sesame (lim h) (lim h') (cells h') (Some b) =
      Some (Some (s\<lparr>Status := new_status now s deploy ds\<rparr>))"
    using b grown by (simp add: view_ref_def h'_def)
  moreover have "view_ref CSesame un_Sesame view_Sesame lo (lim h) (cells h') (Some a) = Some (Some s)"
  proof (rule kept [rule_format])
    show "cells h' x = cells h1 x" if "x < lim h" for x
      using that b same [of x] by (auto simp: h'_def)
  qed
  ultimately show ?thesis using run by blast
qed

text \<open>A Sesame in memory that is not available, with the condition at 1.\<close>

definition down :: Condition where
  "down = \<lparr>cond_Type = SesameAvailableConditionType, cond_Status = ''False'', cond_Reason = ''r'', cond_Message = ''m'',
     cond_LastTransitionTime = 1\<rparr>"

definition down_cells :: "ref \<Rightarrow> cell" where
  "down_cells = memory_cells(
     0 := CSesame ((un_Sesame (memory_cells 0))\<lparr>sm_Status :=
       \<lparr>stm_AvailableSesames = 0, stm_AvailableEnvoys = 0, stm_Conditions = Some 5\<rparr>\<rparr>),
     5 := CConditions [down])"

definition down_sesame :: Sesame where
  "down_sesame = memory_sesame\<lparr>Status := \<lparr>AvailableSesames = 0, AvailableEnvoys = 0, Conditions = [down]\<rparr>\<rparr>"

lemma memory_down: "view_ref CSesame un_Sesame view_Sesame 0 6 down_cells (Some 0) = Some (Some down_sesame)"
proof -
  have "view_Sesame 0 5 memory_cells (un_Sesame (memory_cells 0)) = Some memory_sesame"
    using memory_sample by (simp add: view_ref_def split: if_splits)
  from untouched_parts [OF this, of 6 down_cells]
  have "view_ObjectMeta 0 6 down_cells (sm_Meta (un_Sesame (memory_cells 0))) = Some (Meta memory_sesame)"
    "view_Spec 0 6 down_cells (sm_Spec (un_Sesame (memory_cells 0))) = Some (Spec memory_sesame)"
    by (simp_all add: down_cells_def) (simp_all add: memory_cells_def)
  then show ?thesis
    by (simp add: view_ref_def down_cells_def view_Sesame_iff view_Status_slice slice_of_def down_sesame_def)
qed

theorem status_update_in_memory_witness:
  "\<exists>b h'. run_state (updated_status (Sesame_DeepCopy std_copiers) 0 7 None None) \<lparr>cells = down_cells, lim = 6\<rparr> = (Some b, h') \<and>
    view_ref CSesame un_Sesame view_Sesame 0 6 (cells h') (Some 0) = Some (Some down_sesame) \<and>
    view_ref CSesame un_Sesame view_Sesame 6 (lim h') (cells h') (Some b) =
      Some (Some (down_sesame\<lparr>Status := new_status 7 down_sesame None None\<rparr>)) \<and>
    SesameStatusChanged semDeepEqual (Status down_sesame) (new_status 7 down_sesame None None)"
proof -
  have "SesameStatusChanged semDeepEqual (Status down_sesame) (new_status 7 down_sesame None None)"
    by code_simp
  with status_update_in_memory [OF std_copies.sesame_copies_axioms, of 0 "\<lparr>cells = down_cells, lim = 6\<rparr>" 0
      down_sesame 7 None None] memory_down
  show ?thesis by auto
qed

text \<open>With a copy of the struct alone the two share the array of conditions: the merge changes the status of
  the Sesame that was read, too, and the change is not noticed.\<close>

definition shallow_copy :: "ref option \<Rightarrow> (memory, ref option) state" where
  "shallow_copy = copy_ref CSesame un_Sesame ret"

lemma shallow_copy_hides_the_change:
  "let h = snd (run_state (updated_status shallow_copy 0 7 None None) \<lparr>cells = down_cells, lim = 6\<rparr>) in
     map_option Status (Option.bind (view_ref CSesame un_Sesame view_Sesame 0 7 (cells h) (Some 0)) id) =
     map_option Status (Option.bind (view_ref CSesame un_Sesame view_Sesame 0 7 (cells h) (Some 6)) id)"
  by code_simp

end
