(* ===== verification/Spec2Isabelle.thy ===== *)
theory Spec2Isabelle
  imports Compare_Theorems Validation_Theorems Object_Theorems Handler_Theorems Status_Theorems
    Sync_Theorems Reconcile_Theorems Convergence_Theorems Panic_Theorems Stabilization Teardown
    Permissions Operator_Theorems Lifecycle_Theorems Journey Control_Loop_Theorems Deep_Copy_Theorems
    Copy_Updates
begin

text \<open>
  Verification of the Sesame operator, a Kubernetes operator in Go that installs an ingress
  controller (Sesame, with Envoy as its data plane) for every \<open>Sesame\<close> resource.

  \<^bold>\<open>The program.\<close> \<open>cmd/sesame-operator.go\<close> parses flags, builds the operator (\<open>internal/operator\<close>)
  and runs it. The controller (\<open>internal/controller\<close>) receives events on Sesames, Deployments and
  DaemonSets and calls \<open>Reconcile\<close> with the key of a Sesame. \<open>Reconcile\<close> reads the Sesame, validates
  it (\<open>pkg/validation\<close>), adds a finalizer, and then ensures its objects one kind after the other
  (\<open>internal/objects\<close>): the namespace and the RBAC objects first, then the ConfigMap, the Job that
  makes certificates, the Deployment, the DaemonSet and the Services. A handler reads its object,
  creates it when it is missing, and updates it when it carries the owner labels of the Sesame and
  differs from the desired one (\<open>internal/equality\<close>). At the end the status is written
  (\<open>internal/status\<close>). For a Sesame with a deletion timestamp the handlers delete in the opposite
  order, and the finalizer is removed when all of them succeeded.

  \<^bold>\<open>How the code is modelled.\<close> A Go function that calls the API server is a computation in the state
  monad over a world of type \<open>'w\<close>; the client is a record of computations (\<open>Client.client\<close>: one
  \<open>kind_client\<close> with \<open>Get\<close>, \<open>Create\<close>, \<open>Update\<close>, \<open>Delete\<close> per kind) and an argument of every handler.
  The other third-party calls are the fields of the record \<open>lib\<close>: \<open>DeepEqual\<close>, \<open>IsNotFound\<close>,
  \<open>NewAggregate\<close>, \<open>PollImmediate\<close> and the clock. A result with an error is \<open>'a res\<close>: \<open>Ok\<close>, \<open>Err\<close> with
  the wrapped error as a tree, or \<open>Panic\<close> for a nil dereference or an index out of range. A nil-able
  pointer is an option, an \<open>int32\<close> a 32-bit word, a Go map an association list under an option (nil),
  and a pointer whose address matters a \<open>ptr\<close>. Structs of the Kubernetes API are records of the
  fields the operator sets or reads; \<open>_Unset\<close> fields stand for those it leaves empty.

  \<^bold>\<open>Theories and sources.\<close>
  \<^item> \<open>Prelude\<close>, \<open>Kube_Types\<close>, \<open>Client\<close>: results, strings, the state monad with its invariants
    (\<open>keeps\<close>, \<open>gives\<close>, \<open>and_then\<close>), the API types, the client and the library with their locales
    \<open>deep_equal\<close> and \<open>polling\<close>.
  \<^item> \<open>Sesame_Types\<close>: \<open>api/v1alpha1\<close>, with the validation markers of the fields as \<open>crd_valid\<close>, and the API
    group. \<open>Wire\<close>: the JSON of a spec by the struct tags, and the default markers. \<open>Deep_Copy\<close>: the generated
    deep copies over an explicit memory of cells, in which every pointer, slice and map is a reference.
  \<^item> \<open>Pkg\<close>: \<open>pkg/slice\<close>, \<open>pkg/labels\<close>. \<open>Retryable\<close>: \<open>internal/retryableerror\<close>. \<open>Parse\<close>: \<open>internal/parse\<close>.
    \<open>Net_IP\<close>: \<open>net.ParseIP\<close>. \<open>Validation\<close>: \<open>pkg/validation\<close>.
  \<^item> \<open>Equality\<close>: \<open>internal/equality\<close>. \<open>Drift\<close> states for every comparison the relation it decides
    (\<open>deployment_agrees\<close> and so on) and proves in the locale \<open>drift_check\<close> that an update settles it.
  \<^item> \<open>Sesame_Obj\<close>, \<open>Objects_Util\<close>, \<open>Namespace_Obj\<close>, \<open>Rbac_Kinds\<close>, \<open>Rbac\<close>, \<open>Configmap_Obj\<close>, \<open>Job_Obj\<close>,
    \<open>Deployment_Obj\<close>, \<open>Daemonset_Obj\<close>, \<open>Service_Obj\<close>: the packages under \<open>internal/objects\<close>, desired
    objects field by field and one definition per handler.
  \<^item> \<open>Status_Sync\<close>: \<open>internal/status\<close>. \<open>Controller\<close>: \<open>internal/controller\<close>. \<open>Operator\<close>: the construction
    of the controller, \<open>internal/operator\<close> with its scheme and \<open>main\<close> over a record for the controller
    runtime.
  \<^item> \<open>Control_Loop\<close>: the watches and the work queue as the controller runtime documents them.

  \<^bold>\<open>Contracts and lemma groups.\<close>
  \<^item> \<open>Contracts\<close>: what is relied on of the API server for one kind (\<open>api_kind\<close>: a view of the stored
    objects, read and changed by the four calls; a relation \<open>adm\<close> for what admission may change), and
    a server in memory with a script of faults (\<open>mem_client\<close>) that satisfies it. The server in memory
    stores an object as it is sent; in particular it assigns no node ports.
  \<^item> \<open>Ensure_Spec\<close>: the abstract handlers \<open>ensure_obj\<close> and \<open>delete_owned\<close>; the handlers of the code
    refine them (\<open>refines_at\<close>), and the locale \<open>managed_kind\<close> gives what they reach.
  \<^item> \<open>Ownership\<close>: locales \<open>guarded_core\<close> and \<open>guarded\<close>, under which every handler up to \<open>Reconcile\<close>
    keeps an invariant of the world, and the client that logs mutating calls.
  \<^item> \<open>Separation\<close>, \<open>Deletion\<close>, \<open>Ensured\<close>, \<open>Reconciled\<close>, \<open>Convergence\<close>: which kinds a handler leaves
    alone, what each handler leaves behind, and the composition to whole reconciliations in the
    locales \<open>separate_kinds\<close>, \<open>served_kinds\<close>, \<open>open_server\<close>, \<open>server\<close> and \<open>responsive\<close>, all interpreted on
    the server in memory. A \<open>server\<close> may assign the node ports a Service leaves open (\<open>service_admission\<close>);
    what it then stores of the Envoy Service is \<open>envoy_stored\<close>.
  \<^item> \<open>Node_Ports\<close>: a server in memory that assigns node ports, as another interpretation of \<open>server\<close>. On it
    the comparison of a stored NodePort Service without given numbers reports a drift every time.
  \<^item> \<open>Fresh\<close>: the first pass on a server in memory that holds none of the objects. \<open>Fixed_Point\<close>: the pass
    after a successful one. \<open>Stabilization\<close>: from any content of the server in memory two passes put
    everything in place. \<open>Teardown\<close>: one pass over a Sesame that is being deleted removes its objects.
  \<^item> \<open>Foreign_Objects\<close>: the stored objects before and after a reconciliation on the server in memory, with any
    faults (\<open>owned_change\<close>, with a logic of triples for the handlers that read first and write later).
  \<^item> \<open>Panic_Theorems\<close>: which computations never panic, and the three hazards that remain.
  \<^item> \<open>Permissions\<close>: the RBAC markers of the operator against the calls it makes and the roles it
    creates, over parameters for the authorizer (locale \<open>rbac_authorizer\<close>) and for the resource name under
    which the API server serves Sesames.
  \<^item> \<open>Wire_Theorems\<close>: what a spec looks like after a trip to the API server (encoded, defaulted, decoded),
    and the specs a user may leave incomplete. \<open>Journey\<close>: from such a spec to the running installation.
  \<^item> \<open>Control_Loop\<close>, \<open>Control_Loop_Theorems\<close>: the reconciler, its watches, the work queue and a server in
    memory as one loop (\<open>while_option\<close>): which events a pass causes, and that the queue drains with
    everything in place, from the start and after drift of the watched objects.
  \<^item> \<open>Lifecycle\<close>, \<open>Lifecycle_Theorems\<close>: the same loop interleaved with an arbitrary environment, as a step
    relation with a history of what the operator has dealt with: no event is lost.
  \<^item> \<open>Deep_Copy_Laws\<close>: the locale \<open>deep_copy\<close> (same value, no shared memory) and its closure under references,
    slices, maps and structs. \<open>Deep_Copy_Theorems\<close>: all copies of the Sesame types meet it, given that those
    of the API machinery do (\<open>sesame_copies\<close>). \<open>Copy_Updates\<close>: appending the finalizer to a copy and merging
    the conditions of a copy in place implement the updates of values in \<open>EnsureFinalizer\<close> and
    \<open>SyncSesame\<close>, which a shallow copy would not. This is why the rest of the development may treat
    objects as values.
  \<^item> \<open>*_Theorems\<close>: the properties, each with a witness on the values of \<open>Samples\<close>.

  \<^bold>\<open>Bounds.\<close> \<open>SyncSesame\<close> calls itself at every conflict; it carries a bound on the number of calls and
  returns \<open>None\<close> when the bound is used up. \<open>sync_returns\<close> shows that a bound above the number of
  conflicts still to come is enough and that a larger one changes nothing; \<open>sync_diverges\<close> that no
  bound is enough against a server that always conflicts. \<open>ensureSesame\<close> and \<open>Reconcile\<close> pass the
  bound on. The poll of \<open>retryJobCreate\<close> is a library call whose loop ends by its timeout. All other
  loops are structural.

  \<^bold>\<open>Not modelled.\<close> Logging and contexts; the constants of \<open>helpers.go\<close> that no code uses; the JSON of the
  metadata and the status (only specs are encoded), unknown fields and JSON null; tests, manifests and
  build tools. Errors are trees of format strings and arguments, never rendered to text, except for the
  text of a conflict, which \<open>SyncSesame\<close> searches.
\<close>

end
